(* ===== verification/Rust_Text.thy ===== *)
theory Rust_Text
  imports Agent_Prelude
begin

text \<open>
  The operations of Rust's \<open>char\<close>, \<open>str\<close> and \<open>String\<close> that the agent calls. A text is
  the list of its \<open>chars()\<close>, each a scalar value in U+0000 to U+00FF; texts with other
  scalar values are not represented. Byte-level functions (\<open>bytes\<close>, \<open>len\<close>) go through
  \<open>utf8_bytes\<close>.
\<close>

section \<open>Characters\<close>

definition is_ascii_digit :: "char \<Rightarrow> bool" where
  "is_ascii_digit c \<longleftrightarrow> CHR ''0'' \<le> c \<and> c \<le> CHR ''9''"

definition is_ascii_uppercase :: "char \<Rightarrow> bool" where
  "is_ascii_uppercase c \<longleftrightarrow> CHR ''A'' \<le> c \<and> c \<le> CHR ''Z''"

definition is_ascii_lowercase :: "char \<Rightarrow> bool" where
  "is_ascii_lowercase c \<longleftrightarrow> CHR ''a'' \<le> c \<and> c \<le> CHR ''z''"

definition is_ascii_alphabetic :: "char \<Rightarrow> bool" where
  "is_ascii_alphabetic c \<longleftrightarrow> is_ascii_uppercase c \<or> is_ascii_lowercase c"

definition is_ascii_alphanumeric :: "char \<Rightarrow> bool" where
  "is_ascii_alphanumeric c \<longleftrightarrow> is_ascii_alphabetic c \<or> is_ascii_digit c"

definition is_ascii_hexdigit :: "char \<Rightarrow> bool" where
  "is_ascii_hexdigit c \<longleftrightarrow> is_ascii_digit c \<or> (CHR ''a'' \<le> c \<and> c \<le> CHR ''f'')
     \<or> (CHR ''A'' \<le> c \<and> c \<le> CHR ''F'')"

definition char_to_ascii_lowercase :: "char \<Rightarrow> char" where
  "char_to_ascii_lowercase c =
     (if is_ascii_uppercase c then char_of (of_char c + (32 :: nat)) else c)"

text \<open>\<open>char::is_whitespace\<close>: the Unicode property White_Space, here below U+0100.\<close>

definition is_whitespace :: "char \<Rightarrow> bool" where
  "is_whitespace c \<longleftrightarrow> (CHR 0x09 \<le> c \<and> c \<le> CHR 0x0D) \<or> c = CHR 0x20 \<or> c = CHR 0x85 \<or> c = CHR 0xA0"

lemmas char_class_defs [text_defs] =
  is_ascii_digit_def is_ascii_uppercase_def is_ascii_lowercase_def is_ascii_alphabetic_def
  is_ascii_alphanumeric_def is_ascii_hexdigit_def char_to_ascii_lowercase_def is_whitespace_def

lemma alphanumeric_not_whitespace: "is_ascii_alphanumeric c \<Longrightarrow> \<not> is_whitespace c"
  by (auto simp: char_class_defs less_eq_char_def)

lemma of_char_uppercase:
  assumes "is_ascii_uppercase c"
  shows "65 \<le> (of_char c :: nat)" "(of_char c :: nat) \<le> 90"
  using assms by (simp_all add: is_ascii_uppercase_def less_eq_char_def)

lemma lowercase_of_uppercase:
  assumes "is_ascii_uppercase c"
  shows "is_ascii_lowercase (char_to_ascii_lowercase c)"
proof -
  have "(of_char (char_of (of_char c + 32 :: nat)) :: nat) = of_char c + 32"
    using of_char_uppercase[OF assms] by simp
  with of_char_uppercase[OF assms] assms show ?thesis
    by (simp add: is_ascii_lowercase_def char_to_ascii_lowercase_def less_eq_char_def)
qed

lemma to_ascii_lowercase_not_upper: "\<not> is_ascii_uppercase (char_to_ascii_lowercase c)"
proof (cases "is_ascii_uppercase c")
  case True
  from lowercase_of_uppercase[OF this] show ?thesis
    by (auto simp: is_ascii_lowercase_def is_ascii_uppercase_def less_eq_char_def)
qed (simp add: char_to_ascii_lowercase_def)

section \<open>Trimming, prefixes and suffixes\<close>

definition trim_start_matches :: "(char \<Rightarrow> bool) \<Rightarrow> string \<Rightarrow> string" where
  "trim_start_matches P s = dropWhile P s"

definition trim_end_matches :: "(char \<Rightarrow> bool) \<Rightarrow> string \<Rightarrow> string" where
  "trim_end_matches P s = rev (dropWhile P (rev s))"

definition trim_matches :: "(char \<Rightarrow> bool) \<Rightarrow> string \<Rightarrow> string" where
  "trim_matches P s = trim_end_matches P (trim_start_matches P s)"

definition trim :: "string \<Rightarrow> string" where
  "trim s = trim_matches is_whitespace s"

definition to_ascii_lowercase :: "string \<Rightarrow> string" where
  "to_ascii_lowercase s = map char_to_ascii_lowercase s"

definition starts_with :: "string \<Rightarrow> string \<Rightarrow> bool" where
  "starts_with s p \<longleftrightarrow> prefix p s"

definition ends_with :: "string \<Rightarrow> string \<Rightarrow> bool" where
  "ends_with s p \<longleftrightarrow> suffix p s"

definition strip_prefix :: "string \<Rightarrow> string \<Rightarrow> string option" where
  "strip_prefix p s = (if prefix p s then Some (drop (length p) s) else None)"

definition strip_suffix :: "string \<Rightarrow> string \<Rightarrow> string option" where
  "strip_suffix p s = (if suffix p s then Some (take (length s - length p) s) else None)"

lemma strip_prefix_eq_Some: "strip_prefix p s = Some r \<longleftrightarrow> s = p @ r"
  by (auto simp: strip_prefix_def prefix_def)

lemma strip_suffix_eq_Some: "strip_suffix p s = Some r \<longleftrightarrow> s = r @ p"
  by (auto simp: strip_suffix_def suffix_def)

lemma trim_end_matches_idem [simp]:
  "trim_end_matches P (trim_end_matches P s) = trim_end_matches P s"
  by (simp add: trim_end_matches_def)

lemma trim_end_matches_last: "trim_end_matches P s \<noteq> [] \<Longrightarrow> \<not> P (last (trim_end_matches P s))"
  by (simp add: trim_end_matches_def last_rev hd_dropWhile)

lemma trim_end_matches_prefix: "prefix (trim_end_matches P s) s"
proof -
  have "rev s = takeWhile P (rev s) @ dropWhile P (rev s)" by simp
  then have "s = rev (dropWhile P (rev s)) @ rev (takeWhile P (rev s))"
    by (metis rev_append rev_rev_ident)
  then show ?thesis unfolding trim_end_matches_def prefix_def by blast
qed

lemma trim_end_matches_id: "s = [] \<or> \<not> P (last s) \<Longrightarrow> trim_end_matches P s = s"
  by (cases s rule: rev_cases) (simp_all add: trim_end_matches_def)

lemma set_trim_end_matches: "set (trim_end_matches P s) \<subseteq> set s"
  using trim_end_matches_prefix set_mono_prefix by blast

lemma trim_matches_hd: "trim_matches P s \<noteq> [] \<Longrightarrow> \<not> P (hd (trim_matches P s))"
proof -
  assume ne: "trim_matches P s \<noteq> []"
  have "prefix (trim_matches P s) (dropWhile P s)"
    unfolding trim_matches_def trim_start_matches_def by (rule trim_end_matches_prefix)
  with ne obtain r where "dropWhile P s = trim_matches P s @ r" by (auto simp: prefix_def)
  with ne have "hd (trim_matches P s) = hd (dropWhile P s)" "dropWhile P s \<noteq> []"
    by (cases "trim_matches P s"; auto)+
  then show ?thesis by (simp add: hd_dropWhile)
qed

lemma trim_matches_last: "trim_matches P s \<noteq> [] \<Longrightarrow> \<not> P (last (trim_matches P s))"
  by (simp add: trim_matches_def trim_end_matches_last)

lemma trim_matches_id:
  assumes "s = [] \<or> (\<not> P (hd s) \<and> \<not> P (last s))"
  shows "trim_matches P s = s"
proof -
  have "dropWhile P s = s" using assms by (cases s) auto
  then show ?thesis using assms
    by (auto simp: trim_matches_def trim_start_matches_def intro: trim_end_matches_id)
qed

lemma trim_matches_idem [simp]: "trim_matches P (trim_matches P s) = trim_matches P s"
  by (metis trim_matches_hd trim_matches_id trim_matches_last)

lemma set_trim_matches: "set (trim_matches P s) \<subseteq> set s"
  unfolding trim_matches_def trim_start_matches_def
  by (meson set_dropWhileD set_trim_end_matches subsetD subsetI)

lemma trim_idem [simp]: "trim (trim s) = trim s"
  by (simp add: trim_def)

lemma trim_nil [simp]: "trim [] = []"
  by (simp add: trim_def trim_matches_def trim_start_matches_def trim_end_matches_def)

lemma trim_eq_Nil: "trim s = [] \<longleftrightarrow> (\<forall>c \<in> set s. is_whitespace c)"
proof
  assume "trim s = []"
  then have "dropWhile is_whitespace (rev (dropWhile is_whitespace s)) = []"
    by (simp add: trim_def trim_matches_def trim_start_matches_def trim_end_matches_def)
  then have *: "\<forall>c \<in> set (dropWhile is_whitespace s). is_whitespace c" by simp
  have "dropWhile is_whitespace s = []"
  proof (rule ccontr)
    assume "dropWhile is_whitespace s \<noteq> []"
    with * hd_dropWhile[of is_whitespace s] show False by (simp add: hd_in_set)
  qed
  then show "\<forall>c \<in> set s. is_whitespace c" by simp
next
  assume "\<forall>c \<in> set s. is_whitespace c"
  then show "trim s = []"
    by (auto simp: trim_def trim_matches_def trim_start_matches_def trim_end_matches_def
        dest: set_dropWhileD)
qed

section \<open>Bytes\<close>

text \<open>The UTF-8 encoding of a text: one byte below U+0080, two from there to U+00FF.\<close>

definition utf8_char :: "char \<Rightarrow> u8 list" where
  "utf8_char c = (let n = of_char c :: nat in
     if n < 128 then [of_nat n] else [of_nat (192 + n div 64), of_nat (128 + n mod 64)])"

definition utf8_bytes :: "string \<Rightarrow> u8 list" where
  "utf8_bytes s = concat (map utf8_char s)"

lemma utf8_bytes_simps [simp]:
  "utf8_bytes [] = []"
  "utf8_bytes (c # s) = utf8_char c @ utf8_bytes s"
  by (simp_all add: utf8_bytes_def)

end
