(* ===== verification/Rust_Search.thy ===== *)
theory Rust_Search
  imports Rust_Text
begin

text \<open>
  Searching, splitting, joining and replacing in texts, as \<open>str::split_once\<close>,
  \<open>contains\<close>, \<open>split\<close>, \<open>lines\<close>, \<open>split_whitespace\<close>, \<open>join\<close> and \<open>replace\<close> do.
\<close>

section \<open>First occurrence\<close>

text \<open>\<open>split_once pat s\<close>: the text before and after the first occurrence of \<open>pat\<close>.\<close>

fun split_once :: "string \<Rightarrow> string \<Rightarrow> (string \<times> string) option" where
  "split_once pat [] = (if pat = [] then Some ([], []) else None)"
| "split_once pat (c # cs) =
     (if prefix pat (c # cs) then Some ([], drop (length pat) (c # cs))
      else map_option (apfst (Cons c)) (split_once pat cs))"

definition contains :: "string \<Rightarrow> string \<Rightarrow> bool" where
  "contains s pat \<longleftrightarrow> split_once pat s \<noteq> None"

lemma split_once_append: "split_once pat s = Some (a, b) \<Longrightarrow> s = a @ pat @ b"
proof (induction s arbitrary: a)
  case Nil
  then show ?case by (simp split: if_splits)
next
  case (Cons c cs)
  then show ?case by (auto simp: prefix_def split: if_splits)
qed

lemma split_once_None_iff: "split_once pat s = None \<longleftrightarrow> \<not> sublist pat s"
  by (induction s) (auto simp: sublist_Cons_right)

lemma contains_iff_sublist: "contains s pat \<longleftrightarrow> sublist pat s"
  by (simp add: contains_def split_once_None_iff)

lemma split_once_length: "split_once pat s = Some (a, b) \<Longrightarrow> length b + length pat \<le> length s"
  by (auto dest: split_once_append)

text \<open>Nothing before the split point is the start of an occurrence.\<close>

lemma split_once_first:
  "split_once pat s = Some (a, b) \<Longrightarrow> k < length a \<Longrightarrow> \<not> prefix pat (drop k s)"
proof (induction s arbitrary: a k)
  case Nil
  then show ?case by (simp split: if_splits)
next
  case (Cons c cs)
  then show ?case by (cases k) (auto split: if_splits)
qed

lemma split_once_single:
  "split_once [x] s = (if x \<in> set s then Some (takeWhile (\<lambda>c. c \<noteq> x) s, tl (dropWhile (\<lambda>c. c \<noteq> x) s))
     else None)"
  by (induction s) auto

lemma split_once_single_append: "x \<notin> set a \<Longrightarrow> split_once [x] (a @ x # b) = Some (a, b)"
  by (induction a) auto

section \<open>Splitting\<close>

text \<open>\<open>split_on P s\<close>: the pieces between the characters that satisfy \<open>P\<close>; never empty.\<close>

fun split_on :: "(char \<Rightarrow> bool) \<Rightarrow> string \<Rightarrow> string list" where
  "split_on P [] = [[]]"
| "split_on P (c # cs) =
     (if P c then [] # split_on P cs
      else (case split_on P cs of [] \<Rightarrow> [[c]] | w # ws \<Rightarrow> (c # w) # ws))"

lemma split_on_neq_Nil [simp]: "split_on P s \<noteq> []"
  by (induction s) (auto split: list.splits)

text \<open>The pieces are runs of non-separators, the separators stand between them.\<close>

lemma split_on_pieces: "\<forall>w \<in> set (split_on P s). \<forall>c \<in> set w. c \<in> set s \<and> \<not> P c"
proof (induction s)
  case (Cons c cs)
  then show ?case by (cases "split_on P cs") (auto split: if_splits)
qed simp

lemma split_on_no_sep: "w \<in> set (split_on P s) \<Longrightarrow> c \<in> set w \<Longrightarrow> \<not> P c"
  using split_on_pieces by blast

lemma split_on_set: "w \<in> set (split_on P s) \<Longrightarrow> set w \<subseteq> set s"
  using split_on_pieces by blast

lemma split_on_single: "split_on P s = [w] \<Longrightarrow> w = s"
  by (induction s arbitrary: w) (auto split: if_splits list.splits)

lemma split_on_no_match: "\<forall>c \<in> set s. \<not> P c \<Longrightarrow> split_on P s = [s]"
  by (induction s) auto

lemma split_on_append_at:
  "P x \<Longrightarrow> split_on P (a @ x # b) = split_on P a @ split_on P b"
  by (induction a) (auto split: list.splits)

lemma split_on_append_sep:
  "\<forall>c \<in> set a. \<not> P c \<Longrightarrow> P x \<Longrightarrow> split_on P (a @ x # b) = a # split_on P b"
  by (induction a) auto

text \<open>The first piece is what comes before the first separator.\<close>

lemma hd_split_on: "hd (split_on P s) = takeWhile (\<lambda>c. \<not> P c) s"
  by (induction s) (auto split: list.splits dest: arg_cong[where f = hd])

definition last_piece :: "(char \<Rightarrow> bool) \<Rightarrow> string \<Rightarrow> string" where
  "last_piece P s = last (split_on P s)"

lemma last_piece_no_sep: "c \<in> set (last_piece P s) \<Longrightarrow> \<not> P c"
  unfolding last_piece_def by (meson last_in_set split_on_neq_Nil split_on_no_sep)

lemma last_piece_set: "set (last_piece P s) \<subseteq> set s"
  unfolding last_piece_def by (meson last_in_set split_on_neq_Nil split_on_set)

lemma last_piece_suffix: "suffix (last_piece P s) s"
  by (induction s)
    (auto simp: last_piece_def suffix_Cons split: list.splits if_splits dest: split_on_single)

abbreviation newline :: char where
  "newline \<equiv> CHR 0x0A"

abbreviation carriage_return :: char where
  "carriage_return \<equiv> CHR 0x0D"

text \<open>
  \<open>str::lines\<close>: a line ends with a newline, before which one carriage return is dropped;
  an unterminated last line is kept as it is, an empty one is no line.
\<close>

definition strip_cr :: "string \<Rightarrow> string" where
  "strip_cr l = unwrap_or (strip_suffix [carriage_return] l) l"

definition lines :: "string \<Rightarrow> string list" where
  "lines s = (let ps = split_on (\<lambda>c. c = newline) s
     in map strip_cr (butlast ps) @ (if last ps = [] then [] else [last ps]))"

definition split_whitespace :: "string \<Rightarrow> string list" where
  "split_whitespace s = filter (\<lambda>w. w \<noteq> []) (split_on is_whitespace s)"

lemma split_whitespace_word:
  "w \<in> set (split_whitespace s) \<Longrightarrow> w \<noteq> [] \<and> (\<forall>c \<in> set w. \<not> is_whitespace c)"
  by (auto simp: split_whitespace_def dest: split_on_no_sep)

section \<open>Joining\<close>

fun join :: "string \<Rightarrow> string list \<Rightarrow> string" where
  "join sep [] = []"
| "join sep [w] = w"
| "join sep (w # ws) = w @ sep @ join sep ws"

lemma join_Cons: "ws \<noteq> [] \<Longrightarrow> join sep (w # ws) = w @ sep @ join sep ws"
  by (cases ws) simp_all

lemma split_join:
  assumes "P x" and "ws \<noteq> []" and "\<forall>w \<in> set ws. \<forall>c \<in> set w. \<not> P c"
  shows "split_on P (join [x] ws) = ws"
  using assms(2,3)
proof (induction ws)
  case (Cons w ws)
  then show ?case using assms(1)
    by (cases ws) (simp_all add: split_on_append_sep split_on_no_match)
qed simp

section \<open>Replacing\<close>

definition replace_char :: "char \<Rightarrow> string \<Rightarrow> string \<Rightarrow> string" where
  "replace_char x rep s = concat (map (\<lambda>c. if c = x then rep else [c]) s)"

lemma replace_char_simps [simp]:
  "replace_char x rep [] = []"
  "replace_char x rep (c # cs) = (if c = x then rep else [c]) @ replace_char x rep cs"
  by (simp_all add: replace_char_def)

text \<open>
  \<open>str::replace\<close>: occurrences from the left, not overlapping. An empty pattern matches
  between all characters.
\<close>

function replace_str :: "string \<Rightarrow> string \<Rightarrow> string \<Rightarrow> string" where
  "replace_str pat rep s =
     (if pat = [] then rep @ concat (map (\<lambda>c. c # rep) s)
      else (case split_once pat s of
          None \<Rightarrow> s
        | Some (a, b) \<Rightarrow> a @ rep @ replace_str pat rep b))"
  by pat_completeness auto
termination
proof (relation "measure (\<lambda>(pat, rep, s). length s)")
  fix pat rep s x a b
  assume "pat \<noteq> ([] :: string)" and "split_once pat s = Some x" and "(a, b) = x"
  then have "length b + length pat \<le> length s" using split_once_length[of pat s a b] by simp
  with \<open>pat \<noteq> []\<close> show "((pat, rep, b), pat, rep, s) \<in> measure (\<lambda>(pat, rep, s). length s)"
    by (cases pat) auto
qed simp

declare replace_str.simps [simp del]

lemma replace_str_no_match: "pat \<noteq> [] \<Longrightarrow> \<not> contains s pat \<Longrightarrow> replace_str pat rep s = s"
  by (cases "split_once pat s") (simp_all add: contains_def replace_str.simps[of pat rep s])

lemma replace_str_match:
  "pat \<noteq> [] \<Longrightarrow> split_once pat s = Some (a, b) \<Longrightarrow>
     replace_str pat rep s = a @ rep @ replace_str pat rep b"
  by (subst replace_str.simps) simp

lemma replace_str_induct [case_names no_match match]:
  assumes ne: "pat \<noteq> []"
    and none: "\<And>s. split_once pat s = None \<Longrightarrow> Q s"
    and some: "\<And>a b. split_once pat (a @ pat @ b) = Some (a, b) \<Longrightarrow> Q b \<Longrightarrow> Q (a @ pat @ b)"
  shows "Q s"
proof (induction s rule: length_induct)
  case (1 s)
  show ?case
  proof (cases "split_once pat s")
    case None
    then show ?thesis by (rule none)
  next
    case (Some ab)
    obtain a b where ab: "ab = (a, b)" by (cases ab)
    with Some have s: "s = a @ pat @ b" using split_once_append by simp
    with ne have "length b < length s" by (cases pat) auto
    with 1 have "Q b" by blast
    with Some ab s some show ?thesis by simp
  qed
qed

lemma replace_str_length:
  assumes "length rep < length pat"
  shows "length (replace_str pat rep s) \<le> length s"
    and "contains s pat \<Longrightarrow> length (replace_str pat rep s) < length s"
proof -
  have ne: "pat \<noteq> []" using assms by auto
  show le: "length (replace_str pat rep s) \<le> length s" for s
    by (induction s rule: replace_str_induct[OF ne])
      (use assms in \<open>auto simp: replace_str_match[OF ne] replace_str_no_match[OF ne] contains_def\<close>)
  show "length (replace_str pat rep s) < length s" if "contains s pat"
  proof -
    from that obtain a b where ab: "split_once pat s = Some (a, b)" by (auto simp: contains_def)
    from le[of b] assms show ?thesis
      by (subst (2) split_once_append[OF ab]) (simp add: replace_str_match[OF ne ab])
  qed
qed

lemma replace_str_set:
  assumes ne: "pat \<noteq> []"
  shows "set (replace_str pat rep s) \<subseteq> set rep \<union> set s"
  by (induction s rule: replace_str_induct[OF ne])
    (auto simp: replace_str_match[OF ne] replace_str_no_match[OF ne] contains_def)

lemmas search_defs [text_defs] =
  trim_matches_def trim_def trim_start_matches_def trim_end_matches_def to_ascii_lowercase_def
  starts_with_def ends_with_def strip_prefix_def strip_suffix_def contains_def last_piece_def
  strip_cr_def lines_def split_whitespace_def replace_char_def Let_def

end
