(* ===== verification/Rust_Num.thy ===== *)
theory Rust_Num
  imports Rust_Search
begin

text \<open>
  Decimal text of unsigned integers: \<open>Display\<close>, zero padding, \<open>str::parse\<close>, with the round
  trip and the agreement of the two orders, numeric and lexicographic, on padded text.
\<close>

definition digit_char :: "nat \<Rightarrow> char" where
  "digit_char d = char_of (48 + d)"

definition digit_value :: "char \<Rightarrow> nat" where
  "digit_value c = of_char c - 48"

lemma digit_char_code: "d < 10 \<Longrightarrow> of_char (digit_char d) = 48 + d"
  by (simp add: digit_char_def)

lemma digit_char_is_digit: "d < 10 \<Longrightarrow> is_ascii_digit (digit_char d)"
  by (simp add: is_ascii_digit_def less_eq_char_def digit_char_code)

lemma digit_value_digit_char [simp]: "d < 10 \<Longrightarrow> digit_value (digit_char d) = d"
  by (simp add: digit_value_def digit_char_code)

lemma digit_char_less_iff: "d < 10 \<Longrightarrow> e < 10 \<Longrightarrow> digit_char d < digit_char e \<longleftrightarrow> d < e"
  by (simp add: less_char_def digit_char_code)

section \<open>Display\<close>

fun show_nat :: "nat \<Rightarrow> string" where
  "show_nat n = (if n < 10 then [digit_char n] else show_nat (n div 10) @ [digit_char (n mod 10)])"

declare show_nat.simps [simp del]

definition show_word :: "'a::len word \<Rightarrow> string" where
  "show_word w = show_nat (unat w)"

lemma show_nat_digits: "c \<in> set (show_nat n) \<Longrightarrow> is_ascii_digit c"
proof (induction n rule: show_nat.induct)
  case (1 n)
  then show ?case
    by (subst (asm) (2) show_nat.simps) (auto simp: digit_char_is_digit split: if_splits)
qed

lemma show_nat_neq_Nil [simp]: "show_nat n \<noteq> []"
  by (subst show_nat.simps) simp

section \<open>Parsing\<close>

fun parse_digits :: "nat \<Rightarrow> string \<Rightarrow> nat option" where
  "parse_digits acc [] = Some acc"
| "parse_digits acc (c # cs) =
     (if is_ascii_digit c then parse_digits (10 * acc + digit_value c) cs else None)"

text \<open>
  \<open>parse\<close> of an unsigned type with \<open>bound\<close> values: digits after at most one plus sign, at
  least one, and no overflow.
\<close>

definition parse_unsigned :: "nat \<Rightarrow> string \<Rightarrow> nat option" where
  "parse_unsigned bound s =
     (if s = [] then None
      else let ds = (if hd s = CHR ''+'' \<and> tl s \<noteq> [] then tl s else s)
        in filter_option (\<lambda>n. n < bound) (parse_digits 0 ds))"

definition parse_word :: "string \<Rightarrow> 'a::len word option" where
  "parse_word s = map_option of_nat (parse_unsigned (2 ^ LENGTH('a)) s)"

lemma parse_digits_append:
  "parse_digits acc (xs @ ys) = Option.bind (parse_digits acc xs) (\<lambda>a. parse_digits a ys)"
  by (induction acc xs rule: parse_digits.induct) auto

lemma parse_digits_show: "parse_digits 0 (show_nat n) = Some n"
proof (induction n rule: show_nat.induct)
  case (1 n)
  show ?case
  proof (cases "n < 10")
    case True
    then show ?thesis by (subst show_nat.simps) (simp add: digit_char_is_digit)
  next
    case False
    with 1 show ?thesis
      by (subst show_nat.simps) (simp add: parse_digits_append digit_char_is_digit)
  qed
qed

lemma parse_unsigned_show [simp]: "n < bound \<Longrightarrow> parse_unsigned bound (show_nat n) = Some n"
proof -
  assume "n < bound"
  have "is_ascii_digit (hd (show_nat n))" by (simp add: show_nat_digits[OF hd_in_set])
  then have "hd (show_nat n) \<noteq> CHR ''+''" by (auto simp: is_ascii_digit_def)
  with \<open>n < bound\<close> show ?thesis by (simp add: parse_unsigned_def parse_digits_show)
qed

theorem parse_show_word [simp]: "parse_word (show_word w) = Some w"
  by (simp add: parse_word_def show_word_def)

lemma show_word_inj: "show_word a = show_word b \<Longrightarrow> a = b"
  by (metis option.inject parse_show_word)

lemma parse_unsigned_bound: "parse_unsigned bound s = Some n \<Longrightarrow> n < bound"
  by (auto simp: parse_unsigned_def Let_def filter_option_eq_Some split: if_splits)

section \<open>Zero padding\<close>

definition pad_zero :: "nat \<Rightarrow> string \<Rightarrow> string" where
  "pad_zero w s = replicate (w - length s) (CHR ''0'') @ s"

text \<open>The lowest \<open>k\<close> decimal digits of a number: what a padded text shows.\<close>

fun low_digits :: "nat \<Rightarrow> nat \<Rightarrow> string" where
  "low_digits 0 n = []"
| "low_digits (Suc k) n = low_digits k (n div 10) @ [digit_char (n mod 10)]"

lemma low_digits_length [simp]: "length (low_digits k n) = k"
  by (induction k n rule: low_digits.induct) simp_all

lemma low_digits_zero: "low_digits k 0 = replicate k (CHR ''0'')"
proof (induction k)
  case (Suc k)
  have "digit_char 0 = CHR ''0''" by code_simp
  with Suc show ?case by (simp add: replicate_append_same)
qed simp

lemma pad_zero_low_digits:
  "n < 10 ^ k \<Longrightarrow> 0 < k \<Longrightarrow> pad_zero k (show_nat n) = low_digits k n"
proof (induction k arbitrary: n)
  case 0
  then show ?case by simp
next
  case (Suc k)
  show ?case
  proof (cases "n < 10")
    case True
    then show ?thesis
      by (subst show_nat.simps) (simp add: pad_zero_def low_digits_zero)
  next
    case False
    then have "0 < k" using Suc.prems(1) by (cases k) auto
    moreover have "n div 10 < 10 ^ k" using Suc.prems(1) by auto
    ultimately have "pad_zero k (show_nat (n div 10)) = low_digits k (n div 10)"
      by (intro Suc.IH)
    with False show ?thesis
      by (subst show_nat.simps) (simp add: pad_zero_def)
  qed
qed

lemma append_less_iff:
  "length xs = length ys \<Longrightarrow> xs @ us < ys @ (vs :: string) \<longleftrightarrow> xs < ys \<or> xs = ys \<and> us < vs"
  by (induction xs ys rule: list_induct2) auto

lemma low_digits_inj: "m < 10 ^ k \<Longrightarrow> n < 10 ^ k \<Longrightarrow> low_digits k m = low_digits k n \<longleftrightarrow> m = n"
proof (induction k arbitrary: m n)
  case 0
  then show ?case by simp
next
  case (Suc k)
  have last: "digit_char (m mod 10) = digit_char (n mod 10) \<longleftrightarrow> m mod 10 = n mod 10"
    by (metis digit_value_digit_char mod_less_divisor zero_less_numeral)
  have "m div 10 < 10 ^ k" "n div 10 < 10 ^ k" using Suc.prems by auto
  then have "low_digits (Suc k) m = low_digits (Suc k) n \<longleftrightarrow>
      m div 10 = n div 10 \<and> m mod 10 = n mod 10"
    by (simp add: last Suc.IH)
  also have "\<dots> \<longleftrightarrow> m = n" by (metis div_mult_mod_eq)
  finally show ?case .
qed

lemma less_div_mod_iff:
  "(m :: nat) < n \<longleftrightarrow> m div 10 < n div 10 \<or> m div 10 = n div 10 \<and> m mod 10 < n mod 10"
proof -
  have "m = 10 * (m div 10) + m mod 10" "n = 10 * (n div 10) + n mod 10" by simp_all
  moreover have "m mod 10 < 10" "n mod 10 < 10" by simp_all
  ultimately show ?thesis by linarith
qed

lemma low_digits_less:
  "m < 10 ^ k \<Longrightarrow> n < 10 ^ k \<Longrightarrow> low_digits k m < low_digits k n \<longleftrightarrow> m < n"
proof (induction k arbitrary: m n)
  case 0
  then show ?case by simp
next
  case (Suc k)
  then have "m div 10 < 10 ^ k" "n div 10 < 10 ^ k" by auto
  then show ?case
    by (simp add: append_less_iff low_digits_inj Suc.IH digit_char_less_iff
        less_div_mod_iff[of m n])
qed

lemma pad_zero_less_iff:
  assumes "m < 10 ^ k" "n < 10 ^ k" "0 < k"
  shows "pad_zero k (show_nat m) < pad_zero k (show_nat n) \<longleftrightarrow> m < n"
  using assms by (simp add: pad_zero_low_digits low_digits_less)

lemma pad_zero_length:
  assumes "n < 10 ^ k" "0 < k"
  shows "length (pad_zero k (show_nat n)) = k"
  using assms by (simp add: pad_zero_low_digits)

end
