(* ===== verification/Json_Value.thy ===== *)
theory Json_Value
  imports Rust_Num Complex_Main "HOL-Library.Monad_Syntax" "HOL-Library.AList" "HOL-Library.Log_Nat"
    "HOL-Library.Finite_Map"
begin

text \<open>
  JSON values and what \<open>#[derive(Deserialize, Serialize)]\<close> makes of the agent's types: the
  accepted shapes of a struct (object or array), of a field (required, \<open>default\<close>, \<open>Option\<close>),
  of a unit enum and of the machine integers. The text syntax is \<open>serde_json\<close>'s and stays a
  parameter. An error of \<open>serde_json\<close> is None: its text is not modelled.
\<close>

section \<open>Values\<close>

text \<open>
  \<open>serde_json::Number\<close>: a \<open>u64\<close>, a negative \<open>i64\<close>, or a finite \<open>f64\<close>, here the rational
  number it denotes.
\<close>

datatype json_num = PosInt u64 | NegInt int | Float rat

datatype json = Null | Bool bool | Num json_num | Str string | Arr "json list"
  | Obj "(string \<times> json) list"

text \<open>
  The tree a text parses to may repeat a key; \<open>serde_json::Value\<close> keeps the last value of each.
\<close>

definition last_wins :: "(string \<times> 'a) list \<Rightarrow> (string \<times> 'a) list" where
  "last_wins kvs = fold (\<lambda>kv m. AList.update (fst kv) (snd kv) m) kvs []"

primrec to_value :: "json \<Rightarrow> json" where
  "to_value Null = Null"
| "to_value (Bool b) = Bool b"
| "to_value (Num n) = Num n"
| "to_value (Str s) = Str s"
| "to_value (Arr vs) = Arr (map to_value vs)"
| "to_value (Obj kvs) = Obj (last_wins (map (map_prod id to_value) kvs))"

lemma map_of_fold_update:
  "map_of (fold (\<lambda>kv m. AList.update (fst kv) (snd kv) m) kvs m) = map_of m ++ map_of (rev kvs)"
  by (induction kvs arbitrary: m) (auto simp: update_conv' map_add_def fun_eq_iff split: option.split)

lemma map_of_last_wins: "map_of (last_wins kvs) = map_of (rev kvs)"
  by (simp add: last_wins_def map_of_fold_update)

lemma distinct_fold_update:
  "distinct (map fst m) \<Longrightarrow>
     distinct (map fst (fold (\<lambda>kv m. AList.update (fst kv) (snd kv) m) kvs m))"
  by (induction kvs arbitrary: m) (simp_all add: distinct_update)

lemma distinct_last_wins: "distinct (map fst (last_wins kvs))"
  by (simp add: last_wins_def distinct_fold_update)

lemma fold_update_new:
  fixes kvs :: "(string \<times> 'a) list"
  shows "distinct (map fst kvs) \<Longrightarrow> set (map fst kvs) \<inter> set (map fst m) = {} \<Longrightarrow>
     fold (\<lambda>kv m. AList.update (fst kv) (snd kv) m) kvs m = m @ kvs"
proof (induction kvs arbitrary: m)
  case Nil
  then show ?case by simp
next
  case (Cons kv kvs)
  have new: "AList.update k v xs = xs @ [(k, v)]" if "k \<notin> fst ` set xs"
    for k :: string and v :: 'a and xs
    using that by (induction xs) auto
  from Cons show ?case by (auto simp: new)
qed

lemma last_wins_id: "distinct (map fst kvs) \<Longrightarrow> last_wins kvs = kvs"
  by (simp add: last_wins_def fold_update_new)

text \<open>Trees without repeated keys are values already.\<close>

primrec json_distinct :: "json \<Rightarrow> bool" where
  "json_distinct Null = True"
| "json_distinct (Bool b) = True"
| "json_distinct (Num n) = True"
| "json_distinct (Str s) = True"
| "json_distinct (Arr vs) = list_all id (map json_distinct vs)"
| "json_distinct (Obj kvs) \<longleftrightarrow>
     distinct (map fst kvs) \<and> list_all (\<lambda>kb. snd kb) (map (map_prod id json_distinct) kvs)"

lemma to_value_id: "json_distinct v \<Longrightarrow> to_value v = v"
proof (induction v)
  case (Arr vs)
  then show ?case by (auto simp: list_all_iff intro: map_idI)
next
  case (Obj kvs)
  have "map (map_prod id to_value) kvs = kvs"
  proof (rule map_idI)
    fix kv assume "kv \<in> set kvs"
    with Obj.prems have "json_distinct (snd kv)" by (auto simp: list_all_iff)
    moreover have "snd kv \<in> Basic_BNFs.snds kv" by (cases kv) simp
    ultimately have "to_value (snd kv) = snd kv" using Obj.IH \<open>kv \<in> set kvs\<close> by blast
    then show "map_prod id to_value kv = kv" by (cases kv) simp
  qed
  with Obj.prems show ?case by (simp add: last_wins_id)
qed simp_all

section \<open>Scalars\<close>

type_synonym 'a decoder = "json \<Rightarrow> 'a option"

fun de_string :: "string decoder" where
  "de_string (Str s) = Some s"
| "de_string _ = None"

fun de_bool :: "bool decoder" where
  "de_bool (Bool b) = Some b"
| "de_bool _ = None"

text \<open>An unsigned integer of any width: a non-negative integer literal in its range.\<close>

fun de_word :: "json \<Rightarrow> 'a::len word option" where
  "de_word (Num (PosInt n)) = (if unat n < 2 ^ LENGTH('a) then Some (ucast n) else None)"
| "de_word _ = None"

text \<open>
  \<open>as f64\<close> of an integer: the nearest number of 53 significant bits, ties to even.
  \<open>round_shift k n\<close> divides by \<open>2^k\<close> with that rounding.
\<close>

definition round_shift :: "nat \<Rightarrow> nat \<Rightarrow> nat" where
  "round_shift k n =
     (let q = n div 2 ^ k; r = n mod 2 ^ k in
      if 2 * r < 2 ^ k then q
      else if 2 * r = 2 ^ k then q + q mod 2
      else q + 1)"

definition f64_of_nat :: "nat \<Rightarrow> rat" where
  "f64_of_nat n =
     (if n < 2 ^ 53 then of_nat n
      else let k = floorlog 2 n - 53 in of_nat (round_shift k n * 2 ^ k))"

fun de_f64 :: "rat decoder" where
  "de_f64 (Num (PosInt n)) = Some (f64_of_nat (unat n))"
| "de_f64 (Num (NegInt i)) = Some (- f64_of_nat (nat (- i)))"
| "de_f64 (Num (Float r)) = Some r"
| "de_f64 _ = None"

fun de_option :: "'a decoder \<Rightarrow> 'a option decoder" where
  "de_option dec Null = Some None"
| "de_option dec v = map_option Some (dec v)"

fun traverse_option :: "('a \<Rightarrow> 'b option) \<Rightarrow> 'a list \<Rightarrow> 'b list option" where
  "traverse_option f [] = Some []"
| "traverse_option f (x # xs) = do { y \<leftarrow> f x; ys \<leftarrow> traverse_option f xs; Some (y # ys) }"

fun de_list :: "'a decoder \<Rightarrow> 'a list decoder" where
  "de_list dec (Arr vs) = traverse_option dec vs"
| "de_list dec _ = None"

text \<open>A \<open>HashMap\<close> with text keys: a finite map, the last value of a repeated key wins.\<close>

type_synonym 'a text_map = "(string, 'a) fmap"

fun de_map :: "'a decoder \<Rightarrow> 'a text_map decoder" where
  "de_map dec (Obj kvs) = map_option (\<lambda>xs. fmap_of_list (rev xs))
     (traverse_option (\<lambda>kv. map_option (Pair (fst kv)) (dec (snd kv))) kvs)"
| "de_map dec _ = None"

text \<open>An enum of unit variants: its name, or an object that maps the name to null.\<close>

fun de_enum :: "(string \<times> 'a) list \<Rightarrow> 'a decoder" where
  "de_enum variants (Str s) = map_of variants s"
| "de_enum variants (Obj [(s, Null)]) = map_of variants s"
| "de_enum variants _ = None"

section \<open>Structs\<close>

datatype fields = ByName "(string \<times> json) list" | ByPos "json list"

text \<open>
  A struct is read from an object, where an unknown key is ignored and a known one may not be
  repeated, or from an array of its fields in order, without extra elements.
\<close>

definition struct_fields :: "string list \<Rightarrow> json \<Rightarrow> fields option" where
  "struct_fields names v =
     (case v of
        Obj kvs \<Rightarrow> if distinct (filter (\<lambda>k. k \<in> set names) (map fst kvs)) then Some (ByName kvs) else None
      | Arr vs \<Rightarrow> if length vs \<le> length names then Some (ByPos vs) else None
      | _ \<Rightarrow> None)"

fun fetch :: "fields \<Rightarrow> nat \<Rightarrow> string \<Rightarrow> json option" where
  "fetch (ByName kvs) i name = map_of kvs name"
| "fetch (ByPos vs) i name = (if i < length vs then Some (vs ! i) else None)"

text \<open>A field without attribute, one with \<open>#[serde(default)]\<close>, and an \<open>Option\<close> without it.\<close>

definition required :: "fields \<Rightarrow> nat \<Rightarrow> string \<Rightarrow> 'a decoder \<Rightarrow> 'a option" where
  "required f i name dec = Option.bind (fetch f i name) dec"

definition defaulted :: "fields \<Rightarrow> nat \<Rightarrow> string \<Rightarrow> 'a decoder \<Rightarrow> 'a \<Rightarrow> 'a option" where
  "defaulted f i name dec d = (case fetch f i name of None \<Rightarrow> Some d | Some v \<Rightarrow> dec v)"

definition optional :: "fields \<Rightarrow> nat \<Rightarrow> string \<Rightarrow> 'a decoder \<Rightarrow> 'a option option" where
  "optional f i name dec =
     (case fetch f i name of
        None \<Rightarrow> (case f of ByName _ \<Rightarrow> Some None | ByPos _ \<Rightarrow> None)
      | Some v \<Rightarrow> de_option dec v)"

lemmas struct_defs [json_defs] = struct_fields_def required_def defaulted_def optional_def

lemma struct_fields_scalar [simp]:
  "struct_fields names Null = None" "struct_fields names (Bool b) = None"
  "struct_fields names (Num n) = None" "struct_fields names (Str s) = None"
  by (simp_all add: struct_fields_def)

lemma traverse_option_map:
  "(\<And>x. x \<in> set xs \<Longrightarrow> f (g x) = Some x) \<Longrightarrow> traverse_option f (map g xs) = Some xs"
  by (induction xs) simp_all

lemma traverse_option_eq_Some:
  "traverse_option f xs = Some ys \<longleftrightarrow> map f xs = map Some ys"
proof (induction xs arbitrary: ys)
  case Nil
  then show ?case by auto
next
  case (Cons x xs)
  show ?case
  proof (cases "traverse_option f xs")
    case None
    with Cons.IH have "map f xs \<noteq> map Some zs" for zs by simp
    with None show ?thesis by (cases ys) (auto split: Option.bind_splits)
  next
    case (Some zs)
    then have "map f xs = map Some zs" using Cons.IH by simp
    with Some show ?thesis
      by (cases ys) (auto split: Option.bind_splits simp: inj_map_eq_map)
  qed
qed

section \<open>Encoders\<close>

definition en_word :: "'a::len word \<Rightarrow> json" where
  "en_word w = Num (PosInt (ucast w))"

definition en_int :: "int \<Rightarrow> json" where
  "en_int i = (if 0 \<le> i then Num (PosInt (word_of_int i)) else Num (NegInt i))"

fun en_option :: "('a \<Rightarrow> json) \<Rightarrow> 'a option \<Rightarrow> json" where
  "en_option enc None = Null"
| "en_option enc (Some x) = enc x"

text \<open>A map; of the orders a \<open>HashMap\<close> may be iterated in, the one of its keys.\<close>

definition en_map :: "('a \<Rightarrow> json) \<Rightarrow> 'a text_map \<Rightarrow> json" where
  "en_map enc m = Obj (map (map_prod id enc) (sorted_list_of_fmap m))"

lemma distinct_sorted_list_of_fmap: "distinct (map fst (sorted_list_of_fmap m))"
  by (simp add: sorted_list_of_fmap_def comp_def sorted_list_of_fset.rep_eq)

lemma map_of_rev_distinct: "distinct (map fst xs) \<Longrightarrow> map_of (rev xs) = map_of xs"
  by (induction xs) (auto simp: map_add_def fun_eq_iff rev_image_eqI split: option.split dest: map_of_SomeD)

lemma fmap_of_rev_sorted_list: "fmap_of_list (rev (sorted_list_of_fmap m)) = m"
proof (rule fmap_ext)
  fix k
  have "map_of (rev (sorted_list_of_fmap m)) = map_of (sorted_list_of_fmap m)"
    by (rule map_of_rev_distinct) (rule distinct_sorted_list_of_fmap)
  then show "fmlookup (fmap_of_list (rev (sorted_list_of_fmap m))) k = fmlookup m k"
    by (simp add: fmlookup_of_list)
qed

text \<open>
  An object with its fields in order; a field with \<open>skip_serializing_if = "Option::is_none"\<close>
  is there only when it has a value.
\<close>

definition field :: "string \<Rightarrow> json \<Rightarrow> string \<times> json option" where
  "field name v = (name, Some v)"

definition skip_none :: "string \<Rightarrow> ('a \<Rightarrow> json) \<Rightarrow> 'a option \<Rightarrow> string \<times> json option" where
  "skip_none name enc x = (name, map_option enc x)"

fun present :: "(string \<times> json option) list \<Rightarrow> (string \<times> json) list" where
  "present [] = []"
| "present ((name, None) # fs) = present fs"
| "present ((name, Some v) # fs) = (name, v) # present fs"

definition struct_json :: "(string \<times> json option) list \<Rightarrow> json" where
  "struct_json fs = Obj (present fs)"

declare field_def [json_defs] skip_none_def [json_defs]

lemma present_keys: "set (map fst (present fs)) \<subseteq> set (map fst fs)"
  by (induction fs rule: present.induct) auto

lemma distinct_present: "distinct (map fst fs) \<Longrightarrow> distinct (map fst (present fs))"
  using present_keys by (induction fs rule: present.induct) force+

lemma map_of_present:
  "distinct (map fst fs) \<Longrightarrow>
     map_of (present fs) name = (case map_of fs name of None \<Rightarrow> None | Some v \<Rightarrow> v)"
proof (induction fs rule: present.induct)
  case (2 n fs)
  have "map_of (present fs) n = None" if "n \<notin> fst ` set fs"
    using that present_keys[of fs] by (auto simp: map_of_eq_None_iff)
  with 2 show ?case by auto
qed auto

lemma struct_fields_struct_json:
  "distinct (map fst fs) \<Longrightarrow> struct_fields names (struct_json fs) = Some (ByName (present fs))"
  by (simp add: struct_fields_def struct_json_def distinct_present)

lemma json_distinct_present:
  "list_all (\<lambda>nv. pred_option json_distinct (snd nv)) fs \<Longrightarrow>
     list_all (\<lambda>kb. snd kb) (map (map_prod id json_distinct) (present fs))"
  by (induction fs rule: present.induct) auto

lemma json_distinct_struct:
  "distinct (map fst fs) \<Longrightarrow> list_all (\<lambda>nv. pred_option json_distinct (snd nv)) fs \<Longrightarrow>
     json_distinct (struct_json fs)"
  using json_distinct_present[of fs] by (simp add: struct_json_def distinct_present)

lemma struct_json_not_null [simp]: "struct_json fs \<noteq> Null"
  by (simp add: struct_json_def)

lemmas decode_struct = struct_fields_struct_json map_of_present required_def defaulted_def optional_def

section \<open>Codecs\<close>

text \<open>
  The contract of a pair of an encoder and a decoder, and what follows for options, lists and
  fields. An encoder whose output is never null keeps \<open>Option\<close> unambiguous.
\<close>

locale json_codec =
  fixes enc :: "'a \<Rightarrow> json" and dec :: "json \<Rightarrow> 'a option"
  assumes dec_enc: "dec (enc x) = Some x"
    and enc_not_null: "enc x \<noteq> Null"
    and enc_distinct: "json_distinct (enc x)"
begin

lemma enc_inj: "enc x = enc y \<Longrightarrow> x = y"
  using dec_enc by (metis option.inject)

lemma option_roundtrip: "de_option dec (en_option enc x) = Some x"
proof (cases x)
  case None
  then show ?thesis by simp
next
  case (Some y)
  then have "de_option dec (enc y) = map_option Some (dec (enc y))"
    using enc_not_null[of y] by (cases "enc y") simp_all
  with Some show ?thesis by (simp add: dec_enc)
qed

lemma traverse_roundtrip: "traverse_option dec (map enc xs) = Some xs"
  by (simp add: traverse_option_map dec_enc)

lemma list_roundtrip: "de_list dec (Arr (map enc xs)) = Some xs"
  by (simp add: traverse_roundtrip)

lemma de_option_enc: "de_option dec (enc x) = Some (Some x)"
  using option_roundtrip[of "Some x"] by simp

lemma map_roundtrip: "de_map dec (en_map enc m) = Some m"
proof -
  have "traverse_option (\<lambda>kv. map_option (Pair (fst kv)) (dec (snd kv)))
      (map (map_prod id enc) (sorted_list_of_fmap m)) = Some (sorted_list_of_fmap m)"
    by (rule traverse_option_map) (simp add: dec_enc)
  then show ?thesis by (simp add: en_map_def fmap_of_rev_sorted_list)
qed

lemma skipped_roundtrip:
  "(case x of None \<Rightarrow> Some None | Some y \<Rightarrow> (de_option dec \<circ> enc) y) = Some x"
  by (cases x) (simp_all add: de_option_enc)

lemma list_distinct: "list_all id (map (json_distinct \<circ> enc) xs)"
  by (induction xs) (simp_all add: enc_distinct)

lemma map_distinct: "json_distinct (en_map enc m)"
proof -
  have "list_all (\<lambda>kb. snd kb) (map (map_prod id json_distinct) (map (map_prod id enc) kvs))" for kvs :: "(string \<times> 'a) list"
    by (induction kvs) (auto simp: enc_distinct)
  then show ?thesis
    using distinct_sorted_list_of_fmap[of m] by (auto simp: en_map_def comp_def simp del: list.pred_map)
qed

lemma option_distinct: "json_distinct (en_option enc x)"
  by (cases x) (simp_all add: enc_distinct)

lemma skipped_distinct: "pred_option (json_distinct \<circ> enc) x"
  by (cases x) (simp_all add: enc_distinct)

lemmas laws = dec_enc option_roundtrip traverse_roundtrip list_roundtrip map_roundtrip skipped_roundtrip
  enc_distinct list_distinct map_distinct option_distinct skipped_distinct

end

lemma de_word_en_word:
  "LENGTH('a::len) \<le> 64 \<Longrightarrow> de_word (en_word (w :: 'a word)) = Some w"
proof -
  assume le: "LENGTH('a) \<le> 64"
  have "unat w < 2 ^ LENGTH('a)" by (rule unat_less_exp)
  moreover have "(2 :: nat) ^ LENGTH('a) \<le> 2 ^ 64" using le by (rule power_increasing) simp
  ultimately have "unat w < 2 ^ 64" by linarith
  then have "unat (ucast w :: u64) = unat w"
    unfolding unsigned_ucast_eq using take_bit_nat_eq_self[of "unat w" 64] by simp
  moreover have "(ucast (ucast w :: u64) :: 'a word) = w"
    by (rule bit_word_eqI) (use le in \<open>simp add: bit_unsigned_iff possible_bit_def\<close>)
  ultimately show ?thesis using unat_less_exp[of w] by (simp add: en_word_def)
qed

interpretation string_codec: json_codec Str de_string
  by unfold_locales simp_all

interpretation bool_codec: json_codec Bool de_bool
  by unfold_locales simp_all

text \<open>\<open>serde_json\<close> writes a finite \<open>f64\<close> so that it reads back the same.\<close>

definition en_f64 :: "rat \<Rightarrow> json" where
  "en_f64 r = Num (Float r)"

interpretation f64_codec: json_codec en_f64 de_f64
  by unfold_locales (simp_all add: en_f64_def)

interpretation u64_codec: json_codec "en_word :: u64 \<Rightarrow> json" de_word
  by unfold_locales (simp_all add: de_word_en_word, simp_all add: en_word_def)

interpretation u32_codec: json_codec "en_word :: u32 \<Rightarrow> json" de_word
  by unfold_locales (simp_all add: de_word_en_word, simp_all add: en_word_def)

interpretation u8_codec: json_codec "en_word :: u8 \<Rightarrow> json" de_word
  by unfold_locales (simp_all add: de_word_en_word, simp_all add: en_word_def)

interpretation u16_codec: json_codec "en_word :: u16 \<Rightarrow> json" de_word
  by unfold_locales (simp_all add: de_word_en_word, simp_all add: en_word_def)

end
