(* ===== verification/Log_Record.thy ===== *)
theory Log_Record
  imports Json_Value
begin

text \<open>
  The record of the agent's log spool, \<open>Record\<close> of \<open>src/logs.rs\<close>, and its two derived
  conversions: the spool's files and the wire both carry records as JSON.
\<close>

record Record =
  rec_id :: string
  rec_timestamp :: u64
  rec_scope :: string
  rec_resource_id :: "string option"
  rec_job_id :: "string option"
  rec_attempt_id :: "string option"
  rec_stream :: "string option"
  rec_level :: string
  rec_message :: string

definition en_Record :: "Record \<Rightarrow> json" where
  "en_Record r = struct_json
     [field ''id'' (Str (rec_id r)),
      field ''timestamp'' (en_word (rec_timestamp r)),
      field ''scope'' (Str (rec_scope r)),
      field ''resourceId'' (en_option Str (rec_resource_id r)),
      field ''jobId'' (en_option Str (rec_job_id r)),
      field ''attemptId'' (en_option Str (rec_attempt_id r)),
      field ''stream'' (en_option Str (rec_stream r)),
      field ''level'' (Str (rec_level r)),
      field ''message'' (Str (rec_message r))]"

definition de_Record :: "Record decoder" where
  "de_Record v = do {
     f \<leftarrow> struct_fields [''id'', ''timestamp'', ''scope'', ''resourceId'', ''jobId'', ''attemptId'',
       ''stream'', ''level'', ''message''] v;
     id \<leftarrow> required f 0 ''id'' de_string;
     timestamp \<leftarrow> required f 1 ''timestamp'' de_word;
     scope \<leftarrow> required f 2 ''scope'' de_string;
     resource_id \<leftarrow> optional f 3 ''resourceId'' de_string;
     job_id \<leftarrow> optional f 4 ''jobId'' de_string;
     attempt_id \<leftarrow> optional f 5 ''attemptId'' de_string;
     stream \<leftarrow> optional f 6 ''stream'' de_string;
     level \<leftarrow> required f 7 ''level'' de_string;
     message \<leftarrow> required f 8 ''message'' de_string;
     Some \<lparr>rec_id = id, rec_timestamp = timestamp, rec_scope = scope, rec_resource_id = resource_id,
       rec_job_id = job_id, rec_attempt_id = attempt_id, rec_stream = stream, rec_level = level,
       rec_message = message\<rparr> }"

interpretation Record_codec: json_codec en_Record de_Record
proof unfold_locales
  show "de_Record (en_Record r) = Some r" for r
    by (cases r) (simp add: de_Record_def en_Record_def decode_struct field_def string_codec.laws
        u64_codec.laws)
qed (simp_all add: en_Record_def json_distinct_struct field_def string_codec.laws u64_codec.laws)

end
