(* ===== verification/Log_Redact.thy ===== *)
theory Log_Redact
  imports Rust_Search
begin

text \<open>
  \<open>redact\<close> of \<open>src/logs.rs\<close>: what follows one of three markers, up to the next white space, is
  replaced before a message reaches the spool.
\<close>

section \<open>The code\<close>

definition REDACTED :: string where
  "REDACTED = ''[REDACTED]''"

definition markers :: "string list" where
  "markers = [''NODE_TOKEN='', ''nodeToken='', ''Authorization: Bearer '']"

text \<open>
  The loop for one marker. Its \<open>offset\<close> splits the text into a part already treated and the
  rest: the function takes the rest. The markers are not empty, so it gets shorter.
\<close>

function redact_marker :: "string \<Rightarrow> string \<Rightarrow> string" where
  "redact_marker marker s =
     (if marker = [] then s
      else case split_once marker s of
          None \<Rightarrow> s
        | Some (before, after) \<Rightarrow>
            before @ marker @ REDACTED @
              redact_marker marker (dropWhile (\<lambda>c. \<not> is_whitespace c) after))"
  by pat_completeness auto
termination
proof (relation "measure (\<lambda>(m, s). length s)", goal_cases)
  case (2 marker s p before after)
  then have "length after + length marker \<le> length s"
    using split_once_length[of marker s before after] by simp
  moreover have "0 < length marker" using 2 by simp
  ultimately show ?case
    using length_dropWhile_le[of "\<lambda>c. \<not> is_whitespace c" after] by (simp del: length_greater_0_conv)
qed simp

declare redact_marker.simps [simp del]

definition redact :: "string \<Rightarrow> string" where
  "redact v = fold redact_marker markers v"

section \<open>Every occurrence is covered\<close>

text \<open>After each occurrence of the marker come \<open>[REDACTED]\<close> and then white space or the end.\<close>

definition blank_start :: "string \<Rightarrow> bool" where
  "blank_start r \<longleftrightarrow> r = [] \<or> is_whitespace (hd r)"

definition covered :: "string \<Rightarrow> string \<Rightarrow> bool" where
  "covered m s \<longleftrightarrow> (\<forall>a b. s = a @ m @ b \<longrightarrow> (\<exists>r. b = REDACTED @ r \<and> blank_start r))"

text \<open>What the proof needs of a marker; all three have it.\<close>

definition good_marker :: "string \<Rightarrow> bool" where
  "good_marker m \<longleftrightarrow> 8 < length m \<and> \<not> is_whitespace (hd m) \<and> last m \<notin> set REDACTED \<and>
     CHR ''['' \<notin> set m \<and> CHR '']'' \<notin> set m"

lemma markers_good: "m \<in> set markers \<Longrightarrow> good_marker m"
  by (auto simp: markers_def good_marker_def REDACTED_def text_defs less_eq_char_def)

lemma good_marker_neq_Nil: "good_marker m \<Longrightarrow> m \<noteq> []"
  by (auto simp: good_marker_def)

lemma covered_append: "covered m (a @ s) \<Longrightarrow> covered m s"
  unfolding covered_def by (metis append_assoc)

lemma covered_dropWhile: "covered m s \<Longrightarrow> covered m (dropWhile P s)"
  by (metis covered_append takeWhile_dropWhile_id)

text \<open>An occurrence cannot stretch over a character that the pattern does not have.\<close>

lemma occurrence_around:
  assumes "x @ c # y = p @ m @ q" and "c \<notin> set m"
  shows "(\<exists>q1. x = p @ m @ q1 \<and> q = q1 @ c # y) \<or> (\<exists>p2. p = x @ c # p2 \<and> y = p2 @ m @ q)"
proof -
  from assms(1) obtain us where
    "x = p @ us \<and> us @ c # y = m @ q \<or> x @ us = p \<and> c # y = us @ m @ q"
    by (auto simp: append_eq_append_conv2)
  then consider (left) "x = p @ us" "us @ c # y = m @ q" | (right) "x @ us = p" "c # y = us @ m @ q"
    by blast
  then show ?thesis
  proof cases
    case left
    then obtain vs where "us = m @ vs \<and> vs @ c # y = q \<or> us @ vs = m \<and> c # y = vs @ q"
      by (auto simp: append_eq_append_conv2)
    then show ?thesis
    proof
      assume "us = m @ vs \<and> vs @ c # y = q"
      with left show ?thesis by auto
    next
      assume *: "us @ vs = m \<and> c # y = vs @ q"
      then have "vs = []" using assms(2) by (cases vs) auto
      with * left show ?thesis by auto
    qed
  next
    case right
    show ?thesis
    proof (cases us)
      case Nil
      with right assms(2) have "m = []" by (cases m) auto
      with Nil right show ?thesis by auto
    next
      case (Cons u us')
      with right show ?thesis by auto
    qed
  qed
qed

text \<open>Around an inserted \<open>[REDACTED]\<close> an occurrence lies before or after it.\<close>

lemma occurrence_redacted:
  assumes good: "good_marker m" and eq: "x @ REDACTED @ y = p @ m @ q"
  shows "(\<exists>q1. x = p @ m @ q1 \<and> q = q1 @ REDACTED @ y) \<or> (\<exists>p2. y = p2 @ m @ q)"
proof -
  have R: "REDACTED = CHR ''['' # ''REDACTED'' @ [CHR '']'']" by (simp add: REDACTED_def)
  have "x @ CHR ''['' # (''REDACTED'' @ CHR '']'' # y) = p @ m @ q" using eq by (simp add: R)
  from occurrence_around[OF this] good
  consider (before) q1 where "x = p @ m @ q1" "q = q1 @ CHR ''['' # (''REDACTED'' @ CHR '']'' # y)"
    | (after) p2 where "''REDACTED'' @ CHR '']'' # y = p2 @ m @ q"
    unfolding good_marker_def by blast
  then show ?thesis
  proof cases
    case before
    then show ?thesis by (simp add: R)
  next
    case after
    from occurrence_around[OF after] good
    have "(\<exists>q1. ''REDACTED'' = p2 @ m @ q1) \<or> (\<exists>p3. y = p3 @ m @ q)"
      unfolding good_marker_def by blast
    moreover have "''REDACTED'' \<noteq> p2 @ m @ q1" for q1
    proof
      assume "''REDACTED'' = p2 @ m @ q1"
      then have "length ''REDACTED'' = length p2 + length m + length q1" by (metis length_append add.assoc)
      with good show False by (simp add: good_marker_def)
    qed
    ultimately show ?thesis by blast
  qed
qed

lemma redact_marker_None: "split_once m s = None \<Longrightarrow> redact_marker m s = s"
  by (simp add: redact_marker.simps[of m s])

lemma redact_marker_Some:
  "m \<noteq> [] \<Longrightarrow> split_once m s = Some (a, b) \<Longrightarrow>
     redact_marker m s = a @ m @ REDACTED @ redact_marker m (dropWhile (\<lambda>c. \<not> is_whitespace c) b)"
  by (simp add: redact_marker.simps[of m s])

lemma redact_marker_induct [case_names none some]:
  assumes ne: "m \<noteq> []"
    and none: "\<And>s. split_once m s = None \<Longrightarrow> Q s"
    and some: "\<And>s a b. split_once m s = Some (a, b) \<Longrightarrow> Q (dropWhile (\<lambda>c. \<not> is_whitespace c) b) \<Longrightarrow> Q s"
  shows "Q s"
proof (induction "length s" arbitrary: s rule: less_induct)
  case less
  show ?case
  proof (cases "split_once m s")
    case None
    then show ?thesis by (rule none)
  next
    case (Some ab)
    obtain a b where ab: "ab = (a, b)" by (cases ab)
    have "length b + length m \<le> length s" using Some ab by (simp add: split_once_length)
    then have "length (dropWhile (\<lambda>c. \<not> is_whitespace c) b) < length s"
      using length_dropWhile_le[of "\<lambda>c. \<not> is_whitespace c" b] ne
      by (meson add_le_same_cancel1 le_less_trans length_greater_0_conv less_le_trans
          linorder_not_le order_trans trans_le_add1 less_add_same_cancel1)
    then show ?thesis using less some Some ab by blast
  qed
qed

lemma blank_start_dropWhile: "blank_start (dropWhile (\<lambda>c. \<not> is_whitespace c) b)"
proof (cases "dropWhile (\<lambda>c. \<not> is_whitespace c) b")
  case (Cons c cs)
  then have "is_whitespace c" by (auto dest: hd_dropWhile_not)
  with Cons show ?thesis by (simp add: blank_start_def)
qed (simp add: blank_start_def)

lemma blank_start_redact:
  assumes good: "good_marker m" and blank: "blank_start s"
  shows "blank_start (redact_marker m s)"
proof (cases "split_once m s")
  case None
  then show ?thesis using blank by (simp add: redact_marker_None)
next
  case (Some ab)
  obtain a b where ab: "ab = (a, b)" by (cases ab)
  with Some have s: "s = a @ m @ b" by (simp add: split_once_append)
  have ne: "m \<noteq> []" using good by (rule good_marker_neq_Nil)
  have "a \<noteq> []" using s blank ne good by (auto simp: blank_start_def good_marker_def)
  then show ?thesis
    using blank Some ab s by (simp add: redact_marker_Some[OF ne] blank_start_def)
qed

text \<open>One pass covers its own marker.\<close>

lemma redact_marker_covers:
  assumes good: "good_marker m"
  shows "covered m (redact_marker m s)"
proof (induction s rule: redact_marker_induct[OF good_marker_neq_Nil[OF good]])
  case (1 s)
  then show ?case
    by (auto simp: redact_marker_None covered_def split_once_None_iff sublist_def)
next
  case (2 s a b)
  define w where "w = redact_marker m (dropWhile (\<lambda>c. \<not> is_whitespace c) b)"
  have ne: "m \<noteq> []" using good by (rule good_marker_neq_Nil)
  have eq: "redact_marker m s = (a @ m) @ REDACTED @ w"
    using 2 by (simp add: redact_marker_Some[OF ne] w_def)
  have s: "s = a @ m @ b" using 2(1) by (rule split_once_append)
  show ?case unfolding covered_def
  proof (intro allI impI)
    fix p q assume "redact_marker m s = p @ m @ q"
    then have "(a @ m) @ REDACTED @ w = p @ m @ q" by (simp add: eq)
    from occurrence_redacted[OF good this]
    show "\<exists>r. q = REDACTED @ r \<and> blank_start r"
    proof (elim disjE exE conjE)
      fix q1 assume am: "a @ m = p @ m @ q1" and q: "q = q1 @ REDACTED @ w"
      have "\<not> length p < length a"
      proof
        assume "length p < length a"
        then have "\<not> prefix m (drop (length p) s)" by (rule split_once_first[OF 2(1)])
        moreover have "drop (length p) s = m @ q1 @ b" using am s
          by (metis append.assoc append_eq_conv_conj)
        ultimately show False by simp
      qed
      moreover have "length a = length p + length q1" using arg_cong[OF am, of length] by simp
      ultimately have "q1 = []" by simp
      then show ?thesis
        using q blank_start_redact[OF good blank_start_dropWhile] by (auto simp: w_def)
    next
      fix p2 assume "w = p2 @ m @ q"
      with 2(2) show ?thesis unfolding w_def covered_def by blast
    qed
  qed
qed

text \<open>A pass for another marker keeps what is covered.\<close>

lemma redact_marker_keeps:
  assumes good: "good_marker m" and good': "good_marker m'" and "covered m s"
  shows "covered m (redact_marker m' s)"
  using assms(3)
proof (induction s rule: redact_marker_induct[OF good_marker_neq_Nil[OF good']])
  case (1 s)
  then show ?case by (simp add: redact_marker_None)
next
  case (2 s a b)
  define w where "w = redact_marker m' (dropWhile (\<lambda>c. \<not> is_whitespace c) b)"
  have ne': "m' \<noteq> []" using good' by (rule good_marker_neq_Nil)
  have eq: "redact_marker m' s = (a @ m') @ REDACTED @ w"
    using 2(1) by (simp add: redact_marker_Some[OF ne'] w_def)
  have s: "s = a @ m' @ b" using 2(1) by (rule split_once_append)
  have w: "covered m w"
    unfolding w_def using 2(2,3) s covered_dropWhile covered_append by (metis append_assoc)
  show ?case unfolding covered_def
  proof (intro allI impI)
    fix p q assume "redact_marker m' s = p @ m @ q"
    then have "(a @ m') @ REDACTED @ w = p @ m @ q" by (simp add: eq)
    from occurrence_redacted[OF good this]
    show "\<exists>r. q = REDACTED @ r \<and> blank_start r"
    proof (elim disjE exE conjE)
      fix q1 assume am: "a @ m' = p @ m @ q1" and q: "q = q1 @ REDACTED @ w"
      have "s = p @ m @ (q1 @ b)" using s am by (metis append_assoc)
      with 2(3) obtain r where r: "q1 @ b = REDACTED @ r" "blank_start r"
        unfolding covered_def by blast
      show ?thesis
      proof (cases "q1 = []")
        case True
        then show ?thesis
          using q blank_start_redact[OF good' blank_start_dropWhile] by (auto simp: w_def)
      next
        case q1: False
        then have "last q1 = last m'" using am ne' by (metis last_appendR append_is_Nil_conv)
        then have l: "last q1 \<notin> set REDACTED" using good' by (simp add: good_marker_def)
        then have "q1 @ us \<noteq> REDACTED" for us
          using q1 by (metis UnCI last_in_set set_append)
        then obtain t where t: "q1 = REDACTED @ t" "t @ b = r"
          using r(1) by (auto simp: append_eq_append_conv2)
        with q1 l have "t \<noteq> []" by (metis append_Nil2 last_in_set)
        with t r(2) have "blank_start (t @ REDACTED @ w)" by (auto simp: blank_start_def)
        with q t show ?thesis by auto
      qed
    next
      fix p2 assume "w = p2 @ m @ q"
      with w show ?thesis unfolding covered_def by blast
    qed
  qed
qed

lemma redact_unfold:
  "redact v = redact_marker ''Authorization: Bearer '' (redact_marker ''nodeToken='' (redact_marker ''NODE_TOKEN='' v))"
  by (simp add: redact_def markers_def)

lemma redact_covered:
  assumes "m \<in> set markers"
  shows "covered m (redact v)"
proof -
  have good: "good_marker ''NODE_TOKEN=''" "good_marker ''nodeToken=''" "good_marker ''Authorization: Bearer ''"
    by (rule markers_good, simp add: markers_def)+
  show ?thesis
    using assms unfolding markers_def redact_unfold
    by (auto intro!: redact_marker_keeps redact_marker_covers good)
qed

text \<open>A covered text is left as it is.\<close>

lemma redact_marker_fixed:
  assumes good: "good_marker m"
  shows "covered m s \<Longrightarrow> redact_marker m s = s"
proof (induction s rule: redact_marker_induct[OF good_marker_neq_Nil[OF good]])
  case (1 s)
  then show ?case by (simp add: redact_marker_None)
next
  case (2 s a b)
  have s: "s = a @ m @ b" using 2(1) by (rule split_once_append)
  with 2(3) obtain r where r: "b = REDACTED @ r" "blank_start r" unfolding covered_def by blast
  have "\<forall>c \<in> set REDACTED. \<not> is_whitespace c"
    by (simp add: REDACTED_def is_whitespace_def less_eq_char_def)
  then have "dropWhile (\<lambda>c. \<not> is_whitespace c) b = r"
    using r by (cases r) (auto simp: dropWhile_append blank_start_def)
  moreover have "covered m r" using 2(3) s r covered_append by (metis append_assoc)
  ultimately have "redact_marker m r = r" using 2(2) by simp
  with \<open>dropWhile _ b = r\<close> show ?case
    using 2(1) good_marker_neq_Nil[OF good] s r by (simp add: redact_marker_Some)
qed

text \<open>
  C7: after \<open>redact\<close> no secret is left: whatever the text, each occurrence of each of the three
  markers is followed by \<open>[REDACTED]\<close> and then white space or the end of the text, also when
  markers overlap secrets or one another.
\<close>

theorem redact_leaves_no_secret:
  "list_all (\<lambda>m. covered m (redact v)) markers"
  by (simp add: list_all_iff redact_covered)

text \<open>
  Redacting is idempotent: a record that is redacted again keeps its text.
\<close>

theorem redact_idempotent: "redact (redact v) = redact v"
proof -
  have "redact_marker m (redact v) = redact v" if "m \<in> set markers" for m
    using that by (simp add: redact_marker_fixed markers_good redact_covered)
  then show ?thesis by (subst redact_unfold) (simp add: markers_def)
qed

end
