(* ===== verification/Log_Spool.thy ===== *)
theory Log_Spool
  imports Log_Record Log_Redact
begin

text \<open>
  Writing the log spool of \<open>src/logs.rs\<close>: record ids, retention, rotation and appending. The
  spool is a directory of files; every reading of the clock and every answer of the file system
  is an argument. \<open>print\<close> is \<open>serde_json\<close>'s writer.
\<close>

section \<open>Record ids\<close>

definition U64_MAX :: nat where
  "U64_MAX = 2 ^ 64 - 1"

text \<open>
  \<open>next_record_id\<close>: \<open>prev_id\<close> is the value of \<open>LAST_RECORD_ID\<close>, which starts at 0. \<open>fetch_update\<close>
  stores the new value and returns the one before it; its closure never fails, so the
  \<open>unwrap_or_else\<close> is not reached.
\<close>

definition next_last_id :: "nat \<Rightarrow> u64 \<Rightarrow> u64" where
  "next_last_id now_ns previous = max (of_nat (min now_ns U64_MAX)) (saturating_add previous 1)"

definition format_record_id :: "u32 \<Rightarrow> u64 \<Rightarrow> string" where
  "format_record_id pid n = pad_zero 20 (show_word n) @ ''-'' @ pad_zero 10 (show_word pid)"

definition next_record_id :: "u32 \<Rightarrow> nat \<Rightarrow> u64 \<Rightarrow> string \<times> u64" where
  "next_record_id pid now_ns prev_id = (format_record_id pid prev_id, next_last_id now_ns prev_id)"

text \<open>The ids a process hands out at a sequence of clock readings.\<close>

fun record_ids :: "u32 \<Rightarrow> nat list \<Rightarrow> u64 \<Rightarrow> string list" where
  "record_ids pid [] prev_id = []"
| "record_ids pid (now # nows) prev_id =
     (let (rid, prev_id') = next_record_id pid now prev_id in rid # record_ids pid nows prev_id')"

lemma unat_less_pad: "unat (w :: u64) < 10 ^ 20"
  using unat_less_exp[of w] by simp

lemma format_record_id_less:
  "a < b \<Longrightarrow> format_record_id pid a < format_record_id pid b"
  using unat_less_pad[of a] unat_less_pad[of b]
  by (simp add: format_record_id_def append_less_iff show_word_def pad_zero_less_iff pad_zero_length
      word_less_nat_alt)

lemma unat_next_last_id:
  "unat (next_last_id now_ns previous) = max (min now_ns U64_MAX) (min (unat previous + 1) U64_MAX)"
proof -
  have "unat (of_nat (min now_ns U64_MAX) :: u64) = min now_ns U64_MAX"
    by (simp add: U64_MAX_def unsigned_of_nat take_bit_nat_eq_self)
  moreover have "unat (max a b) = max (unat a) (unat b)" for a b :: u64
    by (simp add: max_def word_le_nat_alt)
  ultimately show ?thesis by (simp add: next_last_id_def unat_saturating_add U64_MAX_def)
qed

text \<open>The numbers behind the ids.\<close>

fun id_counters :: "nat list \<Rightarrow> u64 \<Rightarrow> u64 list" where
  "id_counters [] prev_id = []"
| "id_counters (now # nows) prev_id = prev_id # id_counters nows (next_last_id now prev_id)"

lemma record_ids_counters: "record_ids pid nows prev_id = map (format_record_id pid) (id_counters nows prev_id)"
  by (induction nows arbitrary: prev_id) (simp_all add: next_record_id_def)

lemma id_counters_ge: "c \<in> set (id_counters nows prev_id) \<Longrightarrow> prev_id \<le> c"
proof (induction nows arbitrary: prev_id)
  case (Cons now nows)
  have "unat prev_id \<le> unat (next_last_id now prev_id)"
    using unat_less_exp[of prev_id] by (simp add: unat_next_last_id U64_MAX_def)
  with Cons show ?case by (auto simp: word_le_nat_alt intro: order_trans)
qed simp

lemma id_counters_sorted:
  "unat prev_id + length nows \<le> U64_MAX \<Longrightarrow> \<forall>now \<in> set nows. now + length nows \<le> U64_MAX \<Longrightarrow>
     sorted_wrt (<) (id_counters nows prev_id)"
proof (induction nows arbitrary: prev_id)
  case (Cons now nows)
  have eq: "unat (next_last_id now prev_id) = max now (unat prev_id + 1)"
    using Cons.prems by (auto simp: unat_next_last_id)
  then have less: "prev_id < next_last_id now prev_id" by (simp add: word_less_nat_alt)
  have "sorted_wrt (<) (id_counters nows (next_last_id now prev_id))"
    using Cons.prems by (intro Cons.IH) (auto simp: eq)
  with less show ?case by (auto dest: id_counters_ge)
qed simp

text \<open>
  The record ids one process hands out increase strictly, as texts, whatever the clock does
  (it may stand still or go back), as long as the counter is away from its largest value; so no
  two records of a process share an id and later records sort later.
\<close>

theorem record_ids_increase:
  assumes "unat prev_id + length nows \<le> U64_MAX" "\<forall>now \<in> set nows. now + length nows \<le> U64_MAX"
  shows "sorted_wrt (<) (record_ids pid nows prev_id)"
  unfolding record_ids_counters sorted_wrt_map
  by (rule sorted_wrt_mono_rel[OF _ id_counters_sorted[OF assms]]) (simp add: format_record_id_less)

lemma record_ids_increase_witness:
  "sorted_wrt (<) (record_ids 7 [1700000000000000000, 1600000000000000000, 1600000000000000000] 0)"
  by (rule record_ids_increase) (simp_all add: U64_MAX_def)

text \<open>
  An id carries the counter's value from before the update: the first id of every process is
  0 whatever the clock shows, so two runs of the agent with the same process id (as in a
  container) both hand out \<open>00000000000000000000-PID\<close>.
\<close>

theorem first_record_id_is_zero:
  "fst (next_record_id pid now_ns 0) = ''00000000000000000000-'' @ pad_zero 10 (show_word pid)"
proof -
  have "show_nat 0 = ''0''" by (subst show_nat.simps) code_simp
  then have "pad_zero 20 (show_word (0 :: u64)) = ''00000000000000000000''"
    by (simp add: show_word_def pad_zero_def numeral_eq_Suc)
  then show ?thesis by (simp add: next_record_id_def format_record_id_def)
qed

end
