(* ===== verification/Log_Append.thy ===== *)
theory Log_Append
  imports Log_Spool
begin

text \<open>
  Appending to the log spool (\<open>src/logs.rs\<close>): \<open>append_job\<close>, \<open>append_agent\<close>, \<open>append\<close>,
  \<open>append_to_with_limit\<close>, \<open>prune\<close>. The directory is the list of its files in the order
  \<open>read_dir\<close> yields them, None when it does not exist; the answers of the file system are in
  \<open>Faults\<close>, the readings of the clock in \<open>Clock\<close>.
\<close>

section \<open>State and environment\<close>

record SpoolFile =
  sf_content :: string
  sf_modified :: "u64 option"

type_synonym SpoolDir = "(string \<times> SpoolFile) list"

datatype spool_io = Create_Dir | Read_Dir | Read_Dir_Again | Rename_Log | Open_Log | Write_Log

record Faults =
  fault :: "spool_io \<Rightarrow> anyhow option"
  stuck :: "string \<Rightarrow> bool"
  written :: nat

record Clock =
  clk_record_ms :: u64
  clk_record_ns :: nat
  clk_prune_ms :: u64
  clk_path_ms :: u64
  clk_rotate_ns :: nat
  clk_prune_again_ms :: u64
  clk_write_ms :: u64

definition file_len :: "SpoolFile \<Rightarrow> nat" where
  "file_len f = length (utf8_bytes (sf_content f))"

section \<open>Pruning\<close>

definition RETENTION_MS :: u64 where
  "RETENTION_MS = 7 * 24 * 60 * 60 * 1000"

definition aged_out :: "u64 \<Rightarrow> string \<times> SpoolFile \<Rightarrow> bool" where
  "aged_out now_ms nf \<longleftrightarrow>
     starts_with (fst nf) ''events-'' \<and>
     unwrap_or (map_option (\<lambda>t. t < saturating_sub now_ms RETENTION_MS) (sf_modified (snd nf))) False"

text \<open>A file that cannot be removed (\<open>stuck\<close>) stays: the error of \<open>remove_file\<close> is dropped.\<close>

definition prune :: "Faults \<Rightarrow> u64 \<Rightarrow> SpoolDir \<Rightarrow> SpoolDir" where
  "prune F now_ms dir = filter (\<lambda>nf. \<not> aged_out now_ms nf \<or> stuck F (fst nf)) dir"

section \<open>Appending\<close>

definition MAX_BYTES :: u64 where
  "MAX_BYTES = 100 * 1024 * 1024"

definition path_in :: "u64 \<Rightarrow> string" where
  "path_in now_ms = ''events-'' @ show_word (now_ms div 86400000) @ ''.jsonl''"

definition payload_of :: "(json \<Rightarrow> string) \<Rightarrow> Record \<Rightarrow> string" where
  "payload_of print rec = print (en_Record rec) @ [newline]"

definition log_content :: "SpoolDir \<Rightarrow> string \<Rightarrow> string" where
  "log_content dir path = (case map_of dir path of None \<Rightarrow> [] | Some f \<Rightarrow> sf_content f)"

definition current_len :: "SpoolDir \<Rightarrow> string \<Rightarrow> nat" where
  "current_len dir path = (case map_of dir path of None \<Rightarrow> 0 | Some f \<Rightarrow> file_len f)"

definition must_rotate :: "SpoolDir \<Rightarrow> string \<Rightarrow> nat \<Rightarrow> u64 \<Rightarrow> bool" where
  "must_rotate dir path payload_len max_bytes \<longleftrightarrow>
     0 < current_len dir path \<and>
     unat max_bytes < min (current_len dir path + payload_len) U64_MAX"

text \<open>\<open>fs::rename\<close> replaces a file of the new name.\<close>

definition rename_file :: "string \<Rightarrow> string \<Rightarrow> SpoolDir \<Rightarrow> SpoolDir" where
  "rename_file old new dir =
     (case map_of dir old of
        None \<Rightarrow> dir
      | Some f \<Rightarrow> AList.update new f (AList.delete old dir))"

definition overflow_name :: "string \<Rightarrow> string" where
  "overflow_name rid = ''events-overflow-'' @ rid @ ''.jsonl''"

definition append_text :: "string \<Rightarrow> u64 \<Rightarrow> string \<Rightarrow> SpoolDir \<Rightarrow> SpoolDir" where
  "append_text path now_ms text dir =
     AList.update path \<lparr>sf_content = log_content dir path @ text, sf_modified = Some now_ms\<rparr> dir"

text \<open>The step that rotates the full log: the result, the directory and the id counter.\<close>

definition rotate_log ::
  "Faults \<Rightarrow> Clock \<Rightarrow> u32 \<Rightarrow> string \<Rightarrow> SpoolDir \<Rightarrow> u64 \<Rightarrow> unit result \<times> SpoolDir \<times> u64" where
  "rotate_log F clk pid path dir prev_id =
     (let (rid, prev_id) = next_record_id pid (clk_rotate_ns clk) prev_id in
      case fault F Rename_Log of
        Some e \<Rightarrow> (Inl e, dir, prev_id)
      | None \<Rightarrow>
          (let dir = rename_file path (overflow_name rid) dir in
           case fault F Read_Dir_Again of
             Some e \<Rightarrow> (Inl e, dir, prev_id)
           | None \<Rightarrow> (Inr (), prune F (clk_prune_again_ms clk) dir, prev_id)))"

definition write_payload ::
  "Faults \<Rightarrow> Clock \<Rightarrow> string \<Rightarrow> string \<Rightarrow> SpoolDir \<Rightarrow> unit result \<times> SpoolDir" where
  "write_payload F clk path payload dir =
     (case fault F Open_Log of
        Some e \<Rightarrow> (Inl e, dir)
      | None \<Rightarrow>
          (case fault F Write_Log of
             Some e \<Rightarrow> (Inl e, append_text path (clk_write_ms clk) (take (written F) payload) dir)
           | None \<Rightarrow> (Inr (), append_text path (clk_write_ms clk) payload dir)))"

definition append_to_with_limit ::
  "(json \<Rightarrow> string) \<Rightarrow> Faults \<Rightarrow> Clock \<Rightarrow> u32 \<Rightarrow> Record \<Rightarrow> u64 \<Rightarrow> SpoolDir option \<Rightarrow> u64 \<Rightarrow>
     unit result \<times> SpoolDir option \<times> u64" where
  "append_to_with_limit print F clk pid rec max_bytes dir prev_id =
     (case fault F Create_Dir of
        Some e \<Rightarrow> (Inl e, dir, prev_id)
      | None \<Rightarrow>
        (let dir = unwrap_or dir [] in
         case fault F Read_Dir of
           Some e \<Rightarrow> (Inl e, Some dir, prev_id)
         | None \<Rightarrow>
           (let dir = prune F (clk_prune_ms clk) dir;
                payload = payload_of print rec;
                path = path_in (clk_path_ms clk);
                (r, dir, prev_id) =
                  (if must_rotate dir path (length (utf8_bytes payload)) max_bytes
                   then rotate_log F clk pid path dir prev_id else (Inr (), dir, prev_id))
            in case r of
                 Inl e \<Rightarrow> (Inl e, Some dir, prev_id)
               | Inr _ \<Rightarrow>
                   (let (r, dir) = write_payload F clk path payload dir in (r, Some dir, prev_id)))))"

definition append_to ::
  "(json \<Rightarrow> string) \<Rightarrow> Faults \<Rightarrow> Clock \<Rightarrow> u32 \<Rightarrow> Record \<Rightarrow> SpoolDir option \<Rightarrow> u64 \<Rightarrow>
     unit result \<times> SpoolDir option \<times> u64" where
  "append_to print F clk pid rec dir prev_id = append_to_with_limit print F clk pid rec MAX_BYTES dir prev_id"

text \<open>
  \<open>append\<close>: the lock may be poisoned, the state directory may be unknown (\<open>agent_state_dir\<close>).
\<close>

definition append_record ::
  "(json \<Rightarrow> string) \<Rightarrow> bool \<Rightarrow> string result \<Rightarrow> Faults \<Rightarrow> Clock \<Rightarrow> u32 \<Rightarrow> Record \<Rightarrow> SpoolDir option \<Rightarrow> u64 \<Rightarrow>
     unit result \<times> SpoolDir option \<times> u64" where
  "append_record print poisoned state_dir F clk pid rec dir prev_id =
     (if poisoned then (bail ''agent log spool lock is poisoned'', dir, prev_id)
      else case state_dir of
          Inl e \<Rightarrow> (Inl e, dir, prev_id)
        | Inr _ \<Rightarrow> append_to print F clk pid rec dir prev_id)"

definition job_record ::
  "u64 \<Rightarrow> string \<Rightarrow> string \<Rightarrow> string \<Rightarrow> string \<Rightarrow> string \<Rightarrow> string \<Rightarrow> string option \<Rightarrow> Record" where
  "job_record timestamp rid job_id attempt_id stream line scope resource_id =
     \<lparr>rec_id = rid, rec_timestamp = timestamp, rec_scope = scope, rec_resource_id = resource_id,
      rec_job_id = Some job_id, rec_attempt_id = Some attempt_id, rec_stream = Some stream,
      rec_level = (if stream = ''stderr'' then ''error'' else ''info''), rec_message = redact line\<rparr>"

definition append_job ::
  "(json \<Rightarrow> string) \<Rightarrow> bool \<Rightarrow> string result \<Rightarrow> Faults \<Rightarrow> Clock \<Rightarrow> u32 \<Rightarrow>
     string \<Rightarrow> string \<Rightarrow> string \<Rightarrow> string \<Rightarrow> string \<Rightarrow> string option \<Rightarrow>
     SpoolDir option \<Rightarrow> u64 \<Rightarrow> unit result \<times> SpoolDir option \<times> u64" where
  "append_job print poisoned state_dir F clk pid job_id attempt_id stream line scope resource_id dir prev_id =
     (let (rid, prev_id) = next_record_id pid (clk_record_ns clk) prev_id
      in append_record print poisoned state_dir F clk pid
           (job_record (clk_record_ms clk) rid job_id attempt_id stream line scope resource_id)
           dir prev_id)"

definition agent_record :: "u64 \<Rightarrow> string \<Rightarrow> string \<Rightarrow> string \<Rightarrow> Record" where
  "agent_record timestamp rid level message =
     \<lparr>rec_id = rid, rec_timestamp = timestamp, rec_scope = ''agent'', rec_resource_id = None,
      rec_job_id = None, rec_attempt_id = None, rec_stream = None, rec_level = level,
      rec_message = redact message\<rparr>"

definition append_agent ::
  "(json \<Rightarrow> string) \<Rightarrow> bool \<Rightarrow> string result \<Rightarrow> Faults \<Rightarrow> Clock \<Rightarrow> u32 \<Rightarrow>
     string \<Rightarrow> string \<Rightarrow> SpoolDir option \<Rightarrow> u64 \<Rightarrow> unit result \<times> SpoolDir option \<times> u64" where
  "append_agent print poisoned state_dir F clk pid level message dir prev_id =
     (let (rid, prev_id) = next_record_id pid (clk_record_ns clk) prev_id
      in append_record print poisoned state_dir F clk pid
           (agent_record (clk_record_ms clk) rid level message) dir prev_id)"

section \<open>The invariant of the directory\<close>

text \<open>
  Names are distinct and every file is empty or ends with a newline: a record never continues
  a line that another append left open.
\<close>

definition complete_text :: "string \<Rightarrow> bool" where
  "complete_text t \<longleftrightarrow> t = [] \<or> last t = newline"

definition spool_ok :: "SpoolDir \<Rightarrow> bool" where
  "spool_ok dir \<longleftrightarrow> distinct (map fst dir) \<and> (\<forall>nf \<in> set dir. complete_text (sf_content (snd nf)))"

lemma spool_ok_prune: "spool_ok dir \<Longrightarrow> spool_ok (prune F now dir)"
  by (auto simp: spool_ok_def prune_def distinct_map_filter)

lemma set_update_subset: "set (AList.update k v xs) \<subseteq> insert (k, v) (set xs)"
  by (induction xs) auto

lemma spool_ok_update:
  "spool_ok dir \<Longrightarrow> complete_text (sf_content f) \<Longrightarrow> spool_ok (AList.update path f dir)"
  using set_update_subset[of path f dir] by (auto simp: spool_ok_def distinct_update)

lemma spool_ok_delete: "spool_ok dir \<Longrightarrow> spool_ok (AList.delete path dir)"
  by (auto simp: spool_ok_def AList.delete_eq distinct_map_filter)

lemma spool_ok_lookup: "spool_ok dir \<Longrightarrow> map_of dir path = Some f \<Longrightarrow> complete_text (sf_content f)"
  by (auto simp: spool_ok_def dest!: map_of_SomeD)

lemma spool_ok_rename: "spool_ok dir \<Longrightarrow> spool_ok (rename_file old new dir)"
  by (auto simp: rename_file_def spool_ok_update spool_ok_delete spool_ok_lookup split: option.split)

lemma complete_text_append: "complete_text a \<Longrightarrow> complete_text b \<Longrightarrow> complete_text (a @ b)"
  by (auto simp: complete_text_def last_append)

lemma complete_log_content: "spool_ok dir \<Longrightarrow> complete_text (log_content dir path)"
  by (auto simp: log_content_def spool_ok_lookup complete_text_def[of "[]"] split: option.split)

lemma spool_ok_append_text:
  "spool_ok dir \<Longrightarrow> complete_text text \<Longrightarrow> spool_ok (append_text path now text dir)"
  unfolding append_text_def
  by (rule spool_ok_update) (simp_all add: complete_text_append complete_log_content)

lemma complete_payload: "complete_text (payload_of print rec)"
  by (simp add: complete_text_def payload_of_def)

lemma rotate_log_ok:
  "spool_ok dir \<Longrightarrow> spool_ok (fst (snd (rotate_log F clk pid path dir prev_id)))"
  by (auto simp: rotate_log_def Let_def spool_ok_rename spool_ok_prune split: prod.split option.split)

lemma write_payload_ok:
  "spool_ok dir \<Longrightarrow> fault F Write_Log = None \<Longrightarrow>
     spool_ok (snd (write_payload F clk path (payload_of print rec) dir))"
  by (auto simp: write_payload_def spool_ok_append_text complete_payload split: option.split)

lemma append_to_with_limit_ok:
  assumes "spool_ok (unwrap_or dir [])" "fault F Write_Log = None"
  shows "spool_ok (unwrap_or (fst (snd (append_to_with_limit print F clk pid rec max_bytes dir prev_id))) [])"
proof -
  define d0 where "d0 = prune F (clk_prune_ms clk) (unwrap_or dir [])"
  have "spool_ok d0" unfolding d0_def using assms(1) by (rule spool_ok_prune)
  note steps = rotate_log_ok[OF this, of F clk pid "path_in (clk_path_ms clk)" prev_id]
    write_payload_ok[OF _ assms(2)]
  show ?thesis
    using assms(1) \<open>spool_ok d0\<close> steps
    by (auto simp: append_to_with_limit_def Let_def simp flip: d0_def
        split: option.split prod.split sum.split) (metis fst_conv snd_conv)+
qed

section \<open>Sizes\<close>

lemma utf8_bytes_append: "utf8_bytes (a @ b) = utf8_bytes a @ utf8_bytes b"
  by (simp add: utf8_bytes_def)

lemma path_in_digit: "\<exists>c rest. path_in now = ''events-'' @ c # rest \<and> is_ascii_digit c"
proof -
  have "show_word (now div 86400000) \<noteq> []" by (simp add: show_word_def)
  then obtain c rest where c: "show_word (now div 86400000) = c # rest" by (cases "show_word (now div 86400000)") auto
  then have "is_ascii_digit c" using show_nat_digits[of c "unat (now div 86400000)"]
    by (simp add: show_word_def)
  with c show ?thesis by (auto simp: path_in_def)
qed

lemma overflow_neq_path: "overflow_name rid \<noteq> path_in now"
proof
  assume "overflow_name rid = path_in now"
  with path_in_digit[of now] have "is_ascii_digit (CHR ''o'')" by (auto simp: overflow_name_def)
  then show False by (simp add: is_ascii_digit_def less_eq_char_def)
qed

lemma log_content_current_len: "current_len dir path = length (utf8_bytes (log_content dir path))"
  by (simp add: current_len_def log_content_def file_len_def split: option.split)

lemma utf8_bytes_eq_Nil: "utf8_bytes s = [] \<longleftrightarrow> s = []"
  by (cases s) (auto simp: utf8_char_def Let_def)

text \<open>After a rotation the day's log does not exist.\<close>

lemma map_of_filter_None: "map_of xs k = None \<Longrightarrow> map_of (filter P xs) k = None"
  by (auto simp: map_of_eq_None_iff)

lemma rotate_log_empties:
  assumes "rotate_log F clk pid (path_in now) dir prev_id = (Inr (), dir', prev_id')"
    and "map_of dir (path_in now) = Some f"
  shows "log_content dir' (path_in now) = []"
proof -
  obtain rid where "dir' = prune F (clk_prune_again_ms clk) (rename_file (path_in now) (overflow_name rid) dir)"
    using assms(1) by (auto simp: rotate_log_def Let_def split: prod.splits option.splits)
  moreover have "map_of (rename_file (path_in now) (overflow_name rid) dir) (path_in now) = None"
    using assms(2) overflow_neq_path[of rid now] by (simp add: rename_file_def update_conv' delete_conv')
  ultimately show ?thesis
    by (simp add: log_content_def prune_def map_of_filter_None)
qed

lemma append_text_content: "log_content (append_text path now text dir) path = log_content dir path @ text"
  by (simp add: append_text_def log_content_def update_conv')

text \<open>What a successful append leaves in the day's log.\<close>

lemma append_success:
  assumes "append_to_with_limit print F clk pid rec max_bytes dir prev_id = (Inr (), Some dir', prev_id')"
    and path: "path = path_in (clk_path_ms clk)"
  obtains old where "log_content dir' path = old @ payload_of print rec"
    "old = [] \<or> min (length (utf8_bytes (old @ payload_of print rec))) U64_MAX \<le> unat max_bytes"
proof -
  define d0 where "d0 = prune F (clk_prune_ms clk) (unwrap_or dir [])"
  define payload where "payload = payload_of print rec"
  show thesis
  proof (cases "must_rotate d0 path (length (utf8_bytes payload)) max_bytes")
    case True
    obtain d1 p1 where rot: "rotate_log F clk pid path d0 prev_id = (Inr (), d1, p1)"
      and dir': "dir' = append_text path (clk_write_ms clk) payload d1"
      using assms True
      by (auto simp: append_to_with_limit_def write_payload_def Let_def simp flip: d0_def payload_def
          split: option.splits prod.splits sum.splits)
    from True obtain f where "map_of d0 path = Some f"
      by (auto simp: must_rotate_def current_len_def split: option.splits)
    from rotate_log_empties[OF _ this[unfolded path]] rot path have "log_content d1 path = []" by blast
    then show thesis using that[of "[]"] dir' by (simp add: append_text_content payload_def)
  next
    case False
    have dir': "dir' = append_text path (clk_write_ms clk) payload d0"
      using assms False
      by (auto simp: append_to_with_limit_def write_payload_def Let_def simp flip: d0_def payload_def
          split: option.splits prod.splits sum.splits)
    then have "log_content dir' path = log_content d0 path @ payload" by (simp add: append_text_content)
    moreover have "log_content d0 path = [] \<or>
        min (length (utf8_bytes (log_content d0 path @ payload))) U64_MAX \<le> unat max_bytes"
      using False by (auto simp: must_rotate_def log_content_current_len utf8_bytes_eq_Nil utf8_bytes_append)
    ultimately show thesis using that unfolding payload_def by blast
  qed
qed

text \<open>An append to a spool that does not exist yet, where nothing fails.\<close>

definition no_faults :: Faults where
  "no_faults = \<lparr>fault = (\<lambda>_. None), stuck = (\<lambda>_. False), written = 0\<rparr>"

definition clock_zero :: Clock where
  "clock_zero = \<lparr>clk_record_ms = 0, clk_record_ns = 0, clk_prune_ms = 0, clk_path_ms = 0,
     clk_rotate_ns = 0, clk_prune_again_ms = 0, clk_write_ms = 0\<rparr>"

lemma first_append:
  "append_to (\<lambda>_. ''{}'') no_faults clock_zero 1 rec None 0 =
     (Inr (), Some [(path_in 0, \<lparr>sf_content = ''{}'' @ [newline], sf_modified = Some 0\<rparr>)], 0)"
  by (simp add: append_to_def append_to_with_limit_def no_faults_def clock_zero_def prune_def
      must_rotate_def current_len_def write_payload_def append_text_def log_content_def payload_of_def)

text \<open>
  C22: a log file never grows past the limit: after a successful append the day's file holds the
  new record at its end, and it is at most \<open>MAX_BYTES\<close> bytes long unless the record alone is
  longer; when the two do not fit together, the old file has been rotated away.
\<close>

theorem append_to_bounded:
  assumes "append_to print F clk pid rec dir prev_id = (Inr (), Some dir', prev_id')"
  shows "\<exists>old. log_content dir' (path_in (clk_path_ms clk)) = old @ payload_of print rec \<and>
    (old = [] \<or> length (utf8_bytes (old @ payload_of print rec)) \<le> unat MAX_BYTES)"
proof -
  obtain old where old: "log_content dir' (path_in (clk_path_ms clk)) = old @ payload_of print rec"
    "old = [] \<or> min (length (utf8_bytes (old @ payload_of print rec))) U64_MAX \<le> unat MAX_BYTES"
    using append_success[OF assms[unfolded append_to_def] refl] by blast
  then show ?thesis by (auto simp: MAX_BYTES_def U64_MAX_def min_def split: if_splits)
qed

lemma append_to_bounded_witness:
  "\<exists>old. log_content [(path_in 0, \<lparr>sf_content = ''{}'' @ [newline], sf_modified = Some 0\<rparr>)]
       (path_in (clk_path_ms clock_zero)) = old @ payload_of (\<lambda>_. ''{}'') (agent_record 0 ''a'' ''info'' ''m'') \<and>
     (old = [] \<or> length (utf8_bytes (old @ payload_of (\<lambda>_. ''{}'') (agent_record 0 ''a'' ''info'' ''m''))) \<le>
        unat MAX_BYTES)"
  by (rule append_to_bounded[OF first_append])

text \<open>
  C27: appending keeps the spool well formed, on success and on every error but a partial write:
  file names stay distinct and each file ends with a complete line.
\<close>

theorem append_record_keeps_spool:
  assumes "spool_ok (unwrap_or dir [])" "fault F Write_Log = None"
  shows "spool_ok (unwrap_or (fst (snd
    (append_record print poisoned state_dir F clk pid rec dir prev_id))) [])"
  using append_to_with_limit_ok[OF assms] assms(1)
  by (auto simp: append_record_def append_to_def split: sum.split)

lemma append_record_keeps_spool_witness:
  "spool_ok (unwrap_or (fst (snd (append_record (\<lambda>_. ''{}'') False (Inr ''/state'') no_faults clock_zero 1
     (agent_record 0 ''a'' ''info'' ''m'') None 0))) [])"
  by (rule append_record_keeps_spool) (simp_all add: spool_ok_def no_faults_def)

end
