(* ===== verification/Log_Query.thy ===== *)
theory Log_Query
  imports Log_Append "HOL-Library.Multiset"
begin

text \<open>
  Reading the log spool (\<open>src/logs.rs\<close>): \<open>query\<close>, \<open>query_in\<close>, the order of records and the
  cursors. \<open>parse\<close> is \<open>serde_json\<close>'s parser. The locale \<open>paged\<close> is what a client that follows
  the cursors relies on.
\<close>

section \<open>The order of records\<close>

datatype record_key = Record_Key u64 string

text \<open>Newest first: the later time, then the larger id.\<close>

instantiation record_key :: linorder
begin

fun less_eq_record_key :: "record_key \<Rightarrow> record_key \<Rightarrow> bool" where
  "Record_Key t i \<le> Record_Key t' i' \<longleftrightarrow> t' < t \<or> (t = t' \<and> i' \<le> i)"

definition less_record_key :: "record_key \<Rightarrow> record_key \<Rightarrow> bool" where
  "less_record_key a b \<longleftrightarrow> a \<le> b \<and> \<not> b \<le> (a :: record_key)"

instance
proof
  fix x y z :: record_key
  show "(x < y) = (x \<le> y \<and> \<not> y \<le> x)" by (rule less_record_key_def)
  show "x \<le> x" by (cases x) simp
  show "x \<le> y \<Longrightarrow> y \<le> z \<Longrightarrow> x \<le> z" by (cases x; cases y; cases z) auto
  show "x \<le> y \<Longrightarrow> y \<le> x \<Longrightarrow> x = y" by (cases x; cases y) auto
  show "x \<le> y \<or> y \<le> x" by (cases x; cases y) auto
qed

end

lemma less_Record_Key: "Record_Key t i < Record_Key t' i' \<longleftrightarrow> t' < t \<or> (t = t' \<and> i' < i)"
  by (auto simp: less_record_key_def)

definition record_key :: "Record \<Rightarrow> record_key" where
  "record_key r = Record_Key (rec_timestamp r) (rec_id r)"

datatype ordering = Less | Equal | Greater

definition cmp :: "'a::linorder \<Rightarrow> 'a \<Rightarrow> ordering" where
  "cmp a b = (if a < b then Less else if a = b then Equal else Greater)"

definition compare_records_newest_first :: "Record \<Rightarrow> Record \<Rightarrow> ordering" where
  "compare_records_newest_first left right =
     (case cmp (rec_timestamp right) (rec_timestamp left) of
        Equal \<Rightarrow> cmp (rec_id right) (rec_id left)
      | c \<Rightarrow> c)"

lemma compare_records_key:
  "compare_records_newest_first l r = cmp (record_key l) (record_key r)"
  by (auto simp: compare_records_newest_first_def cmp_def record_key_def less_Record_Key)

text \<open>
  \<open>sort_unstable_by\<close>: sorted by that comparison. Records of equal keys may end up in any order;
  for distinct keys the result is determined.
\<close>

definition sort_newest_first :: "Record list \<Rightarrow> Record list" where
  "sort_newest_first records = sort_key record_key records"

section \<open>Reading the files\<close>

definition jsonl_file :: "string \<Rightarrow> bool" where
  "jsonl_file name \<longleftrightarrow> ends_with name ''.jsonl'' \<and> name \<noteq> ''.jsonl''"

definition parse_records :: "(string \<Rightarrow> json option) \<Rightarrow> string \<Rightarrow> Record list" where
  "parse_records parse content = List.map_filter (\<lambda>l. Option.bind (parse l) de_Record) (lines content)"

definition matches :: "string option \<Rightarrow> string option \<Rightarrow> Record \<Rightarrow> bool" where
  "matches scope resource_id r \<longleftrightarrow>
     \<not> ((case scope of None \<Rightarrow> False | Some v \<Rightarrow> rec_scope r \<noteq> v) \<or>
        (case resource_id of None \<Rightarrow> False
         | Some v \<Rightarrow> rec_resource_id r \<noteq> Some v \<and> rec_job_id r \<noteq> Some v))"

text \<open>\<open>unreadable\<close> gives the error of opening or reading a file, None if it is read.\<close>

definition read_records ::
  "(string \<Rightarrow> json option) \<Rightarrow> (string \<Rightarrow> anyhow option) \<Rightarrow> string option \<Rightarrow> string option \<Rightarrow>
     SpoolDir \<Rightarrow> Record list result" where
  "read_records parse unreadable scope resource_id dir =
     and_then
       (traverse (\<lambda>nf. case unreadable (fst nf) of
            Some e \<Rightarrow> Inl e
          | None \<Rightarrow> Inr (filter (matches scope resource_id) (parse_records parse (sf_content (snd nf)))))
          (filter (\<lambda>nf. jsonl_file (fst nf)) dir))
       (\<lambda>rs. Inr (concat rs))"

section \<open>Cursors and pages\<close>

definition encode_cursor :: "Record \<Rightarrow> string" where
  "encode_cursor r = show_word (rec_timestamp r) @ ''|'' @ rec_id r"

definition decode_cursor :: "string \<Rightarrow> (u64 \<times> string) option" where
  "decode_cursor cursor = do {
     (timestamp, rid) \<leftarrow> split_once ''|'' cursor;
     t \<leftarrow> parse_word timestamp;
     Some (t, rid) }"

definition after_cursor :: "string option \<Rightarrow> Record list \<Rightarrow> Record list" where
  "after_cursor cursor records =
     (case cursor of
        None \<Rightarrow> records
      | Some c \<Rightarrow>
          (case decode_cursor c of
             Some (timestamp, rid) \<Rightarrow>
               filter (\<lambda>r. rec_timestamp r < timestamp \<or> (rec_timestamp r = timestamp \<and> rec_id r < rid)) records
           | None \<Rightarrow>
               if (\<exists>r \<in> set records. rec_id r = c)
               then tl (dropWhile (\<lambda>r. rec_id r \<noteq> c) records) else records))"

definition clamp_limit :: "u64 \<Rightarrow> nat" where
  "clamp_limit limit = unat (min (max limit 1) 500)"

definition page_of :: "u64 \<Rightarrow> string option \<Rightarrow> Record list \<Rightarrow> Record list \<times> string option" where
  "page_of limit cursor records =
     (let records = after_cursor cursor (sort_newest_first records);
          limit = clamp_limit limit;
          has_more = limit < length records;
          records = take limit records
      in (records, if has_more then (case records of [] \<Rightarrow> None | _ \<Rightarrow> Some (encode_cursor (last records)))
                   else None))"

definition query_in ::
  "(string \<Rightarrow> json option) \<Rightarrow> anyhow option \<Rightarrow> (string \<Rightarrow> anyhow option) \<Rightarrow> SpoolDir option \<Rightarrow>
     string option \<Rightarrow> string option \<Rightarrow> string option \<Rightarrow> u64 \<Rightarrow> (Record list \<times> string option) result" where
  "query_in parse read_dir_fault unreadable dir scope resource_id cursor limit =
     (case dir of
        None \<Rightarrow> Inr ([], None)
      | Some d \<Rightarrow>
          (case read_dir_fault of
             Some e \<Rightarrow> Inl e
           | None \<Rightarrow>
               and_then (read_records parse unreadable scope resource_id d)
                 (\<lambda>records. Inr (page_of limit cursor records))))"

definition query_spool ::
  "(string \<Rightarrow> json option) \<Rightarrow> bool \<Rightarrow> string result \<Rightarrow> anyhow option \<Rightarrow> (string \<Rightarrow> anyhow option) \<Rightarrow>
     SpoolDir option \<Rightarrow> string option \<Rightarrow> string option \<Rightarrow> string option \<Rightarrow> u64 \<Rightarrow>
     (Record list \<times> string option) result" where
  "query_spool parse poisoned state_dir read_dir_fault unreadable dir scope resource_id cursor limit =
     (if poisoned then bail ''agent log spool lock is poisoned''
      else case state_dir of
          Inl e \<Rightarrow> Inl e
        | Inr _ \<Rightarrow> query_in parse read_dir_fault unreadable dir scope resource_id cursor limit)"

lemma decode_encode_cursor: "decode_cursor (encode_cursor r) = Some (rec_timestamp r, rec_id r)"
proof -
  have "CHR ''|'' \<notin> set (show_word (rec_timestamp r))"
    using show_nat_digits[of "CHR ''|''" "unat (rec_timestamp r)"]
    by (auto simp: show_word_def is_ascii_digit_def less_eq_char_def)
  then have "split_once ''|'' (encode_cursor r) = Some (show_word (rec_timestamp r), rec_id r)"
    using split_once_single_append[of "CHR ''|''" "show_word (rec_timestamp r)" "rec_id r"]
    by (simp add: encode_cursor_def)
  then show ?thesis by (simp add: decode_cursor_def)
qed

lemma clamp_limit_bounds: "0 < clamp_limit limit" "clamp_limit limit \<le> 500"
proof -
  have "1 \<le> min (max limit 1) (500 :: u64)" "min (max limit 1) (500 :: u64) \<le> 500"
    by (simp_all add: le_max_iff_disj)
  then show "0 < clamp_limit limit" "clamp_limit limit \<le> 500"
    unfolding clamp_limit_def word_le_nat_alt by simp_all
qed

section \<open>Following the cursors\<close>

text \<open>A client that asks for pages until there is no next cursor; fuel bounds the number of pages.\<close>

fun follow :: "('c option \<Rightarrow> 'a list \<times> 'c option) \<Rightarrow> nat \<Rightarrow> 'c option \<Rightarrow> 'a list option" where
  "follow ask 0 c = None"
| "follow ask (Suc n) c =
     (case ask c of
        (p, None) \<Rightarrow> Some p
      | (p, Some c') \<Rightarrow> map_option ((@) p) (follow ask n (Some c')))"

locale paged =
  fixes ask :: "'c option \<Rightarrow> 'a list \<times> 'c option" and rest :: "'c option \<Rightarrow> 'a list"
  assumes last_page: "ask c = (p, None) \<Longrightarrow> rest c = p"
    and inner_page: "ask c = (p, Some c') \<Longrightarrow> p \<noteq> [] \<and> rest c = p @ rest (Some c')"
begin

lemma follow_complete: "length (rest c) < n \<Longrightarrow> follow ask n c = Some (rest c)"
proof (induction n arbitrary: c)
  case (Suc n)
  obtain p c' where ask: "ask c = (p, c')" by (cases "ask c")
  show ?case
  proof (cases c')
    case None
    with ask show ?thesis using last_page[of c p] by simp
  next
    case (Some d)
    with ask have "p \<noteq> []" "rest c = p @ rest (Some d)" using inner_page[of c p d] by simp_all
    moreover from this Suc.prems have "length (rest (Some d)) < n" by (cases p) auto
    ultimately show ?thesis using ask Some Suc.IH[of "Some d"] by simp
  qed
qed simp

lemma follow_enough: "\<exists>n. follow ask n c = Some (rest c)"
  using follow_complete by blast

end

text \<open>Records with pairwise distinct keys: of several with the same key, the first.\<close>

fun distinct_records :: "Record list \<Rightarrow> Record list" where
  "distinct_records [] = []"
| "distinct_records (r # rs) = r # filter (\<lambda>x. record_key x \<noteq> record_key r) (distinct_records rs)"

lemma distinct_distinct_records: "distinct (map record_key (distinct_records rs))"
  by (induction rs) (auto simp: distinct_map_filter)

lemma distinct_records_id: "distinct (map record_key rs) \<Longrightarrow> distinct_records rs = rs"
proof (induction rs)
  case (Cons r rs)
  then have "filter (\<lambda>x. record_key x \<noteq> record_key r) rs = rs"
    by (auto simp: filter_id_conv image_iff)
  with Cons show ?case by simp
qed simp

abbreviation newer :: "Record \<Rightarrow> Record \<Rightarrow> bool" where
  "newer a b \<equiv> record_key a < record_key b"

lemma sort_newest_strict:
  assumes "distinct (map record_key rs)"
  shows "sorted_wrt newer (sort_newest_first rs)"
proof -
  have "sorted (map record_key (sort_newest_first rs))" by (simp add: sort_newest_first_def)
  moreover have "distinct (map record_key (sort_newest_first rs))"
    using assms by (metis distinct_map mset_eq_imp_distinct_iff mset_map mset_sort sort_newest_first_def)
  ultimately have "sorted_wrt (<) (map record_key (sort_newest_first rs))"
    by (simp add: strict_sorted_iff)
  then show ?thesis by (simp add: sorted_wrt_map)
qed

text \<open>In a strictly sorted list, what a cursor leaves is a suffix.\<close>

lemma filter_newer_suffix:
  assumes "sorted_wrt newer rs"
  shows "suffix (filter (\<lambda>r. k < record_key r) rs) rs"
  using assms
proof (induction rs)
  case (Cons r rs)
  show ?case
  proof (cases "k < record_key r")
    case True
    with Cons.prems have "\<forall>x \<in> set rs. k < record_key x" by (auto intro: less_trans)
    with True show ?thesis by simp
  next
    case False
    with Cons show ?thesis by (simp add: suffix_ConsI)
  qed
qed simp

lemma tl_dropWhile_suffix: "suffix (tl (dropWhile P rs)) rs"
  using suffix_dropWhile suffix_tl suffix_order.order_trans by blast

lemma after_cursor_suffix:
  assumes "sorted_wrt newer rs"
  shows "suffix (after_cursor c rs) rs"
proof (cases c)
  case None
  then show ?thesis by (simp add: after_cursor_def)
next
  case (Some d)
  show ?thesis
  proof (cases "decode_cursor d")
    case None
    with Some show ?thesis by (simp add: after_cursor_def tl_dropWhile_suffix)
  next
    case (Some tr)
    obtain t i where tr: "tr = (t, i)" by (cases tr)
    have "after_cursor c rs = filter (\<lambda>r. Record_Key t i < record_key r) rs"
      using \<open>c = Some d\<close> Some tr by (simp add: after_cursor_def record_key_def less_Record_Key eq_commute)
    with filter_newer_suffix[OF assms] show ?thesis by simp
  qed
qed

lemma after_encoded_cursor:
  "after_cursor (Some (encode_cursor x)) rs = filter (newer x) rs"
  by (simp add: after_cursor_def decode_encode_cursor record_key_def less_Record_Key eq_commute)

lemma filter_after_suffix:
  assumes "sorted_wrt newer rs" "suffix us rs" "0 < n" "n \<le> length us"
  shows "filter (newer (last (take n us))) rs = drop n us"
proof -
  obtain vs where rs: "rs = vs @ us" using assms(2) by (auto simp: suffix_def)
  have us: "us = take n us @ drop n us" by simp
  have ne: "take n us \<noteq> []" using assms(3,4) by auto
  define x where "x = last (take n us)"
  have x: "take n us = butlast (take n us) @ [x]" using ne by (simp add: x_def)
  have "rs = vs @ butlast (take n us) @ [x] @ drop n us" using rs us x by (metis append.assoc)
  moreover from this assms(1)
  have "\<forall>r \<in> set vs \<union> set (butlast (take n us)). newer r x" "\<forall>r \<in> set (drop n us). newer x r"
    by (auto simp: sorted_wrt_append)
  ultimately have "filter (newer x) rs = drop n us"
    by (auto simp: filter_empty_conv intro: less_asym' less_imp_not_less)
  then show ?thesis by (simp add: x_def)
qed

interpretation record_pages: paged "\<lambda>c. page_of limit c (distinct_records rs)"
  "\<lambda>c. after_cursor c (sort_newest_first (distinct_records rs))" for limit rs
proof
  fix c p
  define s where "s = sort_newest_first (distinct_records rs)"
  define r where "r = after_cursor c s"
  define n where "n = clamp_limit limit"
  have n: "0 < n" unfolding n_def by (rule clamp_limit_bounds)
  have sorted: "sorted_wrt newer s"
    unfolding s_def by (rule sort_newest_strict) (rule distinct_distinct_records)
  have page: "page_of limit c (distinct_records rs) =
      (take n r, if n < length r then Some (encode_cursor (last (take n r))) else None)"
    using n by (auto simp: page_of_def Let_def n_def r_def s_def split: list.split)
  show "after_cursor c s = p" if "page_of limit c (distinct_records rs) = (p, None)"
    using that page by (simp add: r_def split: if_splits)
  show "p \<noteq> [] \<and> after_cursor c s = p @ after_cursor (Some c') s"
    if "page_of limit c (distinct_records rs) = (p, Some c')" for c'
  proof -
    from that page have len: "n < length r" and p: "p = take n r" and c': "c' = encode_cursor (last (take n r))"
      by (auto split: if_splits)
    have "filter (newer (last (take n r))) s = drop n r"
      using len n by (intro filter_after_suffix[OF sorted]) (simp_all add: r_def after_cursor_suffix[OF sorted])
    then have "after_cursor (Some c') s = drop n r" by (simp add: c' after_encoded_cursor)
    moreover have "p \<noteq> []" using p len n by auto
    ultimately show ?thesis using p by (simp flip: r_def)
  qed
qed

section \<open>What a query returns\<close>

lemma read_records_set:
  assumes "read_records parse unreadable scope resource_id d = Inr records"
  shows "records = concat (map (\<lambda>nf. filter (matches scope resource_id) (parse_records parse (sf_content (snd nf))))
    (filter (\<lambda>nf. jsonl_file (fst nf)) d))"
proof -
  have "traverse (\<lambda>nf. case unreadable (fst nf) of
            Some e \<Rightarrow> Inl e
          | None \<Rightarrow> Inr (filter (matches scope resource_id) (parse_records parse (sf_content (snd nf))))) fs
      = Inr rs \<Longrightarrow>
      rs = map (\<lambda>nf. filter (matches scope resource_id) (parse_records parse (sf_content (snd nf)))) fs"
    for fs rs
    by (induction fs arbitrary: rs) (auto simp: and_then_eq_Inr split: option.splits)
  with assms show ?thesis by (auto simp: read_records_def and_then_eq_Inr)
qed

lemma sorted_wrt_suffix: "sorted_wrt P xs \<Longrightarrow> suffix ys xs \<Longrightarrow> sorted_wrt P ys"
  by (auto simp: suffix_def sorted_wrt_append)

lemma after_cursor_sublist: "set (after_cursor c rs) \<subseteq> set rs"
  by (auto simp: after_cursor_def split: option.split
      dest: set_mono_suffix[OF tl_dropWhile_suffix, THEN subsetD])

lemma sorted_wrt_filter_pred: "sorted_wrt P xs \<Longrightarrow> sorted_wrt P (filter Q xs)"
  by (induction xs) auto

lemma after_cursor_sorted: "sorted_wrt P rs \<Longrightarrow> sorted_wrt P (after_cursor c rs)"
proof -
  assume P: "sorted_wrt P rs"
  with tl_dropWhile_suffix sorted_wrt_suffix have "sorted_wrt P (tl (dropWhile Q rs))" for Q by blast
  with P show ?thesis
    by (auto simp: after_cursor_def sorted_wrt_filter_pred split: option.split)
qed

text \<open>
  What one query returns: at most 500 records, newest first (time, then id), each of them
  one of the records in the spool that match the scope and the resource.
\<close>

theorem query_in_sound:
  assumes "read_records parse unreadable scope resource_id d = Inr stored"
    and "query_in parse None unreadable (Some d) scope resource_id cursor limit = Inr (page, next_cursor)"
  shows "length page \<le> 500 \<and> sorted_wrt (\<lambda>a b. record_key a \<le> record_key b) page \<and>
    set page \<subseteq> set stored \<and> list_all (matches scope resource_id) page"
proof -
  define r where "r = after_cursor cursor (sort_newest_first stored)"
  have page: "page = take (clamp_limit limit) r"
    using assms by (auto simp: query_in_def page_of_def Let_def r_def)
  have "sorted_wrt (\<lambda>a b. record_key a \<le> record_key b) (sort_newest_first stored)"
    using sorted_sort_key[of record_key stored] by (simp add: sort_newest_first_def sorted_map)
  then have "sorted_wrt (\<lambda>a b. record_key a \<le> record_key b) page"
    unfolding page r_def by (intro sorted_wrt_take after_cursor_sorted)
  moreover have sub: "set page \<subseteq> set stored"
    using after_cursor_sublist[of cursor "sort_newest_first stored"] set_take_subset
    unfolding page r_def sort_newest_first_def by fastforce
  moreover have "list_all (matches scope resource_id) page"
    using sub read_records_set[OF assms(1)] by (auto simp: list_all_iff)
  moreover have "length page \<le> 500" using clamp_limit_bounds(2)[of limit] by (simp add: page)
  ultimately show ?thesis by simp
qed

text \<open>A spool of two records, for the witnesses.\<close>

definition example_spool :: SpoolDir where
  "example_spool = [(''events-1.jsonl'', \<lparr>sf_content = ''a'' @ [newline] @ ''b'' @ [newline], sf_modified = None\<rparr>)]"

definition example_parse :: "string \<Rightarrow> json option" where
  "example_parse l = Some (en_Record (agent_record (if l = ''a'' then 1 else 2) l ''info'' l))"

lemma example_lines: "lines (''a'' @ [newline] @ ''b'' @ [newline]) = [''a'', ''b'']"
  by (simp add: lines_def strip_cr_def strip_suffix_def suffix_def Cons_eq_append_conv)

lemma example_records:
  "read_records example_parse (\<lambda>_. None) (Some ''agent'') None example_spool =
     Inr [agent_record 1 ''a'' ''info'' ''a'', agent_record 2 ''b'' ''info'' ''b'']"
  unfolding read_records_def example_spool_def parse_records_def
  by (simp add: jsonl_file_def ends_with_def suffix_def example_lines[simplified] example_parse_def
      Record_codec.dec_enc List.map_filter_simps matches_def agent_record_def)

lemma query_in_sound_witness:
  "length (fst (page_of 1 None [agent_record 1 ''a'' ''info'' ''a'', agent_record 2 ''b'' ''info'' ''b''])) \<le> 500"
  using query_in_sound[OF example_records, of None 1
      "fst (page_of 1 None [agent_record 1 ''a'' ''info'' ''a'', agent_record 2 ''b'' ''info'' ''b''])"
      "snd (page_of 1 None [agent_record 1 ''a'' ''info'' ''a'', agent_record 2 ''b'' ''info'' ''b''])"]
  by (simp add: query_in_def example_records)

lemma query_pages:
  assumes "read_records parse unreadable scope resource_id d = Inr stored"
    and "distinct (map record_key stored)"
    and "length stored < n"
  shows "follow (\<lambda>c. projr (query_in parse None unreadable (Some d) scope resource_id c limit)) n None =
    Some (sort_newest_first stored)"
proof -
  have "(\<lambda>c. projr (query_in parse None unreadable (Some d) scope resource_id c limit)) =
      (\<lambda>c. page_of limit c (distinct_records stored))"
    using assms(1,2) by (simp add: query_in_def distinct_records_id)
  moreover have "length (after_cursor None (sort_newest_first (distinct_records stored))) < n"
    using assms(2,3) by (simp add: after_cursor_def distinct_records_id sort_newest_first_def)
  ultimately show ?thesis
    using record_pages.follow_complete[where rs = stored and c = None and n = n and limit = limit] assms(2)
    by (simp add: after_cursor_def distinct_records_id)
qed

text \<open>
  C2: paging loses and repeats nothing: a client that starts without a cursor and passes each
  answer's cursor to the next query ends, after at most one page more than there are records,
  with exactly the matching records in order, whatever the page size it asks for, provided no
  two of them share time and id (as \<open>next_record_id\<close> makes sure within a process).
\<close>

theorem pagination_complete:
  assumes "read_records parse unreadable scope resource_id d = Inr stored"
    and "distinct (map record_key stored)"
    and "length stored < n"
  shows "follow (\<lambda>c. projr (query_in parse None unreadable (Some d) scope resource_id c limit)) n None =
    Some (sort_newest_first stored)"
  using assms by (rule query_pages)

lemma pagination_complete_witness:
  "follow (\<lambda>c. projr (query_in example_parse None (\<lambda>_. None) (Some example_spool) (Some ''agent'') None c 1)) 3 None =
     Some (sort_newest_first [agent_record 1 ''a'' ''info'' ''a'', agent_record 2 ''b'' ''info'' ''b''])"
  by (rule pagination_complete[OF example_records]) (simp_all add: record_key_def agent_record_def)

end
