(* ===== verification/Log_Store.thy ===== *)
theory Log_Store
  imports Log_Query
begin

text \<open>
  The spool's abstract contract: a bag of records. Appending to the directory of files (with its
  pruning, rotation and JSON lines) adds one record to the bag and a query reads the bag back.
\<close>

section \<open>From files to a bag of records\<close>

definition file_records :: "(string \<Rightarrow> json option) \<Rightarrow> string \<times> SpoolFile \<Rightarrow> Record list" where
  "file_records parse nf = (if jsonl_file (fst nf) then parse_records parse (sf_content (snd nf)) else [])"

definition spool_bag :: "(string \<Rightarrow> json option) \<Rightarrow> SpoolDir \<Rightarrow> Record multiset" where
  "spool_bag parse dir = (\<Sum>nf \<in># mset dir. mset (file_records parse nf))"

text \<open>\<open>serde_json\<close> as the spool uses it: a printed record has no line breaks and reads back.\<close>

definition json_line :: "(json \<Rightarrow> string) \<Rightarrow> (string \<Rightarrow> json option) \<Rightarrow> json \<Rightarrow> bool" where
  "json_line print parse v \<longleftrightarrow>
     parse (print v) = Some v \<and> newline \<notin> set (print v) \<and> carriage_return \<notin> set (print v)"

lemma lines_complete_append:
  assumes "complete_text c" "newline \<notin> set s" "carriage_return \<notin> set s"
  shows "lines (c @ s @ [newline]) = lines c @ [s]"
proof -
  define P where "P = (\<lambda>ch. ch = newline)"
  have s: "split_on P s = [s]" using assms(2) by (intro split_on_no_match) (auto simp: P_def)
  then have s_nl: "split_on P (s @ [newline]) = [s, []]"
    using split_on_append_at[of P newline s "[]"] by (simp add: P_def)
  have cr: "strip_cr s = s"
    using assms(3) by (auto simp: strip_cr_def strip_suffix_def suffix_def)
  show ?thesis
  proof (cases "c = []")
    case True
    then show ?thesis using s_nl cr by (simp add: lines_def P_def)
  next
    case False
    with assms(1) obtain c' where c: "c = c' @ [newline]"
      unfolding complete_text_def by (metis append_butlast_last_id)
    have "split_on P c = split_on P c' @ [[]]"
      using split_on_append_at[of P newline c' "[]"] by (simp add: c P_def)
    moreover have "split_on P (c @ s @ [newline]) = split_on P c' @ [s, []]"
      using split_on_append_at[of P newline c' "s @ [newline]"] s_nl by (simp add: c P_def)
    ultimately show ?thesis using cr by (simp add: lines_def P_def butlast_append)
  qed
qed

lemma parse_records_append:
  assumes "complete_text c" "json_line print parse (en_Record rec)"
  shows "parse_records parse (c @ payload_of print rec) = parse_records parse c @ [rec]"
  using assms(2)
  by (simp add: parse_records_def payload_of_def lines_complete_append[OF assms(1)] json_line_def
      List.map_filter_def Record_codec.dec_enc)

section \<open>What the directory operations do to the bag\<close>

lemma mset_delete:
  "distinct (map fst dir) \<Longrightarrow> map_of dir k = Some f \<Longrightarrow>
     mset dir = add_mset (k, f) (mset (AList.delete k dir))"
proof (induction dir)
  case (Cons kv dir)
  show ?case
  proof (cases "fst kv = k")
    case True
    with Cons.prems have "AList.delete k dir = dir"
      by (auto simp: AList.delete_eq filter_id_conv image_iff)
    with True Cons.prems show ?thesis by (cases kv) auto
  next
    case False
    with Cons show ?thesis by (cases kv) auto
  qed
qed simp

lemma mset_update:
  "distinct (map fst dir) \<Longrightarrow> mset (AList.update k f dir) = add_mset (k, f) (mset (AList.delete k dir))"
proof (induction dir)
  case (Cons kv dir)
  show ?case
  proof (cases "fst kv = k")
    case True
    with Cons.prems have "AList.delete k dir = dir"
      by (auto simp: AList.delete_eq filter_id_conv image_iff)
    with True Cons.prems show ?thesis by (cases kv) auto
  next
    case False
    with Cons show ?thesis by (cases kv) auto
  qed
qed simp

lemma delete_absent: "map_of dir k = None \<Longrightarrow> AList.delete k dir = dir"
  by (induction dir) (auto split: if_splits)

lemma spool_bag_mset: "mset dir = mset dir' \<Longrightarrow> spool_bag parse dir = spool_bag parse dir'"
  by (simp add: spool_bag_def)

lemma spool_bag_insert:
  "mset dir = add_mset nf (mset dir') \<Longrightarrow>
     spool_bag parse dir = mset (file_records parse nf) + spool_bag parse dir'"
  by (simp add: spool_bag_def)

lemma jsonl_names: "jsonl_file (path_in now)" "jsonl_file (overflow_name rid)"
  by (simp_all add: jsonl_file_def path_in_def overflow_name_def ends_with_def suffix_def)

text \<open>Appending text to the day's file, and a record's line.\<close>

lemma append_text_bag_gen:
  assumes d: "distinct (map fst dir)"
  shows "spool_bag parse (append_text (path_in now) t raw dir) + mset (parse_records parse (log_content dir (path_in now))) =
    mset (parse_records parse (log_content dir (path_in now) @ raw)) + spool_bag parse dir"
proof -
  define k where "k = path_in now"
  have new: "spool_bag parse (append_text k t raw dir) =
      mset (parse_records parse (log_content dir k @ raw)) + spool_bag parse (AList.delete k dir)"
    unfolding append_text_def spool_bag_insert[OF mset_update[OF d]]
    using jsonl_names(1)[of now] by (simp add: file_records_def k_def)
  show ?thesis
  proof (cases "map_of dir k")
    case None
    then have "log_content dir k = []" "AList.delete k dir = dir"
      by (simp_all add: log_content_def delete_absent)
    with new show ?thesis by (simp add: k_def parse_records_def lines_def List.map_filter_def)
  next
    case (Some f)
    then have "spool_bag parse dir = mset (parse_records parse (log_content dir k)) + spool_bag parse (AList.delete k dir)"
      using jsonl_names(1)[of now] spool_bag_insert[OF mset_delete[OF d Some]]
      by (simp add: file_records_def k_def log_content_def)
    with new show ?thesis by (simp add: k_def)
  qed
qed

lemma append_text_bag:
  assumes ok: "spool_ok dir" and json: "json_line print parse (en_Record rec)"
  shows "spool_bag parse (append_text (path_in now) t (payload_of print rec) dir) =
    add_mset rec (spool_bag parse dir)"
  using append_text_bag_gen[of dir parse now t "payload_of print rec"] ok
  by (simp add: parse_records_append[OF complete_log_content[OF ok] json] spool_ok_def)

lemma append_nothing_bag:
  "spool_ok dir \<Longrightarrow> spool_bag parse (append_text (path_in now) t [] dir) = spool_bag parse dir"
  using append_text_bag_gen[of dir parse now t "[]"] by (simp add: spool_ok_def)

text \<open>Renaming the full log to a fresh name.\<close>

lemma rename_bag:
  assumes "distinct (map fst dir)" "map_of dir (overflow_name rid) = None"
  shows "spool_bag parse (rename_file (path_in now) (overflow_name rid) dir) = spool_bag parse dir"
proof (cases "map_of dir (path_in now)")
  case None
  then show ?thesis by (simp add: rename_file_def)
next
  case (Some f)
  define d1 where "d1 = AList.delete (path_in now) dir"
  have "distinct (map fst d1)" using assms(1) by (simp add: d1_def AList.delete_eq distinct_map_filter)
  moreover have "map_of d1 (overflow_name rid) = None"
    using assms(2) by (simp add: d1_def delete_conv' overflow_neq_path)
  ultimately have "mset (AList.update (overflow_name rid) f d1) = add_mset (overflow_name rid, f) (mset d1)"
    by (simp add: mset_update delete_absent)
  then show ?thesis
    using Some spool_bag_insert[OF mset_delete[OF assms(1) Some], of parse]
    by (simp add: rename_file_def spool_bag_def file_records_def jsonl_names flip: d1_def)
qed

section \<open>Retention\<close>

text \<open>
  The retention of seven days, in numbers: a file of the spool expires when its last change lies
  more than 604800000 milliseconds back. A file that cannot be removed survives its expiry.
\<close>

definition expired_at :: "u64 \<Rightarrow> string \<times> SpoolFile \<Rightarrow> bool" where
  "expired_at now nf \<longleftrightarrow> prefix ''events-'' (fst nf) \<and>
     (case sf_modified (snd nf) of None \<Rightarrow> False | Some t \<Rightarrow> unat t + 604800000 < unat now)"

lemma aged_out_expired: "aged_out now nf \<longleftrightarrow> expired_at now nf"
proof -
  have "unat RETENTION_MS = 604800000" by (simp add: RETENTION_MS_def)
  then have "t < saturating_sub now RETENTION_MS \<longleftrightarrow> unat t + 604800000 < unat now" for t
    by (simp add: word_less_nat_alt unat_saturating_sub) arith
  then show ?thesis
    by (simp add: aged_out_def expired_at_def starts_with_def split: option.splits)
qed

lemma prune_filter: "prune F now dir = filter (\<lambda>nf. \<not> expired_at now nf \<or> stuck F (fst nf)) dir"
  by (simp add: prune_def aged_out_expired)

text \<open>
  The files an append leaves: those that its pruning at the beginning spares and, when the log was
  rotated, those that the second pruning spares, which finds the day's log under its new name.
\<close>

definition retained :: "Faults \<Rightarrow> Clock \<Rightarrow> string \<Rightarrow> bool \<Rightarrow> SpoolDir \<Rightarrow> SpoolDir" where
  "retained F clk new_name rotated dir = filter (\<lambda>nf.
     (\<not> expired_at (clk_prune_ms clk) nf \<or> stuck F (fst nf)) \<and>
     (rotated \<longrightarrow> \<not> expired_at (clk_prune_again_ms clk) nf \<or>
        stuck F (if fst nf = path_in (clk_path_ms clk) then new_name else fst nf))) dir"

lemma expired_names:
  "expired_at now (path_in t, f) \<longleftrightarrow> expired_at now (''events-'', f)"
  "expired_at now (overflow_name rid, f) \<longleftrightarrow> expired_at now (''events-'', f)"
  by (simp_all add: expired_at_def path_in_def overflow_name_def)

lemma spool_bag_filter:
  "spool_bag parse (filter P dir) = (\<Sum>nf \<in># filter_mset P (mset dir). mset (file_records parse nf))"
  by (simp add: spool_bag_def)

lemma rename_prune_bag:
  assumes d: "distinct (map fst dir)" and fresh: "map_of dir (overflow_name rid) = None"
  shows "spool_bag parse (prune F now (rename_file (path_in t) (overflow_name rid) dir)) =
    spool_bag parse (filter (\<lambda>nf. \<not> expired_at now nf \<or>
      stuck F (if fst nf = path_in t then overflow_name rid else fst nf)) dir)"
proof (cases "map_of dir (path_in t)")
  case None
  then have "\<forall>nf \<in> set dir. fst nf \<noteq> path_in t" by (force simp: map_of_eq_None_iff)
  then have "prune F now dir = filter (\<lambda>nf. \<not> expired_at now nf \<or>
      stuck F (if fst nf = path_in t then overflow_name rid else fst nf)) dir"
    unfolding prune_filter by (intro filter_cong) auto
  with None show ?thesis by (simp add: rename_file_def)
next
  case (Some f)
  define d1 where "d1 = AList.delete (path_in t) dir"
  have "distinct (map fst d1)" using d by (simp add: d1_def AList.delete_eq distinct_map_filter)
  moreover have "map_of d1 (overflow_name rid) = None"
    using fresh by (simp add: d1_def delete_conv' overflow_neq_path)
  ultimately have new: "mset (rename_file (path_in t) (overflow_name rid) dir) = add_mset (overflow_name rid, f) (mset d1)"
    using Some by (simp add: rename_file_def mset_update delete_absent flip: d1_def)
  have old: "mset dir = add_mset (path_in t, f) (mset d1)"
    unfolding d1_def by (rule mset_delete[OF d Some])
  have "fst nf \<noteq> path_in t" if "nf \<in># mset d1" for nf
    using that by (auto simp: d1_def AList.delete_eq)
  define Q where "Q = (\<lambda>nf. \<not> expired_at now nf \<or> stuck F (fst nf))"
  define R where "R = (\<lambda>nf. \<not> expired_at now nf \<or>
    stuck F (if fst nf = path_in t then overflow_name rid else fst nf))"
  have rest: "filter_mset R (mset d1) = filter_mset Q (mset d1)"
    using \<open>\<And>nf. nf \<in># mset d1 \<Longrightarrow> fst nf \<noteq> path_in t\<close>
    by (intro filter_mset_cong) (auto simp: Q_def R_def)
  have "R (path_in t, f) = Q (overflow_name rid, f)" by (simp add: Q_def R_def expired_names)
  moreover have "file_records parse (path_in t, f) = file_records parse (overflow_name rid, f)"
    by (simp add: file_records_def jsonl_names)
  ultimately show ?thesis
    unfolding prune_filter spool_bag_filter new old Q_def[symmetric] R_def[symmetric]
    by (simp add: rest)
qed

text \<open>An append that prunes nothing.\<close>

definition nothing_aged :: "Clock \<Rightarrow> SpoolDir \<Rightarrow> bool" where
  "nothing_aged clk dir \<longleftrightarrow>
     list_all (\<lambda>nf. \<not> expired_at (clk_prune_ms clk) nf \<and> \<not> expired_at (clk_prune_again_ms clk) nf) dir"

lemma prune_nothing:
  "nothing_aged clk dir \<Longrightarrow> prune F (clk_prune_ms clk) dir = dir"
  by (auto simp: nothing_aged_def prune_filter list_all_iff filter_id_conv)

lemma rename_nothing_aged:
  assumes "nothing_aged clk dir"
  shows "prune F (clk_prune_again_ms clk) (rename_file (path_in t) (overflow_name rid) dir) =
    rename_file (path_in t) (overflow_name rid) dir"
proof (cases "map_of dir (path_in t)")
  case None
  with assms show ?thesis
    by (auto simp: rename_file_def nothing_aged_def prune_filter list_all_iff filter_id_conv)
next
  case (Some f)
  then have f: "(path_in t, f) \<in> set dir" by (rule map_of_SomeD)
  have "set (AList.update (overflow_name rid) f (AList.delete (path_in t) dir)) \<subseteq> insert (overflow_name rid, f) (set dir)"
    using set_update_subset[of _ f "AList.delete (path_in t) dir"] by (auto simp: AList.delete_eq)
  moreover have "\<not> expired_at (clk_prune_again_ms clk) (overflow_name rid, f)"
    using assms f by (auto simp: nothing_aged_def list_all_iff expired_names)
  ultimately have "\<forall>nf \<in> set (AList.update (overflow_name rid) f (AList.delete (path_in t) dir)).
      \<not> expired_at (clk_prune_again_ms clk) nf"
    using assms by (auto simp: nothing_aged_def list_all_iff)
  with Some show ?thesis by (simp add: rename_file_def prune_filter filter_id_conv)
qed

section \<open>The contract\<close>



end
