(* ===== verification/Wire_Model.thy ===== *)
theory Wire_Model
  imports Json_Value
begin

text \<open>
  The messages a node-controller sends and the desired state they carry: the \<open>Deserialize\<close>
  types of \<open>src/transport/protocol.rs\<close>, field by field. A record's fields carry a prefix
  (\<open>om_id\<close> is \<open>ObjectMeta::id\<close>); an \<open>f64\<close> is the finite number it denotes, a \<open>HashMap\<close> a
  finite map.
\<close>

datatype GpuVendor = Nvidia | Amd | Intel

datatype RuntimeType = Lxc | Microvm

datatype PowerState = Power_Running | Power_Stopped

datatype PortProtocol = Tcp | Udp

datatype RestartPolicy = Restart_No | OnFailure | Always | UnlessStopped

datatype RolloutStrategy = Recreate | StartFirst

record ChallengeBody =
  ch_nonce :: string

record WelcomeBody =
  wb_session_id :: string
  wb_heartbeat_sec :: u32
  wb_resync_sec :: u32
  wb_server_time :: string
  wb_upgrade_required :: "bool option"

record GoawayBody =
  ga_retry_after_ms :: u64

record LogQueryBody =
  lq_request_id :: string
  lq_scope :: "string option"
  lq_resource_id :: "string option"
  lq_cursor :: "string option"
  lq_limit :: "u64 option"

record ObjectMeta =
  om_id :: string
  om_project_id :: string
  om_node_id :: string
  om_generation :: u64
  om_labels :: "string text_map"

record GpuResources =
  gr_count :: u32
  gr_vendor :: "GpuVendor option"

record Resources =
  rc_cpu :: rat
  rc_memory_mb :: u64
  rc_disk_gb :: u64
  rc_gpu :: "GpuResources option"

record RuntimeSpecBody =
  rb_runtime_type :: RuntimeType
  rb_image :: string
  rb_resources :: Resources
  rb_power :: PowerState

record RuntimeSpec =
  rs_api_version :: string
  rs_kind :: string
  rs_meta :: ObjectMeta
  rs_spec :: RuntimeSpecBody

record SecretRef =
  sr_id :: string
  sr_key :: string

record SecretMount =
  sm_env :: string
  sm_secret_ref :: SecretRef

record VolumeMount =
  vm_source :: string
  vm_target :: string
  vm_read_only :: bool

record PortSpec =
  pt_name :: "string option"
  pt_container :: u16
  pt_protocol :: PortProtocol

record ExposeSpec =
  ex_target_port :: "u16 option"
  ex_protocol :: PortProtocol
  ex_bridge_ip :: "string option"
  ex_bridge_port :: "u16 option"

record Healthcheck =
  hc_command :: "string list"
  hc_interval_sec :: u32
  hc_timeout_sec :: u32
  hc_retries :: u32
  hc_start_period_sec :: u32

record ServiceLimits =
  sl_cpu :: "rat option"
  sl_memory_mb :: "u64 option"

record ServiceSpec =
  sv_name :: string
  sv_image :: string
  sv_command :: "string list option"
  sv_entrypoint :: "string list option"
  sv_env :: "string text_map"
  sv_secrets :: "SecretMount list"
  sv_mounts :: "VolumeMount list"
  sv_ports :: "PortSpec list"
  sv_expose :: "ExposeSpec option"
  sv_networks :: "string list"
  sv_restart :: RestartPolicy
  sv_healthcheck :: "Healthcheck option"
  sv_limits :: "ServiceLimits option"
  sv_depends_on :: "string list"

record NetworkSpec =
  nt_internal :: bool

record RolloutSpec =
  ro_strategy :: RolloutStrategy
  ro_health_timeout_sec :: u32
  ro_auto_rollback :: bool

record WorkloadSpecBody =
  wk_runtime_id :: string
  wk_engine :: string
  wk_definition_revision :: u64
  wk_networks :: "NetworkSpec text_map"
  wk_services :: "ServiceSpec list"
  wk_rollout :: RolloutSpec

record WorkloadSpec =
  ws_api_version :: string
  ws_kind :: string
  ws_meta :: ObjectMeta
  ws_spec :: WorkloadSpecBody

record NodeDesiredState =
  ds_node_id :: string
  ds_generation :: u64
  ds_runtimes :: "RuntimeSpec list"
  ds_workloads :: "WorkloadSpec list"

end
