(* ===== verification/Wire_Codec.thy ===== *)
theory Wire_Codec
  imports Wire_Model
begin

text \<open>
  What \<open>#[derive(Deserialize)]\<close> and the \<open>serde\<close> attributes of \<open>src/transport/protocol.rs\<close> make
  of the types of \<open>Wire_Model\<close>: \<open>de_T\<close> decodes a \<open>T\<close>. \<open>wire_T\<close> is the reference, the JSON
  document the node-controller's contract writes for a \<open>T\<close>: every type's pair interprets the
  locale \<open>json_codec\<close>, so each decoder reads back the contract's document.
\<close>

text \<open>An \<open>Option\<close> of a list of texts.\<close>

interpretation string_list_codec: json_codec "\<lambda>xs. Arr (map Str xs)" "de_list de_string"
  by unfold_locales (simp_all add: string_codec.laws)

definition de_GpuVendor :: "GpuVendor decoder" where
  "de_GpuVendor = de_enum [(''nvidia'', Nvidia), (''amd'', Amd), (''intel'', Intel)]"

fun wire_GpuVendor :: "GpuVendor \<Rightarrow> json" where
  "wire_GpuVendor Nvidia = Str ''nvidia''"
| "wire_GpuVendor Amd = Str ''amd''"
| "wire_GpuVendor Intel = Str ''intel''"

interpretation GpuVendor_codec: json_codec wire_GpuVendor de_GpuVendor
proof unfold_locales
  show "de_GpuVendor (wire_GpuVendor x) = Some x" for x by (cases x) (simp_all add: de_GpuVendor_def)
  show "wire_GpuVendor x \<noteq> Null" for x by (cases x) simp_all
  show "json_distinct (wire_GpuVendor x)" for x by (cases x) simp_all
qed

definition de_RuntimeType :: "RuntimeType decoder" where
  "de_RuntimeType = de_enum [(''lxc'', Lxc), (''microvm'', Microvm)]"

fun wire_RuntimeType :: "RuntimeType \<Rightarrow> json" where
  "wire_RuntimeType Lxc = Str ''lxc''"
| "wire_RuntimeType Microvm = Str ''microvm''"

interpretation RuntimeType_codec: json_codec wire_RuntimeType de_RuntimeType
proof unfold_locales
  show "de_RuntimeType (wire_RuntimeType x) = Some x" for x by (cases x) (simp_all add: de_RuntimeType_def)
  show "wire_RuntimeType x \<noteq> Null" for x by (cases x) simp_all
  show "json_distinct (wire_RuntimeType x)" for x by (cases x) simp_all
qed

definition de_PowerState :: "PowerState decoder" where
  "de_PowerState = de_enum [(''running'', Power_Running), (''stopped'', Power_Stopped)]"

fun wire_PowerState :: "PowerState \<Rightarrow> json" where
  "wire_PowerState Power_Running = Str ''running''"
| "wire_PowerState Power_Stopped = Str ''stopped''"

interpretation PowerState_codec: json_codec wire_PowerState de_PowerState
proof unfold_locales
  show "de_PowerState (wire_PowerState x) = Some x" for x by (cases x) (simp_all add: de_PowerState_def)
  show "wire_PowerState x \<noteq> Null" for x by (cases x) simp_all
  show "json_distinct (wire_PowerState x)" for x by (cases x) simp_all
qed

definition de_PortProtocol :: "PortProtocol decoder" where
  "de_PortProtocol = de_enum [(''tcp'', Tcp), (''udp'', Udp)]"

fun wire_PortProtocol :: "PortProtocol \<Rightarrow> json" where
  "wire_PortProtocol Tcp = Str ''tcp''"
| "wire_PortProtocol Udp = Str ''udp''"

interpretation PortProtocol_codec: json_codec wire_PortProtocol de_PortProtocol
proof unfold_locales
  show "de_PortProtocol (wire_PortProtocol x) = Some x" for x by (cases x) (simp_all add: de_PortProtocol_def)
  show "wire_PortProtocol x \<noteq> Null" for x by (cases x) simp_all
  show "json_distinct (wire_PortProtocol x)" for x by (cases x) simp_all
qed

definition de_RestartPolicy :: "RestartPolicy decoder" where
  "de_RestartPolicy = de_enum [(''no'', Restart_No), (''on-failure'', OnFailure), (''always'', Always), (''unless-stopped'', UnlessStopped)]"

fun wire_RestartPolicy :: "RestartPolicy \<Rightarrow> json" where
  "wire_RestartPolicy Restart_No = Str ''no''"
| "wire_RestartPolicy OnFailure = Str ''on-failure''"
| "wire_RestartPolicy Always = Str ''always''"
| "wire_RestartPolicy UnlessStopped = Str ''unless-stopped''"

interpretation RestartPolicy_codec: json_codec wire_RestartPolicy de_RestartPolicy
proof unfold_locales
  show "de_RestartPolicy (wire_RestartPolicy x) = Some x" for x by (cases x) (simp_all add: de_RestartPolicy_def)
  show "wire_RestartPolicy x \<noteq> Null" for x by (cases x) simp_all
  show "json_distinct (wire_RestartPolicy x)" for x by (cases x) simp_all
qed

definition de_RolloutStrategy :: "RolloutStrategy decoder" where
  "de_RolloutStrategy = de_enum [(''recreate'', Recreate), (''start-first'', StartFirst)]"

fun wire_RolloutStrategy :: "RolloutStrategy \<Rightarrow> json" where
  "wire_RolloutStrategy Recreate = Str ''recreate''"
| "wire_RolloutStrategy StartFirst = Str ''start-first''"

interpretation RolloutStrategy_codec: json_codec wire_RolloutStrategy de_RolloutStrategy
proof unfold_locales
  show "de_RolloutStrategy (wire_RolloutStrategy x) = Some x" for x by (cases x) (simp_all add: de_RolloutStrategy_def)
  show "wire_RolloutStrategy x \<noteq> Null" for x by (cases x) simp_all
  show "json_distinct (wire_RolloutStrategy x)" for x by (cases x) simp_all
qed

definition de_ChallengeBody :: "ChallengeBody decoder" where
  "de_ChallengeBody v = do {
       f \<leftarrow> struct_fields
         [''nonce''] v;
       nonce \<leftarrow> required f 0 ''nonce'' de_string;
       Some \<lparr>ch_nonce = nonce\<rparr> }"

definition wire_ChallengeBody :: "ChallengeBody \<Rightarrow> json" where
  "wire_ChallengeBody x = struct_json
     [field ''nonce'' (Str (ch_nonce x))]"

interpretation ChallengeBody_codec: json_codec wire_ChallengeBody de_ChallengeBody
proof unfold_locales
  show "de_ChallengeBody (wire_ChallengeBody x) = Some x" for x
    by (cases x) (simp add: de_ChallengeBody_def wire_ChallengeBody_def decode_struct field_def skip_none_def
        string_codec.laws)
qed (simp_all add: wire_ChallengeBody_def json_distinct_struct field_def skip_none_def option.pred_map
      string_codec.laws)

definition de_WelcomeBody :: "WelcomeBody decoder" where
  "de_WelcomeBody v = do {
       f \<leftarrow> struct_fields
         [''sessionId'', ''heartbeatSec'', ''resyncSec'', ''serverTime'', ''upgradeRequired''] v;
       session_id \<leftarrow> required f 0 ''sessionId'' de_string;
       heartbeat_sec \<leftarrow> required f 1 ''heartbeatSec'' de_word;
       resync_sec \<leftarrow> required f 2 ''resyncSec'' de_word;
       server_time \<leftarrow> required f 3 ''serverTime'' de_string;
       upgrade_required \<leftarrow> defaulted f 4 ''upgradeRequired'' (de_option de_bool) None;
       Some \<lparr>wb_session_id = session_id,
           wb_heartbeat_sec = heartbeat_sec,
           wb_resync_sec = resync_sec,
           wb_server_time = server_time,
           wb_upgrade_required = upgrade_required\<rparr> }"

definition wire_WelcomeBody :: "WelcomeBody \<Rightarrow> json" where
  "wire_WelcomeBody x = struct_json
     [field ''sessionId'' (Str (wb_session_id x)),
      field ''heartbeatSec'' (en_word (wb_heartbeat_sec x)),
      field ''resyncSec'' (en_word (wb_resync_sec x)),
      field ''serverTime'' (Str (wb_server_time x)),
      skip_none ''upgradeRequired'' Bool (wb_upgrade_required x)]"

interpretation WelcomeBody_codec: json_codec wire_WelcomeBody de_WelcomeBody
proof unfold_locales
  show "de_WelcomeBody (wire_WelcomeBody x) = Some x" for x
    by (cases x) (simp add: de_WelcomeBody_def wire_WelcomeBody_def decode_struct field_def skip_none_def
        string_codec.laws u32_codec.laws bool_codec.laws)
qed (simp_all add: wire_WelcomeBody_def json_distinct_struct field_def skip_none_def option.pred_map
      string_codec.laws u32_codec.laws bool_codec.laws)

definition de_GoawayBody :: "GoawayBody decoder" where
  "de_GoawayBody v = do {
       f \<leftarrow> struct_fields
         [''retryAfterMs''] v;
       retry_after_ms \<leftarrow> required f 0 ''retryAfterMs'' de_word;
       Some \<lparr>ga_retry_after_ms = retry_after_ms\<rparr> }"

definition wire_GoawayBody :: "GoawayBody \<Rightarrow> json" where
  "wire_GoawayBody x = struct_json
     [field ''retryAfterMs'' (en_word (ga_retry_after_ms x))]"

interpretation GoawayBody_codec: json_codec wire_GoawayBody de_GoawayBody
proof unfold_locales
  show "de_GoawayBody (wire_GoawayBody x) = Some x" for x
    by (cases x) (simp add: de_GoawayBody_def wire_GoawayBody_def decode_struct field_def skip_none_def
        u64_codec.laws)
qed (simp_all add: wire_GoawayBody_def json_distinct_struct field_def skip_none_def option.pred_map
      u64_codec.laws)

definition de_LogQueryBody :: "LogQueryBody decoder" where
  "de_LogQueryBody v = do {
       f \<leftarrow> struct_fields
         [''requestId'', ''scope'', ''resourceId'', ''cursor'', ''limit''] v;
       request_id \<leftarrow> required f 0 ''requestId'' de_string;
       scope \<leftarrow> defaulted f 1 ''scope'' (de_option de_string) None;
       resource_id \<leftarrow> defaulted f 2 ''resourceId'' (de_option de_string) None;
       cursor \<leftarrow> defaulted f 3 ''cursor'' (de_option de_string) None;
       limit \<leftarrow> defaulted f 4 ''limit'' (de_option de_word) None;
       Some \<lparr>lq_request_id = request_id,
           lq_scope = scope,
           lq_resource_id = resource_id,
           lq_cursor = cursor,
           lq_limit = limit\<rparr> }"

definition wire_LogQueryBody :: "LogQueryBody \<Rightarrow> json" where
  "wire_LogQueryBody x = struct_json
     [field ''requestId'' (Str (lq_request_id x)),
      skip_none ''scope'' Str (lq_scope x),
      skip_none ''resourceId'' Str (lq_resource_id x),
      skip_none ''cursor'' Str (lq_cursor x),
      skip_none ''limit'' en_word (lq_limit x)]"

interpretation LogQueryBody_codec: json_codec wire_LogQueryBody de_LogQueryBody
proof unfold_locales
  show "de_LogQueryBody (wire_LogQueryBody x) = Some x" for x
    by (cases x) (simp add: de_LogQueryBody_def wire_LogQueryBody_def decode_struct field_def skip_none_def
        string_codec.laws u64_codec.laws)
qed (simp_all add: wire_LogQueryBody_def json_distinct_struct field_def skip_none_def option.pred_map
      string_codec.laws u64_codec.laws)

definition de_ObjectMeta :: "ObjectMeta decoder" where
  "de_ObjectMeta v = do {
       f \<leftarrow> struct_fields
         [''id'', ''projectId'', ''nodeId'', ''generation'', ''labels''] v;
       id \<leftarrow> required f 0 ''id'' de_string;
       project_id \<leftarrow> required f 1 ''projectId'' de_string;
       node_id \<leftarrow> required f 2 ''nodeId'' de_string;
       generation \<leftarrow> required f 3 ''generation'' de_word;
       labels \<leftarrow> defaulted f 4 ''labels'' (de_map de_string) fmempty;
       Some \<lparr>om_id = id,
           om_project_id = project_id,
           om_node_id = node_id,
           om_generation = generation,
           om_labels = labels\<rparr> }"

definition wire_ObjectMeta :: "ObjectMeta \<Rightarrow> json" where
  "wire_ObjectMeta x = struct_json
     [field ''id'' (Str (om_id x)),
      field ''projectId'' (Str (om_project_id x)),
      field ''nodeId'' (Str (om_node_id x)),
      field ''generation'' (en_word (om_generation x)),
      field ''labels'' (en_map Str (om_labels x))]"

interpretation ObjectMeta_codec: json_codec wire_ObjectMeta de_ObjectMeta
proof unfold_locales
  show "de_ObjectMeta (wire_ObjectMeta x) = Some x" for x
    by (cases x) (simp add: de_ObjectMeta_def wire_ObjectMeta_def decode_struct field_def skip_none_def
        string_codec.laws u64_codec.laws)
qed (simp_all add: wire_ObjectMeta_def json_distinct_struct field_def skip_none_def option.pred_map
      string_codec.laws u64_codec.laws)

definition de_GpuResources :: "GpuResources decoder" where
  "de_GpuResources v = do {
       f \<leftarrow> struct_fields
         [''count'', ''vendor''] v;
       count \<leftarrow> required f 0 ''count'' de_word;
       vendor \<leftarrow> defaulted f 1 ''vendor'' (de_option de_GpuVendor) None;
       Some \<lparr>gr_count = count,
           gr_vendor = vendor\<rparr> }"

definition wire_GpuResources :: "GpuResources \<Rightarrow> json" where
  "wire_GpuResources x = struct_json
     [field ''count'' (en_word (gr_count x)),
      skip_none ''vendor'' wire_GpuVendor (gr_vendor x)]"

interpretation GpuResources_codec: json_codec wire_GpuResources de_GpuResources
proof unfold_locales
  show "de_GpuResources (wire_GpuResources x) = Some x" for x
    by (cases x) (simp add: de_GpuResources_def wire_GpuResources_def decode_struct field_def skip_none_def
        u32_codec.laws GpuVendor_codec.laws)
qed (simp_all add: wire_GpuResources_def json_distinct_struct field_def skip_none_def option.pred_map
      u32_codec.laws GpuVendor_codec.laws)

definition de_Resources :: "Resources decoder" where
  "de_Resources v = do {
       f \<leftarrow> struct_fields
         [''cpu'', ''memoryMb'', ''diskGb'', ''gpu''] v;
       cpu \<leftarrow> required f 0 ''cpu'' de_f64;
       memory_mb \<leftarrow> required f 1 ''memoryMb'' de_word;
       disk_gb \<leftarrow> required f 2 ''diskGb'' de_word;
       gpu \<leftarrow> defaulted f 3 ''gpu'' (de_option de_GpuResources) None;
       Some \<lparr>rc_cpu = cpu,
           rc_memory_mb = memory_mb,
           rc_disk_gb = disk_gb,
           rc_gpu = gpu\<rparr> }"

definition wire_Resources :: "Resources \<Rightarrow> json" where
  "wire_Resources x = struct_json
     [field ''cpu'' (en_f64 (rc_cpu x)),
      field ''memoryMb'' (en_word (rc_memory_mb x)),
      field ''diskGb'' (en_word (rc_disk_gb x)),
      skip_none ''gpu'' wire_GpuResources (rc_gpu x)]"

interpretation Resources_codec: json_codec wire_Resources de_Resources
proof unfold_locales
  show "de_Resources (wire_Resources x) = Some x" for x
    by (cases x) (simp add: de_Resources_def wire_Resources_def decode_struct field_def skip_none_def
        f64_codec.laws u64_codec.laws GpuResources_codec.laws)
qed (simp_all add: wire_Resources_def json_distinct_struct field_def skip_none_def option.pred_map
      f64_codec.laws u64_codec.laws GpuResources_codec.laws)

definition de_RuntimeSpecBody :: "RuntimeSpecBody decoder" where
  "de_RuntimeSpecBody v = do {
       f \<leftarrow> struct_fields
         [''type'', ''image'', ''resources'', ''power''] v;
       runtime_type \<leftarrow> required f 0 ''type'' de_RuntimeType;
       image \<leftarrow> required f 1 ''image'' de_string;
       resources \<leftarrow> required f 2 ''resources'' de_Resources;
       power \<leftarrow> required f 3 ''power'' de_PowerState;
       Some \<lparr>rb_runtime_type = runtime_type,
           rb_image = image,
           rb_resources = resources,
           rb_power = power\<rparr> }"

definition wire_RuntimeSpecBody :: "RuntimeSpecBody \<Rightarrow> json" where
  "wire_RuntimeSpecBody x = struct_json
     [field ''type'' (wire_RuntimeType (rb_runtime_type x)),
      field ''image'' (Str (rb_image x)),
      field ''resources'' (wire_Resources (rb_resources x)),
      field ''power'' (wire_PowerState (rb_power x))]"

interpretation RuntimeSpecBody_codec: json_codec wire_RuntimeSpecBody de_RuntimeSpecBody
proof unfold_locales
  show "de_RuntimeSpecBody (wire_RuntimeSpecBody x) = Some x" for x
    by (cases x) (simp add: de_RuntimeSpecBody_def wire_RuntimeSpecBody_def decode_struct field_def skip_none_def
        RuntimeType_codec.laws string_codec.laws Resources_codec.laws PowerState_codec.laws)
qed (simp_all add: wire_RuntimeSpecBody_def json_distinct_struct field_def skip_none_def option.pred_map
      RuntimeType_codec.laws string_codec.laws Resources_codec.laws PowerState_codec.laws)

definition de_RuntimeSpec :: "RuntimeSpec decoder" where
  "de_RuntimeSpec v = do {
       f \<leftarrow> struct_fields
         [''apiVersion'', ''kind'', ''meta'', ''spec''] v;
       api_version \<leftarrow> required f 0 ''apiVersion'' de_string;
       kind \<leftarrow> required f 1 ''kind'' de_string;
       meta \<leftarrow> required f 2 ''meta'' de_ObjectMeta;
       spec \<leftarrow> required f 3 ''spec'' de_RuntimeSpecBody;
       Some \<lparr>rs_api_version = api_version,
           rs_kind = kind,
           rs_meta = meta,
           rs_spec = spec\<rparr> }"

definition wire_RuntimeSpec :: "RuntimeSpec \<Rightarrow> json" where
  "wire_RuntimeSpec x = struct_json
     [field ''apiVersion'' (Str (rs_api_version x)),
      field ''kind'' (Str (rs_kind x)),
      field ''meta'' (wire_ObjectMeta (rs_meta x)),
      field ''spec'' (wire_RuntimeSpecBody (rs_spec x))]"

interpretation RuntimeSpec_codec: json_codec wire_RuntimeSpec de_RuntimeSpec
proof unfold_locales
  show "de_RuntimeSpec (wire_RuntimeSpec x) = Some x" for x
    by (cases x) (simp add: de_RuntimeSpec_def wire_RuntimeSpec_def decode_struct field_def skip_none_def
        string_codec.laws ObjectMeta_codec.laws RuntimeSpecBody_codec.laws)
qed (simp_all add: wire_RuntimeSpec_def json_distinct_struct field_def skip_none_def option.pred_map
      string_codec.laws ObjectMeta_codec.laws RuntimeSpecBody_codec.laws)

definition de_SecretRef :: "SecretRef decoder" where
  "de_SecretRef v = do {
       f \<leftarrow> struct_fields
         [''id'', ''key''] v;
       id \<leftarrow> required f 0 ''id'' de_string;
       key \<leftarrow> required f 1 ''key'' de_string;
       Some \<lparr>sr_id = id,
           sr_key = key\<rparr> }"

definition wire_SecretRef :: "SecretRef \<Rightarrow> json" where
  "wire_SecretRef x = struct_json
     [field ''id'' (Str (sr_id x)),
      field ''key'' (Str (sr_key x))]"

interpretation SecretRef_codec: json_codec wire_SecretRef de_SecretRef
proof unfold_locales
  show "de_SecretRef (wire_SecretRef x) = Some x" for x
    by (cases x) (simp add: de_SecretRef_def wire_SecretRef_def decode_struct field_def skip_none_def
        string_codec.laws)
qed (simp_all add: wire_SecretRef_def json_distinct_struct field_def skip_none_def option.pred_map
      string_codec.laws)

definition de_SecretMount :: "SecretMount decoder" where
  "de_SecretMount v = do {
       f \<leftarrow> struct_fields
         [''env'', ''secretRef''] v;
       env \<leftarrow> required f 0 ''env'' de_string;
       secret_ref \<leftarrow> required f 1 ''secretRef'' de_SecretRef;
       Some \<lparr>sm_env = env,
           sm_secret_ref = secret_ref\<rparr> }"

definition wire_SecretMount :: "SecretMount \<Rightarrow> json" where
  "wire_SecretMount x = struct_json
     [field ''env'' (Str (sm_env x)),
      field ''secretRef'' (wire_SecretRef (sm_secret_ref x))]"

interpretation SecretMount_codec: json_codec wire_SecretMount de_SecretMount
proof unfold_locales
  show "de_SecretMount (wire_SecretMount x) = Some x" for x
    by (cases x) (simp add: de_SecretMount_def wire_SecretMount_def decode_struct field_def skip_none_def
        string_codec.laws SecretRef_codec.laws)
qed (simp_all add: wire_SecretMount_def json_distinct_struct field_def skip_none_def option.pred_map
      string_codec.laws SecretRef_codec.laws)

definition de_VolumeMount :: "VolumeMount decoder" where
  "de_VolumeMount v = do {
       f \<leftarrow> struct_fields
         [''source'', ''target'', ''readOnly''] v;
       source \<leftarrow> required f 0 ''source'' de_string;
       target \<leftarrow> required f 1 ''target'' de_string;
       read_only \<leftarrow> defaulted f 2 ''readOnly'' de_bool False;
       Some \<lparr>vm_source = source,
           vm_target = target,
           vm_read_only = read_only\<rparr> }"

definition wire_VolumeMount :: "VolumeMount \<Rightarrow> json" where
  "wire_VolumeMount x = struct_json
     [field ''source'' (Str (vm_source x)),
      field ''target'' (Str (vm_target x)),
      field ''readOnly'' (Bool (vm_read_only x))]"

interpretation VolumeMount_codec: json_codec wire_VolumeMount de_VolumeMount
proof unfold_locales
  show "de_VolumeMount (wire_VolumeMount x) = Some x" for x
    by (cases x) (simp add: de_VolumeMount_def wire_VolumeMount_def decode_struct field_def skip_none_def
        string_codec.laws bool_codec.laws)
qed (simp_all add: wire_VolumeMount_def json_distinct_struct field_def skip_none_def option.pred_map
      string_codec.laws bool_codec.laws)

definition de_PortSpec :: "PortSpec decoder" where
  "de_PortSpec v = do {
       f \<leftarrow> struct_fields
         [''name'', ''container'', ''protocol''] v;
       name \<leftarrow> defaulted f 0 ''name'' (de_option de_string) None;
       container \<leftarrow> required f 1 ''container'' de_word;
       protocol \<leftarrow> required f 2 ''protocol'' de_PortProtocol;
       Some \<lparr>pt_name = name,
           pt_container = container,
           pt_protocol = protocol\<rparr> }"

definition wire_PortSpec :: "PortSpec \<Rightarrow> json" where
  "wire_PortSpec x = struct_json
     [skip_none ''name'' Str (pt_name x),
      field ''container'' (en_word (pt_container x)),
      field ''protocol'' (wire_PortProtocol (pt_protocol x))]"

interpretation PortSpec_codec: json_codec wire_PortSpec de_PortSpec
proof unfold_locales
  show "de_PortSpec (wire_PortSpec x) = Some x" for x
    by (cases x) (simp add: de_PortSpec_def wire_PortSpec_def decode_struct field_def skip_none_def
        string_codec.laws u16_codec.laws PortProtocol_codec.laws)
qed (simp_all add: wire_PortSpec_def json_distinct_struct field_def skip_none_def option.pred_map
      string_codec.laws u16_codec.laws PortProtocol_codec.laws)

definition de_ExposeSpec :: "ExposeSpec decoder" where
  "de_ExposeSpec v = do {
       f \<leftarrow> struct_fields
         [''targetPort'', ''protocol'', ''bridgeIp'', ''bridgePort''] v;
       target_port \<leftarrow> defaulted f 0 ''targetPort'' (de_option de_word) None;
       protocol \<leftarrow> required f 1 ''protocol'' de_PortProtocol;
       bridge_ip \<leftarrow> defaulted f 2 ''bridgeIp'' (de_option de_string) None;
       bridge_port \<leftarrow> defaulted f 3 ''bridgePort'' (de_option de_word) None;
       Some \<lparr>ex_target_port = target_port,
           ex_protocol = protocol,
           ex_bridge_ip = bridge_ip,
           ex_bridge_port = bridge_port\<rparr> }"

definition wire_ExposeSpec :: "ExposeSpec \<Rightarrow> json" where
  "wire_ExposeSpec x = struct_json
     [skip_none ''targetPort'' en_word (ex_target_port x),
      field ''protocol'' (wire_PortProtocol (ex_protocol x)),
      skip_none ''bridgeIp'' Str (ex_bridge_ip x),
      skip_none ''bridgePort'' en_word (ex_bridge_port x)]"

interpretation ExposeSpec_codec: json_codec wire_ExposeSpec de_ExposeSpec
proof unfold_locales
  show "de_ExposeSpec (wire_ExposeSpec x) = Some x" for x
    by (cases x) (simp add: de_ExposeSpec_def wire_ExposeSpec_def decode_struct field_def skip_none_def
        u16_codec.laws PortProtocol_codec.laws string_codec.laws)
qed (simp_all add: wire_ExposeSpec_def json_distinct_struct field_def skip_none_def option.pred_map
      u16_codec.laws PortProtocol_codec.laws string_codec.laws)

definition de_Healthcheck :: "Healthcheck decoder" where
  "de_Healthcheck v = do {
       f \<leftarrow> struct_fields
         [''command'', ''intervalSec'', ''timeoutSec'', ''retries'', ''startPeriodSec''] v;
       command \<leftarrow> required f 0 ''command'' (de_list de_string);
       interval_sec \<leftarrow> required f 1 ''intervalSec'' de_word;
       timeout_sec \<leftarrow> required f 2 ''timeoutSec'' de_word;
       retries \<leftarrow> required f 3 ''retries'' de_word;
       start_period_sec \<leftarrow> required f 4 ''startPeriodSec'' de_word;
       Some \<lparr>hc_command = command,
           hc_interval_sec = interval_sec,
           hc_timeout_sec = timeout_sec,
           hc_retries = retries,
           hc_start_period_sec = start_period_sec\<rparr> }"

definition wire_Healthcheck :: "Healthcheck \<Rightarrow> json" where
  "wire_Healthcheck x = struct_json
     [field ''command'' (Arr (map Str (hc_command x))),
      field ''intervalSec'' (en_word (hc_interval_sec x)),
      field ''timeoutSec'' (en_word (hc_timeout_sec x)),
      field ''retries'' (en_word (hc_retries x)),
      field ''startPeriodSec'' (en_word (hc_start_period_sec x))]"

interpretation Healthcheck_codec: json_codec wire_Healthcheck de_Healthcheck
proof unfold_locales
  show "de_Healthcheck (wire_Healthcheck x) = Some x" for x
    by (cases x) (simp add: de_Healthcheck_def wire_Healthcheck_def decode_struct field_def skip_none_def
        string_codec.laws u32_codec.laws)
qed (simp_all add: wire_Healthcheck_def json_distinct_struct field_def skip_none_def option.pred_map
      string_codec.laws u32_codec.laws)

definition de_ServiceLimits :: "ServiceLimits decoder" where
  "de_ServiceLimits v = do {
       f \<leftarrow> struct_fields
         [''cpu'', ''memoryMb''] v;
       cpu \<leftarrow> defaulted f 0 ''cpu'' (de_option de_f64) None;
       memory_mb \<leftarrow> defaulted f 1 ''memoryMb'' (de_option de_word) None;
       Some \<lparr>sl_cpu = cpu,
           sl_memory_mb = memory_mb\<rparr> }"

definition wire_ServiceLimits :: "ServiceLimits \<Rightarrow> json" where
  "wire_ServiceLimits x = struct_json
     [skip_none ''cpu'' en_f64 (sl_cpu x),
      skip_none ''memoryMb'' en_word (sl_memory_mb x)]"

interpretation ServiceLimits_codec: json_codec wire_ServiceLimits de_ServiceLimits
proof unfold_locales
  show "de_ServiceLimits (wire_ServiceLimits x) = Some x" for x
    by (cases x) (simp add: de_ServiceLimits_def wire_ServiceLimits_def decode_struct field_def skip_none_def
        f64_codec.laws u64_codec.laws)
qed (simp_all add: wire_ServiceLimits_def json_distinct_struct field_def skip_none_def option.pred_map
      f64_codec.laws u64_codec.laws)

definition de_ServiceSpec :: "ServiceSpec decoder" where
  "de_ServiceSpec v = do {
       f \<leftarrow> struct_fields
         [''name'', ''image'', ''command'', ''entrypoint'', ''env'', ''secrets'', ''mounts'', ''ports'', ''expose'', ''networks'', ''restart'', ''healthcheck'', ''limits'', ''dependsOn''] v;
       name \<leftarrow> required f 0 ''name'' de_string;
       image \<leftarrow> required f 1 ''image'' de_string;
       command \<leftarrow> defaulted f 2 ''command'' (de_option (de_list de_string)) None;
       entrypoint \<leftarrow> defaulted f 3 ''entrypoint'' (de_option (de_list de_string)) None;
       env \<leftarrow> defaulted f 4 ''env'' (de_map de_string) fmempty;
       secrets \<leftarrow> defaulted f 5 ''secrets'' (de_list de_SecretMount) [];
       mounts \<leftarrow> defaulted f 6 ''mounts'' (de_list de_VolumeMount) [];
       ports \<leftarrow> defaulted f 7 ''ports'' (de_list de_PortSpec) [];
       expose \<leftarrow> defaulted f 8 ''expose'' (de_option de_ExposeSpec) None;
       networks \<leftarrow> required f 9 ''networks'' (de_list de_string);
       restart \<leftarrow> required f 10 ''restart'' de_RestartPolicy;
       healthcheck \<leftarrow> defaulted f 11 ''healthcheck'' (de_option de_Healthcheck) None;
       limits \<leftarrow> defaulted f 12 ''limits'' (de_option de_ServiceLimits) None;
       depends_on \<leftarrow> defaulted f 13 ''dependsOn'' (de_list de_string) [];
       Some \<lparr>sv_name = name,
           sv_image = image,
           sv_command = command,
           sv_entrypoint = entrypoint,
           sv_env = env,
           sv_secrets = secrets,
           sv_mounts = mounts,
           sv_ports = ports,
           sv_expose = expose,
           sv_networks = networks,
           sv_restart = restart,
           sv_healthcheck = healthcheck,
           sv_limits = limits,
           sv_depends_on = depends_on\<rparr> }"

definition wire_ServiceSpec :: "ServiceSpec \<Rightarrow> json" where
  "wire_ServiceSpec x = struct_json
     [field ''name'' (Str (sv_name x)),
      field ''image'' (Str (sv_image x)),
      skip_none ''command'' (\<lambda>xs. Arr (map Str xs)) (sv_command x),
      skip_none ''entrypoint'' (\<lambda>xs. Arr (map Str xs)) (sv_entrypoint x),
      field ''env'' (en_map Str (sv_env x)),
      field ''secrets'' (Arr (map wire_SecretMount (sv_secrets x))),
      field ''mounts'' (Arr (map wire_VolumeMount (sv_mounts x))),
      field ''ports'' (Arr (map wire_PortSpec (sv_ports x))),
      skip_none ''expose'' wire_ExposeSpec (sv_expose x),
      field ''networks'' (Arr (map Str (sv_networks x))),
      field ''restart'' (wire_RestartPolicy (sv_restart x)),
      skip_none ''healthcheck'' wire_Healthcheck (sv_healthcheck x),
      skip_none ''limits'' wire_ServiceLimits (sv_limits x),
      field ''dependsOn'' (Arr (map Str (sv_depends_on x)))]"

interpretation ServiceSpec_codec: json_codec wire_ServiceSpec de_ServiceSpec
proof unfold_locales
  show "de_ServiceSpec (wire_ServiceSpec x) = Some x" for x
    by (cases x) (simp add: de_ServiceSpec_def wire_ServiceSpec_def decode_struct field_def skip_none_def
        string_codec.laws SecretMount_codec.laws VolumeMount_codec.laws PortSpec_codec.laws ExposeSpec_codec.laws RestartPolicy_codec.laws Healthcheck_codec.laws ServiceLimits_codec.laws string_list_codec.laws)
qed (simp_all add: wire_ServiceSpec_def json_distinct_struct field_def skip_none_def option.pred_map
      string_codec.laws SecretMount_codec.laws VolumeMount_codec.laws PortSpec_codec.laws ExposeSpec_codec.laws RestartPolicy_codec.laws Healthcheck_codec.laws ServiceLimits_codec.laws string_list_codec.laws)

definition de_NetworkSpec :: "NetworkSpec decoder" where
  "de_NetworkSpec v = do {
       f \<leftarrow> struct_fields
         [''internal''] v;
       internal \<leftarrow> defaulted f 0 ''internal'' de_bool False;
       Some \<lparr>nt_internal = internal\<rparr> }"

definition wire_NetworkSpec :: "NetworkSpec \<Rightarrow> json" where
  "wire_NetworkSpec x = struct_json
     [field ''internal'' (Bool (nt_internal x))]"

interpretation NetworkSpec_codec: json_codec wire_NetworkSpec de_NetworkSpec
proof unfold_locales
  show "de_NetworkSpec (wire_NetworkSpec x) = Some x" for x
    by (cases x) (simp add: de_NetworkSpec_def wire_NetworkSpec_def decode_struct field_def skip_none_def
        bool_codec.laws)
qed (simp_all add: wire_NetworkSpec_def json_distinct_struct field_def skip_none_def option.pred_map
      bool_codec.laws)

definition de_RolloutSpec :: "RolloutSpec decoder" where
  "de_RolloutSpec v = do {
       f \<leftarrow> struct_fields
         [''strategy'', ''healthTimeoutSec'', ''autoRollback''] v;
       strategy \<leftarrow> required f 0 ''strategy'' de_RolloutStrategy;
       health_timeout_sec \<leftarrow> required f 1 ''healthTimeoutSec'' de_word;
       auto_rollback \<leftarrow> required f 2 ''autoRollback'' de_bool;
       Some \<lparr>ro_strategy = strategy,
           ro_health_timeout_sec = health_timeout_sec,
           ro_auto_rollback = auto_rollback\<rparr> }"

definition wire_RolloutSpec :: "RolloutSpec \<Rightarrow> json" where
  "wire_RolloutSpec x = struct_json
     [field ''strategy'' (wire_RolloutStrategy (ro_strategy x)),
      field ''healthTimeoutSec'' (en_word (ro_health_timeout_sec x)),
      field ''autoRollback'' (Bool (ro_auto_rollback x))]"

interpretation RolloutSpec_codec: json_codec wire_RolloutSpec de_RolloutSpec
proof unfold_locales
  show "de_RolloutSpec (wire_RolloutSpec x) = Some x" for x
    by (cases x) (simp add: de_RolloutSpec_def wire_RolloutSpec_def decode_struct field_def skip_none_def
        RolloutStrategy_codec.laws u32_codec.laws bool_codec.laws)
qed (simp_all add: wire_RolloutSpec_def json_distinct_struct field_def skip_none_def option.pred_map
      RolloutStrategy_codec.laws u32_codec.laws bool_codec.laws)

definition de_WorkloadSpecBody :: "WorkloadSpecBody decoder" where
  "de_WorkloadSpecBody v = do {
       f \<leftarrow> struct_fields
         [''runtimeId'', ''engine'', ''definitionRevision'', ''networks'', ''services'', ''rollout''] v;
       runtime_id \<leftarrow> required f 0 ''runtimeId'' de_string;
       engine \<leftarrow> required f 1 ''engine'' de_string;
       definition_revision \<leftarrow> required f 2 ''definitionRevision'' de_word;
       networks \<leftarrow> required f 3 ''networks'' (de_map de_NetworkSpec);
       services \<leftarrow> required f 4 ''services'' (de_list de_ServiceSpec);
       rollout \<leftarrow> required f 5 ''rollout'' de_RolloutSpec;
       Some \<lparr>wk_runtime_id = runtime_id,
           wk_engine = engine,
           wk_definition_revision = definition_revision,
           wk_networks = networks,
           wk_services = services,
           wk_rollout = rollout\<rparr> }"

definition wire_WorkloadSpecBody :: "WorkloadSpecBody \<Rightarrow> json" where
  "wire_WorkloadSpecBody x = struct_json
     [field ''runtimeId'' (Str (wk_runtime_id x)),
      field ''engine'' (Str (wk_engine x)),
      field ''definitionRevision'' (en_word (wk_definition_revision x)),
      field ''networks'' (en_map wire_NetworkSpec (wk_networks x)),
      field ''services'' (Arr (map wire_ServiceSpec (wk_services x))),
      field ''rollout'' (wire_RolloutSpec (wk_rollout x))]"

interpretation WorkloadSpecBody_codec: json_codec wire_WorkloadSpecBody de_WorkloadSpecBody
proof unfold_locales
  show "de_WorkloadSpecBody (wire_WorkloadSpecBody x) = Some x" for x
    by (cases x) (simp add: de_WorkloadSpecBody_def wire_WorkloadSpecBody_def decode_struct field_def skip_none_def
        string_codec.laws u64_codec.laws NetworkSpec_codec.laws ServiceSpec_codec.laws RolloutSpec_codec.laws)
qed (simp_all add: wire_WorkloadSpecBody_def json_distinct_struct field_def skip_none_def option.pred_map
      string_codec.laws u64_codec.laws NetworkSpec_codec.laws ServiceSpec_codec.laws RolloutSpec_codec.laws)

definition de_WorkloadSpec :: "WorkloadSpec decoder" where
  "de_WorkloadSpec v = do {
       f \<leftarrow> struct_fields
         [''apiVersion'', ''kind'', ''meta'', ''spec''] v;
       api_version \<leftarrow> required f 0 ''apiVersion'' de_string;
       kind \<leftarrow> required f 1 ''kind'' de_string;
       meta \<leftarrow> required f 2 ''meta'' de_ObjectMeta;
       spec \<leftarrow> required f 3 ''spec'' de_WorkloadSpecBody;
       Some \<lparr>ws_api_version = api_version,
           ws_kind = kind,
           ws_meta = meta,
           ws_spec = spec\<rparr> }"

definition wire_WorkloadSpec :: "WorkloadSpec \<Rightarrow> json" where
  "wire_WorkloadSpec x = struct_json
     [field ''apiVersion'' (Str (ws_api_version x)),
      field ''kind'' (Str (ws_kind x)),
      field ''meta'' (wire_ObjectMeta (ws_meta x)),
      field ''spec'' (wire_WorkloadSpecBody (ws_spec x))]"

interpretation WorkloadSpec_codec: json_codec wire_WorkloadSpec de_WorkloadSpec
proof unfold_locales
  show "de_WorkloadSpec (wire_WorkloadSpec x) = Some x" for x
    by (cases x) (simp add: de_WorkloadSpec_def wire_WorkloadSpec_def decode_struct field_def skip_none_def
        string_codec.laws ObjectMeta_codec.laws WorkloadSpecBody_codec.laws)
qed (simp_all add: wire_WorkloadSpec_def json_distinct_struct field_def skip_none_def option.pred_map
      string_codec.laws ObjectMeta_codec.laws WorkloadSpecBody_codec.laws)

definition de_NodeDesiredState :: "NodeDesiredState decoder" where
  "de_NodeDesiredState v = do {
       f \<leftarrow> struct_fields
         [''nodeId'', ''generation'', ''runtimes'', ''workloads''] v;
       node_id \<leftarrow> required f 0 ''nodeId'' de_string;
       generation \<leftarrow> required f 1 ''generation'' de_word;
       runtimes \<leftarrow> required f 2 ''runtimes'' (de_list de_RuntimeSpec);
       workloads \<leftarrow> required f 3 ''workloads'' (de_list de_WorkloadSpec);
       Some \<lparr>ds_node_id = node_id,
           ds_generation = generation,
           ds_runtimes = runtimes,
           ds_workloads = workloads\<rparr> }"

definition wire_NodeDesiredState :: "NodeDesiredState \<Rightarrow> json" where
  "wire_NodeDesiredState x = struct_json
     [field ''nodeId'' (Str (ds_node_id x)),
      field ''generation'' (en_word (ds_generation x)),
      field ''runtimes'' (Arr (map wire_RuntimeSpec (ds_runtimes x))),
      field ''workloads'' (Arr (map wire_WorkloadSpec (ds_workloads x)))]"

interpretation NodeDesiredState_codec: json_codec wire_NodeDesiredState de_NodeDesiredState
proof unfold_locales
  show "de_NodeDesiredState (wire_NodeDesiredState x) = Some x" for x
    by (cases x) (simp add: de_NodeDesiredState_def wire_NodeDesiredState_def decode_struct field_def skip_none_def
        string_codec.laws u64_codec.laws RuntimeSpec_codec.laws WorkloadSpec_codec.laws)
qed (simp_all add: wire_NodeDesiredState_def json_distinct_struct field_def skip_none_def option.pred_map
      string_codec.laws u64_codec.laws RuntimeSpec_codec.laws WorkloadSpec_codec.laws)

end
