(* ===== verification/Wire_Messages.thy ===== *)
theory Wire_Messages
  imports Wire_Codec Log_Record
begin

text \<open>
  The frames of protocol v2 (\<open>src/transport/protocol.rs\<close>): the envelope, the messages the agent
  sends with their \<open>Serialize\<close> encodings, and \<open>decode\<close>, which picks the body's type by the
  envelope's \<open>type\<close>. The JSON text syntax is a parameter: \<open>parse\<close> reads a text (\<open>serde_json\<close>'s
  parser), \<open>print\<close> writes one.
\<close>

section \<open>Outgoing bodies\<close>

record HelloBody =
  hello_protocol :: "u8 list"
  hello_agent_version :: string
  hello_boot_id :: string
  hello_capabilities :: "string list"
  hello_observed :: "u64 text_map"
  hello_pending_op_results :: "string list"

record AuthBody =
  auth_node_id :: string
  auth_signature :: string

datatype Phase = Pending | Progressing | Ready | Degraded | Failed | Terminating | Phase_Unknown

datatype ConditionStatus = Cond_True | Cond_False | Cond_Unknown

record Condition =
  cond_condition_type :: string
  cond_status :: ConditionStatus
  cond_reason :: "string option"
  cond_message :: "string option"
  cond_last_transition_at :: string

datatype ContainerState = Container_Created | Container_Running | Restarting | Exited | Dead | Missing

datatype ContainerHealth = Healthy | Unhealthy | Starting | Health_None

record ServiceStatus =
  ss_name :: string
  ss_container_id :: "string option"
  ss_image_digest :: "string option"
  ss_state :: ContainerState
  ss_health :: ContainerHealth
  ss_restart_count :: u32
  ss_exit_code :: "32 word option"
  ss_oom_killed :: bool
  ss_started_at :: "string option"

record LastError =
  le_reason :: string
  le_message :: string
  le_at :: string

datatype ObjectKind = Runtime_Object | Workload_Object

record ObjectStatus =
  os_id :: string
  os_kind :: ObjectKind
  os_node_id :: string
  os_observed_generation :: u64
  os_phase :: Phase
  os_conditions :: "Condition list"
  os_services :: "ServiceStatus list option"
  os_last_error :: "LastError option"
  os_reported_at :: string

datatype EventSeverity = Info | Warning | Severity_Error

record NodeEvent =
  ne_id :: string
  ne_node_id :: string
  ne_project_id :: "string option"
  ne_object_id :: "string option"
  ne_generation :: "u64 option"
  ne_severity :: EventSeverity
  ne_reason :: string
  ne_message :: string
  ne_at :: string

record LogResultBody =
  lr_request_id :: string
  lr_records :: "Record list"
  lr_next_cursor :: "string option"

section \<open>Their encodings\<close>

definition en_HelloBody :: "HelloBody \<Rightarrow> json" where
  "en_HelloBody b = struct_json
     [field ''protocol'' (Arr (map en_word (hello_protocol b))),
      field ''agentVersion'' (Str (hello_agent_version b)),
      field ''bootId'' (Str (hello_boot_id b)),
      field ''capabilities'' (Arr (map Str (hello_capabilities b))),
      field ''observed'' (en_map en_word (hello_observed b)),
      field ''pendingOpResults'' (Arr (map Str (hello_pending_op_results b)))]"

definition en_AuthBody :: "AuthBody \<Rightarrow> json" where
  "en_AuthBody b = struct_json
     [field ''nodeId'' (Str (auth_node_id b)),
      field ''signature'' (Str (auth_signature b))]"

fun en_Phase :: "Phase \<Rightarrow> json" where
  "en_Phase Pending = Str ''Pending''"
| "en_Phase Progressing = Str ''Progressing''"
| "en_Phase Ready = Str ''Ready''"
| "en_Phase Degraded = Str ''Degraded''"
| "en_Phase Failed = Str ''Failed''"
| "en_Phase Terminating = Str ''Terminating''"
| "en_Phase Phase_Unknown = Str ''Unknown''"

fun en_ConditionStatus :: "ConditionStatus \<Rightarrow> json" where
  "en_ConditionStatus Cond_True = Str ''True''"
| "en_ConditionStatus Cond_False = Str ''False''"
| "en_ConditionStatus Cond_Unknown = Str ''Unknown''"

definition en_Condition :: "Condition \<Rightarrow> json" where
  "en_Condition c = struct_json
     [field ''type'' (Str (cond_condition_type c)),
      field ''status'' (en_ConditionStatus (cond_status c)),
      skip_none ''reason'' Str (cond_reason c),
      skip_none ''message'' Str (cond_message c),
      field ''lastTransitionAt'' (Str (cond_last_transition_at c))]"

fun en_ContainerState :: "ContainerState \<Rightarrow> json" where
  "en_ContainerState Container_Created = Str ''created''"
| "en_ContainerState Container_Running = Str ''running''"
| "en_ContainerState Restarting = Str ''restarting''"
| "en_ContainerState Exited = Str ''exited''"
| "en_ContainerState Dead = Str ''dead''"
| "en_ContainerState Missing = Str ''missing''"

fun en_ContainerHealth :: "ContainerHealth \<Rightarrow> json" where
  "en_ContainerHealth Healthy = Str ''healthy''"
| "en_ContainerHealth Unhealthy = Str ''unhealthy''"
| "en_ContainerHealth Starting = Str ''starting''"
| "en_ContainerHealth Health_None = Str ''none''"

definition en_ServiceStatus :: "ServiceStatus \<Rightarrow> json" where
  "en_ServiceStatus s = struct_json
     [field ''name'' (Str (ss_name s)),
      skip_none ''containerId'' Str (ss_container_id s),
      skip_none ''imageDigest'' Str (ss_image_digest s),
      field ''state'' (en_ContainerState (ss_state s)),
      field ''health'' (en_ContainerHealth (ss_health s)),
      field ''restartCount'' (en_word (ss_restart_count s)),
      skip_none ''exitCode'' (\<lambda>c. en_int (sint c)) (ss_exit_code s),
      field ''oomKilled'' (Bool (ss_oom_killed s)),
      skip_none ''startedAt'' Str (ss_started_at s)]"

definition en_LastError :: "LastError \<Rightarrow> json" where
  "en_LastError e = struct_json
     [field ''reason'' (Str (le_reason e)),
      field ''message'' (Str (le_message e)),
      field ''at'' (Str (le_at e))]"

fun en_ObjectKind :: "ObjectKind \<Rightarrow> json" where
  "en_ObjectKind Runtime_Object = Str ''Runtime''"
| "en_ObjectKind Workload_Object = Str ''Workload''"

definition en_ObjectStatus :: "ObjectStatus \<Rightarrow> json" where
  "en_ObjectStatus s = struct_json
     [field ''id'' (Str (os_id s)),
      field ''kind'' (en_ObjectKind (os_kind s)),
      field ''nodeId'' (Str (os_node_id s)),
      field ''observedGeneration'' (en_word (os_observed_generation s)),
      field ''phase'' (en_Phase (os_phase s)),
      field ''conditions'' (Arr (map en_Condition (os_conditions s))),
      skip_none ''services'' (\<lambda>xs. Arr (map en_ServiceStatus xs)) (os_services s),
      skip_none ''lastError'' en_LastError (os_last_error s),
      field ''reportedAt'' (Str (os_reported_at s))]"

fun en_EventSeverity :: "EventSeverity \<Rightarrow> json" where
  "en_EventSeverity Info = Str ''info''"
| "en_EventSeverity Warning = Str ''warning''"
| "en_EventSeverity Severity_Error = Str ''error''"

definition en_NodeEvent :: "NodeEvent \<Rightarrow> json" where
  "en_NodeEvent e = struct_json
     [field ''id'' (Str (ne_id e)),
      field ''nodeId'' (Str (ne_node_id e)),
      skip_none ''projectId'' Str (ne_project_id e),
      skip_none ''objectId'' Str (ne_object_id e),
      skip_none ''generation'' en_word (ne_generation e),
      field ''severity'' (en_EventSeverity (ne_severity e)),
      field ''reason'' (Str (ne_reason e)),
      field ''message'' (Str (ne_message e)),
      field ''at'' (Str (ne_at e))]"

definition en_LogResultBody :: "LogResultBody \<Rightarrow> json" where
  "en_LogResultBody b = struct_json
     [field ''requestId'' (Str (lr_request_id b)),
      field ''records'' (Arr (map en_Record (lr_records b))),
      skip_none ''nextCursor'' Str (lr_next_cursor b)]"

section \<open>The envelope\<close>

text \<open>
  \<open>encode\<close>: the id is a fresh ULID (\<open>new_id\<close>), the time the milliseconds since the epoch
  (\<open>unix_millis\<close>, an \<open>i64\<close>): both are arguments.
\<close>

definition CURRENT_PROTOCOL_VERSION :: u8 where
  "CURRENT_PROTOCOL_VERSION = 2"

definition envelope :: "string \<Rightarrow> int \<Rightarrow> string \<Rightarrow> json \<Rightarrow> json" where
  "envelope new_id unix_millis kind body = struct_json
     [field ''v'' (en_word CURRENT_PROTOCOL_VERSION),
      field ''type'' (Str kind),
      field ''id'' (Str new_id),
      skip_none ''ack'' Str None,
      field ''ts'' (en_int unix_millis),
      field ''body'' body]"

definition encode :: "(json \<Rightarrow> string) \<Rightarrow> string \<Rightarrow> int \<Rightarrow> string \<Rightarrow> json \<Rightarrow> string" where
  "encode print new_id unix_millis kind body = print (envelope new_id unix_millis kind body)"

record IncomingEnvelope =
  env_kind :: string
  env_body :: json

definition de_IncomingEnvelope :: "IncomingEnvelope decoder" where
  "de_IncomingEnvelope v = do {
     f \<leftarrow> struct_fields [''type'', ''body''] v;
     kind \<leftarrow> required f 0 ''type'' de_string;
     body \<leftarrow> required f 1 ''body'' (\<lambda>b. Some (to_value b));
     Some \<lparr>env_kind = kind, env_body = body\<rparr> }"

datatype DecodeError = InvalidEnvelope | InvalidBody string

datatype IncomingMessage =
    Challenge ChallengeBody
  | Welcome WelcomeBody
  | Goaway GoawayBody
  | Ping
  | Desired NodeDesiredState
  | LogQuery LogQueryBody
  | Unhandled string

definition body_result :: "string \<Rightarrow> ('a \<Rightarrow> IncomingMessage) \<Rightarrow> 'a option \<Rightarrow> DecodeError + IncomingMessage" where
  "body_result kind con r = (case r of None \<Rightarrow> Inl (InvalidBody kind) | Some b \<Rightarrow> Inr (con b))"

definition decode_body :: "string \<Rightarrow> json \<Rightarrow> DecodeError + IncomingMessage" where
  "decode_body kind body =
     (if kind = ''challenge'' then body_result kind Challenge (de_ChallengeBody body)
      else if kind = ''welcome'' then body_result kind Welcome (de_WelcomeBody body)
      else if kind = ''goaway'' then body_result kind Goaway (de_GoawayBody body)
      else if kind = ''ping'' then Inr Ping
      else if kind = ''desired'' then body_result kind Desired (de_NodeDesiredState body)
      else if kind = ''logs.query'' then body_result kind LogQuery (de_LogQueryBody body)
      else Inr (Unhandled kind))"

definition decode :: "(string \<Rightarrow> json option) \<Rightarrow> string \<Rightarrow> DecodeError + IncomingMessage" where
  "decode parse raw =
     (case Option.bind (parse raw) de_IncomingEnvelope of
        None \<Rightarrow> Inl InvalidEnvelope
      | Some en \<Rightarrow> decode_body (env_kind en) (env_body en))"

lemma body_result_eq:
  "body_result kind con r = Inl e \<longleftrightarrow> r = None \<and> e = InvalidBody kind"
  "body_result kind con r = Inr m \<longleftrightarrow> (\<exists>b. r = Some b \<and> m = con b)"
  by (auto simp: body_result_def split: option.split)

text \<open>The kinds with a typed body.\<close>

definition typed_kinds :: "string set" where
  "typed_kinds = {''challenge'', ''welcome'', ''goaway'', ''desired'', ''logs.query''}"

text \<open>The frame of a message, as a peer's encoder builds it, goes through the envelope.\<close>

lemma de_envelope:
  "json_distinct body \<Longrightarrow>
     de_IncomingEnvelope (envelope new_id ts kind body) = Some \<lparr>env_kind = kind, env_body = body\<rparr>"
  by (simp add: de_IncomingEnvelope_def envelope_def decode_struct field_def skip_none_def to_value_id)

end
