(* ===== verification/Reconcile.thy ===== *)
theory Reconcile
  imports Wire_Messages
begin

text \<open>
  \<open>src/transport/reconcile.rs\<close>: from a desired state to the statuses, the event and the log block.
  \<open>now k\<close> is the k-th reading of \<open>now_rfc3339\<close> and \<open>new_id\<close> the fresh id of the event.
\<close>

section \<open>The plan\<close>

definition UNSUPPORTED_MESSAGE :: string where
  "UNSUPPORTED_MESSAGE = ''execution not yet implemented in this build''"

record ReconcilePlan =
  plan_statuses :: "ObjectStatus list"
  plan_event :: NodeEvent
  plan_block :: string

definition pending_status ::
  "string \<Rightarrow> string \<Rightarrow> ObjectKind \<Rightarrow> string \<Rightarrow> string \<Rightarrow> u64 \<Rightarrow> ObjectStatus" where
  "pending_status now1 now2 kind id' node_id generation =
     \<lparr>os_id = id', os_kind = kind, os_node_id = node_id, os_observed_generation = generation,
      os_phase = Pending,
      os_conditions = [\<lparr>cond_condition_type = ''Available'', cond_status = Cond_False,
        cond_reason = Some ''Unsupported'', cond_message = Some UNSUPPORTED_MESSAGE,
        cond_last_transition_at = now1\<rparr>],
      os_services = None, os_last_error = None, os_reported_at = now2\<rparr>"

text \<open>The \<open>Debug\<close> names of the two enums.\<close>

fun debug_RuntimeType :: "RuntimeType \<Rightarrow> string" where
  "debug_RuntimeType Lxc = ''Lxc''"
| "debug_RuntimeType Microvm = ''Microvm''"

fun debug_PowerState :: "PowerState \<Rightarrow> string" where
  "debug_PowerState Power_Running = ''Running''"
| "debug_PowerState Power_Stopped = ''Stopped''"

definition describe_runtime :: "RuntimeSpec \<Rightarrow> string" where
  "describe_runtime runtime =
     ''  runtime '' @ om_id (rs_meta runtime) @ '' (project '' @ om_project_id (rs_meta runtime) @
     '', generation '' @ show_word (om_generation (rs_meta runtime)) @ ''): type='' @
     debug_RuntimeType (rb_runtime_type (rs_spec runtime)) @ '' image='' @ rb_image (rs_spec runtime) @
     '' power='' @ debug_PowerState (rb_power (rs_spec runtime))"

definition describe_workload :: "WorkloadSpec \<Rightarrow> string" where
  "describe_workload workload =
     (let services = join '', '' (map (\<lambda>s. sv_name s @ ''='' @ sv_image s) (wk_services (ws_spec workload)))
      in ''  workload '' @ om_id (ws_meta workload) @ '' (project '' @ om_project_id (ws_meta workload) @
         '', runtime '' @ wk_runtime_id (ws_spec workload) @ '', generation '' @
         show_word (om_generation (ws_meta workload)) @ ''): '' @
         show_nat (length (wk_services (ws_spec workload))) @ '' service(s): '' @ services)"

text \<open>The two loops; each object takes two readings of the clock.\<close>

fun plan_runtimes :: "(nat \<Rightarrow> string) \<Rightarrow> nat \<Rightarrow> RuntimeSpec list \<Rightarrow> (ObjectStatus \<times> string) list" where
  "plan_runtimes now k [] = []"
| "plan_runtimes now k (r # rs) =
     (pending_status (now k) (now (k + 1)) Runtime_Object (om_id (rs_meta r)) (om_node_id (rs_meta r))
        (om_generation (rs_meta r)), describe_runtime r) # plan_runtimes now (k + 2) rs"

fun plan_workloads :: "(nat \<Rightarrow> string) \<Rightarrow> nat \<Rightarrow> WorkloadSpec list \<Rightarrow> (ObjectStatus \<times> string) list" where
  "plan_workloads now k [] = []"
| "plan_workloads now k (w # ws) =
     (pending_status (now k) (now (k + 1)) Workload_Object (om_id (ws_meta w)) (om_node_id (ws_meta w))
        (om_generation (ws_meta w)), describe_workload w) # plan_workloads now (k + 2) ws"

definition plan :: "(nat \<Rightarrow> string) \<Rightarrow> string \<Rightarrow> NodeDesiredState \<Rightarrow> ReconcilePlan" where
  "plan now new_id state =
     (let n = 2 * length (ds_runtimes state);
          objects = plan_runtimes now 0 (ds_runtimes state) @ plan_workloads now n (ds_workloads state);
          ls = map snd objects;
          block = (if ls = [] then ''  (no runtimes or workloads desired)'' else join [newline] ls)
      in \<lparr>plan_statuses = map fst objects,
          plan_event =
            \<lparr>ne_id = new_id, ne_node_id = ds_node_id state, ne_project_id = None, ne_object_id = None,
             ne_generation = Some (ds_generation state), ne_severity = Info,
             ne_reason = ''DesiredStateReceived'',
             ne_message = ''generation '' @ show_word (ds_generation state) @ '': '' @
               show_nat (length (ds_runtimes state)) @ '' runtime(s), '' @
               show_nat (length (ds_workloads state)) @
               '' workload(s), none executed (not yet implemented)'',
             ne_at = now (n + 2 * length (ds_workloads state))\<rparr>,
          plan_block = block\<rparr>)"

section \<open>Facts\<close>

text \<open>What the protocol asks of a status: which object, at which generation, honestly unsupported.\<close>

definition object_ref :: "ObjectKind \<Rightarrow> ObjectMeta \<Rightarrow> ObjectKind \<times> string \<times> string \<times> u64" where
  "object_ref kind m = (kind, om_id m, om_node_id m, om_generation m)"

definition desired_refs :: "NodeDesiredState \<Rightarrow> (ObjectKind \<times> string \<times> string \<times> u64) list" where
  "desired_refs state =
     map (\<lambda>r. object_ref Runtime_Object (rs_meta r)) (ds_runtimes state) @
     map (\<lambda>w. object_ref Workload_Object (ws_meta w)) (ds_workloads state)"

definition status_ref :: "ObjectStatus \<Rightarrow> ObjectKind \<times> string \<times> string \<times> u64" where
  "status_ref s = (os_kind s, os_id s, os_node_id s, os_observed_generation s)"

text \<open>A status that claims nothing about what runs.\<close>

definition unsupported_status :: "ObjectStatus \<Rightarrow> bool" where
  "unsupported_status s \<longleftrightarrow>
     os_phase s = Pending \<and> os_services s = None \<and> os_last_error s = None \<and>
     (\<exists>c. os_conditions s = [c] \<and> cond_status c = Cond_False \<and> cond_reason c = Some ''Unsupported'')"

lemma status_ref_pending [simp]:
  "status_ref (pending_status t1 t2 kind id' node generation) = (kind, id', node, generation)"
  by (simp add: status_ref_def pending_status_def)

lemma unsupported_pending [simp]: "unsupported_status (pending_status t1 t2 kind id' node generation)"
  by (simp add: unsupported_status_def pending_status_def)

lemma plan_runtimes_refs:
  "map (\<lambda>o'. status_ref (fst o')) (plan_runtimes now k rs) =
     map (\<lambda>r. object_ref Runtime_Object (rs_meta r)) rs"
  "o' \<in> set (plan_runtimes now k rs) \<Longrightarrow> unsupported_status (fst o')"
  by (induction rs arbitrary: k) (auto simp: object_ref_def)

lemma plan_workloads_refs:
  "map (\<lambda>o'. status_ref (fst o')) (plan_workloads now k ws) =
     map (\<lambda>w. object_ref Workload_Object (ws_meta w)) ws"
  "o' \<in> set (plan_workloads now k ws) \<Longrightarrow> unsupported_status (fst o')"
  by (induction ws arbitrary: k) (auto simp: object_ref_def)

lemma plan_statuses_refs: "map status_ref (plan_statuses (plan now new_id state)) = desired_refs state"
  by (simp add: plan_def Let_def desired_refs_def comp_def plan_runtimes_refs plan_workloads_refs)

lemma plan_statuses_unsupported:
  "s \<in> set (plan_statuses (plan now new_id state)) \<Longrightarrow> unsupported_status s"
  by (auto simp: plan_def Let_def dest: plan_runtimes_refs(2) plan_workloads_refs(2))

lemma plan_generation: "ne_generation (plan_event (plan now new_id state)) = Some (ds_generation state)"
  by (simp add: plan_def Let_def)

lemma plan_block_empty:
  "ds_runtimes state = [] \<Longrightarrow> ds_workloads state = [] \<Longrightarrow>
     plan_block (plan now new_id state) = ''  (no runtimes or workloads desired)''"
  by (simp add: plan_def Let_def)

text \<open>
  The plan reports every desired object once, in order, runtimes before workloads, under its
  own id, node and generation, and claims nothing about execution: each status is pending with
  one false condition \<open>Unsupported\<close>; the event carries the generation of the desired state.
\<close>

theorem plan_reports_every_object:
  "map status_ref (plan_statuses (plan now new_id state)) = desired_refs state \<and>
   list_all unsupported_status (plan_statuses (plan now new_id state)) \<and>
   ne_generation (plan_event (plan now new_id state)) = Some (ds_generation state) \<and>
   ne_node_id (plan_event (plan now new_id state)) = ds_node_id state"
  using plan_statuses_unsupported[of _ now new_id state]
  by (simp add: plan_statuses_refs plan_generation list_all_iff) (simp add: plan_def Let_def)

end
