(* ===== verification/Node_Metrics.thy ===== *)
theory Node_Metrics
  imports Json_Value
begin

text \<open>
  The metrics of the node: \<open>src/metrics/\<close>. The file system is the function \<open>read\<close> (None for a
  file that cannot be read), the answers of the crate \<open>sysinfo\<close> are arguments. An \<open>f64\<close> is the
  number it denotes; \<open>fdiv\<close> is the division of the machine.
\<close>

section \<open>CPU and disk\<close>

text \<open>\<open>cpu/mod.rs\<close>: \<open>parallelism\<close> is None where \<open>available_parallelism\<close> fails.\<close>

definition clamp :: "rat \<Rightarrow> rat \<Rightarrow> rat \<Rightarrow> rat" where
  "clamp v lo hi = min (max v lo) hi"

definition cpu_usage :: "(rat \<Rightarrow> rat \<Rightarrow> rat) \<Rightarrow> nat option \<Rightarrow> rat \<Rightarrow> rat" where
  "cpu_usage fdiv parallelism load1m =
     clamp (fdiv load1m (f64_of_nat (unwrap_or parallelism 1))) 0 1"

text \<open>\<open>disk/mod.rs\<close>.\<close>

record Disk =
  mount_point :: string
  total_space :: u64
  available_space :: u64

record DiskMetrics =
  disk_used_bytes :: u64
  disk_total_bytes :: u64

definition select_disk :: "Disk list \<Rightarrow> Disk option" where
  "select_disk disks =
     or_else (List.find (\<lambda>d. mount_point d = ''/'') disks)
       (case disks of [] \<Rightarrow> None | d # _ \<Rightarrow> Some d)"

definition disk_metrics :: "Disk list \<Rightarrow> DiskMetrics" where
  "disk_metrics disks =
     (case select_disk disks of
        Some d \<Rightarrow>
          (let total = max (total_space d) 1; available = min (available_space d) total
           in \<lparr>disk_used_bytes = saturating_sub total available, disk_total_bytes = total\<rparr>)
      | None \<Rightarrow> \<lparr>disk_used_bytes = 0, disk_total_bytes = 1\<rparr>)"

section \<open>Memory\<close>

text \<open>\<open>memory/mod.rs\<close>: control group, \<open>/proc/meminfo\<close>, then \<open>sysinfo\<close>.\<close>

record MemoryMetrics =
  mem_total_bytes :: u64
  mem_used_bytes :: u64
  mem_cached_bytes :: "u64 option"
  mem_available_bytes :: "u64 option"

definition parse_positive_number :: "string \<Rightarrow> u64 option" where
  "parse_positive_number raw = parse_word (trim raw)"

definition cgroup_file_bytes :: "string \<Rightarrow> u64 option" where
  "cgroup_file_bytes line =
     (case split_whitespace line of
        k # v # _ \<Rightarrow> if k = ''file'' then parse_positive_number v else None
      | _ \<Rightarrow> None)"

definition read_cgroup_v2 :: "(string \<Rightarrow> string option) \<Rightarrow> MemoryMetrics option" where
  "read_cgroup_v2 read = do {
     max_raw \<leftarrow> read ''/sys/fs/cgroup/memory.max'';
     current_raw \<leftarrow> read ''/sys/fs/cgroup/memory.current'';
     stat_raw \<leftarrow> read ''/sys/fs/cgroup/memory.stat'';
     let max_trimmed = trim max_raw;
     if max_trimmed = ''max'' then None else do {
       total \<leftarrow> parse_positive_number max_trimmed;
       current \<leftarrow> parse_positive_number (trim current_raw);
       if total = 0 then None else do {
         let cached = find_map cgroup_file_bytes (lines stat_raw);
         let used = min current total;
         Some \<lparr>mem_total_bytes = total, mem_used_bytes = used,
           mem_cached_bytes = map_option (\<lambda>v. min v used) cached,
           mem_available_bytes = Some (saturating_sub total used)\<rparr> } } }"

definition parse_meminfo_line :: "string \<Rightarrow> (string \<times> u64) option" where
  "parse_meminfo_line line = do {
     (key, raw_value) \<leftarrow> split_once '':'' line;
     w \<leftarrow> (case split_whitespace raw_value of [] \<Rightarrow> None | w # _ \<Rightarrow> Some w);
     numeric \<leftarrow> parse_word w;
     Some (trim key, numeric) }"

definition parse_meminfo :: "string \<Rightarrow> string \<Rightarrow> u64 option" where
  "parse_meminfo content = map_of (rev (List.map_filter parse_meminfo_line (lines content)))"

definition read_meminfo_value_bytes :: "(string \<Rightarrow> u64 option) \<Rightarrow> string \<Rightarrow> u64 option" where
  "read_meminfo_value_bytes values key = map_option (\<lambda>v. saturating_mul v 1024) (values key)"

definition htop_style_cache :: "(string \<Rightarrow> u64 option) \<Rightarrow> u64" where
  "htop_style_cache values =
     (let buffers = unwrap_or (read_meminfo_value_bytes values ''Buffers'') 0;
          cached = unwrap_or (read_meminfo_value_bytes values ''Cached'') 0;
          reclaimable = unwrap_or (read_meminfo_value_bytes values ''SReclaimable'') 0;
          shmem = unwrap_or (read_meminfo_value_bytes values ''Shmem'') 0
      in saturating_sub (saturating_add (saturating_add buffers cached) reclaimable) shmem)"

definition memory_metrics_from_meminfo :: "(string \<Rightarrow> u64 option) \<Rightarrow> MemoryMetrics option" where
  "memory_metrics_from_meminfo values = do {
     total \<leftarrow> read_meminfo_value_bytes values ''MemTotal'';
     let free = unwrap_or (read_meminfo_value_bytes values ''MemFree'') 0;
     let available = map_option (\<lambda>v. min v total) (read_meminfo_value_bytes values ''MemAvailable'');
     let cache = htop_style_cache values;
     let available_used = unwrap_or (map_option (\<lambda>v. saturating_sub total v) available) 0;
     let free_used = saturating_sub (saturating_sub total free) cache;
     let hides_usage = (available_used = 0 \<and> 0 < cache);
     let used = min (if hides_usage then free_used else available_used) total;
     let available =
       (if hides_usage then Some (saturating_sub total used)
        else or_else available (Some (saturating_sub total used)));
     Some \<lparr>mem_total_bytes = total, mem_used_bytes = used,
       mem_cached_bytes = Some (min cache total), mem_available_bytes = available\<rparr> }"

definition read_proc_meminfo :: "(string \<Rightarrow> string option) \<Rightarrow> MemoryMetrics option" where
  "read_proc_meminfo read = do {
     content \<leftarrow> read ''/proc/meminfo'';
     memory_metrics_from_meminfo (parse_meminfo content) }"

definition sysinfo_memory :: "u64 \<Rightarrow> u64 \<Rightarrow> MemoryMetrics" where
  "sysinfo_memory total_memory available_memory =
     (let total = max total_memory 1; available = min available_memory total
      in \<lparr>mem_total_bytes = total, mem_used_bytes = saturating_sub total available,
          mem_cached_bytes = None, mem_available_bytes = Some available\<rparr>)"

definition memory_metrics :: "(string \<Rightarrow> string option) \<Rightarrow> u64 \<Rightarrow> u64 \<Rightarrow> MemoryMetrics" where
  "memory_metrics read total_memory available_memory =
     (case read_cgroup_v2 read of
        Some m \<Rightarrow> m
      | None \<Rightarrow>
          (case read_proc_meminfo read of
             Some m \<Rightarrow> m
           | None \<Rightarrow> sysinfo_memory total_memory available_memory))"

text \<open>What every source keeps: used and available bytes add up to the total, exactly.\<close>

definition memory_ok :: "MemoryMetrics \<Rightarrow> bool" where
  "memory_ok m \<longleftrightarrow>
     (\<exists>a. mem_available_bytes m = Some a \<and>
        unat (mem_used_bytes m) + unat a = unat (mem_total_bytes m)) \<and>
     (\<forall>c. mem_cached_bytes m = Some c \<longrightarrow> c \<le> mem_total_bytes m)"

lemma sub_min_add: "unat (saturating_sub t (min u t)) + unat (min u t) = unat t"
  by (simp add: unat_saturating_sub unat_min_word)

lemma used_plus_available:
  "unat (min u t) + unat (saturating_sub t (min u t)) = unat t"
  using sub_min_add[of t u] by simp

lemma min_saturating_sub [simp]: "min (saturating_sub t a) t = saturating_sub t a"
  by (simp add: min_def)

lemma cgroup_memory_ok: "read_cgroup_v2 read = Some m \<Longrightarrow> memory_ok m"
  by (auto simp: read_cgroup_v2_def memory_ok_def Let_def used_plus_available
      split: Option.bind_splits if_splits) (simp add: min.coboundedI1 min.coboundedI2)

lemma meminfo_memory_ok: "memory_metrics_from_meminfo values = Some m \<Longrightarrow> memory_ok m"
proof -
  assume m: "memory_metrics_from_meminfo values = Some m"
  then obtain t where t: "read_meminfo_value_bytes values ''MemTotal'' = Some t"
    by (auto simp: memory_metrics_from_meminfo_def split: Option.bind_splits)
  show ?thesis
  proof (cases "read_meminfo_value_bytes values ''MemAvailable''")
    case None
    have "saturating_sub t 0 = t" by (simp add: saturating_sub_def)
    with m t None show ?thesis
      by (auto simp: memory_metrics_from_meminfo_def memory_ok_def Let_def used_plus_available)
  next
    case (Some a)
    with m t show ?thesis
      using sub_min_add[of t a]
      by (auto simp: memory_metrics_from_meminfo_def memory_ok_def Let_def used_plus_available)
  qed
qed

lemma memory_metrics_ok: "memory_ok (memory_metrics read total_memory available_memory)"
proof -
  have "memory_ok (sysinfo_memory t a)" for t a
    using sub_min_add[of "max t 1" a] by (simp add: sysinfo_memory_def memory_ok_def Let_def)
  then show ?thesis
    by (auto simp: memory_metrics_def read_proc_meminfo_def meminfo_memory_ok cgroup_memory_ok
        split: option.split Option.bind_splits)
qed

section \<open>Network\<close>

text \<open>
  \<open>network/mod.rs\<close> on Linux. \<open>entries\<close> is what \<open>read_dir\<close> yields for \<open>/sys/class/net\<close> (None
  when it fails, only the readable entries).
\<close>

record NetworkMetrics =
  net_rx_bytes :: u64
  net_tx_bytes :: u64

definition net_path :: "string \<Rightarrow> string \<Rightarrow> string" where
  "net_path name file = ''/sys/class/net/'' @ name @ ''/'' @ file"

definition read_u64 :: "(string \<Rightarrow> string option) \<Rightarrow> string \<Rightarrow> u64" where
  "read_u64 read path = unwrap_or (Option.bind (read path) (\<lambda>c. parse_word (trim c))) 0"

definition counted_interface :: "(string \<Rightarrow> string option) \<Rightarrow> string \<Rightarrow> bool" where
  "counted_interface read name \<longleftrightarrow>
     \<not> starts_with name ''lo'' \<and>
     \<not> unwrap_or (map_option (\<lambda>s. trim s = ''down'') (read (net_path name ''operstate''))) False"

definition count_interface ::
  "(string \<Rightarrow> string option) \<Rightarrow> string \<Rightarrow> NetworkMetrics \<Rightarrow> NetworkMetrics" where
  "count_interface read name m =
     (if counted_interface read name
      then \<lparr>net_rx_bytes = saturating_add (net_rx_bytes m) (read_u64 read (net_path name ''statistics/rx_bytes'')),
            net_tx_bytes = saturating_add (net_tx_bytes m) (read_u64 read (net_path name ''statistics/tx_bytes''))\<rparr>
      else m)"

definition network_metrics :: "(string \<Rightarrow> string option) \<Rightarrow> string list option \<Rightarrow> NetworkMetrics" where
  "network_metrics read entries =
     (case entries of
        None \<Rightarrow> \<lparr>net_rx_bytes = 0, net_tx_bytes = 0\<rparr>
      | Some names \<Rightarrow> fold (count_interface read) names \<lparr>net_rx_bytes = 0, net_tx_bytes = 0\<rparr>)"

text \<open>The exact sum over the counted interfaces.\<close>

definition interface_sum :: "(string \<Rightarrow> string option) \<Rightarrow> string \<Rightarrow> string list \<Rightarrow> nat" where
  "interface_sum read file names =
     sum_list (map (\<lambda>n. unat (read_u64 read (net_path n file))) (filter (counted_interface read) names))"

lemma count_interface_sum:
  "unat (net_rx_bytes (count_interface read name m)) =
     min (unat (net_rx_bytes m) + interface_sum read ''statistics/rx_bytes'' [name]) (2 ^ 64 - 1)"
  "unat (net_tx_bytes (count_interface read name m)) =
     min (unat (net_tx_bytes m) + interface_sum read ''statistics/tx_bytes'' [name]) (2 ^ 64 - 1)"
  using unat_less_exp[of "net_rx_bytes m"] unat_less_exp[of "net_tx_bytes m"]
  by (simp_all add: count_interface_def interface_sum_def unat_saturating_add)

lemma interface_sum_Cons:
  "interface_sum read file (name # names) = interface_sum read file [name] + interface_sum read file names"
  by (simp add: interface_sum_def)

lemma fold_count_interface:
  "unat (net_rx_bytes (fold (count_interface read) names m)) =
     min (unat (net_rx_bytes m) + interface_sum read ''statistics/rx_bytes'' names) (2 ^ 64 - 1)"
  "unat (net_tx_bytes (fold (count_interface read) names m)) =
     min (unat (net_tx_bytes m) + interface_sum read ''statistics/tx_bytes'' names) (2 ^ 64 - 1)"
proof (induction names arbitrary: m)
  case Nil
  {
    case 1
    then show ?case using unat_less_exp[of "net_rx_bytes m"] by (simp add: interface_sum_def)
  next
    case 2
    then show ?case using unat_less_exp[of "net_tx_bytes m"] by (simp add: interface_sum_def)
  }
next
  case (Cons name names)
  {
    case 1
    then show ?case
      by (simp only: fold_simps(2) Cons.IH count_interface_sum interface_sum_Cons[of _ _ name names])
  next
    case 2
    then show ?case
      by (simp only: fold_simps(2) Cons.IH count_interface_sum interface_sum_Cons[of _ _ name names])
  }
qed

section \<open>The payload\<close>

record MetricsPayload =
  mp_v :: u8
  mp_ts :: u64
  mp_cpu :: rat
  mp_mem_used :: u64
  mp_mem_total :: u64
  mp_mem_cached :: "u64 option"
  mp_mem_available :: "u64 option"
  mp_disk_used :: u64
  mp_disk_total :: u64
  mp_net_rx :: u64
  mp_net_tx :: u64

text \<open>What the operating system answers while one payload is collected.\<close>

record MetricsSource =
  src_read :: "string \<Rightarrow> string option"
  src_parallelism :: "nat option"
  src_load1m :: rat
  src_disks :: "Disk list"
  src_total_memory :: u64
  src_available_memory :: u64
  src_net_entries :: "string list option"
  src_now_ms :: u64

definition collect_metrics :: "(rat \<Rightarrow> rat \<Rightarrow> rat) \<Rightarrow> MetricsSource \<Rightarrow> MetricsPayload result" where
  "collect_metrics fdiv src =
     (let cpu = cpu_usage fdiv (src_parallelism src) (src_load1m src);
          memory = memory_metrics (src_read src) (src_total_memory src) (src_available_memory src);
          disk = disk_metrics (src_disks src);
          network = network_metrics (src_read src) (src_net_entries src)
      in Inr \<lparr>mp_v = 1, mp_ts = src_now_ms src, mp_cpu = cpu,
           mp_mem_used = mem_used_bytes memory, mp_mem_total = max (mem_total_bytes memory) 1,
           mp_mem_cached = mem_cached_bytes memory, mp_mem_available = mem_available_bytes memory,
           mp_disk_used = disk_used_bytes disk, mp_disk_total = disk_total_bytes disk,
           mp_net_rx = net_rx_bytes network, mp_net_tx = net_tx_bytes network\<rparr>)"

definition en_MetricsPayload :: "MetricsPayload \<Rightarrow> json" where
  "en_MetricsPayload p = struct_json
     [field ''v'' (en_word (mp_v p)),
      field ''ts'' (en_word (mp_ts p)),
      field ''cpu'' (en_f64 (mp_cpu p)),
      field ''mem_used'' (en_word (mp_mem_used p)),
      field ''mem_total'' (en_word (mp_mem_total p)),
      skip_none ''mem_cached'' en_word (mp_mem_cached p),
      skip_none ''mem_available'' en_word (mp_mem_available p),
      field ''disk_used'' (en_word (mp_disk_used p)),
      field ''disk_total'' (en_word (mp_disk_total p)),
      field ''net_rx'' (en_word (mp_net_rx p)),
      field ''net_tx'' (en_word (mp_net_tx p))]"

lemma disk_metrics_ok:
  "disk_used_bytes (disk_metrics disks) \<le> disk_total_bytes (disk_metrics disks) \<and>
   0 < disk_total_bytes (disk_metrics disks)"
proof (cases "select_disk disks")
  case None
  then show ?thesis by (simp add: disk_metrics_def)
next
  case (Some d)
  have "(0 :: u64) < max (total_space d) 1" by (simp add: less_max_iff_disj)
  with Some show ?thesis by (simp add: disk_metrics_def Let_def)
qed

lemma memory_used_le: "memory_ok m \<Longrightarrow> mem_used_bytes m \<le> mem_total_bytes m"
  by (auto simp: memory_ok_def word_le_nat_alt)

text \<open>
  C34: every memory reading, whether it comes from the control group, from \<open>/proc/meminfo\<close> (with
  its correction for a \<open>MemAvailable\<close> that hides the usage) or from \<open>sysinfo\<close>, is consistent:
  used and available bytes add up to the total exactly, and the cache is at most the total.
\<close>

theorem memory_metrics_consistent:
  "memory_ok (memory_metrics read total_memory available_memory)"
  by (rule memory_metrics_ok)

text \<open>
  The network counters are the sums over the interfaces that are neither \<open>lo\<close>-prefixed nor
  down, capped at the largest 64-bit number instead of wrapping around.
\<close>

theorem network_metrics_sums:
  "unat (net_rx_bytes (network_metrics read (Some names))) =
     min (interface_sum read ''statistics/rx_bytes'' names) (2 ^ 64 - 1) \<and>
   unat (net_tx_bytes (network_metrics read (Some names))) =
     min (interface_sum read ''statistics/tx_bytes'' names) (2 ^ 64 - 1)"
  by (simp add: network_metrics_def fold_count_interface)

text \<open>
  Collecting metrics always succeeds, and the payload is within bounds: the CPU share is in
  0..1, used memory and disk are at most their totals, and the totals are positive, so that a
  reader can divide by them.
\<close>

theorem collect_metrics_bounds:
  "\<exists>p. collect_metrics fdiv src = Inr p \<and> 0 \<le> mp_cpu p \<and> mp_cpu p \<le> 1 \<and>
     mp_mem_used p \<le> mp_mem_total p \<and> 0 < mp_mem_total p \<and>
     mp_disk_used p \<le> mp_disk_total p \<and> 0 < mp_disk_total p"
proof -
  define m where "m = memory_metrics (src_read src) (src_total_memory src) (src_available_memory src)"
  have "mem_used_bytes m \<le> max (mem_total_bytes m) 1"
    using memory_used_le[of m] memory_metrics_ok by (auto simp: m_def le_max_iff_disj)
  moreover have "(0 :: u64) < max (mem_total_bytes m) 1" by (simp add: less_max_iff_disj)
  ultimately show ?thesis
    using disk_metrics_ok[of "src_disks src"]
    by (simp add: collect_metrics_def Let_def cpu_usage_def clamp_def flip: m_def)
qed

end
