(* ===== verification/Agent_Io.thy ===== *)
theory Agent_Io
  imports Rust_Num
begin

text \<open>
  The operating system under the agent: external programs and the file system. An effect is a
  function of the history of what has been done; the answers (\<open>OS\<close>) may depend on that history
  and are parameters. Fallible effects return a \<open>result\<close>, as \<open>anyhow::Result\<close> with \<open>?\<close>.
\<close>

section \<open>Programs and files\<close>

text \<open>
  A call of an external program; \<open>cmd_limit_ms\<close> is the timeout the caller puts on it,
  \<open>cmd_cwd\<close> and \<open>cmd_env\<close> what the caller sets of its directory and environment.
\<close>

record Cmd =
  cmd_program :: string
  cmd_args :: "string list"
  cmd_stdin :: "string option"
  cmd_limit_ms :: "nat option"
  cmd_cwd :: "string option"
  cmd_env :: "(string \<times> string) list"

definition cmd :: "string \<Rightarrow> string list \<Rightarrow> Cmd" where
  "cmd program args = \<lparr>cmd_program = program, cmd_args = args, cmd_stdin = None, cmd_limit_ms = None,
     cmd_cwd = None, cmd_env = []\<rparr>"

text \<open>\<open>JobLogStream\<close> and \<open>JobLogLine\<close> of \<open>src/jobs/mod.rs\<close>: a line sent to the job's log.\<close>

datatype JobLogStream = Stdout | Stderr

fun JobLogStream_as_str :: "JobLogStream \<Rightarrow> string" where
  "JobLogStream_as_str Stdout = ''stdout''"
| "JobLogStream_as_str Stderr = ''stderr''"

record JobLogLine =
  ll_job_id :: string
  ll_attempt_id :: string
  ll_stream :: JobLogStream
  ll_line :: string
  ll_scope :: string
  ll_resource_id :: "string option"

text \<open>
  What a program leaves: its exit status, whether its output is UTF-8, and the texts that
  \<open>String::from_utf8_lossy\<close> makes of the two streams (the exact text where it is UTF-8).
\<close>

record ProcOutput =
  po_success :: bool
  po_status :: string
  po_utf8 :: bool
  po_stdout :: string
  po_stderr :: string

datatype proc_outcome = Timed_Out | Not_Found string | Spawn_Failed string | Finished ProcOutput

text \<open>
  An HTTP request (a \<open>GET\<close> when it has no body), and its response: status, text, and what
  \<open>error_for_status\<close> says of a status that is an error.
\<close>

record HttpRequest =
  rq_url :: string
  rq_body :: "string option"

record HttpResponse =
  rp_status :: nat
  rp_text :: "string result"
  rp_error :: anyhow

datatype event =
    Ran Cmd
  | Wrote string string
  | Made_Dir string
  | Removed string
  | Mode_Set string nat
  | Slept nat
  | Appended string string
  | Emitted JobLogLine
  | Launched Cmd
  | Killed
  | Opened string
  | Http HttpRequest
  | Printed string

text \<open>
  \<open>os_fault\<close> decides whether an event fails; \<open>os_poll\<close> is what \<open>try_wait\<close> finds of the child
  launched last (None while it runs), \<open>os_child_log\<close> the lines read so far from its two streams, each
  with its label, \<open>os_child_id\<close> its process id, \<open>os_clock\<close> the monotonic clock in milliseconds, \<open>os_stat\<close> the
  metadata of a path (whether it is a directory, and its mode). Of the program run last, \<open>os_order\<close> is the
  order in which the lines of its two streams arrive (True for one of standard output), and
  \<open>os_partial\<close> what had been read of them, line by line, where reading ends early: at the program's time limit
  or at bytes that are not UTF-8.
\<close>

record OS =
  os_exec :: "event list \<Rightarrow> Cmd \<Rightarrow> proc_outcome"
  os_read :: "event list \<Rightarrow> string \<Rightarrow> string result"
  os_exists :: "event list \<Rightarrow> string \<Rightarrow> bool"
  os_fault :: "event list \<Rightarrow> event \<Rightarrow> anyhow option"
  os_poll :: "event list \<Rightarrow> string option result"
  os_clock :: "event list \<Rightarrow> nat"
  os_stat :: "event list \<Rightarrow> string \<Rightarrow> (bool \<times> 32 word) result"
  os_http :: "event list \<Rightarrow> HttpRequest \<Rightarrow> HttpResponse result"
  os_child_log :: "event list \<Rightarrow> (string \<times> string) list"
  os_child_id :: "event list \<Rightarrow> u32"
  os_order :: "event list \<Rightarrow> bool list"
  os_partial :: "event list \<Rightarrow> string list \<times> string list"

text \<open>A system on which every program succeeds silently and every file exists and is empty.\<close>

definition idle_output :: ProcOutput where
  "idle_output = \<lparr>po_success = True, po_status = ''exit status: 0'', po_utf8 = True, po_stdout = [], po_stderr = []\<rparr>"

definition idle_os :: OS where
  "idle_os = \<lparr>os_exec = (\<lambda>h c. Finished idle_output), os_read = (\<lambda>h p. Inr []), os_exists = (\<lambda>h p. True),
     os_fault = (\<lambda>h e. None), os_poll = (\<lambda>h. Inr None), os_clock = length,
     os_stat = (\<lambda>h p. Inr (True, 493)), os_http = (\<lambda>h r. Inr \<lparr>rp_status = 200, rp_text = Inr [], rp_error = []\<rparr>),
     os_child_log = (\<lambda>h. []), os_child_id = (\<lambda>h. 1),
     os_order = (\<lambda>h. []), os_partial = (\<lambda>h. ([], []))\<rparr>"

lemma idle_simps [simp]:
  "os_exec idle_os h c = Finished idle_output" "os_read idle_os h p = Inr []" "os_exists idle_os h p"
  "os_fault idle_os h e = None" "os_stat idle_os h p = Inr (True, 493)"
  "po_success idle_output" "po_utf8 idle_output" "po_stdout idle_output = []" "po_stderr idle_output = []"
  by (simp_all add: idle_os_def idle_output_def)

section \<open>Effects\<close>

type_synonym 'a eff = "event list \<Rightarrow> 'a result \<times> event list"

definition ret :: "'a \<Rightarrow> 'a eff" where
  "ret x = (\<lambda>h. (Inr x, h))"

definition fail :: "anyhow \<Rightarrow> 'a eff" where
  "fail e = (\<lambda>h. (Inl e, h))"

definition lift :: "'a result \<Rightarrow> 'a eff" where
  "lift r = (\<lambda>h. (r, h))"

text \<open>Sequencing with \<open>?\<close>: an error ends the function.\<close>

definition eff_then :: "'a eff \<Rightarrow> ('a \<Rightarrow> 'b eff) \<Rightarrow> 'b eff" where
  "eff_then m f = (\<lambda>h. case m h of (Inl e, h') \<Rightarrow> (Inl e, h') | (Inr x, h') \<Rightarrow> f x h')"

definition eff_seq :: "'a eff \<Rightarrow> 'b eff \<Rightarrow> 'b eff" where
  "eff_seq m n = eff_then m (\<lambda>_. n)"

text \<open>\<open>let _ = m\<close>, \<open>m.context(msg)\<close>, and a result that is inspected instead of propagated.\<close>

definition eff_ignore :: "'a eff \<Rightarrow> unit eff" where
  "eff_ignore m = (\<lambda>h. (Inr (), snd (m h)))"

definition eff_context :: "string \<Rightarrow> 'a eff \<Rightarrow> 'a eff" where
  "eff_context msg m = (\<lambda>h. case m h of (r, h') \<Rightarrow> (with_context msg r, h'))"

definition eff_try :: "'a eff \<Rightarrow> 'a result eff" where
  "eff_try m = (\<lambda>h. case m h of (r, h') \<Rightarrow> (Inr r, h'))"

definition exec :: "OS \<Rightarrow> Cmd \<Rightarrow> proc_outcome eff" where
  "exec os c = (\<lambda>h. (Inr (os_exec os h c), h @ [Ran c]))"

definition perform :: "OS \<Rightarrow> event \<Rightarrow> unit eff" where
  "perform os e = (\<lambda>h. (case os_fault os h e of None \<Rightarrow> Inr () | Some err \<Rightarrow> Inl err, h @ [e]))"

definition read_file :: "OS \<Rightarrow> string \<Rightarrow> string eff" where
  "read_file os path = (\<lambda>h. (os_read os h path, h))"

definition file_exists :: "OS \<Rightarrow> string \<Rightarrow> bool eff" where
  "file_exists os path = (\<lambda>h. (Inr (os_exists os h path), h))"

definition stat_file :: "OS \<Rightarrow> string \<Rightarrow> (bool \<times> 32 word) eff" where
  "stat_file os path = (\<lambda>h. (os_stat os h path, h))"

definition http :: "OS \<Rightarrow> HttpRequest \<Rightarrow> HttpResponse eff" where
  "http os r = (\<lambda>h. (os_http os h r, h @ [Http r]))"

definition emit :: "event \<Rightarrow> unit eff" where
  "emit ev = (\<lambda>h. (Inr (), h @ [ev]))"

definition poll_child :: "OS \<Rightarrow> string option eff" where
  "poll_child os = (\<lambda>h. (os_poll os h, h))"

definition child_log :: "OS \<Rightarrow> (string \<times> string) list eff" where
  "child_log os = (\<lambda>h. (Inr (os_child_log os h), h))"

definition child_id :: "OS \<Rightarrow> u32 eff" where
  "child_id os = (\<lambda>h. (Inr (os_child_id os h), h))"

definition arrival :: "OS \<Rightarrow> bool list eff" where
  "arrival os = (\<lambda>h. (Inr (os_order os h), h))"

definition delivered :: "OS \<Rightarrow> (string list \<times> string list) eff" where
  "delivered os = (\<lambda>h. (Inr (os_partial os h), h))"

definition clock :: "OS \<Rightarrow> nat eff" where
  "clock os = (\<lambda>h. (Inr (os_clock os h), h))"

fun eff_each :: "('a \<Rightarrow> unit eff) \<Rightarrow> 'a list \<Rightarrow> unit eff" where
  "eff_each f [] = ret ()"
| "eff_each f (x # xs) = eff_seq (f x) (eff_each f xs)"

text \<open>
  A loop whose body says how to go on: with the next state, or with a value. A loop that is out of
  fuel yields the empty error chain, which no error of the code is.
\<close>

fun eff_loop :: "nat \<Rightarrow> ('s \<Rightarrow> ('s + 'a) eff) \<Rightarrow> 's \<Rightarrow> 'a eff" where
  "eff_loop 0 body s = fail []"
| "eff_loop (Suc n) body s = eff_then (body s) (\<lambda>r. case r of Inl s' \<Rightarrow> eff_loop n body s' | Inr x \<Rightarrow> ret x)"

definition eff_when :: "bool \<Rightarrow> unit eff \<Rightarrow> unit eff" where
  "eff_when b m = (if b then m else ret ())"

named_theorems eff_defs \<open>definitions of the effects\<close>

declare ret_def [eff_defs] fail_def [eff_defs] lift_def [eff_defs] eff_then_def [eff_defs]
  eff_seq_def [eff_defs] eff_ignore_def [eff_defs] eff_context_def [eff_defs] eff_try_def [eff_defs]
  exec_def [eff_defs] perform_def [eff_defs] read_file_def [eff_defs] file_exists_def [eff_defs]
  eff_when_def [eff_defs] emit_def [eff_defs] poll_child_def [eff_defs] clock_def [eff_defs]
  stat_file_def [eff_defs] http_def [eff_defs] child_log_def [eff_defs] child_id_def [eff_defs]
  arrival_def [eff_defs] delivered_def [eff_defs]

lemma eff_then_assoc: "eff_then (eff_then m f) g = eff_then m (\<lambda>x. eff_then (f x) g)"
  by (auto simp: eff_then_def fun_eq_iff split: prod.splits sum.splits)

lemma ret_then [simp]: "eff_then (ret x) f = f x"
  by (simp add: eff_then_def ret_def)

lemma then_ret [simp]: "eff_then m ret = m"
  by (auto simp: eff_then_def ret_def fun_eq_iff split: prod.splits sum.splits)

lemma fail_then [simp]: "eff_then (fail e) f = fail e"
  by (simp add: eff_then_def fail_def)

lemma eff_then_Inr:
  "eff_then m f h = (Inr y, h'') \<longleftrightarrow> (\<exists>x h'. m h = (Inr x, h') \<and> f x h' = (Inr y, h''))"
  by (auto simp: eff_then_def split: prod.splits sum.splits)

section \<open>Weakest preconditions\<close>

text \<open>
  \<open>wp m Q h\<close>: run after the history \<open>h\<close>, the effect returns a result and reaches a history that
  satisfy \<open>Q\<close>. The rules compute it along the structure of the effect; a function that is not
  unfolded is replaced by what is known of it (\<open>wp_mono\<close>).
\<close>

definition wp :: "'a eff \<Rightarrow> ('a result \<Rightarrow> event list \<Rightarrow> bool) \<Rightarrow> event list \<Rightarrow> bool" where
  "wp m Q h \<longleftrightarrow> (case m h of (r, h') \<Rightarrow> Q r h')"

named_theorems wp_rules \<open>weakest preconditions of the effects\<close>

lemma wp_basic [wp_rules]:
  "wp (ret x) Q1 h \<longleftrightarrow> Q1 (Inr x) h"
  "wp (fail e) Q2 h \<longleftrightarrow> Q2 (Inl e) h"
  "wp (lift r) Q3 h \<longleftrightarrow> Q3 r h"
  "wp (exec os c) Q4 h \<longleftrightarrow> Q4 (Inr (os_exec os h c)) (h @ [Ran c])"
  "wp (emit ev) Q5 h \<longleftrightarrow> Q5 (Inr ()) (h @ [ev])"
  "wp (read_file os path) Q6 h \<longleftrightarrow> Q6 (os_read os h path) h"
  "wp (file_exists os path) Q7 h \<longleftrightarrow> Q7 (Inr (os_exists os h path)) h"
  "wp (poll_child os) Q8 h \<longleftrightarrow> Q8 (os_poll os h) h"
  "wp (clock os) Q9 h \<longleftrightarrow> Q9 (Inr (os_clock os h)) h"
  "wp (stat_file os path) Q10 h \<longleftrightarrow> Q10 (os_stat os h path) h"
  "wp (http os rq) Q11 h \<longleftrightarrow> Q11 (os_http os h rq) (h @ [Http rq])"
  "wp (child_log os) Q12 h \<longleftrightarrow> Q12 (Inr (os_child_log os h)) h"
  "wp (child_id os) Q13 h \<longleftrightarrow> Q13 (Inr (os_child_id os h)) h"
  "wp (arrival os) Q14 h \<longleftrightarrow> Q14 (Inr (os_order os h)) h"
  "wp (delivered os) Q15 h \<longleftrightarrow> Q15 (Inr (os_partial os h)) h"
  by (simp_all add: wp_def eff_defs)

lemma wp_perform [wp_rules]:
  "wp (perform os ev) Q h \<longleftrightarrow>
     Q (case os_fault os h ev of None \<Rightarrow> Inr () | Some err \<Rightarrow> Inl err) (h @ [ev])"
  by (simp add: wp_def perform_def)

lemma wp_then [wp_rules]:
  "wp (eff_then m f) Q h \<longleftrightarrow> wp m (\<lambda>r h'. case r of Inl e \<Rightarrow> Q (Inl e) h' | Inr x \<Rightarrow> wp (f x) Q h') h"
  by (simp add: wp_def eff_then_def split: prod.split sum.split)

lemma wp_seq [wp_rules]:
  "wp (eff_seq m n) Q h \<longleftrightarrow> wp m (\<lambda>r h'. case r of Inl e \<Rightarrow> Q (Inl e) h' | Inr _ \<Rightarrow> wp n Q h') h"
  by (simp add: eff_seq_def wp_then)

lemma wp_wrap [wp_rules]:
  "wp (eff_ignore m1) Q1 h \<longleftrightarrow> wp m1 (\<lambda>r h'. Q1 (Inr ()) h') h"
  "wp (eff_context msg m2) Q2 h \<longleftrightarrow> wp m2 (\<lambda>r h'. Q2 (with_context msg r) h') h"
  "wp (eff_try m3) Q3 h \<longleftrightarrow> wp m3 (\<lambda>r h'. Q3 (Inr r) h') h"
  "wp (eff_when b m4) Q4 h \<longleftrightarrow> (if b then wp m4 Q4 h else Q4 (Inr ()) h)"
  by (simp_all add: wp_def eff_defs split: prod.split)

lemma wp_mono: "wp m R h \<Longrightarrow> (\<And>r h'. R r h' \<Longrightarrow> Q r h') \<Longrightarrow> wp m Q h"
  by (auto simp: wp_def)

lemma wp_run: "wp m Q h \<longleftrightarrow> Q (fst (m h)) (snd (m h))"
  by (simp add: wp_def split_beta)

text \<open>
  Loops that return: an invariant that every round keeps, and a measure that every round which goes
  on makes smaller, so that the fuel is never used up.
\<close>

lemma wp_loop:
  assumes "I s h" "\<mu> s h < (n :: nat)"
    and step: "\<And>s h. I s h \<Longrightarrow> wp (body s) (\<lambda>r h'. case r of
        Inl e \<Rightarrow> Q (Inl e) h'
      | Inr (Inl s') \<Rightarrow> I s' h' \<and> \<mu> s' h' < \<mu> s h
      | Inr (Inr x) \<Rightarrow> Q (Inr x) h') h"
  shows "wp (eff_loop n body s) Q h"
  using assms(1,2)
proof (induction n arbitrary: s h)
  case (Suc n)
  show ?case
    unfolding eff_loop.simps wp_then
    by (rule wp_mono[OF step[OF Suc.prems(1)]]) (use Suc in \<open>auto simp: wp_rules split: sum.splits\<close>)
qed simp

text \<open>More fuel changes nothing once a loop has returned.\<close>

lemma loop_more_fuel:
  assumes "\<And>s h h'. body s h \<noteq> (Inl [], h')" "eff_loop n body s h = (r, h')" "r \<noteq> Inl []"
  shows "eff_loop (n + m) body s h = (r, h')"
  using assms(2,3)
proof (induction n arbitrary: s h)
  case (Suc n)
  obtain r1 h1 where "body s h = (r1, h1)" by (cases "body s h")
  with Suc show ?case by (auto simp: eff_then_def split: sum.splits)
qed (simp add: fail_def)

section \<open>What an effect adds to the history\<close>

text \<open>\<open>only P m\<close>: the effect only adds events that satisfy \<open>P\<close>.\<close>

definition only :: "(event \<Rightarrow> bool) \<Rightarrow> 'a eff \<Rightarrow> bool" where
  "only P m \<longleftrightarrow> (\<forall>h. \<exists>t. snd (m h) = h @ t \<and> list_all P t)"

lemma onlyE: "only P m \<Longrightarrow> m h = (r, h') \<Longrightarrow> (\<And>t. h' = h @ t \<Longrightarrow> list_all P t \<Longrightarrow> thesis) \<Longrightarrow> thesis"
  by (metis only_def snd_conv)

lemma wp_only: "only P m \<Longrightarrow> wp m (\<lambda>r h'. \<exists>t. h' = h @ t \<and> list_all P t) h"
  by (auto simp: wp_def split_beta only_def)

lemma only_weaken: "only P m \<Longrightarrow> (\<And>ev. P ev \<Longrightarrow> Q ev) \<Longrightarrow> only Q m"
  unfolding only_def by (metis list.pred_mono_strong)

lemma only_prims [simp]:
  "only P (ret x)" "only P (fail e)" "only P (lift r)" "only P (read_file os path)"
  "only P (file_exists os path)" "only P (poll_child os)" "only P (clock os)"
  "only P (stat_file os path)" "only P (child_log os)" "only P (child_id os)" "only P (arrival os)"
  "only P (delivered os)"
  by (simp_all add: only_def eff_defs)

lemma only_events [simp]:
  "only P (exec os c) \<longleftrightarrow> P (Ran c)" "only P (perform os ev) \<longleftrightarrow> P ev" "only P (emit ev) \<longleftrightarrow> P ev"
  "only P (http os rq) \<longleftrightarrow> P (Http rq)"
  by (simp_all add: only_def eff_defs)

text \<open>The continuation need only be known for the values the first effect returns.\<close>

lemma only_then_value:
  assumes m: "only P m" and f: "\<And>x h h'. m h = (Inr x, h') \<Longrightarrow> only P (f x)"
  shows "only P (eff_then m f)"
  unfolding only_def
proof
  fix h
  obtain r h' where r: "m h = (r, h')" by (cases "m h")
  obtain t where t: "h' = h @ t" "list_all P t" using onlyE[OF m r] by blast
  show "\<exists>t. snd (eff_then m f h) = h @ t \<and> list_all P t"
  proof (cases r)
    case (Inl e)
    with r t show ?thesis by (simp add: eff_then_def)
  next
    case (Inr x)
    obtain t' where "snd (f x h') = h' @ t'" "list_all P t'" using f r Inr unfolding only_def by blast
    with r t Inr have "snd (eff_then m f h) = h @ (t @ t') \<and> list_all P (t @ t')" by (simp add: eff_then_def)
    then show ?thesis by blast
  qed
qed

lemma only_then [intro]: "only P m \<Longrightarrow> (\<And>x. only P (f x)) \<Longrightarrow> only P (eff_then m f)"
  by (rule only_then_value)

lemma only_seq [intro]: "only P m \<Longrightarrow> only P n \<Longrightarrow> only P (eff_seq m n)"
  by (auto simp: eff_seq_def)

lemma only_wrap [simp]:
  "only P (eff_ignore m) \<longleftrightarrow> only P m"
  "only P (eff_context msg n) \<longleftrightarrow> only P n"
  "only P (eff_try k) \<longleftrightarrow> only P k"
  by (simp_all add: only_def eff_defs split_beta)

lemma only_when [intro]: "only P m \<Longrightarrow> only P (eff_when b m)"
  by (simp add: eff_when_def)

lemma only_if [intro]: "(b \<Longrightarrow> only P m) \<Longrightarrow> (\<not> b \<Longrightarrow> only P n) \<Longrightarrow> only P (if b then m else n)"
  by simp

lemma only_each [intro]: "(\<And>x. x \<in> set xs \<Longrightarrow> only P (f x)) \<Longrightarrow> only P (eff_each f xs)"
  by (induction xs) auto

lemma only_loop [intro]: "(\<And>s. only P (body s)) \<Longrightarrow> only P (eff_loop n body s)"
  by (induction n arbitrary: s) (auto split: sum.split)

text \<open>Effects only add to the history.\<close>

abbreviation extends :: "'a eff \<Rightarrow> bool" where
  "extends \<equiv> only (\<lambda>_. True)"

lemma only_extends: "only P m \<Longrightarrow> extends m"
  by (rule only_weaken) simp_all

lemma wp_extends: "extends m \<Longrightarrow> ev \<in> set h \<Longrightarrow> wp m (\<lambda>r h'. ev \<in> set h') h"
  unfolding only_def wp_def by (metis (no_types, lifting) Un_iff case_prod_beta set_append)

lemma wp_extends_then:
  "wp m (\<lambda>r h'. ev \<in> set h') h \<Longrightarrow> (\<And>x. extends (f x)) \<Longrightarrow> wp (eff_then m f) (\<lambda>r h'. ev \<in> set h') h"
  unfolding wp_then by (erule wp_mono) (auto intro: wp_extends split: sum.split)

lemma wp_extends_seq:
  "wp m (\<lambda>r h'. ev \<in> set h') h \<Longrightarrow> extends n \<Longrightarrow> wp (eff_seq m n) (\<lambda>r h'. ev \<in> set h') h"
  unfolding eff_seq_def by (rule wp_extends_then)

section \<open>What an effect returns\<close>

definition yields :: "('a \<Rightarrow> bool) \<Rightarrow> 'a eff \<Rightarrow> bool" where
  "yields Q m \<longleftrightarrow> (\<forall>h x h'. m h = (Inr x, h') \<longrightarrow> Q x)"

lemma yieldsD: "yields Q m \<Longrightarrow> m h = (Inr x, h') \<Longrightarrow> Q x"
  unfolding yields_def by blast

lemma yields_basic [simp]:
  "yields Q (ret x) \<longleftrightarrow> Q x" "yields Q (fail e)" "yields Q (lift r) \<longleftrightarrow> (\<forall>x. r = Inr x \<longrightarrow> Q x)"
  by (simp_all add: yields_def eff_defs)

lemma yields_then_value: "yields R m \<Longrightarrow> (\<And>x. R x \<Longrightarrow> yields Q (f x)) \<Longrightarrow> yields Q (eff_then m f)"
  unfolding yields_def by (metis eff_then_Inr)

lemma yields_then: "(\<And>x. yields Q (f x)) \<Longrightarrow> yields Q (eff_then m f)"
  unfolding yields_def by (metis eff_then_Inr)

lemma yields_seq: "yields Q n \<Longrightarrow> yields Q (eff_seq m n)"
  unfolding eff_seq_def by (rule yields_then)

lemma yields_try: "yields (\<lambda>r. \<forall>x. r = Inr x \<longrightarrow> Q x) (eff_try m) \<longleftrightarrow> yields Q m"
  by (auto simp: yields_def eff_try_def split: prod.splits)

lemma yields_loop:
  assumes "\<And>s. yields (\<lambda>r. \<forall>x. r = Inr x \<longrightarrow> Q x) (body s)"
  shows "yields Q (eff_loop n body s)"
proof (induction n arbitrary: s)
  case (Suc n)
  show ?case
    unfolding eff_loop.simps by (rule yields_then_value[OF assms]) (auto intro: Suc split: sum.split)
qed simp

section \<open>Effects that clean up\<close>

text \<open>
  \<open>guarded E G m\<close>: run after \<open>h\<close>, if what the effect adds holds an event that satisfies \<open>E\<close>, then
  all of it satisfies \<open>G h\<close>. \<open>closes ev fin m\<close>: once \<open>ev\<close> is there, \<open>fin\<close> comes last.
\<close>

definition guarded :: "(event \<Rightarrow> bool) \<Rightarrow> (event list \<Rightarrow> event list \<Rightarrow> bool) \<Rightarrow> 'a eff \<Rightarrow> bool" where
  "guarded E G m \<longleftrightarrow> (\<forall>h. \<exists>t. snd (m h) = h @ t \<and> ((\<exists>e \<in> set t. E e) \<longrightarrow> G h t))"

abbreviation closes :: "event \<Rightarrow> event list \<Rightarrow> 'a eff \<Rightarrow> bool" where
  "closes ev fin \<equiv> guarded (\<lambda>e. e = ev) (\<lambda>h t. suffix fin t)"

lemma guarded_only: "only (\<lambda>e. \<not> E e) m \<Longrightarrow> guarded E G m"
  unfolding only_def guarded_def list_all_iff by metis

lemma guarded_then:
  assumes m: "only (\<lambda>e. \<not> E e) m" and f: "\<And>x h h'. m h = (Inr x, h') \<Longrightarrow> guarded E G (f x)"
    and shift: "\<And>h t t'. G (h @ t) t' \<Longrightarrow> G h (t @ t')"
  shows "guarded E G (eff_then m f)"
  unfolding guarded_def
proof
  fix h
  obtain r h' where r: "m h = (r, h')" by (cases "m h")
  obtain t where t: "h' = h @ t" "list_all (\<lambda>e. \<not> E e) t" using onlyE[OF m r] by blast
  then have nev: "\<not> (\<exists>e \<in> set t. E e)" by (auto simp: list_all_iff)
  show "\<exists>t. snd (eff_then m f h) = h @ t \<and> ((\<exists>e \<in> set t. E e) \<longrightarrow> G h t)"
  proof (cases r)
    case (Inl e)
    with r t nev show ?thesis by (auto simp: eff_then_def)
  next
    case (Inr x)
    obtain t' where "snd (f x h') = h' @ t'" "(\<exists>e \<in> set t'. E e) \<longrightarrow> G h' t'"
      using f r Inr unfolding guarded_def by blast
    with r t nev Inr shift have
      "snd (eff_then m f h) = h @ (t @ t') \<and> ((\<exists>e \<in> set (t @ t'). E e) \<longrightarrow> G h (t @ t'))"
      by (auto simp: eff_then_def)
    then show ?thesis by blast
  qed
qed

lemma guarded_seq:
  "only (\<lambda>e. \<not> E e) m \<Longrightarrow> guarded E G n \<Longrightarrow> (\<And>h t t'. G (h @ t) t' \<Longrightarrow> G h (t @ t')) \<Longrightarrow>
     guarded E G (eff_seq m n)"
  unfolding eff_seq_def by (rule guarded_then)

lemma closes_only: "only (\<lambda>e. e \<noteq> ev) m \<Longrightarrow> closes ev fin m"
  by (rule guarded_only)

lemma closes_then:
  "only (\<lambda>e. e \<noteq> ev) m \<Longrightarrow> (\<And>x h h'. m h = (Inr x, h') \<Longrightarrow> closes ev fin (f x)) \<Longrightarrow> closes ev fin (eff_then m f)"
  by (rule guarded_then) (simp_all add: suffix_append)

lemma closes_seq:
  "only (\<lambda>e. e \<noteq> ev) m \<Longrightarrow> closes ev fin n \<Longrightarrow> closes ev fin (eff_seq m n)"
  unfolding eff_seq_def by (rule closes_then)

text \<open>The guarded block: whatever it returns, the clean-up comes last.\<close>

lemma closes_guarded:
  assumes "extends m" and "\<And>h. snd (n h) = h @ fin" and "\<And>h. \<exists>x. fst (n h) = Inr x"
  shows "closes ev fin (eff_then (eff_try m) (\<lambda>r. eff_seq n (lift r)))"
  unfolding guarded_def
proof
  fix h
  obtain r h' where m: "m h = (r, h')" by (cases "m h")
  then obtain t where "h' = h @ t" using onlyE[OF assms(1)] by blast
  moreover obtain x where "n h' = (Inr x, h' @ fin)" using assms(2,3) by (metis prod.collapse)
  ultimately have "snd (eff_then (eff_try m) (\<lambda>r. eff_seq n (lift r)) h) = h @ (t @ fin)"
    using m by (simp add: eff_defs)
  then show "\<exists>t. snd (eff_then (eff_try m) (\<lambda>r. eff_seq n (lift r)) h) = h @ t \<and>
      ((\<exists>e \<in> set t. e = ev) \<longrightarrow> suffix fin t)"
    by (metis suffixI)
qed

end
