(* ===== verification/Agent_Wireguard.thy ===== *)
theory Agent_Wireguard
  imports Json_Value Agent_Io
begin

text \<open>
  \<open>src/wireguard.rs\<close> and the WireGuard types of \<open>src/config.rs\<close>: the configuration and its
  JSON, the rendered \<open>wg-quick\<close> file, bringing the interface up, the reported status, and the
  key pair.
\<close>

section \<open>Configuration\<close>

record WireGuardPeerConfig =
  peer_public_key :: string
  peer_endpoint :: string
  peer_allowed_ips :: "string list"
  peer_preshared_key :: "string option"
  peer_persistent_keepalive_seconds :: "u16 option"

record WireGuardConfig =
  wg_interface_name :: string
  wg_addresses :: "string list"
  wg_dns :: "string list"
  wg_private_key :: string
  wg_public_key :: string
  wg_server :: WireGuardPeerConfig

definition de_WireGuardPeerConfig :: "WireGuardPeerConfig decoder" where
  "de_WireGuardPeerConfig v = do {
     f \<leftarrow> struct_fields
       [''publicKey'', ''endpoint'', ''allowedIps'', ''presharedKey'', ''persistentKeepaliveSeconds''] v;
     public_key \<leftarrow> required f 0 ''publicKey'' de_string;
     ep \<leftarrow> required f 1 ''endpoint'' de_string;
     allowed_ips \<leftarrow> required f 2 ''allowedIps'' (de_list de_string);
     preshared_key \<leftarrow> defaulted f 3 ''presharedKey'' (de_option de_string) None;
     keepalive \<leftarrow> defaulted f 4 ''persistentKeepaliveSeconds'' (de_option de_word) None;
     Some \<lparr>peer_public_key = public_key, peer_endpoint = ep, peer_allowed_ips = allowed_ips,
       peer_preshared_key = preshared_key, peer_persistent_keepalive_seconds = keepalive\<rparr> }"

definition en_WireGuardPeerConfig :: "WireGuardPeerConfig \<Rightarrow> json" where
  "en_WireGuardPeerConfig c = struct_json
     [field ''publicKey'' (Str (peer_public_key c)),
      field ''endpoint'' (Str (peer_endpoint c)),
      field ''allowedIps'' (Arr (map Str (peer_allowed_ips c))),
      skip_none ''presharedKey'' Str (peer_preshared_key c),
      skip_none ''persistentKeepaliveSeconds'' en_word (peer_persistent_keepalive_seconds c)]"

text \<open>\<open>dns\<close> is left out when it is empty and defaults to empty.\<close>

definition de_WireGuardConfig :: "WireGuardConfig decoder" where
  "de_WireGuardConfig v = do {
     f \<leftarrow> struct_fields [''interfaceName'', ''addresses'', ''dns'', ''privateKey'', ''publicKey'', ''server''] v;
     interface_name \<leftarrow> required f 0 ''interfaceName'' de_string;
     addresses \<leftarrow> required f 1 ''addresses'' (de_list de_string);
     dns \<leftarrow> defaulted f 2 ''dns'' (de_list de_string) [];
     private_key \<leftarrow> required f 3 ''privateKey'' de_string;
     public_key \<leftarrow> required f 4 ''publicKey'' de_string;
     server \<leftarrow> required f 5 ''server'' de_WireGuardPeerConfig;
     Some \<lparr>wg_interface_name = interface_name, wg_addresses = addresses, wg_dns = dns,
       wg_private_key = private_key, wg_public_key = public_key, wg_server = server\<rparr> }"

definition en_WireGuardConfig :: "WireGuardConfig \<Rightarrow> json" where
  "en_WireGuardConfig c = struct_json
     [field ''interfaceName'' (Str (wg_interface_name c)),
      field ''addresses'' (Arr (map Str (wg_addresses c))),
      (''dns'', if wg_dns c = [] then None else Some (Arr (map Str (wg_dns c)))),
      field ''privateKey'' (Str (wg_private_key c)),
      field ''publicKey'' (Str (wg_public_key c)),
      field ''server'' (en_WireGuardPeerConfig (wg_server c))]"

interpretation WireGuardPeerConfig_codec: json_codec en_WireGuardPeerConfig de_WireGuardPeerConfig
proof unfold_locales
  show "de_WireGuardPeerConfig (en_WireGuardPeerConfig x) = Some x" for x
    by (cases x) (simp add: de_WireGuardPeerConfig_def en_WireGuardPeerConfig_def decode_struct field_def
        skip_none_def string_codec.laws u16_codec.laws)
qed (simp_all add: en_WireGuardPeerConfig_def json_distinct_struct field_def skip_none_def option.pred_map
      string_codec.laws u16_codec.laws)

interpretation WireGuardConfig_codec: json_codec en_WireGuardConfig de_WireGuardConfig
proof unfold_locales
  show "de_WireGuardConfig (en_WireGuardConfig x) = Some x" for x
    by (cases x) (simp add: de_WireGuardConfig_def en_WireGuardConfig_def decode_struct field_def
        string_codec.laws WireGuardPeerConfig_codec.laws)
qed (simp_all add: en_WireGuardConfig_def json_distinct_struct field_def string_codec.laws
      WireGuardPeerConfig_codec.laws)

section \<open>The file for wg-quick\<close>

definition render_config :: "WireGuardConfig \<Rightarrow> string" where
  "render_config c =
     join [newline]
       ([''[Interface]'',
         ''PrivateKey = '' @ wg_private_key c,
         ''Address = '' @ join '', '' (wg_addresses c)] @
        (if wg_dns c = [] then [] else [''DNS = '' @ join '', '' (wg_dns c)]) @
        [[], ''[Peer]'',
         ''PublicKey = '' @ peer_public_key (wg_server c),
         ''Endpoint = '' @ peer_endpoint (wg_server c),
         ''AllowedIPs = '' @ join '', '' (peer_allowed_ips (wg_server c))] @
        (case peer_preshared_key (wg_server c) of None \<Rightarrow> [] | Some k \<Rightarrow> [''PresharedKey = '' @ k]) @
        (case peer_persistent_keepalive_seconds (wg_server c) of
           None \<Rightarrow> [] | Some k \<Rightarrow> [''PersistentKeepalive = '' @ show_word k]) @
        [[]])"

section \<open>Running the tools\<close>

definition WG_COMMAND_TIMEOUT_MS :: nat where
  "WG_COMMAND_TIMEOUT_MS = 8000"

text \<open>
  How both runners read a program's outcome; the text of the error of \<open>String::from_utf8\<close> and
  of the spawn error are the library's.
\<close>

definition tool_output :: "string \<Rightarrow> proc_outcome \<Rightarrow> string result" where
  "tool_output program r =
     (case r of
        Timed_Out \<Rightarrow> bail (program @ '' timed out'')
      | Not_Found e \<Rightarrow> Inl [''failed to spawn '' @ program, e]
      | Spawn_Failed e \<Rightarrow> Inl [''failed to spawn '' @ program, e]
      | Finished out \<Rightarrow>
          if \<not> po_success out then
            (let stderr = trim (po_stderr out)
             in if stderr = [] then bail (program @ '' exited with status '' @ po_status out)
                else bail (program @ '' failed: '' @ stderr))
          else if \<not> po_utf8 out then Inl [''command output was not utf-8'']
          else (let trimmed = trim (po_stdout out)
                in if trimmed = [] then bail (program @ '' returned empty output'') else Inr trimmed))"

definition run_command :: "OS \<Rightarrow> string \<Rightarrow> string list \<Rightarrow> string eff" where
  "run_command os program args =
     eff_then (exec os (cmd program args\<lparr>cmd_limit_ms := Some WG_COMMAND_TIMEOUT_MS\<rparr>))
       (\<lambda>r. lift (tool_output program r))"

text \<open>The variant that writes to the child's standard input, with a newline.\<close>

definition run_command_with_stdin :: "OS \<Rightarrow> string \<Rightarrow> string list \<Rightarrow> string \<Rightarrow> string eff" where
  "run_command_with_stdin os program args input =
     eff_then (exec os (cmd program args\<lparr>cmd_stdin := Some (input @ [newline]),
         cmd_limit_ms := Some WG_COMMAND_TIMEOUT_MS\<rparr>))
       (\<lambda>r. lift (tool_output program r))"

definition path_join :: "string \<Rightarrow> string \<Rightarrow> string" where
  "path_join base p =
     (if starts_with p ''/'' \<or> base = [] then p else if ends_with base ''/'' then base @ p else base @ ''/'' @ p)"

definition write_runtime_config :: "OS \<Rightarrow> string result \<Rightarrow> WireGuardConfig \<Rightarrow> string eff" where
  "write_runtime_config os state_dir c =
     eff_then (lift state_dir) (\<lambda>base.
       let directory = path_join base ''wireguard'';
           path = path_join directory (wg_interface_name c @ ''.conf'')
       in eff_seq (eff_context (''failed to create '' @ directory) (perform os (Made_Dir directory)))
         (eff_seq (eff_context (''failed to write '' @ path) (perform os (Wrote path (render_config c))))
         (eff_seq (eff_context (''failed to protect '' @ path) (perform os (Mode_Set path 384)))
           (ret path))))"

definition ensure_applied :: "OS \<Rightarrow> bool \<Rightarrow> string result \<Rightarrow> WireGuardConfig \<Rightarrow> string eff" where
  "ensure_applied os linux state_dir c =
     (if \<not> linux then fail [''wireguard auto-apply is currently supported on Linux only'']
      else eff_then (write_runtime_config os state_dir c) (\<lambda>path.
        eff_seq (eff_ignore (run_command os ''wg-quick'' [''down'', path]))
        (eff_seq (eff_context ''failed to bring up wireguard interface''
           (run_command os ''wg-quick'' [''up'', path]))
        (ret path))))"

section \<open>Status\<close>

record WireGuardStatus =
  st_interface_name :: string
  st_public_key :: string
  st_addresses :: "string list"
  st_connected :: bool
  st_last_handshake_at :: "u64 option"
  st_peer_endpoint :: "string option"
  st_error :: "string option"

definition en_WireGuardStatus :: "WireGuardStatus \<Rightarrow> json" where
  "en_WireGuardStatus s = struct_json
     [field ''interfaceName'' (Str (st_interface_name s)),
      field ''publicKey'' (Str (st_public_key s)),
      field ''addresses'' (Arr (map Str (st_addresses s))),
      field ''connected'' (Bool (st_connected s)),
      skip_none ''lastHandshakeAt'' en_word (st_last_handshake_at s),
      skip_none ''peerEndpoint'' Str (st_peer_endpoint s),
      skip_none ''error'' Str (st_error s)]"

definition nth_part :: "string list \<Rightarrow> nat \<Rightarrow> string option" where
  "nth_part parts i = (if i < length parts then Some (parts ! i) else None)"

definition dump_parts :: "string \<Rightarrow> string list" where
  "dump_parts line = split_on (\<lambda>c. c = CHR 0x09) line"

text \<open>One round of the loop over the peer lines: the first endpoint and the first handshake stay.\<close>

definition dump_peer :: "string \<Rightarrow> u64 option \<times> string option \<Rightarrow> u64 option \<times> string option" where
  "dump_peer line acc =
     (let parts = dump_parts line;
          (handshake, ep) = acc;
          ep = (if ep = None then filter_option (\<lambda>v. v \<noteq> [] \<and> v \<noteq> ''(none)'') (map_option trim (nth_part parts 2))
                else ep);
          handshake = (if handshake = None
            then filter_option (\<lambda>v. 0 < v) (Option.bind (nth_part parts 4) (\<lambda>v. parse_word (trim v)))
            else handshake)
      in (handshake, ep))"

definition parse_status_dump :: "WireGuardConfig \<Rightarrow> string \<Rightarrow> string list \<Rightarrow> WireGuardStatus" where
  "parse_status_dump c output addresses =
     (let ls = lines output;
          interface_line = (case ls of [] \<Rightarrow> [] | l # _ \<Rightarrow> l);
          public_key = unwrap_or (filter_option (\<lambda>v. v \<noteq> [])
            (map_option trim (nth_part (dump_parts interface_line) 1))) (wg_public_key c);
          (handshake, ep) = fold dump_peer (tl ls) (None, None)
      in \<lparr>st_interface_name = wg_interface_name c, st_public_key = public_key, st_addresses = addresses,
          st_connected = (handshake \<noteq> None), st_last_handshake_at = handshake, st_peer_endpoint = ep,
          st_error = None\<rparr>)"

definition address_of_line :: "string \<Rightarrow> string option" where
  "address_of_line line =
     (let parts = split_whitespace line in
      case nth_part parts 2 of
        Some family \<Rightarrow> if family = ''inet'' \<or> family = ''inet6'' then nth_part parts 3 else None
      | None \<Rightarrow> None)"

definition parse_interface_addresses :: "string \<Rightarrow> string list \<Rightarrow> string list" where
  "parse_interface_addresses output fallback =
     (let addresses = List.map_filter address_of_line (lines output)
      in if addresses = [] then fallback else addresses)"

definition status_of :: "WireGuardConfig \<Rightarrow> string result \<Rightarrow> string result \<Rightarrow> WireGuardStatus" where
  "status_of c wg_output ip_output =
     (let addresses = (case ip_output of
            Inr out \<Rightarrow> parse_interface_addresses out (wg_addresses c) | Inl _ \<Rightarrow> wg_addresses c)
      in case wg_output of
           Inr out \<Rightarrow> parse_status_dump c out addresses
         | Inl e \<Rightarrow> \<lparr>st_interface_name = wg_interface_name c, st_public_key = wg_public_key c,
             st_addresses = addresses, st_connected = False, st_last_handshake_at = None,
             st_peer_endpoint = None, st_error = Some (hd e)\<rparr>)"

definition collect_status :: "OS \<Rightarrow> WireGuardConfig option \<Rightarrow> WireGuardStatus option eff" where
  "collect_status os config =
     (case config of
        None \<Rightarrow> ret None
      | Some c \<Rightarrow>
          eff_then (eff_try (run_command os ''wg'' [''show'', wg_interface_name c, ''dump''])) (\<lambda>wg_output.
          eff_then (eff_try (run_command os ''ip'' [''-o'', ''address'', ''show'', ''dev'', wg_interface_name c]))
            (\<lambda>ip_output. ret (Some (status_of c wg_output ip_output)))))"

section \<open>Identity\<close>

record WireGuardIdentity =
  ident_private_key :: string
  ident_public_key :: string

definition generate_identity :: "OS \<Rightarrow> WireGuardIdentity eff" where
  "generate_identity os =
     eff_then (eff_context ''failed to generate wireguard private key'' (run_command os ''wg'' [''genkey'']))
       (\<lambda>private_key.
     eff_then (eff_context ''failed to derive wireguard public key''
         (run_command_with_stdin os ''wg'' [''pubkey''] private_key))
       (\<lambda>public_key. ret \<lparr>ident_private_key = private_key, ident_public_key = public_key\<rparr>))"

text \<open>\<open>snapshot\<close> is the WireGuard part of \<open>load_persisted_config_snapshot\<close>.\<close>

definition resolve_or_generate_identity ::
  "OS \<Rightarrow> WireGuardConfig option result \<Rightarrow> WireGuardIdentity option eff" where
  "resolve_or_generate_identity os snapshot =
     eff_then (lift snapshot) (\<lambda>existing.
       case filter_option (\<lambda>v. trim (wg_private_key v) \<noteq> [] \<and> trim (wg_public_key v) \<noteq> []) existing of
         Some v \<Rightarrow> ret (Some \<lparr>ident_private_key = wg_private_key v, ident_public_key = wg_public_key v\<rparr>)
       | None \<Rightarrow>
           eff_then (exec os (cmd ''wg'' [''--version''])) (\<lambda>r.
             case r of
               Not_Found _ \<Rightarrow> ret None
             | Spawn_Failed e \<Rightarrow> fail [''failed to check wireguard tooling'', e]
             | _ \<Rightarrow> eff_then (generate_identity os) (\<lambda>i. ret (Some i))))"

section \<open>Facts\<close>

lemma tool_output_Inr: "tool_output program r = Inr out \<Longrightarrow> out \<noteq> [] \<and> trim out = out"
  by (auto simp: tool_output_def Let_def split: proc_outcome.splits if_splits)

lemma run_command_Inr: "run_command os program args h = (Inr out, h') \<Longrightarrow> out \<noteq> [] \<and> trim out = out"
  by (auto simp: run_command_def eff_defs dest: tool_output_Inr)

lemma dump_peer_positive:
  "(\<And>v. fst acc = Some v \<Longrightarrow> 0 < v) \<Longrightarrow> fst (dump_peer line acc) = Some v \<Longrightarrow> 0 < v"
  by (auto simp: dump_peer_def Let_def filter_option_eq_Some split: prod.splits if_splits)

lemma fold_dump_peer_positive:
  "(\<And>v. fst acc = Some v \<Longrightarrow> 0 < v) \<Longrightarrow> fst (fold dump_peer ls acc) = Some v \<Longrightarrow> 0 < v"
proof (induction ls arbitrary: acc)
  case (Cons l ls)
  have "0 < w" if "fst (dump_peer l acc) = Some w" for w
    using Cons.prems(1) that by (rule dump_peer_positive)
  with Cons.IH[of "dump_peer l acc"] Cons.prems(2) show ?case by simp
qed simp

text \<open>
  C33: the reported WireGuard status is coherent whatever the tools print: the interface is the
  configured one, it is connected exactly when a handshake time is known, that time is positive,
  and an error is reported exactly when \<open>wg show\<close> failed, in which case nothing is claimed.
\<close>

theorem wireguard_status_coherent:
  "let s = status_of c wg_output ip_output in
     st_interface_name s = wg_interface_name c \<and>
     (st_connected s \<longleftrightarrow> st_last_handshake_at s \<noteq> None) \<and>
     st_last_handshake_at s \<noteq> Some 0 \<and>
     (st_error s \<noteq> None \<longleftrightarrow> \<not> is_ok wg_output) \<and>
     (st_error s = None \<or> st_connected s = False \<and> st_peer_endpoint s = None)"
proof (cases wg_output)
  case (Inr out)
  have "fst (fold dump_peer ls (None, None)) \<noteq> Some 0" for ls
    using fold_dump_peer_positive[of "(None, None)" ls 0] by auto
  with Inr show ?thesis
    by (auto simp: status_of_def parse_status_dump_def Let_def split: prod.split) (metis fst_conv)+
qed (simp add: status_of_def Let_def)

text \<open>
  \<open>ensure_applied\<close> turns a successful \<open>wg-quick up\<close> that prints nothing on its standard output
  into an error, because the helper it uses refuses empty output; \<open>wg-quick\<close> reports its steps on
  standard error.
\<close>

theorem quiet_wg_quick_is_an_error:
  assumes "write_runtime_config os state_dir c h0 = (Inr path, h1)"
    and "\<And>h. os_exec os h (cmd ''wg-quick'' [''up'', path]\<lparr>cmd_limit_ms := Some WG_COMMAND_TIMEOUT_MS\<rparr>) =
      Finished \<lparr>po_success = True, po_status = status, po_utf8 = True, po_stdout = [], po_stderr = err\<rparr>"
  shows "fst (ensure_applied os True state_dir c h0) =
    Inl [''failed to bring up wireguard interface'', ''wg-quick returned empty output'']"
  using assms
  by (simp add: ensure_applied_def eff_defs run_command_def tool_output_def Let_def bail_def with_context_def)

lemma quiet_wg_quick_is_an_error_witness:
  "fst (ensure_applied
     (idle_os\<lparr>os_exec := (\<lambda>h c. Finished \<lparr>po_success = True, po_status = ''exit status: 0'', po_utf8 = True,
        po_stdout = [], po_stderr = ''[#] ip link add wg0''\<rparr>)\<rparr>)
     True (Inr ''/var/lib/statix'')
     \<lparr>wg_interface_name = ''wg0'', wg_addresses = [], wg_dns = [], wg_private_key = ''k'', wg_public_key = ''p'',
      wg_server = \<lparr>peer_public_key = ''q'', peer_endpoint = ''e'', peer_allowed_ips = [],
        peer_preshared_key = None, peer_persistent_keepalive_seconds = None\<rparr>\<rparr> []) =
   Inl [''failed to bring up wireguard interface'', ''wg-quick returned empty output'']"
  by (rule quiet_wg_quick_is_an_error) (simp_all add: idle_os_def write_runtime_config_def eff_defs Let_def with_context_def)

end
