(* ===== verification/System_Info.thy ===== *)
theory System_Info
  imports Agent_Wireguard
begin

text \<open>
  \<open>src/system_info.rs\<close>: the description of the node that the agent publishes. The file system,
  the outputs of \<open>nvidia-smi\<close> and \<open>lspci\<close> and the answers of the crate \<open>sysinfo\<close> are arguments;
  \<open>sha256\<close>, \<open>hex\<close>, \<open>print\<close> and \<open>parse\<close> are the crates' functions.
\<close>

section \<open>The payload\<close>

record GpuInfo =
  gpu_name :: string
  gpu_vendor :: "string option"
  gpu_memory_bytes :: "u64 option"
  gpu_driver_version :: "string option"

record SystemInfo =
  si_os_platform :: string
  si_os_release :: string
  si_os_arch :: string
  si_hostname :: string
  si_cpu_model :: string
  si_cpu_cores :: u32
  si_mem_total :: u64
  si_agent_version :: "string option"
  si_agent_commit :: "string option"
  si_agent_built_at :: "string option"
  si_wireguard :: "WireGuardStatus option"
  si_gpus :: "GpuInfo list"

record SystemInfoPayload =
  sp_v :: u8
  sp_ts :: u64
  sp_hash :: string
  sp_info :: SystemInfo

definition en_GpuInfo :: "GpuInfo \<Rightarrow> json" where
  "en_GpuInfo g = struct_json
     [field ''name'' (Str (gpu_name g)),
      skip_none ''vendor'' Str (gpu_vendor g),
      skip_none ''memoryBytes'' en_word (gpu_memory_bytes g),
      skip_none ''driverVersion'' Str (gpu_driver_version g)]"

definition en_SystemInfo :: "SystemInfo \<Rightarrow> json" where
  "en_SystemInfo i = struct_json
     [field ''osPlatform'' (Str (si_os_platform i)),
      field ''osRelease'' (Str (si_os_release i)),
      field ''osArch'' (Str (si_os_arch i)),
      field ''hostname'' (Str (si_hostname i)),
      field ''cpuModel'' (Str (si_cpu_model i)),
      field ''cpuCores'' (en_word (si_cpu_cores i)),
      field ''memTotal'' (en_word (si_mem_total i)),
      skip_none ''agentVersion'' Str (si_agent_version i),
      skip_none ''agentCommit'' Str (si_agent_commit i),
      skip_none ''agentBuiltAt'' Str (si_agent_built_at i),
      skip_none ''wireguard'' en_WireGuardStatus (si_wireguard i),
      field ''gpus'' (Arr (map en_GpuInfo (si_gpus i)))]"

definition en_SystemInfoPayload :: "SystemInfoPayload \<Rightarrow> json" where
  "en_SystemInfoPayload p = struct_json
     [field ''v'' (en_word (sp_v p)),
      field ''ts'' (en_word (sp_ts p)),
      field ''hash'' (Str (sp_hash p)),
      field ''info'' (en_SystemInfo (sp_info p))]"

section \<open>The agent's version\<close>

record VersionMetadata =
  vm_version :: string
  vm_commit :: "string option"
  vm_built_at :: "string option"

definition de_VersionMetadata :: "VersionMetadata decoder" where
  "de_VersionMetadata v = do {
     f \<leftarrow> struct_fields [''version'', ''commit'', ''builtAt''] v;
     version \<leftarrow> required f 0 ''version'' de_string;
     commit \<leftarrow> optional f 1 ''commit'' de_string;
     built_at \<leftarrow> optional f 2 ''builtAt'' de_string;
     Some \<lparr>vm_version = version, vm_commit = commit, vm_built_at = built_at\<rparr> }"

definition parse_version_metadata :: "(string \<Rightarrow> json option) \<Rightarrow> string \<Rightarrow> VersionMetadata option" where
  "parse_version_metadata parse raw = do {
     parsed \<leftarrow> Option.bind (parse raw) de_VersionMetadata;
     if trim (vm_version parsed) = [] then None
     else Some \<lparr>vm_version = trim (vm_version parsed),
       vm_commit = map_option trim (vm_commit parsed),
       vm_built_at = filter_option (\<lambda>v. v \<noteq> []) (map_option trim (vm_built_at parsed))\<rparr> }"

text \<open>\<open>exe_dir\<close> is the directory of \<open>current_exe\<close>, None where it is unknown.\<close>

definition version_file_candidates :: "(string \<Rightarrow> string option) \<Rightarrow> string option \<Rightarrow> string list" where
  "version_file_candidates env exe_dir =
     (case env ''STATIX_VERSION_FILE'' of
        None \<Rightarrow> []
      | Some v \<Rightarrow> (let trimmed = trim v in if trimmed = [] then [] else [trimmed])) @
     [''version.json''] @
     (case exe_dir of None \<Rightarrow> [] | Some d \<Rightarrow> [path_join d ''version.json''])"

text \<open>The result of the first call is kept in \<open>VERSION_METADATA\<close>: this is that call.\<close>

definition load_version_metadata ::
  "(string \<Rightarrow> json option) \<Rightarrow> (string \<Rightarrow> string option) \<Rightarrow> (string \<Rightarrow> string option) \<Rightarrow> string option \<Rightarrow>
     VersionMetadata option" where
  "load_version_metadata parse read env exe_dir =
     find_map (\<lambda>candidate. Option.bind (read candidate) (parse_version_metadata parse))
       (version_file_candidates env exe_dir)"

definition resolve_agent_version :: "string \<Rightarrow> VersionMetadata option \<Rightarrow> string" where
  "resolve_agent_version cargo_version metadata =
     unwrap_or (map_option vm_version metadata) cargo_version"

definition agent_version ::
  "string \<Rightarrow> (string \<Rightarrow> json option) \<Rightarrow> (string \<Rightarrow> string option) \<Rightarrow> (string \<Rightarrow> string option) \<Rightarrow>
     string option \<Rightarrow> string" where
  "agent_version cargo_version parse read env exe_dir =
     resolve_agent_version cargo_version (load_version_metadata parse read env exe_dir)"

section \<open>MAC addresses\<close>

text \<open>The loop over \<open>(0..12).step_by(2)\<close>.\<close>

definition normalize_mac_address :: "string \<Rightarrow> string option" where
  "normalize_mac_address v =
     (let hex = map char_to_ascii_lowercase (filter is_ascii_hexdigit v)
      in if length hex \<noteq> 12 then None
         else Some (join '':'' (map (\<lambda>i. take 2 (drop i hex)) [0, 2, 4, 6, 8, 10])))"

text \<open>\<open>entries\<close>: what \<open>read_dir\<close> yields for \<open>/sys/class/net\<close>, None when it fails.\<close>

definition interface_mac :: "(string \<Rightarrow> string option) \<Rightarrow> string \<Rightarrow> string option" where
  "interface_mac read name =
     (if name = ''lo'' then None
      else case read (''/sys/class/net/'' @ name @ ''/address'') of
          None \<Rightarrow> None
        | Some raw \<Rightarrow>
            (case normalize_mac_address raw of
               None \<Rightarrow> None
             | Some m \<Rightarrow> if m = ''00:00:00:00:00:00'' then None else Some m))"

definition collect_mac_addresses ::
  "bool \<Rightarrow> (string \<Rightarrow> string option) \<Rightarrow> string list option \<Rightarrow> string list" where
  "collect_mac_addresses linux read entries =
     (if \<not> linux then []
      else case entries of
          None \<Rightarrow> []
        | Some names \<Rightarrow> remdups_adj (sort (List.map_filter (interface_mac read) names)))"

section \<open>GPUs\<close>

text \<open>\<open>run_command_with_timeout\<close>: 2.5 seconds, success, UTF-8 and some output.\<close>

definition tool_text :: "proc_outcome \<Rightarrow> string option" where
  "tool_text r =
     (case r of
        Finished out \<Rightarrow>
          if \<not> po_success out \<or> \<not> po_utf8 out then None
          else (let trimmed = trim (po_stdout out) in if trimmed = [] then None else Some trimmed)
      | _ \<Rightarrow> None)"

definition run_command_with_timeout :: "OS \<Rightarrow> string \<Rightarrow> string list \<Rightarrow> string option eff" where
  "run_command_with_timeout os program args =
     eff_then (exec os (cmd program args\<lparr>cmd_limit_ms := Some 2500\<rparr>)) (\<lambda>r. ret (tool_text r))"

definition nvidia_gpu :: "string \<Rightarrow> GpuInfo option" where
  "nvidia_gpu line =
     (let parts = map trim (split_on (\<lambda>c. c = CHR '','') line)
      in if parts = [] \<or> hd parts = [] then None
         else Some \<lparr>gpu_name = hd parts, gpu_vendor = Some ''NVIDIA'',
           gpu_memory_bytes =
             map_option (\<lambda>v. saturating_mul v (1024 * 1024)) (Option.bind (nth_part parts 1) parse_word),
           gpu_driver_version = filter_option (\<lambda>v. v \<noteq> []) (nth_part parts 2)\<rparr>)"

definition try_collect_nvidia_smi_gpus :: "OS \<Rightarrow> GpuInfo list option eff" where
  "try_collect_nvidia_smi_gpus os =
     eff_then (run_command_with_timeout os ''nvidia-smi''
         [''--query-gpu=name,memory.total,driver_version'', ''--format=csv,noheader,nounits''])
       (\<lambda>r. ret (Option.bind r (\<lambda>out.
          let gpus = List.map_filter nvidia_gpu (lines out) in if gpus = [] then None else Some gpus)))"

definition is_display_line :: "string \<Rightarrow> bool" where
  "is_display_line line =
     (let n = to_ascii_lowercase line
      in contains n ''vga compatible controller'' \<or> contains n ''3d controller'' \<or>
         contains n ''display controller'')"

definition pci_vendor :: "string \<Rightarrow> string option" where
  "pci_vendor descriptor =
     (let n = to_ascii_lowercase descriptor
      in if contains n ''nvidia'' then Some ''NVIDIA''
         else if contains n ''advanced micro devices'' \<or> contains n ''amd'' \<or> contains n ''ati''
           then Some ''AMD''
         else if contains n ''intel'' then Some ''Intel''
         else None)"

definition pci_gpu :: "string \<Rightarrow> GpuInfo" where
  "pci_gpu line =
     (let descriptor = unwrap_or (filter_option (\<lambda>v. v \<noteq> [])
            (map_option (\<lambda>p. trim (snd p)) (split_once '':'' line))) ''GPU''
      in \<lparr>gpu_name = descriptor, gpu_vendor = pci_vendor descriptor, gpu_memory_bytes = None,
          gpu_driver_version = None\<rparr>)"

definition try_collect_linux_pci_gpus :: "OS \<Rightarrow> bool \<Rightarrow> GpuInfo list option eff" where
  "try_collect_linux_pci_gpus os linux =
     (if \<not> linux then ret None
      else eff_then (run_command_with_timeout os ''lspci'' [])
       (\<lambda>r. ret (Option.bind r (\<lambda>out.
          let gpus = map pci_gpu (filter is_display_line (lines out))
          in if gpus = [] then None else Some gpus))))"

definition collect_gpu_info :: "OS \<Rightarrow> bool \<Rightarrow> GpuInfo list eff" where
  "collect_gpu_info os linux =
     eff_then (try_collect_nvidia_smi_gpus os) (\<lambda>r.
       case r of
         Some gpus \<Rightarrow> ret gpus
       | None \<Rightarrow> eff_then (try_collect_linux_pci_gpus os linux) (\<lambda>r. ret (unwrap_or r [])))"

section \<open>Collecting\<close>

record SystemSource =
  sy_os :: string
  sy_arch :: string
  sy_kernel_version :: "string option"
  sy_host_name :: "string option"
  sy_cpu_brands :: "string list"
  sy_total_memory :: u64
  sy_version :: "VersionMetadata option"
  sy_now_ms :: u64

definition create_info_hash ::
  "(u8 list \<Rightarrow> u8 list) \<Rightarrow> (u8 list \<Rightarrow> string) \<Rightarrow> (json \<Rightarrow> string) \<Rightarrow> SystemInfo \<Rightarrow> string result" where
  "create_info_hash sha256 hex print info = Inr (hex (sha256 (utf8_bytes (print (en_SystemInfo info)))))"

definition collect_system_info ::
  "(u8 list \<Rightarrow> u8 list) \<Rightarrow> (u8 list \<Rightarrow> string) \<Rightarrow> (json \<Rightarrow> string) \<Rightarrow> OS \<Rightarrow> SystemSource \<Rightarrow>
     WireGuardConfig option \<Rightarrow> SystemInfoPayload eff" where
  "collect_system_info sha256 hex print os src wireguard_config =
     eff_then (collect_status os wireguard_config) (\<lambda>wireguard.
     eff_then (collect_gpu_info os (sy_os src = ''linux'')) (\<lambda>gpus.
       let info =
         \<lparr>si_os_platform = sy_os src,
          si_os_release = unwrap_or (sy_kernel_version src) ''unknown'',
          si_os_arch = sy_arch src,
          si_hostname = unwrap_or (sy_host_name src) ''unknown'',
          si_cpu_model = unwrap_or (filter_option (\<lambda>v. v \<noteq> [])
            (case sy_cpu_brands src of [] \<Rightarrow> None | b # _ \<Rightarrow> Some (trim b))) ''unknown'',
          si_cpu_cores = of_nat (max (length (sy_cpu_brands src)) 1),
          si_mem_total = max (sy_total_memory src) 1,
          si_agent_version = map_option vm_version (sy_version src),
          si_agent_commit = Option.bind (sy_version src) vm_commit,
          si_agent_built_at = Option.bind (sy_version src) vm_built_at,
          si_wireguard = wireguard,
          si_gpus = gpus\<rparr>
       in eff_then (lift (create_info_hash sha256 hex print info)) (\<lambda>hash.
            ret \<lparr>sp_v = 1, sp_ts = sy_now_ms src, sp_hash = hash, sp_info = info\<rparr>)))"

section \<open>Facts\<close>

lemma join_pairs:
  assumes "length h = 12"
  shows "\<exists>a b c d e f g i j k l m. h = [a, b, c, d, e, f, g, i, j, k, l, m]"
  using assms by (auto simp: numeral_eq_Suc length_Suc_conv)

definition mac_char :: "char \<Rightarrow> bool" where
  "mac_char c \<longleftrightarrow> is_ascii_digit c \<or> (CHR ''a'' \<le> c \<and> c \<le> CHR ''f'')"

lemma lower_hexdigit: "is_ascii_hexdigit c \<Longrightarrow> mac_char (char_to_ascii_lowercase c)"
proof -
  assume h: "is_ascii_hexdigit c"
  show ?thesis
  proof (cases "is_ascii_uppercase c")
    case False
    with h show ?thesis
      by (auto simp: mac_char_def is_ascii_hexdigit_def is_ascii_uppercase_def char_to_ascii_lowercase_def
          less_eq_char_def)
  next
    case True
    with h have code: "65 \<le> (of_char c :: nat)" "(of_char c :: nat) \<le> 70"
      by (auto simp: is_ascii_hexdigit_def is_ascii_digit_def is_ascii_uppercase_def less_eq_char_def)
    then have "(of_char (char_of (of_char c + 32 :: nat)) :: nat) = of_char c + 32" by simp
    with code True show ?thesis
      by (simp add: mac_char_def char_to_ascii_lowercase_def less_eq_char_def)
  qed
qed

lemma mac_char_facts:
  "mac_char c \<Longrightarrow> is_ascii_hexdigit c \<and> char_to_ascii_lowercase c = c"
  by (auto simp: mac_char_def is_ascii_hexdigit_def char_to_ascii_lowercase_def is_ascii_uppercase_def
      is_ascii_digit_def less_eq_char_def)

lemma remdups_adj_strict: "sorted xs \<Longrightarrow> sorted_wrt (<) (remdups_adj (xs :: string list))"
  by (induction xs rule: remdups_adj.induct) (auto simp: order.strict_iff_order)

lemma colon_not_hex: "\<not> is_ascii_hexdigit CHR '':''"
  by (simp add: is_ascii_hexdigit_def is_ascii_digit_def less_eq_char_def)

lemma normalize_mac_shape:
  assumes "normalize_mac_address v = Some m"
  shows "\<exists>a b c d e f g i j k l n. m = [a, b, CHR '':'', c, d, CHR '':'', e, f, CHR '':'', g, i, CHR '':'',
      j, k, CHR '':'', l, n] \<and> list_all mac_char [a, b, c, d, e, f, g, i, j, k, l, n]"
proof -
  define h where "h = map char_to_ascii_lowercase (filter is_ascii_hexdigit v)"
  have len: "length h = 12" and m: "m = join '':'' (map (\<lambda>i. take 2 (drop i h)) [0, 2, 4, 6, 8, 10])"
    using assms by (auto simp: normalize_mac_address_def Let_def h_def split: if_splits)
  have "list_all mac_char h" by (auto simp: h_def list_all_iff lower_hexdigit)
  moreover obtain a b c d e f g i j k l n where "h = [a, b, c, d, e, f, g, i, j, k, l, n]"
    using join_pairs[OF len] by blast
  ultimately show ?thesis using m by (intro exI) auto
qed

text \<open>
  A MAC address that \<open>normalize_mac_address\<close> accepts comes out in one canonical form: twelve
  lower-case hexadecimal digits in six pairs between colons; normalising it again changes
  nothing.
\<close>

theorem normalize_mac_canonical:
  assumes "normalize_mac_address v = Some m"
  shows "normalize_mac_address m = Some m \<and> length m = 17 \<and>
    list_all (\<lambda>c. mac_char c \<or> c = CHR '':'') m"
proof -
  obtain a b c d e f g i j k l n where m: "m = [a, b, CHR '':'', c, d, CHR '':'', e, f, CHR '':'', g, i, CHR '':'',
      j, k, CHR '':'', l, n]" and ok: "list_all mac_char [a, b, c, d, e, f, g, i, j, k, l, n]"
    using normalize_mac_shape[OF assms] by blast
  then show ?thesis
    by (simp add: normalize_mac_address_def Let_def mac_char_facts colon_not_hex)
qed

lemma normalize_mac_canonical_witness:
  "normalize_mac_address ''aa:bb:cc:00:11:22'' = Some ''aa:bb:cc:00:11:22''"
  by (rule conjunct1[OF normalize_mac_canonical[of "''AA-BB-CC-00-11-22''"]])
    code_simp

text \<open>
  The MAC addresses sent at enrolment are strictly sorted (so without duplicates) and none
  is the zero address, whatever the system reports.
\<close>

theorem collect_mac_addresses_sorted:
  "sorted_wrt (<) (collect_mac_addresses linux read entries) \<and>
   ''00:00:00:00:00:00'' \<notin> set (collect_mac_addresses linux read entries)"
proof -
  have "sorted_wrt (<) (remdups_adj (sort xs))" for xs :: "string list"
    by (rule remdups_adj_strict) simp
  moreover have "interface_mac read n \<noteq> Some ''00:00:00:00:00:00''" for n
    by (auto simp: interface_mac_def split: option.splits if_splits)
  ultimately show ?thesis
    by (auto simp: collect_mac_addresses_def List.map_filter_def split: option.split)
qed

text \<open>
  The vendor test for \<open>ati\<close> matches inside words: on a line that \<open>lspci\<close> prints for an Intel
  graphics device the vendor comes out as AMD (\<open>compatible\<close> and \<open>Corporation\<close> both contain
  \<open>ati\<close>), and the name keeps the tail of the bus address, since the line is cut at its first
  colon.
\<close>

theorem intel_gpu_reported_as_amd:
  "pci_gpu ''00:02.0 VGA compatible controller: Intel Corporation UHD Graphics 620'' =
     \<lparr>gpu_name = ''02.0 VGA compatible controller: Intel Corporation UHD Graphics 620'',
      gpu_vendor = Some ''AMD'', gpu_memory_bytes = None, gpu_driver_version = None\<rparr> \<and>
   is_display_line ''00:02.0 VGA compatible controller: Intel Corporation UHD Graphics 620''"
  by code_simp

end
