(* ===== verification/Agent_Dispatch.thy ===== *)
theory Agent_Dispatch
  imports Reconcile Log_Query Node_Metrics System_Info
begin

text \<open>
  \<open>src/transport/dispatch.rs\<close>: handling one decoded message. Sends on the outbound channel are
  values, in order (the code drops the result of each send); a log query starts a task, whose
  answer is \<open>log_query_reply\<close>.
\<close>

datatype OutboundMessage =
    Out_Pong
  | Out_Status ObjectStatus
  | Out_Event NodeEvent
  | Out_Metrics MetricsPayload
  | Out_SystemInfo SystemInfoPayload
  | Out_LogResult LogResultBody
  | Out_LogCapabilities

datatype effect = Send OutboundMessage | Spawn_Query LogQueryBody

text \<open>Delays are in milliseconds.\<close>

datatype HandleOutcome = Continue | Handle_Reconnect "u64 option"

definition apply_desired :: "(nat \<Rightarrow> string) \<Rightarrow> string \<Rightarrow> NodeDesiredState \<Rightarrow> OutboundMessage list" where
  "apply_desired now new_id state =
     (let p = plan now new_id state
      in map Out_Status (plan_statuses p) @ [Out_Event (plan_event p)])"

definition resync :: "(nat \<Rightarrow> string) \<Rightarrow> string \<Rightarrow> NodeDesiredState \<Rightarrow> OutboundMessage list" where
  "resync now new_id state = map Out_Status (plan_statuses (plan now new_id state))"

text \<open>\<open>handle\<close>: the effects, the outcome, and the new \<open>last_desired\<close>.\<close>

fun handle ::
  "(nat \<Rightarrow> string) \<Rightarrow> string \<Rightarrow> IncomingMessage \<Rightarrow> NodeDesiredState option \<Rightarrow>
     effect list \<times> HandleOutcome \<times> NodeDesiredState option" where
  "handle now new_id Ping last_desired = ([Send Out_Pong], Continue, last_desired)"
| "handle now new_id (Goaway body) last_desired =
     ([], Handle_Reconnect (Some (ga_retry_after_ms body)), last_desired)"
| "handle now new_id (Desired state) last_desired =
     (map Send (apply_desired now new_id state), Continue, Some state)"
| "handle now new_id (LogQuery query) last_desired = ([Spawn_Query query], Continue, last_desired)"
| "handle now new_id (Unhandled kind) last_desired = ([], Continue, last_desired)"
| "handle now new_id (Challenge body) last_desired = ([], Continue, last_desired)"
| "handle now new_id (Welcome body) last_desired = ([], Continue, last_desired)"

fun_cases handle_cases: "handle now new_id m d = r"

text \<open>
  The spawned task: the arguments it passes to \<open>logs::query\<close>, and what it sends when the query
  returns (None for a task that failed).
\<close>

definition query_arguments ::
  "LogQueryBody \<Rightarrow> string option \<times> string option \<times> string option \<times> u64" where
  "query_arguments q = (lq_scope q, lq_resource_id q, lq_cursor q, unwrap_or (lq_limit q) 200)"

definition log_query_reply ::
  "LogQueryBody \<Rightarrow> (Record list \<times> string option) result option \<Rightarrow> OutboundMessage list" where
  "log_query_reply q r =
     (case r of
        Some (Inr (records, next_cursor)) \<Rightarrow>
          [Out_LogResult \<lparr>lr_request_id = lq_request_id q, lr_records = records, lr_next_cursor = next_cursor\<rparr>]
      | _ \<Rightarrow> [])"

text \<open>The writer task of \<open>session.rs\<close>: the frame of an outbound message.\<close>

fun outbound_frame :: "OutboundMessage \<Rightarrow> string \<times> json" where
  "outbound_frame Out_Pong = (''pong'', Obj [])"
| "outbound_frame (Out_Status s) = (''status'', en_ObjectStatus s)"
| "outbound_frame (Out_Event e) = (''event'', en_NodeEvent e)"
| "outbound_frame (Out_Metrics p) = (''metrics'', en_MetricsPayload p)"
| "outbound_frame (Out_SystemInfo p) = (''system_info'', en_SystemInfoPayload p)"
| "outbound_frame (Out_LogResult b) = (''logs.result'', en_LogResultBody b)"
| "outbound_frame Out_LogCapabilities = (''logs.capabilities'', Obj [])"

definition outbound_text :: "(json \<Rightarrow> string) \<Rightarrow> string \<Rightarrow> int \<Rightarrow> OutboundMessage \<Rightarrow> string" where
  "outbound_text print new_id unix_millis m =
     (let (kind, body) = outbound_frame m in encode print new_id unix_millis kind body)"

text \<open>
  The loop over the channel: every message is written in order until a write fails
  (\<open>sent k\<close> tells whether the k-th write succeeds); the ids and times are those of each frame.
\<close>

fun writer_task ::
  "(json \<Rightarrow> string) \<Rightarrow> (nat \<Rightarrow> string) \<Rightarrow> (nat \<Rightarrow> int) \<Rightarrow> (nat \<Rightarrow> bool) \<Rightarrow> nat \<Rightarrow> OutboundMessage list \<Rightarrow>
     string list" where
  "writer_task print ids stamps sent k [] = []"
| "writer_task print ids stamps sent k (m # ms) =
     (if sent k then outbound_text print (ids k) (stamps k) m # writer_task print ids stamps sent (k + 1) ms
      else [])"

lemma writer_task_prefix:
  "\<exists>n. writer_task print ids stamps sent k ms =
     map (\<lambda>(i, m). outbound_text print (ids i) (stamps i) m) (take n (enumerate k ms)) \<and>
     (n < length ms \<longrightarrow> \<not> sent (k + n))"
proof (induction ms arbitrary: k)
  case Nil
  show ?case by simp
next
  case (Cons m ms)
  show ?case
  proof (cases "sent k")
    case False
    then show ?thesis by (intro exI[of _ 0]) simp
  next
    case True
    obtain n where "writer_task print ids stamps sent (k + 1) ms =
        map (\<lambda>(i, m). outbound_text print (ids i) (stamps i) m) (take n (enumerate (k + 1) ms))"
      "n < length ms \<longrightarrow> \<not> sent (k + 1 + n)" using Cons by blast
    with True show ?thesis by (intro exI[of _ "Suc n"]) simp
  qed
qed

definition sends :: "effect list \<Rightarrow> OutboundMessage list" where
  "sends es = List.map_filter (\<lambda>e. case e of Send m \<Rightarrow> Some m | _ \<Rightarrow> None) es"

lemma sends_simps [simp]:
  "sends [] = []" "sends (Send m # es) = m # sends es" "sends (Spawn_Query q # es) = sends es"
  "sends (es @ fs) = sends es @ sends fs" "sends (map Send ms) = ms"
  by (simp_all add: sends_def List.map_filter_def comp_def)

definition queries :: "effect list \<Rightarrow> LogQueryBody list" where
  "queries es = List.map_filter (\<lambda>e. case e of Spawn_Query q \<Rightarrow> Some q | _ \<Rightarrow> None) es"

lemma queries_simps [simp]:
  "queries [] = []" "queries (Send m # es) = queries es" "queries (Spawn_Query q # es) = q # queries es"
  "queries (es @ fs) = queries es @ queries fs" "queries (map Send ms) = []"
  by (simp_all add: queries_def List.map_filter_def comp_def)

fun statuses_of :: "OutboundMessage list \<Rightarrow> ObjectStatus list" where
  "statuses_of [] = []"
| "statuses_of (Out_Status s # ms) = s # statuses_of ms"
| "statuses_of (_ # ms) = statuses_of ms"

lemma statuses_of_append [simp]: "statuses_of (xs @ ys) = statuses_of xs @ statuses_of ys"
  by (induction xs rule: statuses_of.induct) simp_all

lemma statuses_of_map [simp]: "statuses_of (map Out_Status ss) = ss"
  by (induction ss) simp_all

lemma statuses_of_apply_desired [simp]:
  "statuses_of (apply_desired now new_id state) = plan_statuses (plan now new_id state)"
  by (simp add: apply_desired_def Let_def)

lemma statuses_of_resync [simp]: "statuses_of (resync now new_id state) = plan_statuses (plan now new_id state)"
  by (simp add: resync_def)

text \<open>
  Handling a message: a desired state is answered by one status per object and then its
  event, and replaces the remembered state; a resync of that state sends the same statuses (up
  to their times) and no event; only \<open>goaway\<close> asks to reconnect, with the server's delay; a ping
  is answered by one pong; no other message changes the remembered state.
\<close>

theorem handle_behaviour:
  "handle now new_id (Desired state) d =
     (map (\<lambda>s. Send (Out_Status s)) (plan_statuses (plan now new_id state)) @
      [Send (Out_Event (plan_event (plan now new_id state)))], Continue, Some state) \<and>
   map status_ref (statuses_of (resync now' new_id' state)) =
     map status_ref (statuses_of (sends (fst (handle now new_id (Desired state) d)))) \<and>
   length (resync now' new_id' state) = length (desired_refs state) \<and>
   (fst (snd (handle now new_id m d)) = Handle_Reconnect delay \<longleftrightarrow>
      (\<exists>body. m = Goaway body \<and> delay = Some (ga_retry_after_ms body))) \<and>
   sends (fst (handle now new_id Ping d)) = [Out_Pong] \<and>
   (snd (snd (handle now new_id m d)) = d \<or> (\<exists>state. m = Desired state))"
proof -
  have "length (plan_statuses (plan now' new_id' state)) = length (desired_refs state)"
    using plan_statuses_refs[of now' new_id' state] by (metis length_map)
  moreover have "fst (snd (handle now new_id m d)) = Handle_Reconnect delay \<longleftrightarrow>
      (\<exists>body. m = Goaway body \<and> delay = Some (ga_retry_after_ms body))"
    by (cases m) auto
  moreover have "snd (snd (handle now new_id m d)) = d \<or> (\<exists>state. m = Desired state)"
    by (cases m) auto
  ultimately show ?thesis
    by (simp add: plan_statuses_refs resync_def) (simp add: apply_desired_def Let_def)
qed

end
