(* ===== verification/Agent_Config.thy ===== *)
theory Agent_Config
  imports Config_Urls Agent_Wireguard
begin

text \<open>
  Loading and storing the configuration: \<open>src/config.rs\<close>. The environment, the file system and
  the current directory are arguments; \<open>parse\<close> and \<open>print\<close> are \<open>serde_json\<close>'s.
\<close>

section \<open>The persisted configuration\<close>

record PersistedAgentConfig =
  pc_node_id :: string
  pc_node_token :: string
  pc_agent_ws_url :: string
  pc_api_base_url :: "string option"
  pc_wireguard :: "WireGuardConfig option"

text \<open>\<open>#[serde(alias = "nodeId")]\<close>: a field may come under a second name, but not under both.\<close>

definition rename_key :: "(string \<times> string) list \<Rightarrow> string \<Rightarrow> string" where
  "rename_key aliases k = (case map_of aliases k of None \<Rightarrow> k | Some k' \<Rightarrow> k')"

fun unalias :: "(string \<times> string) list \<Rightarrow> json \<Rightarrow> json" where
  "unalias aliases (Obj kvs) = Obj (map (apfst (rename_key aliases)) kvs)"
| "unalias aliases v = v"

definition config_aliases :: "(string \<times> string) list" where
  "config_aliases =
     [(''nodeId'', ''node_id''), (''nodeToken'', ''node_token''), (''agentWsUrl'', ''agent_ws_url''),
      (''apiBaseUrl'', ''api_base_url'')]"

definition de_PersistedAgentConfig :: "PersistedAgentConfig decoder" where
  "de_PersistedAgentConfig v = do {
     f \<leftarrow> struct_fields [''node_id'', ''node_token'', ''agent_ws_url'', ''api_base_url'', ''wireguard'']
       (unalias config_aliases v);
     node_id \<leftarrow> required f 0 ''node_id'' de_string;
     node_token \<leftarrow> required f 1 ''node_token'' de_string;
     agent_ws_url \<leftarrow> required f 2 ''agent_ws_url'' de_string;
     api_base_url \<leftarrow> defaulted f 3 ''api_base_url'' (de_option de_string) None;
     wireguard \<leftarrow> defaulted f 4 ''wireguard'' (de_option de_WireGuardConfig) None;
     Some \<lparr>pc_node_id = node_id, pc_node_token = node_token, pc_agent_ws_url = agent_ws_url,
       pc_api_base_url = api_base_url, pc_wireguard = wireguard\<rparr> }"

definition en_PersistedAgentConfig :: "PersistedAgentConfig \<Rightarrow> json" where
  "en_PersistedAgentConfig c = struct_json
     [field ''node_id'' (Str (pc_node_id c)),
      field ''node_token'' (Str (pc_node_token c)),
      field ''agent_ws_url'' (Str (pc_agent_ws_url c)),
      field ''api_base_url'' (en_option Str (pc_api_base_url c)),
      skip_none ''wireguard'' en_WireGuardConfig (pc_wireguard c)]"

lemma unalias_persisted: "unalias config_aliases (en_PersistedAgentConfig c) = en_PersistedAgentConfig c"
  by (cases "pc_wireguard c")
    (simp_all add: en_PersistedAgentConfig_def struct_json_def field_def skip_none_def config_aliases_def
      rename_key_def)

interpretation PersistedAgentConfig_codec: json_codec en_PersistedAgentConfig de_PersistedAgentConfig
proof unfold_locales
  show "de_PersistedAgentConfig (en_PersistedAgentConfig x) = Some x" for x
    unfolding de_PersistedAgentConfig_def unalias_persisted
    by (cases x) (simp add: en_PersistedAgentConfig_def decode_struct field_def skip_none_def
        string_codec.laws WireGuardConfig_codec.laws)
qed (simp_all add: en_PersistedAgentConfig_def json_distinct_struct field_def skip_none_def option.pred_map
      string_codec.laws WireGuardConfig_codec.laws)

section \<open>Paths\<close>

definition config_join :: "string \<Rightarrow> string list \<Rightarrow> string" where
  "config_join base parts = fold (\<lambda>p b. path_join b p) parts base"

text \<open>\<open>Path::parent\<close>, for paths without \<open>.\<close> components at the end.\<close>

definition path_parent :: "string \<Rightarrow> string option" where
  "path_parent p =
     (let q = trim_end_matches (\<lambda>c. c = CHR ''/'') p in
      if q = [] then None
      else let dir = trim_end_matches (\<lambda>c. c \<noteq> CHR ''/'') q;
               d = trim_end_matches (\<lambda>c. c = CHR ''/'') dir
           in Some (if d = [] \<and> dir \<noteq> [] then ''/'' else d))"

definition persisted_config_path :: "env \<Rightarrow> string result \<Rightarrow> string result" where
  "persisted_config_path env cwd =
     (case env_trimmed env ''STATIX_AGENT_CONFIG'' of
        Some v \<Rightarrow> Inr v
      | None \<Rightarrow>
     (case env_trimmed env ''XDG_CONFIG_HOME'' of
        Some v \<Rightarrow> Inr (config_join v [''statix'', ''agent.json''])
      | None \<Rightarrow>
     (case env_trimmed env ''APPDATA'' of
        Some v \<Rightarrow> Inr (config_join v [''statix'', ''agent.json''])
      | None \<Rightarrow>
     (case env_trimmed env ''HOME'' of
        Some v \<Rightarrow> Inr (config_join v [''.config'', ''statix'', ''agent.json''])
      | None \<Rightarrow>
         and_then (with_context ''failed to resolve current directory'' cwd)
           (\<lambda>d. Inr (path_join d ''.statix-agent.json''))))))"

definition agent_state_dir :: "env \<Rightarrow> string result \<Rightarrow> string result" where
  "agent_state_dir env cwd =
     (case env_path env ''STATIX_AGENT_STATE_DIR'' of
        Some p \<Rightarrow> Inr p
      | None \<Rightarrow>
     (case env_path env ''STATE_DIRECTORY'' of
        Some p \<Rightarrow> Inr p
      | None \<Rightarrow>
     (case env_path env ''XDG_STATE_HOME'' of
        Some p \<Rightarrow> Inr (path_join p ''statix'')
      | None \<Rightarrow>
         and_then (persisted_config_path env cwd) (\<lambda>path.
           case path_parent path of
             Some parent \<Rightarrow> Inr parent
           | None \<Rightarrow> with_context ''failed to resolve current directory'' cwd))))"

section \<open>Loading and saving\<close>

text \<open>The text of \<open>serde_json\<close>'s error is the library's; the chain here has its context only.\<close>

definition load_persisted_config ::
  "(string \<Rightarrow> json option) \<Rightarrow> env \<Rightarrow> string result \<Rightarrow> OS \<Rightarrow> PersistedAgentConfig option eff" where
  "load_persisted_config parse env cwd os =
     eff_then (lift (persisted_config_path env cwd)) (\<lambda>path.
     eff_then (file_exists os path) (\<lambda>found.
       if \<not> found then ret None
       else eff_then (eff_context (''failed to read '' @ path) (read_file os path)) (\<lambda>raw.
         case Option.bind (parse raw) de_PersistedAgentConfig of
           None \<Rightarrow> fail [''invalid '' @ path]
         | Some parsed \<Rightarrow> ret (Some parsed))))"

definition load_persisted_config_snapshot ::
  "(string \<Rightarrow> json option) \<Rightarrow> env \<Rightarrow> string result \<Rightarrow> OS \<Rightarrow> PersistedAgentConfig option eff" where
  "load_persisted_config_snapshot parse env cwd os = load_persisted_config parse env cwd os"

definition save_persisted_config ::
  "(json \<Rightarrow> string) \<Rightarrow> env \<Rightarrow> string result \<Rightarrow> OS \<Rightarrow> PersistedAgentConfig \<Rightarrow> string eff" where
  "save_persisted_config print_pretty env cwd os config =
     eff_then (lift (persisted_config_path env cwd)) (\<lambda>path.
     eff_seq
       (case path_parent path of
          None \<Rightarrow> ret ()
        | Some parent \<Rightarrow> eff_context (''failed to create '' @ parent) (perform os (Made_Dir parent)))
     (eff_seq (eff_context (''failed to write '' @ path)
        (perform os (Wrote path (print_pretty (en_PersistedAgentConfig config)))))
     (ret path)))"

definition resolve_login_config ::
  "(string \<Rightarrow> json option) \<Rightarrow> env \<Rightarrow> string result \<Rightarrow> OS \<Rightarrow> string option \<Rightarrow> string eff" where
  "resolve_login_config parse env cwd os explicit =
     eff_then (eff_try (load_persisted_config parse env cwd os)) (\<lambda>r.
       let persisted = (case r of Inl _ \<Rightarrow> None | Inr p \<Rightarrow> p)
       in ret (resolve_login_api_base_url explicit (env ''API_BASE_URL'')
            (Option.bind persisted pc_api_base_url)))"

section \<open>WireGuard from the environment\<close>

definition resolve_wireguard_config :: "env \<Rightarrow> PersistedAgentConfig option \<Rightarrow> WireGuardConfig option" where
  "resolve_wireguard_config env persisted =
     (if env_flag env ''WIREGUARD_DISABLE'' then None else
      let interface_name = env_trimmed env ''WIREGUARD_INTERFACE_NAME'';
          addresses = parse_csv_env env ''WIREGUARD_ADDRESSES'';
          dns = parse_csv_env env ''WIREGUARD_DNS'';
          private_key = env_trimmed env ''WIREGUARD_PRIVATE_KEY'';
          public_key = env_trimmed env ''WIREGUARD_PUBLIC_KEY'';
          server_public_key = env_trimmed env ''WIREGUARD_SERVER_PUBLIC_KEY'';
          server_endpoint = env_trimmed env ''WIREGUARD_SERVER_ENDPOINT'';
          allowed_ips = parse_csv_env env ''WIREGUARD_ALLOWED_IPS'';
          preshared_key = env_trimmed env ''WIREGUARD_PRESHARED_KEY'';
          keepalive = filter_option (\<lambda>v. 0 < v)
            (Option.bind (env ''WIREGUARD_PERSISTENT_KEEPALIVE_SECONDS'') (\<lambda>v. parse_word (trim v)));
          env_complete = (interface_name \<noteq> None \<or> addresses \<noteq> [] \<or> dns \<noteq> [] \<or> private_key \<noteq> None \<or>
            public_key \<noteq> None \<or> server_public_key \<noteq> None \<or> server_endpoint \<noteq> None \<or> allowed_ips \<noteq> [] \<or>
            preshared_key \<noteq> None \<or> keepalive \<noteq> None);
          stored = Option.bind persisted pc_wireguard
      in if env_complete then do {
           interface_name \<leftarrow> or_else interface_name (map_option wg_interface_name stored);
           private_key \<leftarrow> or_else private_key (map_option wg_private_key stored);
           public_key \<leftarrow> or_else public_key (map_option wg_public_key stored);
           server_public_key \<leftarrow> or_else server_public_key (map_option (\<lambda>w. peer_public_key (wg_server w)) stored);
           server_endpoint \<leftarrow> or_else server_endpoint (map_option (\<lambda>w. peer_endpoint (wg_server w)) stored);
           let addresses = (if addresses = [] then unwrap_or (map_option wg_addresses stored) [] else addresses);
           let dns = (if dns = [] then unwrap_or (map_option wg_dns stored) [] else dns);
           let allowed_ips = (if allowed_ips = []
             then unwrap_or (map_option (\<lambda>w. peer_allowed_ips (wg_server w)) stored) [] else allowed_ips);
           if addresses = [] \<or> allowed_ips = [] then None
           else Some \<lparr>wg_interface_name = interface_name, wg_addresses = addresses, wg_dns = dns,
             wg_private_key = private_key, wg_public_key = public_key,
             wg_server = \<lparr>peer_public_key = server_public_key, peer_endpoint = server_endpoint,
               peer_allowed_ips = allowed_ips,
               peer_preshared_key = or_else preshared_key
                 (Option.bind stored (\<lambda>w. peer_preshared_key (wg_server w))),
               peer_persistent_keepalive_seconds = or_else keepalive
                 (Option.bind stored (\<lambda>w. peer_persistent_keepalive_seconds (wg_server w)))\<rparr>\<rparr> }
         else stored)"

section \<open>The agent's configuration\<close>

record AgentConfig =
  ac_node_id :: string
  ac_node_token :: string
  ac_agent_ws_url :: string
  ac_api_base_url :: string
  ac_publish_interval_ms :: u64
  ac_system_info_check_interval_ms :: u64
  ac_system_info_republish_interval_ms :: u64
  ac_reconnect_delay_ms :: u64
  ac_connect_timeout_ms :: u64
  ac_wireguard :: "WireGuardConfig option"
  ac_microvm_default_image :: string
  ac_microvm_default_cpu :: u8
  ac_microvm_default_memory_mb :: u32
  ac_container_default_image :: string

definition missing_field :: "string \<Rightarrow> string \<Rightarrow> string \<Rightarrow> anyhow" where
  "missing_field name path suffix' =
     [''Agent identity field `'' @ name @ ''` was not found in '' @ path @ '' and '' @ suffix']"

text \<open>The WebSocket address: \<open>AGENT_WS_URL\<close>, derived from \<open>API_BASE_URL\<close>, or stored.\<close>

definition derived_ws_url :: "env \<Rightarrow> string option" where
  "derived_ws_url env =
     map_option (\<lambda>v. to_ws_base_url (trim_trailing_slash v) @
         normalize_path (unwrap_or (env ''NODE_WS_PATH'') ''/api/ws/agent''))
       (env_trimmed env ''API_BASE_URL'')"

definition build_config ::
  "env \<Rightarrow> PersistedAgentConfig option \<Rightarrow> string \<Rightarrow> string \<Rightarrow> string \<Rightarrow> AgentConfig" where
  "build_config env persisted node_id node_token agent_ws_url =
     \<lparr>ac_node_id = node_id, ac_node_token = node_token, ac_agent_ws_url = agent_ws_url,
      ac_api_base_url = normalize_api_base_url
        (unwrap_or (or_else (env_trimmed env ''API_BASE_URL'') (Option.bind persisted pc_api_base_url))
          (api_base_url_from_ws_url agent_ws_url)),
      ac_publish_interval_ms = parse_positive_int env ''PUBLISH_INTERVAL_MS'' 5000,
      ac_system_info_check_interval_ms = parse_positive_int env ''SYSTEM_INFO_CHECK_INTERVAL_MS'' (10 * 60000),
      ac_system_info_republish_interval_ms =
        parse_positive_int env ''SYSTEM_INFO_REPUBLISH_INTERVAL_MS'' (24 * 60 * 60000),
      ac_reconnect_delay_ms = parse_positive_int env ''RECONNECT_DELAY_MS'' 3000,
      ac_connect_timeout_ms = parse_positive_int env ''WS_CONNECT_TIMEOUT_MS'' 8000,
      ac_wireguard = resolve_wireguard_config env persisted,
      ac_microvm_default_image = unwrap_or (env_trimmed env ''STATIX_MICROVM_IMAGE'') ''ubuntu:24.04'',
      ac_microvm_default_cpu = parse_positive_u8 env ''STATIX_MICROVM_CPU'' 2,
      ac_microvm_default_memory_mb = parse_positive_u32 env ''STATIX_MICROVM_MEMORY_MB'' 4096,
      ac_container_default_image = unwrap_or (env_trimmed env ''STATIX_CONTAINER_IMAGE'') ''ubuntu:24.04''\<rparr>"

definition AgentConfig_load ::
  "(string \<Rightarrow> json option) \<Rightarrow> env \<Rightarrow> string result \<Rightarrow> OS \<Rightarrow> AgentConfig option eff" where
  "AgentConfig_load parse env cwd os =
     eff_then (lift (persisted_config_path env cwd)) (\<lambda>path.
     eff_then (file_exists os path) (\<lambda>persisted_exists.
     eff_then (load_persisted_config parse env cwd os) (\<lambda>persisted.
       case or_else (env_trimmed env ''NODE_ID'') (map_option pc_node_id persisted) of
         None \<Rightarrow> if persisted_exists then fail (missing_field ''node_id'' path ''NODE_ID is not set.'') else ret None
       | Some node_id \<Rightarrow>
       (case or_else (env_trimmed env ''NODE_TOKEN'') (map_option pc_node_token persisted) of
         None \<Rightarrow> if persisted_exists then fail (missing_field ''node_token'' path ''NODE_TOKEN is not set.'') else ret None
       | Some node_token \<Rightarrow>
       (case or_else (env_trimmed env ''AGENT_WS_URL'')
           (or_else (derived_ws_url env) (map_option pc_agent_ws_url persisted)) of
         None \<Rightarrow> if persisted_exists
           then fail (missing_field ''agent_ws_url'' path ''AGENT_WS_URL/API_BASE_URL are not set.'') else ret None
       | Some agent_ws_url \<Rightarrow> ret (Some (build_config env persisted node_id node_token agent_ws_url)))))))"

section \<open>Facts\<close>

text \<open>The file that is found is loaded: then every field has a value.\<close>

lemma load_persisted_found:
  assumes "persisted_config_path env cwd = Inr path" "os_exists os h path"
    "load_persisted_config parse env cwd os h = (Inr p, h')"
  shows "p \<noteq> None"
  using assms
  by (auto simp: load_persisted_config_def eff_defs split: option.splits sum.splits prod.splits) metis+

lemma load_persisted_history: "snd (load_persisted_config parse env cwd os h) = h"
  by (auto simp: load_persisted_config_def eff_defs split: option.split sum.split prod.split)

text \<open>
  C36: loading the configuration fails only where the configuration file's path cannot be
  determined or the file that exists cannot be read or parsed. Its three messages about missing
  identity fields are unreachable: a stored configuration always has the three fields, and nothing
  takes the file away between the two checks for it.
\<close>

theorem config_load_errors:
  assumes "fst (AgentConfig_load parse env cwd os h) = Inl e"
  shows "fst (load_persisted_config parse env cwd os h) = Inl e"
proof (cases "persisted_config_path env cwd")
  case (Inl e')
  with assms show ?thesis by (simp add: AgentConfig_load_def load_persisted_config_def eff_defs)
next
  case (Inr path)
  obtain r h' where load: "load_persisted_config parse env cwd os h = (r, h')"
    by (cases "load_persisted_config parse env cwd os h")
  show ?thesis
  proof (cases r)
    case (Inl e')
    with assms Inr load show ?thesis by (simp add: AgentConfig_load_def eff_defs)
  next
    case p: (Inr p)
    show ?thesis
    proof (cases "os_exists os h path")
      case True
      obtain c where "p = Some c" using load_persisted_found[OF Inr True, of parse p h'] load p by auto
      then show ?thesis using assms Inr load p
        by (auto simp: AgentConfig_load_def eff_defs or_else_def split: option.splits)
    next
      case False
      with assms Inr load p show ?thesis
        by (auto simp: AgentConfig_load_def eff_defs split: option.splits)
    qed
  qed
qed

lemma config_load_errors_witness:
  "fst (load_persisted_config (\<lambda>_. None) (\<lambda>n. if n = ''STATIX_AGENT_CONFIG'' then Some ''/c'' else None) (Inr ''/'')
     (idle_os\<lparr>os_exec := (\<lambda>h c. Timed_Out), os_read := (\<lambda>h p. Inr ''{''), os_exists := (\<lambda>h p. True)\<rparr>) []) =
   Inl [''invalid /c'']"
proof (rule config_load_errors)
  have "persisted_config_path (\<lambda>n. if n = ''STATIX_AGENT_CONFIG'' then Some ''/c'' else None) (Inr ''/'') = Inr ''/c''"
    by code_simp
  then show "fst (AgentConfig_load (\<lambda>_. None) (\<lambda>n. if n = ''STATIX_AGENT_CONFIG'' then Some ''/c'' else None) (Inr ''/'')
     (idle_os\<lparr>os_exec := (\<lambda>h c. Timed_Out), os_read := (\<lambda>h p. Inr ''{''), os_exists := (\<lambda>h p. True)\<rparr>) []) =
   Inl [''invalid /c'']"
    by (simp add: AgentConfig_load_def load_persisted_config_def eff_defs with_context_def)
qed

text \<open>
  A loaded configuration has positive intervals and timeouts, whatever the environment
  holds, so no timer of the session is created with a zero period from it.
\<close>

theorem config_intervals_positive:
  assumes "fst (AgentConfig_load parse env cwd os h) = Inr (Some c)"
  shows "0 < ac_publish_interval_ms c \<and> 0 < ac_system_info_check_interval_ms c \<and>
    0 < ac_system_info_republish_interval_ms c \<and> 0 < ac_reconnect_delay_ms c \<and> 0 < ac_connect_timeout_ms c"
proof -
  obtain p i t u where "c = build_config env p i t u"
    using assms
    by (auto simp: AgentConfig_load_def eff_defs split: option.splits sum.splits prod.splits if_splits)
  then show ?thesis by (simp add: build_config_def parse_positive_int_pos)
qed

lemma config_intervals_positive_witness:
  "0 < ac_publish_interval_ms (build_config (\<lambda>n. if n = ''PUBLISH_INTERVAL_MS'' then Some ''0'' else Some ''x'') None ''x'' ''x'' ''x'')"
proof -
  define env where "env = (\<lambda>n. if n = ''PUBLISH_INTERVAL_MS'' then Some ''0'' else Some ''x'')"
  have trim: "env_trimmed env n = Some (if n = ''PUBLISH_INTERVAL_MS'' then ''0'' else ''x'')" for n
  proof -
    have "trim ''x'' = ''x''" "trim ''0'' = ''0''" by code_simp+
    then show ?thesis by (simp add: env_trimmed_def env_def)
  qed
  have "fst (AgentConfig_load (\<lambda>_. None) env (Inr ''/'')
     (idle_os\<lparr>os_exec := (\<lambda>h c. Timed_Out), os_read := (\<lambda>h p. Inr []), os_exists := (\<lambda>h p. False)\<rparr>) []) =
     Inr (Some (build_config env None ''x'' ''x'' ''x''))"
    by (simp add: AgentConfig_load_def load_persisted_config_def persisted_config_path_def trim eff_defs)
  from config_intervals_positive[OF this] show ?thesis by (simp add: env_def)
qed

text \<open>
  A configuration that is saved and loaded again is unchanged: decoding reads back what
  encoding writes, also for the optional WireGuard part.
\<close>

theorem persisted_config_roundtrip:
  "de_PersistedAgentConfig (en_PersistedAgentConfig c) = Some c"
  by (rule PersistedAgentConfig_codec.dec_enc)

text \<open>
  With \<open>API_BASE_URL\<close> set to the hosted default address and no other address configured, the
  derived WebSocket address repeats the routing prefix: \<open>wss://statix.se/api/api/ws/agent\<close>.
\<close>

theorem default_api_url_repeats_prefix:
  "derived_ws_url (\<lambda>n. if n = ''API_BASE_URL'' then Some DEFAULT_API_BASE_URL else None) =
     Some ''wss://statix.se/api/api/ws/agent''"
  unfolding DEFAULT_API_BASE_URL_def by code_simp

end
