(* ===== verification/Agent_Session.thy ===== *)
theory Agent_Session
  imports Agent_Dispatch Agent_Config
begin

text \<open>
  \<open>src/transport/session.rs\<close>: the handshake, the steady loop and the reconnect loop. What the
  socket, the timers, the channels and the spawned tasks deliver is the sequence of inputs, in
  the order in which \<open>select!\<close> takes them: every interleaving is such a sequence.
\<close>

section \<open>The handshake\<close>

text \<open>
  What the socket yields. \<open>Ws_Deadline\<close> stands where the timeout around the wait expires before
  the next frame; the end of the list is the end of the stream.
\<close>

datatype ws_item =
    Ws_Text string
  | Ws_Close "string option"
  | Ws_Other
  | Ws_Error anyhow
  | Ws_Deadline

fun await_message ::
  "(string \<Rightarrow> json option) \<Rightarrow> u64 \<Rightarrow> (IncomingMessage \<Rightarrow> 'a option) \<Rightarrow> ws_item list \<Rightarrow>
     'a result \<times> ws_item list" where
  "await_message parse timeout_ms extract [] = (bail ''websocket closed before handshake completed'', [])"
| "await_message parse timeout_ms extract (Ws_Text text # items) =
     (case decode parse text of
        Inr message \<Rightarrow>
          (case extract message of
             Some v \<Rightarrow> (Inr v, items)
           | None \<Rightarrow> await_message parse timeout_ms extract items)
      | Inl _ \<Rightarrow> await_message parse timeout_ms extract items)"
| "await_message parse timeout_ms extract (Ws_Close reason # items) =
     (bail (unwrap_or reason ''websocket closed during handshake''), items)"
| "await_message parse timeout_ms extract (Ws_Other # items) = await_message parse timeout_ms extract items"
| "await_message parse timeout_ms extract (Ws_Error e # items) = (Inl (''websocket handshake failed'' # e), items)"
| "await_message parse timeout_ms extract (Ws_Deadline # items) =
     (bail (''v2 handshake timed out after '' @ show_word timeout_ms @ '' ms''), items)"

fun challenge_of :: "IncomingMessage \<Rightarrow> ChallengeBody option" where
  "challenge_of (Challenge body) = Some body"
| "challenge_of _ = None"

fun welcome_of :: "IncomingMessage \<Rightarrow> WelcomeBody option" where
  "welcome_of (Welcome body) = Some body"
| "welcome_of _ = None"

definition hello_body :: "string \<Rightarrow> string \<Rightarrow> HelloBody" where
  "hello_body version boot_id =
     \<lparr>hello_protocol = [2], hello_agent_version = version, hello_boot_id = boot_id, hello_capabilities = [],
      hello_observed = fmempty, hello_pending_op_results = []\<rparr>"

text \<open>\<open>hex::encode(Sha256::digest(node_token))\<close>: the signature does not depend on the nonce.\<close>

definition auth_body :: "(u8 list \<Rightarrow> u8 list) \<Rightarrow> (u8 list \<Rightarrow> string) \<Rightarrow> AgentConfig \<Rightarrow> AuthBody" where
  "auth_body sha256 hex config =
     \<lparr>auth_node_id = ac_node_id config, auth_signature = hex (sha256 (utf8_bytes (ac_node_token config)))\<rparr>"

datatype handshake_frame = Hello HelloBody | Auth AuthBody

text \<open>The environment of one connection; a fault is the error of a send.\<close>

record HandshakeEnv =
  he_parse :: "string \<Rightarrow> json option"
  he_sha256 :: "u8 list \<Rightarrow> u8 list"
  he_hex :: "u8 list \<Rightarrow> string"
  he_version :: string
  he_hello_fault :: "anyhow option"
  he_auth_fault :: "anyhow option"

text \<open>What the agent sends and takes from the socket, in the order in which it does so.\<close>

datatype handshake_event = Sent handshake_frame | Heard ws_item

definition sent_frames :: "handshake_event list \<Rightarrow> handshake_frame list" where
  "sent_frames es = List.map_filter (\<lambda>e. case e of Sent f \<Rightarrow> Some f | Heard _ \<Rightarrow> None) es"

lemma sent_frames_simps [simp]:
  "sent_frames [] = []" "sent_frames (Sent f # es) = f # sent_frames es" "sent_frames (Heard i # es) = sent_frames es"
  "sent_frames (es @ es') = sent_frames es @ sent_frames es'" "sent_frames (map Heard is) = []"
  by (simp_all add: sent_frames_def List.map_filter_def comp_def)

text \<open>The items a wait has taken, from the items before and after it.\<close>

definition heard :: "ws_item list \<Rightarrow> ws_item list \<Rightarrow> handshake_event list" where
  "heard before after = map Heard (take (length before - length after) before)"

text \<open>What was sent and heard, the result, and the items left for the steady loop.\<close>

definition handshake ::
  "HandshakeEnv \<Rightarrow> AgentConfig \<Rightarrow> string \<Rightarrow> ws_item list \<Rightarrow>
     handshake_event list \<times> WelcomeBody result \<times> ws_item list" where
  "handshake E config boot_id items =
     (case he_hello_fault E of
        Some e \<Rightarrow> ([], Inl (''failed to send hello'' # e), items)
      | None \<Rightarrow>
          (let trace = [Sent (Hello (hello_body (he_version E) boot_id))];
               (r, items1) = await_message (he_parse E) (ac_connect_timeout_ms config) challenge_of items;
               trace = trace @ heard items items1
           in case r of
                Inl e \<Rightarrow> (trace, Inl (''failed to receive challenge'' # e), items1)
              | Inr _ \<Rightarrow>
                  (case he_auth_fault E of
                     Some e \<Rightarrow> (trace, Inl (''failed to send auth'' # e), items1)
                   | None \<Rightarrow>
                       (let trace = trace @ [Sent (Auth (auth_body (he_sha256 E) (he_hex E) config))];
                            (r, items2) = await_message (he_parse E) (ac_connect_timeout_ms config) welcome_of items1;
                            trace = trace @ heard items1 items2
                        in case r of
                             Inl e \<Rightarrow> (trace, Inl (''failed to receive welcome'' # e), items2)
                           | Inr welcome \<Rightarrow>
                               if unwrap_or (wb_upgrade_required welcome) False
                               then (trace, bail ''server requires an agent upgrade before v2 can proceed'', items2)
                               else (trace, Inr welcome, items2)))))"

section \<open>Publishing\<close>

record SessionState =
  ses_last_desired :: "NodeDesiredState option"
  ses_last_hash :: "string option"
  ses_last_published_at :: "nat option"
  ses_sent :: "OutboundMessage list"
  ses_queries :: "LogQueryBody list"

definition send_out :: "OutboundMessage list \<Rightarrow> SessionState \<Rightarrow> SessionState" where
  "send_out ms st = st\<lparr>ses_sent := ses_sent st @ ms\<rparr>"

definition publish_metrics_once :: "MetricsPayload result \<Rightarrow> SessionState \<Rightarrow> SessionState" where
  "publish_metrics_once collected st =
     (case collected of Inr p \<Rightarrow> send_out [Out_Metrics p] st | Inl _ \<Rightarrow> st)"

text \<open>
  \<open>publish_system_info_if_needed\<close>: \<open>now1\<close> and \<open>now2\<close> are the readings of the clock (milliseconds)
  for the age of the last payload and for its new time, \<open>chan_open\<close> whether the writer task still
  holds the receiver.
\<close>

definition publish_system_info_if_needed ::
  "bool \<Rightarrow> bool \<Rightarrow> u64 \<Rightarrow> SystemInfoPayload result \<Rightarrow> nat \<Rightarrow> nat \<Rightarrow> SessionState \<Rightarrow> unit result \<times> SessionState" where
  "publish_system_info_if_needed chan_open force republish_interval_ms collected now1 now2 st =
     (case collected of
        Inl e \<Rightarrow> (Inl e, st)
      | Inr payload \<Rightarrow>
          (let freshness_due =
                 (case ses_last_published_at st of
                    None \<Rightarrow> True | Some t \<Rightarrow> unat republish_interval_ms \<le> now1 - t);
               changed = (ses_last_hash st \<noteq> Some (sp_hash payload))
           in if force \<or> changed \<or> freshness_due
              then if chan_open
                then (Inr (), (send_out [Out_SystemInfo payload] st)
                       \<lparr>ses_last_hash := Some (sp_hash payload), ses_last_published_at := Some now2\<rparr>)
                else (bail ''system info channel closed'', st)
              else (Inr (), st)))"

section \<open>The steady loop\<close>

datatype session_input =
    In_Text string "nat \<Rightarrow> string" string
  | In_Close "string option"
  | In_Other
  | In_Error anyhow
  | In_End
  | In_Publish "MetricsPayload result"
  | In_System bool "SystemInfoPayload result" nat nat
  | In_Resync "nat \<Rightarrow> string" string
  | In_Stop_Changed bool
  | In_Query_Done nat "(Record list \<times> string option) result option"

datatype session_end = Stopped | Reconnect "u64 option" | Session_Error anyhow

definition session_start ::
  "AgentConfig \<Rightarrow> MetricsPayload result \<Rightarrow> bool \<Rightarrow> SystemInfoPayload result \<Rightarrow> nat \<Rightarrow> nat \<Rightarrow> SessionState" where
  "session_start config metrics chan_open info now1 now2 =
     (let st = \<lparr>ses_last_desired = None, ses_last_hash = None, ses_last_published_at = None,
            ses_sent = [Out_LogCapabilities], ses_queries = []\<rparr>;
          st = publish_metrics_once metrics st
      in snd (publish_system_info_if_needed chan_open True (ac_system_info_republish_interval_ms config)
           info now1 now2 st))"

text \<open>An end of the socket counts as stopping when the stop flag is set.\<close>

definition ended :: "bool \<Rightarrow> anyhow \<Rightarrow> session_end" where
  "ended stop e = (if stop then Stopped else Session_Error e)"

text \<open>One branch of \<open>select!\<close>: \<open>stop\<close> is the value of the stop flag at that time.\<close>

fun session_step ::
  "(string \<Rightarrow> json option) \<Rightarrow> AgentConfig \<Rightarrow> bool \<times> session_input \<Rightarrow> SessionState \<Rightarrow>
     SessionState \<times> session_end option" where
  "session_step parse config (stop, In_Text text now new_id) st =
     (case decode parse text of
        Inl _ \<Rightarrow> (st, None)
      | Inr message \<Rightarrow>
          (let (es, outcome, d) = handle now new_id message (ses_last_desired st);
               st = (send_out (sends es) st)\<lparr>ses_last_desired := d, ses_queries := ses_queries st @ queries es\<rparr>
           in case outcome of
                Continue \<Rightarrow> (st, None)
              | Handle_Reconnect after \<Rightarrow> (st, Some (Reconnect after))))"
| "session_step parse config (stop, In_Close reason) st =
     (st, Some (ended stop [unwrap_or reason ''websocket closed'']))"
| "session_step parse config (stop, In_Other) st = (st, None)"
| "session_step parse config (stop, In_Error e) st = (st, Some (ended stop (''websocket session failed'' # e)))"
| "session_step parse config (stop, In_End) st = (st, Some (ended stop [''websocket connection ended'']))"
| "session_step parse config (stop, In_Publish collected) st = (publish_metrics_once collected st, None)"
| "session_step parse config (stop, In_System chan_open collected now1 now2) st =
     (snd (publish_system_info_if_needed chan_open False (ac_system_info_republish_interval_ms config)
        collected now1 now2 st), None)"
| "session_step parse config (stop, In_Resync now new_id) st =
     (case ses_last_desired st of
        None \<Rightarrow> (st, None)
      | Some desired \<Rightarrow> (send_out (resync now new_id desired) st, None))"
| "session_step parse config (stop, In_Stop_Changed ok) st = (st, if ok \<and> stop then Some Stopped else None)"
| "session_step parse config (stop, In_Query_Done i r) st =
     (if i < length (ses_queries st)
      then (send_out (log_query_reply (ses_queries st ! i) r)
              (st\<lparr>ses_queries := take i (ses_queries st) @ drop (Suc i) (ses_queries st)\<rparr>), None)
      else (st, None))"

text \<open>The loop; None while it still waits when the inputs are used up.\<close>

fun session_loop ::
  "(string \<Rightarrow> json option) \<Rightarrow> AgentConfig \<Rightarrow> (bool \<times> session_input) list \<Rightarrow> SessionState \<Rightarrow>
     SessionState \<times> session_end option" where
  "session_loop parse config [] st = (st, None)"
| "session_loop parse config (x # xs) st =
     (case session_step parse config x st of
        (st, None) \<Rightarrow> session_loop parse config xs st
      | (st, Some e) \<Rightarrow> (st, Some e))"

section \<open>One connection\<close>

datatype connect_result = Connect_Timed_Out | Connect_Failed anyhow | Connected "ws_item list"

datatype run_result = Outcome session_end | Panicked | Still_Running

text \<open>
  \<open>run_once\<close>: \<open>tokio::time::interval\<close> panics on a zero period, which \<open>resync_sec\<close> of the welcome
  message may be. The inputs of the steady loop follow the items of the handshake.
\<close>

definition run_once ::
  "HandshakeEnv \<Rightarrow> AgentConfig \<Rightarrow> string \<Rightarrow> connect_result \<Rightarrow>
     MetricsPayload result \<Rightarrow> bool \<Rightarrow> SystemInfoPayload result \<Rightarrow> nat \<Rightarrow> nat \<Rightarrow> (bool \<times> session_input) list \<Rightarrow>
     handshake_frame list \<times> OutboundMessage list \<times> run_result" where
  "run_once E config boot_id connect metrics chan_open info now1 now2 inputs =
     (case connect of
        Connect_Timed_Out \<Rightarrow>
          ([], [], Outcome (Session_Error
            [''ws connect timed out after '' @ show_word (ac_connect_timeout_ms config) @ '' ms'']))
      | Connect_Failed e \<Rightarrow> ([], [], Outcome (Session_Error (''failed to connect websocket'' # e)))
      | Connected items \<Rightarrow>
          (let (trace, r, _) = handshake E config boot_id items;
               frames = sent_frames trace
           in case r of
             Inl e \<Rightarrow> (frames, [], Outcome (Session_Error e))
           | Inr welcome \<Rightarrow>
               if wb_resync_sec welcome = 0 then (frames, [], Panicked)
               else
                 (let st = session_start config metrics chan_open info now1 now2;
                      (st, e) = session_loop (he_parse E) config inputs st
                  in (frames, ses_sent st, case e of None \<Rightarrow> Still_Running | Some e \<Rightarrow> Outcome e))))"

section \<open>The reconnect loop\<close>

text \<open>
  \<open>run\<close>: each round is the end of one connection, the stop flag after it, and how the wait for the
  next attempt ended (slept, or the flag changed and is set). The delays asked for are the result.
\<close>

record Round =
  rd_end :: session_end
  rd_stop_after :: bool
  rd_stop_in_wait :: bool

definition reconnect_delay :: "AgentConfig \<Rightarrow> session_end \<Rightarrow> u64" where
  "reconnect_delay config e =
     unwrap_or (case e of Reconnect after \<Rightarrow> after | _ \<Rightarrow> None) (ac_reconnect_delay_ms config)"

fun run_rounds :: "AgentConfig \<Rightarrow> Round list \<Rightarrow> u64 list \<times> bool" where
  "run_rounds config [] = ([], False)"
| "run_rounds config (r # rs) =
     (if rd_end r = Stopped then ([], True)
      else if rd_stop_after r then ([], True)
      else if rd_stop_in_wait r then ([reconnect_delay config (rd_end r)], True)
      else (let (ds, stopped) = run_rounds config rs in (reconnect_delay config (rd_end r) # ds, stopped)))"

section \<open>Reachable states\<close>

text \<open>The states of one connection after it is established, under any interleaving of inputs.\<close>

inductive session_reach ::
  "(string \<Rightarrow> json option) \<Rightarrow> AgentConfig \<Rightarrow> SessionState \<Rightarrow> SessionState \<Rightarrow> bool"
  for parse config st0 where
  start: "session_reach parse config st0 st0"
| step: "session_reach parse config st0 st \<Longrightarrow> session_step parse config x st = (st', e) \<Longrightarrow>
     session_reach parse config st0 st'"

inductive_cases session_reach_cases: "session_reach parse config st0 st"

lemma session_reach_trans:
  "session_reach parse config st1 st2 \<Longrightarrow> session_reach parse config st0 st1 \<Longrightarrow> session_reach parse config st0 st2"
  by (induction rule: session_reach.induct) (auto intro: session_reach.step)

lemma session_loop_reach:
  "session_loop parse config xs st = (st', e) \<Longrightarrow> session_reach parse config st st'"
proof (induction xs arbitrary: st)
  case Nil
  then show ?case by (auto intro: session_reach.start)
next
  case (Cons x xs)
  obtain st1 e1 where step: "session_step parse config x st = (st1, e1)"
    by (cases "session_step parse config x st")
  then have reach: "session_reach parse config st st1"
    by (blast intro: session_reach.intros)
  show ?case
  proof (cases e1)
    case None
    with Cons step have "session_reach parse config st1 st'" by simp
    then show ?thesis using reach by (rule session_reach_trans)
  next
    case (Some e2)
    with Cons.prems step reach show ?thesis by simp
  qed
qed

lemma ses_sent_send_out [simp]:
  "ses_sent (send_out ms st) = ses_sent st @ ms"
  "ses_last_desired (send_out ms st) = ses_last_desired st"
  "ses_last_hash (send_out ms st) = ses_last_hash st"
  "ses_last_published_at (send_out ms st) = ses_last_published_at st"
  "ses_queries (send_out ms st) = ses_queries st"
  by (simp_all add: send_out_def)

text \<open>What publishing changes: it appends at most one message, which is no status, pong or answer.\<close>

lemma publish_metrics_cases:
  "publish_metrics_once r st = st \<or> (\<exists>p. publish_metrics_once r st = send_out [Out_Metrics p] st)"
  by (cases r) (auto simp: publish_metrics_once_def)

lemma publish_info_cases:
  "snd (publish_system_info_if_needed ch force ri r t1 t2 st) = st \<or>
   (\<exists>p. snd (publish_system_info_if_needed ch force ri r t1 t2 st) =
      (send_out [Out_SystemInfo p] st)\<lparr>ses_last_hash := Some (sp_hash p), ses_last_published_at := Some t2\<rparr>)"
proof (cases r)
  case (Inr p)
  then show ?thesis
    unfolding publish_system_info_if_needed_def Let_def
    by (cases ch) (auto split: if_splits)
qed (simp add: publish_system_info_if_needed_def)

lemma log_query_reply_cases:
  "log_query_reply q r = [] \<or> (\<exists>records c. log_query_reply q r =
     [Out_LogResult \<lparr>lr_request_id = lq_request_id q, lr_records = records, lr_next_cursor = c\<rparr>])"
  by (auto simp: log_query_reply_def split: option.split sum.split)

section \<open>The invariant\<close>

definition session_inv :: "SessionState \<Rightarrow> bool" where
  "session_inv st \<longleftrightarrow>
     ses_sent st \<noteq> [] \<and> hd (ses_sent st) = Out_LogCapabilities \<and>
     list_all unsupported_status (statuses_of (ses_sent st)) \<and>
     (statuses_of (ses_sent st) \<noteq> [] \<longrightarrow> ses_last_desired st \<noteq> None)"

lemma session_inv_send:
  "session_inv st \<Longrightarrow> statuses_of ms = [] \<Longrightarrow> session_inv (send_out ms st)"
  by (simp add: session_inv_def)

lemma session_inv_metrics: "session_inv st \<Longrightarrow> session_inv (publish_metrics_once r st)"
  using publish_metrics_cases[of r st] by (auto simp: session_inv_send)

lemma session_inv_info:
  "session_inv st \<Longrightarrow> session_inv (snd (publish_system_info_if_needed ch force ri r t1 t2 st))"
  using publish_info_cases[of ch force ri r t1 t2 st] by (auto simp: session_inv_def)

lemma session_inv_start: "session_inv (session_start config m ch i t1 t2)"
  unfolding session_start_def Let_def
  by (intro session_inv_info session_inv_metrics) (simp add: session_inv_def)

lemma session_inv_step:
  assumes inv: "session_inv st" and step: "session_step parse config x st = (st', e)"
  shows "session_inv st'"
proof (cases x)
  case (Pair stop i)
  show ?thesis
  proof (cases i)
    case (In_Text raw now new_id)
    show ?thesis
    proof (cases "decode parse raw")
      case (Inl _)
      with inv step Pair In_Text show ?thesis by simp
    next
      case (Inr message)
      have "statuses_of (sends (fst (handle now new_id message d))) = [] \<and> snd (snd (handle now new_id message d)) = d \<or>
          (\<exists>s. message = Desired s)" for d
        by (cases message) simp_all
      with inv step Pair In_Text Inr show ?thesis
        by (cases message) (auto simp: session_inv_def Let_def list_all_iff plan_statuses_unsupported)
    qed
  next
    case (In_Publish r)
    with inv step Pair show ?thesis by (auto simp: session_inv_metrics)
  next
    case (In_System ch r t1 t2)
    with inv step Pair show ?thesis by (auto simp: session_inv_info)
  next
    case (In_Resync now new_id)
    with inv step Pair show ?thesis
      by (auto simp: session_inv_def list_all_iff plan_statuses_unsupported split: option.splits)
  next
    case (In_Query_Done k r)
    with inv step Pair show ?thesis
      using log_query_reply_cases[of "ses_queries st ! k" r]
      by (auto simp: session_inv_def split: if_splits)
  qed (use inv step Pair in \<open>auto\<close>)
qed

lemma session_inv_reach: "session_reach parse config st0 st \<Longrightarrow> session_inv st0 \<Longrightarrow> session_inv st"
  by (induction rule: session_reach.induct) (auto intro: session_inv_step)

text \<open>
  C11: in every state a connection can reach, under any interleaving of frames, timers, tasks and
  shutdown: the log capabilities were announced first; a status is only ever sent after a
  desired state arrived; and no status ever claims that anything runs (each is pending and
  \<open>Unsupported\<close>).
\<close>

theorem session_invariant:
  assumes "session_reach parse config (session_start config metrics chan_open info now1 now2) st"
  shows "hd (ses_sent st) = Out_LogCapabilities \<and>
    list_all unsupported_status (statuses_of (ses_sent st)) \<and>
    (ses_last_desired st = None \<longrightarrow> statuses_of (ses_sent st) = [])"
  using session_inv_reach[OF assms session_inv_start] by (auto simp: session_inv_def)

text \<open>The state after a resync timer fired before any desired state arrived.\<close>

lemma session_invariant_witness:
  "\<forall>parse config now. statuses_of (ses_sent (fst (session_step parse config (False, In_Resync now [])
      (session_start config (Inl []) True (Inl []) 0 0)))) = []"
proof (intro allI)
  fix parse :: "string \<Rightarrow> json option" and config :: AgentConfig and now :: "nat \<Rightarrow> string"
  define st where "st = session_start config (Inl []) True (Inl []) 0 0"
  have none: "ses_last_desired st = None"
    by (simp add: st_def session_start_def publish_metrics_once_def publish_system_info_if_needed_def)
  have "session_reach parse config st (fst (session_step parse config (False, In_Resync now []) st))"
    by (rule session_reach.step[OF session_reach.start prod.collapse[symmetric]])
  then have "session_reach parse config (session_start config (Inl []) True (Inl []) 0 0)
      (fst (session_step parse config (False, In_Resync now []) st))"
    by (simp only: st_def)
  from session_invariant[OF this] none
  show "statuses_of (ses_sent (fst (session_step parse config (False, In_Resync now [])
      (session_start config (Inl []) True (Inl []) 0 0)))) = []"
    by (simp flip: st_def)
qed

end
