(* ===== verification/Session_Props.thy ===== *)
theory Session_Props
  imports Agent_Session
begin

text \<open>
  Properties of the session: the handshake's order, one pong per ping, answers to log queries,
  when the system info is published, reconnect delays, and the zero resync period.
\<close>

section \<open>Handshake\<close>

lemma await_message_Inr:
  "await_message parse t pick items = (Inr v, rest) \<Longrightarrow>
     \<exists>us raw m. items = us @ Ws_Text raw # rest \<and> decode parse raw = Inr m \<and> pick m = Some v"
proof (induction parse t pick items rule: await_message.induct)
  case (2 parse timeout_ms pick raw items)
  show ?case
  proof (cases "decode parse raw")
    case (Inl e)
    with 2 obtain us r m where "items = us @ Ws_Text r # rest" "decode parse r = Inr m" "pick m = Some v"
      by auto
    then have "Ws_Text raw # items = (Ws_Text raw # us) @ Ws_Text r # rest" by simp
    with \<open>decode parse r = Inr m\<close> \<open>pick m = Some v\<close> show ?thesis by blast
  next
    case (Inr m)
    show ?thesis
    proof (cases "pick m")
      case None
      with 2 Inr obtain us r m' where "items = us @ Ws_Text r # rest" "decode parse r = Inr m'" "pick m' = Some v"
        by auto
      then have "Ws_Text raw # items = (Ws_Text raw # us) @ Ws_Text r # rest" by simp
      with \<open>decode parse r = Inr m'\<close> \<open>pick m' = Some v\<close> show ?thesis by blast
    next
      case (Some w)
      with Inr "2.prems" have "Ws_Text raw # items = [] @ Ws_Text raw # rest" "pick m = Some v" by auto
      with Inr show ?thesis by blast
    qed
  qed
next
  case (4 parse timeout_ms pick items)
  then obtain us r m where "items = us @ Ws_Text r # rest" "decode parse r = Inr m" "pick m = Some v" by auto
  then have "Ws_Other # items = (Ws_Other # us) @ Ws_Text r # rest" by simp
  with \<open>decode parse r = Inr m\<close> \<open>pick m = Some v\<close> show ?case by blast
qed (auto simp: bail_def)

lemma welcome_of_Some: "welcome_of m = Some w \<longleftrightarrow> m = Welcome w"
  by (cases m) auto

lemma challenge_of_Some: "challenge_of m = Some b \<longleftrightarrow> m = Challenge b"
  by (cases m) auto

definition hello_frame :: "HandshakeEnv \<Rightarrow> string \<Rightarrow> handshake_frame" where
  "hello_frame E boot_id = Hello (hello_body (he_version E) boot_id)"

definition auth_frame :: "HandshakeEnv \<Rightarrow> AgentConfig \<Rightarrow> handshake_frame" where
  "auth_frame E config = Auth (auth_body (he_sha256 E) (he_hex E) config)"

lemma heard_taken: "heard (us @ rest) rest = map Heard us"
  by (simp add: heard_def)

lemma handshake_Inr:
  assumes "handshake E config boot_id items = (trace, Inr welcome, rest)"
  shows "\<exists>mid body.
    trace = Sent (hello_frame E boot_id) # heard items mid @ Sent (auth_frame E config) # heard mid rest \<and>
    await_message (he_parse E) (ac_connect_timeout_ms config) challenge_of items = (Inr body, mid) \<and>
    await_message (he_parse E) (ac_connect_timeout_ms config) welcome_of mid = (Inr welcome, rest) \<and>
    wb_upgrade_required welcome \<noteq> Some True"
  using assms
  by (auto simp: handshake_def hello_frame_def auth_frame_def Let_def
      split: option.splits prod.splits sum.splits if_splits)

lemma handshake_frames:
  "handshake E config boot_id items = (trace, Inr welcome, rest) \<Longrightarrow>
     sent_frames trace = [hello_frame E boot_id, auth_frame E config]"
  using handshake_Inr[of E config boot_id items trace "welcome" rest] by (auto simp: heard_def)

text \<open>
  C23: a session is established only by the full exchange, in this order: the agent sends hello, then
  takes items up to a challenge, only then sends auth, then takes items up to a welcome that asks for
  no upgrade; what follows the welcome is left for the session, and nothing else is sent or taken.
\<close>

theorem handshake_order:
  assumes "handshake E config boot_id items = (trace, Inr welcome, rest)"
  shows "\<exists>us c vs w body. items = us @ Ws_Text c # vs @ Ws_Text w # rest \<and>
    trace = [Sent (hello_frame E boot_id)] @ map Heard us @ [Heard (Ws_Text c)] @
      [Sent (auth_frame E config)] @ map Heard vs @ [Heard (Ws_Text w)] \<and>
    decode (he_parse E) c = Inr (Challenge body) \<and> decode (he_parse E) w = Inr (Welcome welcome) \<and>
    wb_upgrade_required welcome \<noteq> Some True"
proof -
  from handshake_Inr[OF assms] obtain mid body where
    trace: "trace = Sent (hello_frame E boot_id) # heard items mid @ Sent (auth_frame E config) # heard mid rest" and
    a: "await_message (he_parse E) (ac_connect_timeout_ms config) challenge_of items = (Inr body, mid)" and
    b: "await_message (he_parse E) (ac_connect_timeout_ms config) welcome_of mid = (Inr welcome, rest)" and
    upgrade: "wb_upgrade_required welcome \<noteq> Some True"
    by blast
  from await_message_Inr[OF a] obtain us c m where
    c: "items = (us @ [Ws_Text c]) @ mid" "decode (he_parse E) c = Inr m" "challenge_of m = Some body" by auto
  from await_message_Inr[OF b] obtain vs w m' where
    w: "mid = (vs @ [Ws_Text w]) @ rest" "decode (he_parse E) w = Inr m'" "welcome_of m' = Some welcome" by auto
  have "trace = [Sent (hello_frame E boot_id)] @ map Heard us @ [Heard (Ws_Text c)] @
      [Sent (auth_frame E config)] @ map Heard vs @ [Heard (Ws_Text w)]"
    unfolding trace c(1) heard_taken w(1) by simp
  moreover have "items = us @ Ws_Text c # vs @ Ws_Text w # rest" using c(1) w(1) by simp
  moreover have "decode (he_parse E) c = Inr (Challenge body)" "decode (he_parse E) w = Inr (Welcome welcome)"
    using c(2,3) w(2,3) by (simp_all add: challenge_of_Some welcome_of_Some)
  ultimately show ?thesis using upgrade by blast
qed

text \<open>
  Whatever the server sends, the agent sends one of three fixed sequences of frames: nothing,
  hello, or hello and auth; the auth frame depends on the configuration only, so the nonce of
  the challenge does not enter the signature and a recorded auth frame stays valid.
\<close>

theorem auth_ignores_challenge:
  "sent_frames (fst (handshake E config boot_id items)) \<in>
     {[], [hello_frame E boot_id], [hello_frame E boot_id, auth_frame E config]}"
  by (auto simp: handshake_def hello_frame_def auth_frame_def heard_def Let_def
      split: option.split prod.split sum.split)

text \<open>An exchange in which the server asks for a resync every zero seconds.\<close>

definition example_welcome :: WelcomeBody where
  "example_welcome = \<lparr>wb_session_id = ''s1'', wb_heartbeat_sec = 15, wb_resync_sec = 0,
     wb_server_time = ''2026-01-01T00:00:00Z'', wb_upgrade_required = None\<rparr>"

definition example_frames :: "string \<Rightarrow> json option" where
  "example_frames raw =
     (if raw = ''c'' then Some (envelope ''1'' 0 ''challenge'' (wire_ChallengeBody \<lparr>ch_nonce = ''n''\<rparr>))
      else Some (envelope ''2'' 0 ''welcome'' (wire_WelcomeBody example_welcome)))"

definition example_env :: HandshakeEnv where
  "example_env = \<lparr>he_parse = example_frames, he_sha256 = id, he_hex = map (\<lambda>b. char_of (unat b)),
     he_version = ''0.1.0'', he_hello_fault = None, he_auth_fault = None\<rparr>"

lemma decode_example:
  "decode example_frames ''c'' = Inr (Challenge \<lparr>ch_nonce = ''n''\<rparr>)"
  "decode example_frames ''w'' = Inr (Welcome example_welcome)"
  by (simp_all add: decode_def example_frames_def de_envelope ChallengeBody_codec.enc_distinct
      WelcomeBody_codec.enc_distinct decode_body_def body_result_def ChallengeBody_codec.dec_enc
      WelcomeBody_codec.dec_enc)

lemma handshake_example:
  "handshake example_env config boot_id [Ws_Text ''c'', Ws_Other, Ws_Text ''w''] =
     ([Sent (hello_frame example_env boot_id), Heard (Ws_Text ''c''), Sent (auth_frame example_env config),
       Heard Ws_Other, Heard (Ws_Text ''w'')], Inr example_welcome, [])"
  by (simp add: handshake_def example_env_def decode_example hello_frame_def auth_frame_def heard_def Let_def)
    (simp add: example_welcome_def)

lemma handshake_order_witness:
  "wb_upgrade_required example_welcome \<noteq> Some True"
  using handshake_order[OF handshake_example] by blast

text \<open>
  A welcome message with a resync period of zero seconds makes the agent panic instead of
  returning an error: the timer refuses a zero period and nothing checks it.
\<close>

theorem zero_resync_panics:
  assumes "handshake E config boot_id items = (trace, Inr welcome, rest)" "wb_resync_sec welcome = 0"
  shows "snd (snd (run_once E config boot_id (Connected items) metrics chan_open info now1 now2 inputs)) = Panicked"
  using assms by (simp add: run_once_def)

lemma zero_resync_panics_witness:
  "\<forall>config boot_id metrics chan_open info now1 now2 inputs. snd (snd (run_once example_env config boot_id (Connected [Ws_Text ''c'', Ws_Other, Ws_Text ''w''])
     metrics chan_open info now1 now2 inputs)) = Panicked"
  by (intro allI, rule zero_resync_panics[OF handshake_example]) (simp add: example_welcome_def)

section \<open>Pings and pongs\<close>

definition is_ping :: "(string \<Rightarrow> json option) \<Rightarrow> bool \<times> session_input \<Rightarrow> bool" where
  "is_ping parse x = (case snd x of In_Text raw _ _ \<Rightarrow> decode parse raw = Inr Ping | _ \<Rightarrow> False)"

definition pongs :: "OutboundMessage list \<Rightarrow> nat" where
  "pongs ms = length (filter (\<lambda>m. m = Out_Pong) ms)"

lemma pongs_simps [simp]:
  "pongs [] = 0" "pongs (m # ms) = (if m = Out_Pong then 1 else 0) + pongs ms"
  "pongs (xs @ ys) = pongs xs + pongs ys"
  by (simp_all add: pongs_def)

lemma pongs_status [simp]: "pongs (map Out_Status ss) = 0"
  by (induction ss) simp_all

lemma pongs_apply [simp]: "pongs (apply_desired now i s) = 0" "pongs (resync now i s) = 0"
  by (simp_all add: apply_desired_def resync_def Let_def)

lemma pongs_step:
  assumes "session_step parse config x st = (st', e)"
  shows "pongs (ses_sent st') = pongs (ses_sent st) + (if is_ping parse x then 1 else 0)"
proof (cases x)
  case (Pair stop i)
  show ?thesis
  proof (cases i)
    case (In_Text raw now new_id)
    show ?thesis
    proof (cases "decode parse raw")
      case (Inl _)
      with assms Pair In_Text show ?thesis by (simp add: is_ping_def)
    next
      case (Inr message)
      with assms Pair In_Text show ?thesis by (cases message) (auto simp: is_ping_def Let_def)
    qed
  next
    case (In_Publish r)
    with assms Pair show ?thesis using publish_metrics_cases[of r st] by (auto simp: is_ping_def)
  next
    case (In_System ch r t1 t2)
    with assms Pair show ?thesis
      using publish_info_cases[of ch False "ac_system_info_republish_interval_ms config" r t1 t2 st]
      by (auto simp: is_ping_def)
  next
    case (In_Query_Done k r)
    with assms Pair show ?thesis
      using log_query_reply_cases[of "ses_queries st ! k" r] by (auto simp: is_ping_def split: if_splits)
  qed (use assms Pair in \<open>auto simp: is_ping_def split: option.splits\<close>)
qed

text \<open>
  While a session runs, the agent has sent exactly one pong for each ping it received, no
  matter what else happened in between.
\<close>

theorem one_pong_per_ping:
  "session_loop parse config xs st = (st', None) \<Longrightarrow>
     pongs (ses_sent st') = pongs (ses_sent st) + length (filter (is_ping parse) xs)"
proof (induction xs arbitrary: st)
  case (Cons x xs)
  obtain st1 e where step: "session_step parse config x st = (st1, e)"
    by (cases "session_step parse config x st")
  with Cons.prems have "e = None" "session_loop parse config xs st1 = (st', None)" by (cases e; simp)+
  with Cons.IH pongs_step[OF step] show ?case by simp
qed simp

text \<open>A ping, a frame of another kind, and a ping whose body is not looked at.\<close>

definition ping_frames :: "string \<Rightarrow> json option" where
  "ping_frames raw =
     (if raw = ''p'' then Some (envelope ''1'' 0 ''ping'' (Obj []))
      else if raw = ''q'' then Some (envelope ''1'' 0 ''ping'' (Str ''body''))
      else None)"

lemma decode_ping_frames:
  "decode ping_frames ''p'' = Inr Ping" "decode ping_frames ''q'' = Inr Ping"
  "decode ping_frames ''x'' = Inl InvalidEnvelope"
  by (simp_all add: decode_def ping_frames_def de_envelope decode_body_def)

lemma one_pong_per_ping_witness:
  "\<forall>config st now. pongs (ses_sent (fst (session_loop ping_frames config
      [(False, In_Text ''p'' now []), (False, In_Text ''x'' now []), (True, In_Text ''q'' now [])] st))) =
     pongs (ses_sent st) + 2"
proof (intro allI)
  fix config st and now :: "nat \<Rightarrow> string"
  define xs where "xs = [(False, In_Text ''p'' now []), (False, In_Text ''x'' now []), (True, In_Text ''q'' now [])]"
  have "pongs (ses_sent (fst (session_loop ping_frames config xs st))) =
     pongs (ses_sent st) + length (filter (is_ping ping_frames) xs)"
    by (rule one_pong_per_ping[where config = config]) (simp add: xs_def decode_ping_frames)
  then show "pongs (ses_sent (fst (session_loop ping_frames config
      [(False, In_Text ''p'' now []), (False, In_Text ''x'' now []), (True, In_Text ''q'' now [])] st))) =
     pongs (ses_sent st) + 2"
    by (simp add: xs_def is_ping_def decode_ping_frames)
qed

section \<open>Log queries\<close>

definition asked :: "(string \<Rightarrow> json option) \<Rightarrow> bool \<times> session_input \<Rightarrow> string list" where
  "asked parse x =
     (case snd x of
        In_Text raw _ _ \<Rightarrow> (case decode parse raw of Inr (LogQuery q) \<Rightarrow> [lq_request_id q] | _ \<Rightarrow> [])
      | _ \<Rightarrow> [])"

fun answered :: "OutboundMessage list \<Rightarrow> string list" where
  "answered [] = []"
| "answered (Out_LogResult b # ms) = lr_request_id b # answered ms"
| "answered (_ # ms) = answered ms"

lemma answered_append [simp]: "answered (xs @ ys) = answered xs @ answered ys"
  by (induction xs rule: answered.induct) simp_all

lemma answered_status [simp]: "answered (map Out_Status ss) = []"
  by (induction ss) simp_all

lemma answered_apply [simp]: "answered (apply_desired now i s) = []" "answered (resync now i s) = []"
  by (simp_all add: apply_desired_def resync_def Let_def)

text \<open>Answers sent and queries still running.\<close>

definition query_account :: "SessionState \<Rightarrow> string multiset" where
  "query_account st = mset (answered (ses_sent st)) + mset (map lq_request_id (ses_queries st))"

lemma mset_take_drop_Suc:
  "i < length xs \<Longrightarrow> mset xs = add_mset (xs ! i) (mset (take i xs @ drop (Suc i) xs))"
  by (metis add_mset_add_single append_take_drop_id id_take_nth_drop mset.simps(2) mset_append
      union_mset_add_mset_right)

lemma query_account_step:
  assumes "session_step parse config x st = (st', e)"
  shows "query_account st' \<subseteq># query_account st + mset (asked parse x)"
proof (cases x)
  case (Pair stop i)
  show ?thesis
  proof (cases i)
    case (In_Text raw now new_id)
    show ?thesis
    proof (cases "decode parse raw")
      case (Inl _)
      with assms Pair In_Text show ?thesis by (simp add: asked_def)
    next
      case (Inr message)
      with assms Pair In_Text show ?thesis
        by (cases message) (auto simp: asked_def query_account_def Let_def)
    qed
  next
    case (In_Publish r)
    with assms Pair show ?thesis
      using publish_metrics_cases[of r st] by (auto simp: asked_def query_account_def)
  next
    case (In_System ch r t1 t2)
    with assms Pair show ?thesis
      using publish_info_cases[of ch False "ac_system_info_republish_interval_ms config" r t1 t2 st]
      by (auto simp: asked_def query_account_def)
  next
    case (In_Query_Done k r)
    show ?thesis
    proof (cases "k < length (ses_queries st)")
      case False
      with assms Pair In_Query_Done show ?thesis by (auto simp: asked_def query_account_def)
    next
      case True
      define q where "q = ses_queries st ! k"
      define rest where "rest = take k (ses_queries st) @ drop (Suc k) (ses_queries st)"
      have ids: "image_mset lq_request_id (mset (ses_queries st)) =
          add_mset (lq_request_id q) (image_mset lq_request_id (mset rest))"
        using arg_cong[OF mset_take_drop_Suc[OF True], of "image_mset lq_request_id"]
        unfolding q_def rest_def by (simp only: image_mset_add_mset)
      have st': "st' = send_out (log_query_reply q r) (st\<lparr>ses_queries := rest\<rparr>)"
        using assms Pair In_Query_Done True by (simp add: q_def rest_def)
      show ?thesis
        using Pair In_Query_Done log_query_reply_cases[of q r]
        by (auto simp: st' query_account_def asked_def ids)
    qed
  qed (use assms Pair in \<open>auto simp: asked_def query_account_def split: option.splits\<close>)
qed

lemma query_account_loop:
  "session_loop parse config xs st = (st', e) \<Longrightarrow>
     query_account st' \<subseteq># query_account st + mset (concat (map (asked parse) xs))"
proof (induction xs arbitrary: st)
  case (Cons x xs)
  obtain st1 e1 where step: "session_step parse config x st = (st1, e1)"
    by (cases "session_step parse config x st")
  note acc = query_account_step[OF step]
  show ?case
  proof (cases e1)
    case None
    with Cons.prems step have "session_loop parse config xs st1 = (st', e)" by simp
    from Cons.IH[OF this] have "query_account st' \<subseteq># query_account st1 + mset (concat (map (asked parse) xs))" .
    also have "\<dots> \<subseteq># (query_account st + mset (asked parse x)) + mset (concat (map (asked parse) xs))"
      using acc by (rule subset_mset.add_right_mono)
    finally show ?thesis by (simp add: add.assoc)
  next
    case (Some e2)
    with Cons.prems step have "st' = st1" by simp
    with acc show ?thesis
      by (auto intro: subset_mset.order_trans[OF acc] simp: subset_mset.add_increasing2)
  qed
qed simp

text \<open>
  C20: the agent answers only log queries it was asked, each at most once and under its own
  request id, in whatever order the queries finish: the answers sent, counted with
  multiplicity, are among the requests received.
\<close>

theorem log_answers_were_asked:
  assumes "session_loop parse config xs (session_start config metrics chan_open info now1 now2) = (st, e)"
  shows "mset (answered (ses_sent st)) \<subseteq># mset (concat (map (asked parse) xs))"
proof -
  define st0 where "st0 = session_start config metrics chan_open info now1 now2"
  define b where "b = \<lparr>ses_last_desired = None, ses_last_hash = None, ses_last_published_at = None,
    ses_sent = [Out_LogCapabilities], ses_queries = []\<rparr>"
  have "query_account (publish_metrics_once metrics b) = {#}"
    using publish_metrics_cases[of metrics b] by (auto simp: query_account_def b_def)
  then have "query_account st0 = {#}"
    using publish_info_cases[of chan_open True "ac_system_info_republish_interval_ms config" info now1 now2
        "publish_metrics_once metrics b"]
    by (auto simp: st0_def session_start_def Let_def query_account_def b_def)
  with query_account_loop[OF assms] have "query_account st \<subseteq># mset (concat (map (asked parse) xs))"
    by (simp add: st0_def)
  moreover have "mset (answered (ses_sent st)) \<subseteq># query_account st" by (simp add: query_account_def)
  ultimately show ?thesis by (rule subset_mset.order_trans[rotated])
qed

text \<open>Two queries, of which the second is answered first and the first fails.\<close>

definition query_of :: "string \<Rightarrow> LogQueryBody" where
  "query_of i = \<lparr>lq_request_id = i, lq_scope = None, lq_resource_id = None, lq_cursor = None, lq_limit = None\<rparr>"

definition query_frames :: "string \<Rightarrow> json option" where
  "query_frames raw = Some (envelope ''1'' 0 ''logs.query'' (wire_LogQueryBody (query_of raw)))"

lemma decode_query_frames: "decode query_frames raw = Inr (LogQuery (query_of raw))"
  by (simp add: decode_def query_frames_def de_envelope LogQueryBody_codec.enc_distinct decode_body_def
      body_result_def LogQueryBody_codec.dec_enc)

lemma log_answers_were_asked_witness:
  "\<forall>config now. mset (answered (ses_sent (fst (session_loop query_frames config
      [(False, In_Text ''a'' now []), (False, In_Text ''b'' now []),
       (False, In_Query_Done 1 (Some (Inr ([], None)))), (False, In_Query_Done 0 None)]
      (session_start config (Inl []) True (Inl []) 0 0))))) \<subseteq># {#''a'', ''b''#}"
proof (intro allI)
  fix config and now :: "nat \<Rightarrow> string"
  show "mset (answered (ses_sent (fst (session_loop query_frames config
      [(False, In_Text ''a'' now []), (False, In_Text ''b'' now []),
       (False, In_Query_Done 1 (Some (Inr ([], None)))), (False, In_Query_Done 0 None)]
      (session_start config (Inl []) True (Inl []) 0 0))))) \<subseteq># {#''a'', ''b''#}"
    using log_answers_were_asked[OF prod.collapse[symmetric], of query_frames config
      "[(False, In_Text ''a'' now []), (False, In_Text ''b'' now []),
       (False, In_Query_Done 1 (Some (Inr ([], None)))), (False, In_Query_Done 0 None)]"
      "Inl []" True "Inl []" 0 0]
    by (simp add: asked_def decode_query_frames query_of_def)
qed

section \<open>System info\<close>

fun system_infos :: "OutboundMessage list \<Rightarrow> SystemInfoPayload list" where
  "system_infos [] = []"
| "system_infos (Out_SystemInfo p # ms) = p # system_infos ms"
| "system_infos (_ # ms) = system_infos ms"

lemma system_infos_append [simp]: "system_infos (xs @ ys) = system_infos xs @ system_infos ys"
  by (induction xs rule: system_infos.induct) simp_all

lemma system_infos_status [simp]: "system_infos (map Out_Status ss) = []"
  by (induction ss) simp_all

lemma system_infos_apply [simp]:
  "system_infos (apply_desired now i s) = []" "system_infos (resync now i s) = []"
  by (simp_all add: apply_desired_def resync_def Let_def)

text \<open>A reading of the system info that is not due: same hash as \<open>h\<close>, within \<open>ri\<close> of time \<open>t\<close>.\<close>

fun not_due :: "u64 \<Rightarrow> string \<Rightarrow> nat \<Rightarrow> session_input \<Rightarrow> bool" where
  "not_due ri h t (In_System chan_open (Inr p) t1 t2) \<longleftrightarrow> sp_hash p = h \<and> t1 - t < unat ri"
| "not_due ri h t _ \<longleftrightarrow> True"

definition published :: "string \<Rightarrow> nat \<Rightarrow> SystemInfoPayload list \<Rightarrow> SessionState \<Rightarrow> bool" where
  "published h t ps st \<longleftrightarrow>
     ses_last_hash st = Some h \<and> ses_last_published_at st = Some t \<and> system_infos (ses_sent st) = ps"

lemma published_step:
  assumes step: "session_step parse config x st = (st', e)" and p: "published h t ps st"
    and nd: "not_due (ac_system_info_republish_interval_ms config) h t (snd x)"
  shows "published h t ps st'"
proof (cases x)
  case (Pair stop i)
  show ?thesis
  proof (cases i)
    case (In_Text raw now new_id)
    show ?thesis
    proof (cases "decode parse raw")
      case (Inl _)
      with step p Pair In_Text show ?thesis by simp
    next
      case (Inr message)
      with step p Pair In_Text show ?thesis by (cases message) (auto simp: published_def Let_def)
    qed
  next
    case (In_Publish r)
    with step p Pair show ?thesis using publish_metrics_cases[of r st] by (auto simp: published_def)
  next
    case (In_System ch r t1 t2)
    with step p nd Pair show ?thesis
      by (cases r) (auto simp: published_def publish_system_info_if_needed_def)
  next
    case (In_Query_Done k r)
    with step p Pair show ?thesis
      using log_query_reply_cases[of "ses_queries st ! k" r] by (auto simp: published_def split: if_splits)
  qed (use step p Pair in \<open>auto simp: published_def split: option.splits\<close>)
qed

lemma published_loop:
  "session_loop parse config xs st = (st', e) \<Longrightarrow> published h t ps st \<Longrightarrow>
     \<forall>x \<in> set xs. not_due (ac_system_info_republish_interval_ms config) h t (snd x) \<Longrightarrow> published h t ps st'"
proof (induction xs arbitrary: st)
  case (Cons x xs)
  obtain st1 e1 where step: "session_step parse config x st = (st1, e1)"
    by (cases "session_step parse config x st")
  have p1: "published h t ps st1" using published_step[OF step] Cons.prems by simp
  show ?case
  proof (cases e1)
    case None
    with Cons.prems step have "session_loop parse config xs st1 = (st', e)" by simp
    with p1 show ?thesis using Cons.IH Cons.prems by simp
  next
    case (Some e2)
    with Cons.prems step p1 show ?thesis by simp
  qed
qed simp

text \<open>
  C29: an unchanged system is not reported again before the republish interval has passed: after
  the system info with hash \<open>h\<close> went out at time \<open>t\<close>, a session whose later readings all have
  that hash and come within the interval sends no further system info, whatever else happens.
\<close>

theorem system_info_quiet:
  assumes "session_loop parse config xs st = (st', e)"
    and "ses_last_hash st = Some h" "ses_last_published_at st = Some t"
    and "\<forall>x \<in> set xs. not_due (ac_system_info_republish_interval_ms config) h t (snd x)"
  shows "system_infos (ses_sent st') = system_infos (ses_sent st)"
  using published_loop[OF assms(1) _ assms(4), of "system_infos (ses_sent st)"] assms(2,3)
  by (simp add: published_def)

text \<open>A session that has just reported: its start sent one system info, at time 7.\<close>

definition example_info :: SystemInfoPayload where
  "example_info = \<lparr>sp_v = 1, sp_ts = 0, sp_hash = ''h'', sp_info = \<lparr>si_os_platform = ''linux'',
     si_os_release = ''6.1'', si_os_arch = ''x86_64'', si_hostname = ''n'', si_cpu_model = ''c'',
     si_cpu_cores = 4, si_mem_total = 1, si_agent_version = None, si_agent_commit = None,
     si_agent_built_at = None, si_wireguard = None, si_gpus = []\<rparr>\<rparr>"

definition example_config :: AgentConfig where
  "example_config = \<lparr>ac_node_id = ''n1'', ac_node_token = ''t'', ac_agent_ws_url = ''wss://a'',
     ac_api_base_url = ''https://a'', ac_publish_interval_ms = 1000, ac_system_info_check_interval_ms = 1000,
     ac_system_info_republish_interval_ms = 60000, ac_reconnect_delay_ms = 500, ac_connect_timeout_ms = 1000,
     ac_wireguard = None, ac_microvm_default_image = ''d'', ac_microvm_default_cpu = 1,
     ac_microvm_default_memory_mb = 512, ac_container_default_image = ''e''\<rparr>"

definition example_started :: SessionState where
  "example_started = session_start example_config (Inl []) True (Inr example_info) 5 7"

lemma example_started:
  "example_started = \<lparr>ses_last_desired = None, ses_last_hash = Some ''h'', ses_last_published_at = Some 7,
     ses_sent = [Out_LogCapabilities, Out_SystemInfo example_info], ses_queries = []\<rparr>"
  by (simp add: example_started_def session_start_def publish_metrics_once_def
      publish_system_info_if_needed_def send_out_def example_info_def)

lemma system_info_quiet_witness:
  "system_infos (ses_sent (fst (session_loop example_frames example_config
      [(False, In_Other), (False, In_System True (Inr example_info) 50000 50001)] example_started))) =
   [example_info]"
proof -
  have "system_infos (ses_sent (fst (session_loop example_frames example_config
      [(False, In_Other), (False, In_System True (Inr example_info) 50000 50001)] example_started))) =
    system_infos (ses_sent example_started)"
    by (rule system_info_quiet[where h = "''h''" and t = 7, OF prod.collapse[symmetric]])
      (simp_all add: example_started example_info_def example_config_def)
  then show ?thesis by (simp add: example_started)
qed

section \<open>Reconnecting\<close>

definition round_stops :: "Round \<Rightarrow> bool" where
  "round_stops r \<longleftrightarrow> rd_end r = Stopped \<or> rd_stop_after r \<or> rd_stop_in_wait r"

text \<open>The rounds after which the loop waits: those before the stop, and the one stopped in its wait.\<close>

definition waited :: "Round list \<Rightarrow> Round list" where
  "waited rs = takeWhile (\<lambda>r. \<not> round_stops r) rs @
     filter (\<lambda>r. rd_end r \<noteq> Stopped \<and> \<not> rd_stop_after r) (take 1 (dropWhile (\<lambda>r. \<not> round_stops r) rs))"

text \<open>
  C28: the agent gives up only when it is told to stop: after every failed or closed connection
  it waits and tries again, each time with the delay the server's goaway asked for, and with the
  configured delay otherwise, exactly and without jitter (the comment on \<open>SessionOutcome::Reconnect\<close>
  speaks of a jittered one); errors never end the loop.
\<close>

theorem reconnect_until_stopped:
  "run_rounds config rs =
     (map (\<lambda>r. case rd_end r of Reconnect (Some delay) \<Rightarrow> delay | _ \<Rightarrow> ac_reconnect_delay_ms config) (waited rs),
      \<exists>r \<in> set rs. round_stops r)"
proof (induction rs)
  case Nil
  show ?case by (simp add: waited_def)
next
  case (Cons r rs)
  have delay: "reconnect_delay config e =
      (case e of Reconnect (Some delay) \<Rightarrow> delay | _ \<Rightarrow> ac_reconnect_delay_ms config)" for e
    by (simp add: reconnect_delay_def split: session_end.split option.split)
  show ?case
  proof (cases "round_stops r")
    case True
    then show ?thesis by (auto simp: waited_def round_stops_def delay)
  next
    case False
    then have "waited (r # rs) = r # waited rs" by (simp add: waited_def)
    with False Cons show ?thesis by (simp add: round_stops_def delay)
  qed
qed

end
