(* ===== verification/Log_Session.thy ===== *)
theory Log_Session
  imports Log_Store Session_Props
begin

text \<open>
  From the spool to the controller: the histories of the spool directory under the two appending
  operations (\<open>append_job\<close>, \<open>append_agent\<close> of \<open>src/logs.rs\<close>) of any number of processes, the answers
  queries read from it, and what a session (\<open>src/transport/session.rs\<close>) sends of them.
\<close>

section \<open>The histories of the spool\<close>

text \<open>A write is whole if it succeeds, or if it fails before it has stored anything.\<close>

definition whole_writes :: "Faults \<Rightarrow> bool" where
  "whole_writes F \<longleftrightarrow> fault F Write_Log = None \<or> written F = 0"

text \<open>
  The directory after appending the records in order, with every clock, process, id counter and
  failure of the file system at each append; a failed append may have pruned or rotated.
\<close>

inductive spool_reach :: "(json \<Rightarrow> string) \<Rightarrow> Record list \<Rightarrow> SpoolDir option \<Rightarrow> bool" for print where
  fresh: "spool_reach print [] None"
| job: "spool_reach print rs dir \<Longrightarrow> whole_writes F \<Longrightarrow>
    append_job print poisoned state_dir F clk pid job_id attempt_id stream line scope resource_id dir prev_id
      = (r, dir', prev_id') \<Longrightarrow>
    spool_reach print (rs @ [job_record (clk_record_ms clk) (fst (next_record_id pid (clk_record_ns clk) prev_id))
      job_id attempt_id stream line scope resource_id]) dir'"
| agent: "spool_reach print rs dir \<Longrightarrow> whole_writes F \<Longrightarrow>
    append_agent print poisoned state_dir F clk pid level message dir prev_id = (r, dir', prev_id') \<Longrightarrow>
    spool_reach print (rs @ [agent_record (clk_record_ms clk)
      (fst (next_record_id pid (clk_record_ns clk) prev_id)) level message]) dir'"

text \<open>The records the files hold, whatever their names.\<close>

definition stored_records :: "(string \<Rightarrow> json option) \<Rightarrow> SpoolDir \<Rightarrow> Record set" where
  "stored_records parse dir = (\<Union>nf \<in> set dir. set (parse_records parse (sf_content (snd nf))))"

definition spool_holds :: "(string \<Rightarrow> json option) \<Rightarrow> Record set \<Rightarrow> SpoolDir \<Rightarrow> bool" where
  "spool_holds parse R dir \<longleftrightarrow> spool_ok dir \<and> stored_records parse dir \<subseteq> R"

lemma spool_holds_mono: "spool_holds parse R dir \<Longrightarrow> R \<subseteq> R' \<Longrightarrow> spool_holds parse R' dir"
  by (auto simp: spool_holds_def)

lemma stored_mono: "set dir \<subseteq> set dir' \<Longrightarrow> stored_records parse dir \<subseteq> stored_records parse dir'"
  by (auto simp: stored_records_def)

lemma spool_holds_prune: "spool_holds parse R dir \<Longrightarrow> spool_holds parse R (prune F now dir)"
  using stored_mono[of "prune F now dir" dir parse] filter_is_subset
  by (auto simp: spool_holds_def spool_ok_prune) (fastforce simp: prune_def)

lemma stored_update:
  "stored_records parse (AList.update k f dir) \<subseteq>
     set (parse_records parse (sf_content f)) \<union> stored_records parse dir"
  using set_update_subset[of k f dir] by (fastforce simp: stored_records_def)

lemma stored_lookup:
  "map_of dir k = Some f \<Longrightarrow> set (parse_records parse (sf_content f)) \<subseteq> stored_records parse dir"
  by (force simp: stored_records_def dest: map_of_SomeD)

lemma stored_log_content:
  "set (parse_records parse (log_content dir path)) \<subseteq> stored_records parse dir"
  using stored_lookup[of dir path]
  by (auto simp: log_content_def parse_records_def lines_def List.map_filter_def split: option.splits)

lemma spool_holds_rename:
  assumes "spool_holds parse R dir"
  shows "spool_holds parse R (rename_file old new dir)"
proof (cases "map_of dir old")
  case (Some f)
  then have new: "rename_file old new dir = AList.update new f (AList.delete old dir)" by (simp add: rename_file_def)
  have "stored_records parse (AList.delete old dir) \<subseteq> stored_records parse dir"
    by (rule stored_mono) (auto simp: AList.delete_eq)
  then have "stored_records parse (rename_file old new dir) \<subseteq> stored_records parse dir"
    using stored_update[of parse new f "AList.delete old dir"] stored_lookup[OF Some, of parse]
    unfolding new by blast
  with assms spool_ok_rename[of dir old new] show ?thesis by (auto simp: spool_holds_def)
qed (use assms in \<open>simp add: rename_file_def\<close>)

text \<open>Nothing written, or the whole line of a record.\<close>

lemma spool_holds_append_nothing:
  assumes "spool_holds parse R dir"
  shows "spool_holds parse R (append_text path now [] dir)"
proof -
  have "spool_ok (append_text path now [] dir)"
    using assms by (simp add: spool_holds_def spool_ok_append_text complete_text_def)
  moreover have "stored_records parse (append_text path now [] dir) \<subseteq> stored_records parse dir"
    using stored_update[of parse path] stored_log_content[of parse dir path] by (fastforce simp: append_text_def)
  ultimately show ?thesis using assms by (auto simp: spool_holds_def)
qed

lemma spool_holds_append_line:
  assumes "spool_holds parse R dir" "rec \<in> R" "json_line print parse (en_Record rec)"
  shows "spool_holds parse R (append_text path now (payload_of print rec) dir)"
proof -
  have ok: "spool_ok dir" using assms(1) by (simp add: spool_holds_def)
  have "parse_records parse (log_content dir path @ payload_of print rec) =
      parse_records parse (log_content dir path) @ [rec]"
    by (rule parse_records_append[OF complete_log_content[OF ok] assms(3)])
  then have "stored_records parse (append_text path now (payload_of print rec) dir) \<subseteq>
      insert rec (stored_records parse dir)"
    using stored_update[of parse path] stored_log_content[of parse dir path] by (fastforce simp: append_text_def)
  then show ?thesis
    using assms(1,2) spool_ok_append_text[OF ok complete_payload] by (auto simp: spool_holds_def)
qed

lemma spool_holds_rotate:
  "spool_holds parse R dir \<Longrightarrow> spool_holds parse R (fst (snd (rotate_log F clk pid path dir prev_id)))"
  by (auto simp: rotate_log_def Let_def spool_holds_rename spool_holds_prune split: prod.split option.split)

lemma spool_holds_write:
  assumes "spool_holds parse R dir" "rec \<in> R" "json_line print parse (en_Record rec)" "whole_writes F"
  shows "spool_holds parse R (snd (write_payload F clk path (payload_of print rec) dir))"
  using assms(4) spool_holds_append_nothing[OF assms(1)] spool_holds_append_line[OF assms(1-3)] assms(1)
  by (auto simp: write_payload_def whole_writes_def split: option.split)

text \<open>One append, on every branch: what the spool holds is old or the new record.\<close>

lemma spool_holds_append:
  assumes "spool_holds parse R (unwrap_or dir [])" "rec \<in> R" "json_line print parse (en_Record rec)"
    and "whole_writes F"
  shows "spool_holds parse R
    (unwrap_or (fst (snd (append_record print poisoned state_dir F clk pid rec dir prev_id))) [])"
proof -
  define d0 where "d0 = prune F (clk_prune_ms clk) (unwrap_or dir [])"
  have "spool_holds parse R d0" unfolding d0_def by (rule spool_holds_prune[OF assms(1)])
  note steps = this spool_holds_rotate[OF this, of F clk pid "path_in (clk_path_ms clk)" prev_id]
    spool_holds_write[OF _ assms(2-4)]
  show ?thesis
    using assms(1) steps
    by (auto simp: append_record_def append_to_def append_to_with_limit_def Let_def simp flip: d0_def
        split: option.split prod.split sum.split) (metis fst_conv snd_conv)+
qed

lemma spool_holds_append_new:
  assumes "spool_holds parse (set rs) (unwrap_or dir [])" "json_line print parse (en_Record rec)"
    and "whole_writes F" "append_record print poisoned state_dir F clk pid rec dir prev_id = (r, dir', prev_id')"
  shows "spool_holds parse (insert rec (set rs)) (unwrap_or dir' [])"
  using spool_holds_append[OF spool_holds_mono[OF assms(1)] _ assms(2,3), of "insert rec (set rs)"] assms(4)
  by (metis fst_conv insertI1 snd_conv subset_insertI)

lemma spool_reach_holds:
  assumes "spool_reach print rs dir" "list_all (\<lambda>r. json_line print parse (en_Record r)) rs"
  shows "spool_holds parse (set rs) (unwrap_or dir [])"
  using assms
proof (induction rule: spool_reach.induct)
  case fresh
  then show ?case by (simp add: spool_holds_def spool_ok_def stored_records_def)
next
  case (job rs dir F poisoned state_dir clk pid job_id attempt_id stream line scope resource_id prev_id r dir' prev_id')
  then show ?case
    by (auto simp: append_job_def split_beta intro: spool_holds_append_new)
next
  case (agent rs dir F poisoned state_dir clk pid level message prev_id r dir' prev_id')
  then show ?case
    by (auto simp: append_agent_def split_beta intro: spool_holds_append_new)
qed

lemma spool_reach_redacted: "spool_reach print rs dir \<Longrightarrow> list_all (\<lambda>r. \<exists>v. rec_message r = redact v) rs"
  by (induction rule: spool_reach.induct) (auto simp: job_record_def agent_record_def)

section \<open>What a query answers\<close>

lemma page_of_subset: "set (fst (page_of limit cursor rs)) \<subseteq> set rs"
  using after_cursor_sublist[of cursor "sort_newest_first rs"] set_take_subset
  by (fastforce simp: page_of_def Let_def sort_newest_first_def)

lemma query_answers_appended:
  assumes "spool_reach print rs dir" "list_all (\<lambda>r. json_line print parse (en_Record r)) rs"
    and "query_spool parse poisoned state_dir rdf unreadable dir scope resource_id cursor limit = Inr (page, next)"
  shows "set page \<subseteq> set rs"
proof (cases dir)
  case (Some d)
  with assms(3) obtain stored where stored: "read_records parse unreadable scope resource_id d = Inr stored"
    "page = fst (page_of limit cursor stored)"
    by (auto simp: query_spool_def query_in_def and_then_eq_Inr split: if_splits sum.splits option.splits)
  have "set stored \<subseteq> stored_records parse d"
    using read_records_set[OF stored(1)] by (auto simp: stored_records_def)
  with page_of_subset[of limit cursor stored] spool_reach_holds[OF assms(1,2)] Some stored(2) show ?thesis
    by (auto simp: spool_holds_def)
qed (use assms(3) in \<open>auto simp: query_spool_def query_in_def split: if_splits sum.splits\<close>)

section \<open>What a session sends of it\<close>

definition sent_records :: "OutboundMessage \<Rightarrow> Record list" where
  "sent_records m = (case m of Out_LogResult b \<Rightarrow> lr_records b | _ \<Rightarrow> [])"

text \<open>The records that the tasks of an input's log query came back with.\<close>

definition answer_records :: "bool \<times> session_input \<Rightarrow> Record list" where
  "answer_records x = (case snd x of In_Query_Done _ (Some (Inr (page, _))) \<Rightarrow> page | _ \<Rightarrow> [])"

lemma sent_records_simps [simp]:
  "sent_records Out_Pong = []" "sent_records (Out_Status s) = []" "sent_records (Out_Event ev) = []"
  "sent_records (Out_Metrics p) = []" "sent_records (Out_SystemInfo i) = []"
  "sent_records (Out_LogResult b) = lr_records b" "sent_records Out_LogCapabilities = []"
  by (simp_all add: sent_records_def)

definition sent_log :: "SessionState \<Rightarrow> Record list" where
  "sent_log st = concat (map sent_records (ses_sent st))"

lemma sent_log_send [simp]: "sent_log (send_out ms st) = sent_log st @ concat (map sent_records ms)"
  by (simp add: sent_log_def send_out_def)

lemma sent_log_fields [simp]:
  "sent_log (st\<lparr>ses_last_desired := d\<rparr>) = sent_log st" "sent_log (st\<lparr>ses_queries := q\<rparr>) = sent_log st"
  "sent_log (st\<lparr>ses_last_hash := hash\<rparr>) = sent_log st" "sent_log (st\<lparr>ses_last_published_at := t\<rparr>) = sent_log st"
  by (simp_all add: sent_log_def)

lemma desired_no_records [simp]:
  "concat (map sent_records (apply_desired now new_id s)) = []"
  "concat (map sent_records (resync now new_id s)) = []"
  by (auto simp: apply_desired_def resync_def Let_def)

lemma sent_log_step:
  assumes "session_step parse config x st = (st', e)"
  shows "set (sent_log st') \<subseteq> set (sent_log st) \<union> set (answer_records x)"
proof (cases x)
  case (Pair stop i)
  show ?thesis
  proof (cases i)
    case (In_Text raw now new_id)
    show ?thesis
    proof (cases "decode parse raw")
      case (Inr message)
      with assms Pair In_Text show ?thesis
        by (cases message) (auto simp: Let_def sends_def List.map_filter_def comp_def simp del: concat_eq_Nil_conv set_concat)
    qed (use assms Pair In_Text in simp)
  next
    case (In_Publish r)
    with assms Pair show ?thesis
      using publish_metrics_cases[of r st] by (auto simp: sent_log_def)
  next
    case (In_System ch r t1 t2)
    with assms Pair show ?thesis
      using publish_info_cases[of ch False "ac_system_info_republish_interval_ms config" r t1 t2 st]
      by (auto simp: sent_log_def)
  next
    case (In_Query_Done k r)
    with assms Pair show ?thesis
      by (auto simp: answer_records_def log_query_reply_def split: if_splits option.splits sum.splits)
  qed (use assms Pair in \<open>auto simp del: concat_eq_Nil_conv set_concat split: option.splits\<close>)
qed

lemma sent_log_loop:
  "session_loop parse config xs st = (st', e) \<Longrightarrow>
     set (sent_log st') \<subseteq> set (sent_log st) \<union> (\<Union>x \<in> set xs. set (answer_records x))"
proof (induction xs arbitrary: st)
  case (Cons x xs)
  obtain st1 e1 where step: "session_step parse config x st = (st1, e1)"
    by (cases "session_step parse config x st")
  show ?case
  proof (cases e1)
    case None
    with Cons.prems step have "session_loop parse config xs st1 = (st', e)" by simp
    from Cons.IH[OF this] sent_log_step[OF step] show ?thesis by auto
  next
    case (Some e2)
    with Cons.prems step have "st' = st1" by simp
    with sent_log_step[OF step] show ?thesis by auto
  qed
qed simp

lemma sent_log_start: "sent_log (session_start config metrics chan_open info now1 now2) = []"
proof -
  define b where "b = \<lparr>ses_last_desired = None, ses_last_hash = None, ses_last_published_at = None,
    ses_sent = [Out_LogCapabilities], ses_queries = []\<rparr>"
  have "sent_log (publish_metrics_once metrics b) = []"
    using publish_metrics_cases[of metrics b] by (auto simp: sent_log_def b_def)
  then show ?thesis
    using publish_info_cases[of chan_open True "ac_system_info_republish_interval_ms config" info now1 now2
        "publish_metrics_once metrics b"]
    by (auto simp: session_start_def Let_def b_def)
qed

text \<open>An answer comes from the spool: some moment of its history, read with any arguments and any failures.\<close>

definition from_spool :: "(json \<Rightarrow> string) \<Rightarrow> (string \<Rightarrow> json option) \<Rightarrow> session_input \<Rightarrow> bool" where
  "from_spool print parse i \<longleftrightarrow>
     (case i of
        In_Query_Done k (Some answer) \<Rightarrow>
          (\<exists>rs dir poisoned state_dir rdf unreadable scope resource_id cursor limit.
             spool_reach print rs dir \<and> list_all (\<lambda>r. json_line print parse (en_Record r)) rs \<and>
             answer = query_spool parse poisoned state_dir rdf unreadable dir scope resource_id cursor limit)
      | _ \<Rightarrow> True)"

lemma from_spool_records:
  assumes "from_spool print parse (snd x)" "r \<in> set (answer_records x)"
  shows "\<exists>rs dir. spool_reach print rs dir \<and> r \<in> set rs"
proof -
  obtain k page cursor where x: "snd x = In_Query_Done k (Some (Inr (page, cursor)))" "r \<in> set page"
    using assms(2) by (cases "snd x") (auto simp: answer_records_def split: option.splits sum.splits)
  then obtain rs dir poisoned state_dir rdf unreadable scope resource_id c limit where
    h: "spool_reach print rs dir" "list_all (\<lambda>r. json_line print parse (en_Record r)) rs"
      "query_spool parse poisoned state_dir rdf unreadable dir scope resource_id c limit = Inr (page, cursor)"
    using assms(1) unfolding from_spool_def by force
  from query_answers_appended[OF h] x(2) h(1) show ?thesis by blast
qed

text \<open>
  C6: no secret leaves the node with the log: where the answers to log queries are read from the
  spool, every record a session sends is one that a job or the agent appended, and in its message
  every marker is followed by \<open>[REDACTED]\<close> and then white space or the end; for all frames, all
  clocks, any number of processes that append, and all failures of the file system but a torn line.
\<close>

theorem sent_logs_redacted:
  assumes "session_loop parse config xs (session_start config metrics chan_open info now1 now2) = (st, e)"
    and "list_all (\<lambda>x. from_spool print parse (snd x)) xs"
  shows "list_all (\<lambda>r. (\<exists>rs dir. spool_reach print rs dir \<and> r \<in> set rs) \<and>
    list_all (\<lambda>m. covered m (rec_message r)) markers) (sent_log st)"
proof -
  have "\<exists>rs dir. spool_reach print rs dir \<and> r \<in> set rs" if sent: "r \<in> set (sent_log st)" for r
  proof -
    obtain x where "x \<in> set xs" "r \<in> set (answer_records x)"
      using sent sent_log_loop[OF assms(1)] by (auto simp: sent_log_start)
    with assms(2) show ?thesis by (intro from_spool_records) (auto simp: list_all_iff)
  qed
  moreover have "covered m (rec_message r)" if "spool_reach print rs dir" "r \<in> set rs" "m \<in> set markers" for rs dir r m
    using spool_reach_redacted[OF that(1)] that(2) redact_covered[OF that(3)] by (auto simp: list_all_iff)
  ultimately show ?thesis unfolding list_all_iff by blast
qed

text \<open>A query whose answer holds the one line the agent logged, with a token in it.\<close>

definition spooled :: Record where
  "spooled = agent_record 0 (format_record_id 1 0) ''info'' ''token=abc''"

definition spool_parse :: "string \<Rightarrow> json option" where
  "spool_parse raw = Some (if raw = ''q'' then envelope ''1'' 0 ''logs.query'' (wire_LogQueryBody (query_of ''q1''))
     else en_Record spooled)"

definition spooled_answer :: "(Record list \<times> string option) result" where
  "spooled_answer = query_spool spool_parse False (Inr ''/state'') None (\<lambda>_. None)
     (fst (snd (append_agent (\<lambda>_. ''{}'') False (Inr ''/state'') no_faults clock_zero 1 ''info'' ''token=abc'' None 0)))
     None None None 200"

lemma agent_append_eq:
  "append_agent print poisoned state_dir F clk pid level message dir prev_id =
    (fst (append_agent print poisoned state_dir F clk pid level message dir prev_id),
     fst (snd (append_agent print poisoned state_dir F clk pid level message dir prev_id)),
     snd (snd (append_agent print poisoned state_dir F clk pid level message dir prev_id)))"
  by simp

lemma spooled_answer_from_spool: "from_spool (\<lambda>_. ''{}'') spool_parse (In_Query_Done 0 (Some spooled_answer))"
proof -
  have "spool_reach (\<lambda>_. ''{}'') ([] @ [agent_record (clk_record_ms clock_zero)
      (fst (next_record_id 1 (clk_record_ns clock_zero) 0)) ''info'' ''token=abc''])
    (fst (snd (append_agent (\<lambda>_. ''{}'') False (Inr ''/state'') no_faults clock_zero 1 ''info'' ''token=abc'' None 0)))"
    by (rule spool_reach.agent[OF spool_reach.fresh _ agent_append_eq]) (simp add: whole_writes_def no_faults_def)
  moreover have "agent_record (clk_record_ms clock_zero) (fst (next_record_id 1 (clk_record_ns clock_zero) 0))
      ''info'' ''token=abc'' = spooled"
    by (simp add: spooled_def clock_zero_def next_record_id_def)
  ultimately have "spool_reach (\<lambda>_. ''{}'') [spooled]
    (fst (snd (append_agent (\<lambda>_. ''{}'') False (Inr ''/state'') no_faults clock_zero 1 ''info'' ''token=abc'' None 0)))"
    by simp
  moreover have "json_line (\<lambda>_. ''{}'') spool_parse (en_Record spooled)" by (simp add: json_line_def spool_parse_def)
  ultimately show ?thesis unfolding from_spool_def spooled_answer_def by fastforce
qed

lemma sent_logs_redacted_witness:
  "\<forall>config now. list_all (\<lambda>r. list_all (\<lambda>m. covered m (rec_message r)) markers)
     (sent_log (fst (session_loop spool_parse config
        [(False, In_Text ''q'' now []), (False, In_Query_Done 0 (Some spooled_answer))]
        (session_start config (Inl []) True (Inl []) 0 0))))"
proof (intro allI)
  fix config and now :: "nat \<Rightarrow> string"
  show "list_all (\<lambda>r. list_all (\<lambda>m. covered m (rec_message r)) markers)
     (sent_log (fst (session_loop spool_parse config
        [(False, In_Text ''q'' now []), (False, In_Query_Done 0 (Some spooled_answer))]
        (session_start config (Inl []) True (Inl []) 0 0))))"
    using sent_logs_redacted[OF prod.collapse[symmetric], where print = "\<lambda>_. ''{}''" and parse = spool_parse
        and xs = "[(False, In_Text ''q'' now []), (False, In_Query_Done 0 (Some spooled_answer))]"
        and config = config and metrics = "Inl []" and chan_open = True and info = "Inl []" and ?now1.0 = 0
        and ?now2.0 = 0] spooled_answer_from_spool
    by (simp add: from_spool_def[of _ _ "In_Text _ _ _"] list_all_iff)
qed

end
