(* ===== verification/Log_Threads.thy ===== *)
theory Log_Threads
  imports Log_Session
begin

text \<open>
  The spool of \<open>src/logs.rs\<close> under the threads of one process. A thread builds its record, which
  takes an id from the shared counter \<open>LAST_RECORD_ID\<close>, and then appends it while it holds
  \<open>SPOOL_LOCK\<close>; between the two, other threads draw ids, append and rotate. A run is any order of
  these steps; whatever it was, the pages of a query hold exactly what was appended.
\<close>

section \<open>The threads\<close>

text \<open>
  \<open>sp_waiting\<close> are the records that threads have built and not yet appended, in the order of their ids;
  \<open>sp_written\<close> those whose append returned \<open>Ok\<close>, in the order of the lock.
\<close>

record Spool_State =
  sp_dir :: "SpoolDir option"
  sp_last :: u64
  sp_waiting :: "Record list"
  sp_written :: "Record list"

datatype log_call =
    Job_Line string string string string string "string option"
  | Agent_Line string string

definition record_of :: "u64 \<Rightarrow> string \<Rightarrow> log_call \<Rightarrow> Record" where
  "record_of now_ms rid call =
     (case call of
        Job_Line job_id attempt_id stream line scope resource_id \<Rightarrow>
          job_record now_ms rid job_id attempt_id stream line scope resource_id
      | Agent_Line level message \<Rightarrow> agent_record now_ms rid level message)"

datatype spool_action = Build u64 nat log_call | Locked nat bool Faults Clock

fun spool_action_step ::
  "(json \<Rightarrow> string) \<Rightarrow> string result \<Rightarrow> u32 \<Rightarrow> spool_action \<Rightarrow> Spool_State \<Rightarrow> Spool_State" where
  "spool_action_step print state_dir pid (Build now_ms now_ns call) st =
     (let (rid, last_id) = next_record_id pid now_ns (sp_last st)
      in st\<lparr>sp_last := last_id, sp_waiting := sp_waiting st @ [record_of now_ms rid call]\<rparr>)"
| "spool_action_step print state_dir pid (Locked k poisoned F clk) st =
     (if k < length (sp_waiting st)
      then (let rec = sp_waiting st ! k;
                (r, dir, last_id) = append_record print poisoned state_dir F clk pid rec (sp_dir st) (sp_last st)
            in st\<lparr>sp_dir := dir, sp_last := last_id,
                 sp_waiting := take k (sp_waiting st) @ drop (Suc k) (sp_waiting st),
                 sp_written := sp_written st @ (if is_ok r then [rec] else [])\<rparr>)
      else st)"

text \<open>A call that no other thread interrupts is the two steps in a row.\<close>

definition log_append ::
  "(json \<Rightarrow> string) \<Rightarrow> bool \<Rightarrow> string result \<Rightarrow> Faults \<Rightarrow> Clock \<Rightarrow> u32 \<Rightarrow> log_call \<Rightarrow> SpoolDir option \<Rightarrow> u64 \<Rightarrow>
     unit result \<times> SpoolDir option \<times> u64" where
  "log_append print poisoned state_dir F clk pid call dir prev_id =
     (case call of
        Job_Line job_id attempt_id stream line scope resource_id \<Rightarrow>
          append_job print poisoned state_dir F clk pid job_id attempt_id stream line scope resource_id dir prev_id
      | Agent_Line level message \<Rightarrow>
          append_agent print poisoned state_dir F clk pid level message dir prev_id)"

lemma log_append_steps:
  assumes "log_append print poisoned state_dir F clk pid call (sp_dir st) (sp_last st) = (r, dir, last_id)"
    and "sp_waiting st = []"
  shows "spool_action_step print state_dir pid (Locked 0 poisoned F clk)
    (spool_action_step print state_dir pid (Build (clk_record_ms clk) (clk_record_ns clk) call) st) =
    st\<lparr>sp_dir := dir, sp_last := last_id,
       sp_written := sp_written st @ (if is_ok r
         then [record_of (clk_record_ms clk) (fst (next_record_id pid (clk_record_ns clk) (sp_last st))) call] else [])\<rparr>"
  using assms
  by (cases call) (auto simp: log_append_def record_of_def append_job_def append_agent_def split_beta Let_def)

text \<open>
  What a run of one process relies on: no write is torn in the middle of a line, and the counter has
  not come to its last value (the nanoseconds of the year 2554).
\<close>

definition action_ok :: "Spool_State \<Rightarrow> spool_action \<Rightarrow> bool" where
  "action_ok st a \<longleftrightarrow> unat (sp_last st) < U64_MAX \<and>
     (case a of
        Build now_ms now_ns call \<Rightarrow> True
      | Locked k poisoned F clk \<Rightarrow> whole_writes F)"

text \<open>A step that finds no file older than seven days, so that pruning removes nothing.\<close>

definition within_retention :: "Spool_State \<Rightarrow> spool_action \<Rightarrow> bool" where
  "within_retention st a \<longleftrightarrow>
     (case a of
        Build now_ms now_ns call \<Rightarrow> True
      | Locked k poisoned F clk \<Rightarrow> nothing_aged clk (unwrap_or (sp_dir st) []))"

text \<open>The runs; \<open>young\<close> tells of a run that all its steps found no file older than seven days.\<close>

inductive spool_run :: "(json \<Rightarrow> string) \<Rightarrow> string result \<Rightarrow> u32 \<Rightarrow> bool \<Rightarrow> Spool_State \<Rightarrow> bool"
  for print state_dir pid where
  start: "spool_run print state_dir pid True \<lparr>sp_dir = None, sp_last = 0, sp_waiting = [], sp_written = []\<rparr>"
| act: "spool_run print state_dir pid young st \<Longrightarrow> action_ok st a \<Longrightarrow>
    spool_run print state_dir pid (young \<and> within_retention st a) (spool_action_step print state_dir pid a st)"

section \<open>One append, on every branch\<close>

lemma next_last_less: "unat prev_id < U64_MAX \<Longrightarrow> prev_id < next_last_id now prev_id"
  by (simp add: word_less_nat_alt unat_next_last_id)

text \<open>
  The directory before the write: as it was, or pruned, or with the full log under a name that was
  not used before, which is then pruned again.
\<close>

definition before_write :: "Faults \<Rightarrow> Clock \<Rightarrow> string \<Rightarrow> SpoolDir \<Rightarrow> SpoolDir \<Rightarrow> bool" where
  "before_write F clk new_name dir dir' \<longleftrightarrow>
     (let dir1 = prune F (clk_prune_ms clk) dir;
          dir2 = rename_file (path_in (clk_path_ms clk)) new_name dir1
      in dir' \<in> {dir, dir1, dir2, prune F (clk_prune_again_ms clk) dir2})"

lemma rotate_log_cases:
  assumes "rotate_log F clk pid (path_in (clk_path_ms clk)) (prune F (clk_prune_ms clk) dir) prev_id = (r, dir', prev_id')"
  shows "prev_id' = next_last_id (clk_rotate_ns clk) prev_id \<and>
    before_write F clk (overflow_name (format_record_id pid prev_id)) dir dir'"
  using assms
  by (auto simp: rotate_log_def next_record_id_def before_write_def Let_def split: option.splits)

lemma write_payload_cases:
  assumes "write_payload F clk path payload dir = (r, dir')" "whole_writes F"
  shows "(if is_ok r then dir' = append_text path (clk_write_ms clk) payload dir
    else dir' = dir \<or> dir' = append_text path (clk_write_ms clk) [] dir)"
  using assms by (auto simp: write_payload_def whole_writes_def split: option.splits)

lemma append_record_cases:
  assumes "append_record print poisoned state_dir F clk pid rec dir prev_id = (r, dir', prev_id')"
    and "whole_writes F"
  obtains d1 path where "path = path_in (clk_path_ms clk)"
    "before_write F clk (overflow_name (format_record_id pid prev_id)) (unwrap_or dir []) d1"
    "prev_id' = next_last_id (clk_rotate_ns clk) prev_id \<or>
       prev_id' = prev_id \<and> d1 \<in> {unwrap_or dir [], prune F (clk_prune_ms clk) (unwrap_or dir [])}"
    "if is_ok r then unwrap_or dir' [] = append_text path (clk_write_ms clk) (payload_of print rec) d1
     else unwrap_or dir' [] = d1 \<or> unwrap_or dir' [] = append_text path (clk_write_ms clk) [] d1"
proof -
  define d0 where "d0 = unwrap_or dir []"
  define path where "path = path_in (clk_path_ms clk)"
  define pruned where "pruned = prune F (clk_prune_ms clk) d0"
  define name where "name = overflow_name (format_record_id pid prev_id)"
  note that' = that[OF path_def, folded d0_def name_def pruned_def]
  have same: "before_write F clk name d0 d0" "before_write F clk name d0 pruned"
    by (simp_all add: before_write_def Let_def pruned_def)
  show thesis
  proof (cases "poisoned \<or> \<not> is_ok state_dir \<or> fault F Create_Dir \<noteq> None \<or> fault F Read_Dir \<noteq> None")
    case True
    with assms(1) have "unwrap_or dir' [] = d0" "prev_id' = prev_id" "\<not> is_ok r"
      by (auto simp: append_record_def append_to_def append_to_with_limit_def bail_def d0_def Let_def
          split: if_splits sum.splits option.splits)
    then show thesis using that'[of d0] same by simp
  next
    case False
    define payload where "payload = payload_of print rec"
    define rot where "rot = (if must_rotate pruned path (length (utf8_bytes payload)) MAX_BYTES
      then rotate_log F clk pid path pruned prev_id else (Inr (), pruned, prev_id))"
    obtain r1 d1 p1 where rot1: "rot = (r1, d1, p1)" by (cases rot)
    have d1: "before_write F clk name d0 d1 \<and>
        (p1 = next_last_id (clk_rotate_ns clk) prev_id \<or> p1 = prev_id \<and> d1 \<in> {d0, pruned})"
      using rot1 same rotate_log_cases[of F clk pid d0 prev_id r1 d1 p1]
      by (auto simp: rot_def path_def pruned_def name_def split: if_splits)
    have whole: "append_record print poisoned state_dir F clk pid rec dir prev_id =
        (case rot of (r, d, p) \<Rightarrow> (case r of Inl e \<Rightarrow> (Inl e, Some d, p)
          | Inr _ \<Rightarrow> (let (r, d) = write_payload F clk path payload d in (r, Some d, p))))"
      using False
      by (auto simp: append_record_def append_to_def append_to_with_limit_def Let_def rot_def
          simp flip: d0_def path_def payload_def pruned_def cong: if_cong split: sum.splits)
    show thesis
    proof (cases r1)
      case (Inl e)
      with assms(1) whole rot1 have "r = Inl e" "dir' = Some d1" "prev_id' = p1" by simp_all
      then show thesis using that'[of d1] d1 by (simp add: pruned_def)
    next
      case (Inr u)
      obtain r2 d2 where wrote: "write_payload F clk path payload d1 = (r2, d2)"
        by (cases "write_payload F clk path payload d1")
      with assms(1) whole rot1 Inr have "r = r2" "dir' = Some d2" "prev_id' = p1" by simp_all
      then show thesis
        using that'[of d1] d1 write_payload_cases[OF wrote assms(2)] by (simp add: payload_def pruned_def)
    qed
  qed
qed

section \<open>The invariant\<close>

text \<open>The names a process with the id \<open>pid\<close> has made so far.\<close>

definition names_below :: "u32 \<Rightarrow> u64 \<Rightarrow> SpoolDir \<Rightarrow> bool" where
  "names_below pid last_id dir \<longleftrightarrow>
     (\<forall>nf \<in> set dir. (\<exists>now. fst nf = path_in now) \<or>
        (\<exists>n. n < last_id \<and> fst nf = overflow_name (format_record_id pid n)))"

definition ids_below :: "u32 \<Rightarrow> u64 \<Rightarrow> Record list \<Rightarrow> bool" where
  "ids_below pid last_id rs \<longleftrightarrow>
     distinct (map rec_id rs) \<and> (\<forall>r \<in> set rs. \<exists>n. n < last_id \<and> rec_id r = format_record_id pid n)"

definition spool_run_inv :: "(string \<Rightarrow> json option) \<Rightarrow> u32 \<Rightarrow> bool \<Rightarrow> Spool_State \<Rightarrow> bool" where
  "spool_run_inv parse pid young st \<longleftrightarrow>
     spool_ok (unwrap_or (sp_dir st) []) \<and> names_below pid (sp_last st) (unwrap_or (sp_dir st) []) \<and>
     ids_below pid (sp_last st) (sp_written st @ sp_waiting st) \<and>
     spool_bag parse (unwrap_or (sp_dir st) []) \<subseteq># mset (sp_written st) \<and>
     (young \<longrightarrow> spool_bag parse (unwrap_or (sp_dir st) []) = mset (sp_written st))"

lemma format_record_id_inj: "format_record_id pid a = format_record_id pid b \<longleftrightarrow> a = b"
  using format_record_id_less[of a b pid] format_record_id_less[of b a pid] by (metis less_irrefl linorder_neqE)

lemma overflow_name_inj: "overflow_name a = overflow_name b \<longleftrightarrow> a = b"
  by (simp add: overflow_name_def)

lemma names_below_fresh:
  "names_below pid last_id dir \<Longrightarrow> map_of dir (overflow_name (format_record_id pid last_id)) = None"
  using overflow_neq_path
  by (fastforce simp: names_below_def map_of_eq_None_iff overflow_name_inj format_record_id_inj)

lemma names_below_mono: "names_below pid a dir \<Longrightarrow> a \<le> b \<Longrightarrow> names_below pid b dir"
  by (force simp: names_below_def intro: order_less_le_trans)

lemma names_below_append: "names_below pid last_id dir \<Longrightarrow> names_below pid last_id (append_text (path_in now) t raw dir)"
  using set_update_subset[of "path_in now" _ dir] by (fastforce simp: names_below_def append_text_def)

lemma names_below_rename:
  assumes "names_below pid a dir" "n < a"
  shows "names_below pid a (rename_file (path_in now) (overflow_name (format_record_id pid n)) dir)"
proof (cases "map_of dir (path_in now)")
  case (Some f)
  have "set (AList.update (overflow_name (format_record_id pid n)) f (AList.delete (path_in now) dir)) \<subseteq>
      insert (overflow_name (format_record_id pid n), f) (set dir)"
    using set_update_subset[of _ f "AList.delete (path_in now) dir"] by (fastforce simp: AList.delete_eq)
  with assms Some show ?thesis by (fastforce simp: names_below_def rename_file_def)
qed (use assms in \<open>simp add: rename_file_def\<close>)

lemma names_below_prune: "names_below pid a dir \<Longrightarrow> names_below pid a (prune F now dir)"
  by (simp add: names_below_def prune_def)

lemma prune_bag: "spool_bag parse (prune F now dir) \<subseteq># spool_bag parse dir"
  unfolding prune_def by (induction dir) (auto simp: spool_bag_def subset_mset.add_increasing intro: subset_mset.add_mono)

lemma ids_below_mono: "ids_below pid a rs \<Longrightarrow> a \<le> b \<Longrightarrow> ids_below pid b rs"
  by (force simp: ids_below_def intro: order_less_le_trans)

lemma ids_below_mset: "mset rs = mset rs' \<Longrightarrow> ids_below pid a rs \<Longrightarrow> ids_below pid a rs'"
  unfolding ids_below_def by (metis mset_eq_imp_distinct_iff mset_eq_setD mset_map)

lemma ids_below_new:
  assumes "ids_below pid a rs" "rec_id r = format_record_id pid a" "a < b"
  shows "ids_below pid b (rs @ [r])"
  using assms ids_below_mono[OF assms(1), of b]
  by (auto simp: ids_below_def format_record_id_inj)

text \<open>The steps keep it.\<close>

lemma record_of_id [simp]: "rec_id (record_of now rid call) = rid"
  by (simp add: record_of_def job_record_def agent_record_def split: log_call.split)

lemma before_write_ok:
  assumes b: "before_write F clk (overflow_name (format_record_id pid n)) dir dir'"
    and ok: "spool_ok dir" and names: "names_below pid n dir" and "n < m"
  shows "spool_ok dir'" "names_below pid m dir'" "spool_bag parse dir' \<subseteq># spool_bag parse dir"
    "nothing_aged clk dir \<Longrightarrow> spool_bag parse dir' = spool_bag parse dir"
proof -
  define d1 where "d1 = prune F (clk_prune_ms clk) dir"
  define d2 where "d2 = rename_file (path_in (clk_path_ms clk)) (overflow_name (format_record_id pid n)) d1"
  note cases = b[unfolded before_write_def Let_def, folded d1_def, folded d2_def]
  have below: "names_below pid m dir" by (rule names_below_mono[OF names order_less_imp_le[OF \<open>n < m\<close>]])
  have oks: "spool_ok d1" "spool_ok d2"
    unfolding d1_def d2_def using ok by (simp_all only: spool_ok_prune spool_ok_rename)
  have belows: "names_below pid m d1" "names_below pid m d2"
    unfolding d1_def d2_def using below \<open>n < m\<close> by (simp_all add: names_below_prune names_below_rename)
  have "map_of d1 (overflow_name (format_record_id pid n)) = None"
    using names_below_fresh[OF names] by (simp add: d1_def prune_def map_of_filter_None)
  then have same: "spool_bag parse d2 = spool_bag parse d1"
    unfolding d2_def using oks(1) by (intro rename_bag) (simp_all add: spool_ok_def)
  show "spool_ok dir'" using cases ok oks spool_ok_prune[OF oks(2)] by blast
  show "names_below pid m dir'" using cases below belows names_below_prune[OF belows(2)] by blast
  have less: "spool_bag parse d1 \<subseteq># spool_bag parse dir" unfolding d1_def by (rule prune_bag)
  moreover have "spool_bag parse (prune F (clk_prune_again_ms clk) d2) \<subseteq># spool_bag parse dir"
    using subset_mset.order_trans[OF prune_bag less[folded same]] .
  ultimately show "spool_bag parse dir' \<subseteq># spool_bag parse dir"
    using cases same by auto
  assume quiet: "nothing_aged clk dir"
  have "d1 = dir" unfolding d1_def by (rule prune_nothing[OF quiet])
  moreover have "prune F (clk_prune_again_ms clk) d2 = d2"
    unfolding d2_def \<open>d1 = dir\<close> by (rule rename_nothing_aged[OF quiet])
  ultimately show "spool_bag parse dir' = spool_bag parse dir"
    using cases same by auto
qed

lemma before_write_same:
  assumes "dir' \<in> {dir, prune F (clk_prune_ms clk) dir}" "spool_ok dir" "names_below pid n dir"
  shows "spool_ok dir'" "names_below pid n dir'"
  using assms spool_ok_prune names_below_prune by blast+

lemma locked_dir:
  assumes app: "append_record print poisoned state_dir F clk pid rec dir prev_id = (r, dir', prev_id')"
    and ok: "spool_ok (unwrap_or dir [])" and names: "names_below pid prev_id (unwrap_or dir [])"
    and quiet: "whole_writes F" and last: "unat prev_id < U64_MAX"
    and json: "is_ok r \<Longrightarrow> json_line print parse (en_Record rec)"
  shows "prev_id \<le> prev_id'" "spool_ok (unwrap_or dir' [])" "names_below pid prev_id' (unwrap_or dir' [])"
    "spool_bag parse (unwrap_or dir' []) \<subseteq># mset (if is_ok r then [rec] else []) + spool_bag parse (unwrap_or dir [])"
    "nothing_aged clk (unwrap_or dir []) \<Longrightarrow> spool_bag parse (unwrap_or dir' []) =
      mset (if is_ok r then [rec] else []) + spool_bag parse (unwrap_or dir [])"
proof -
  let ?d = "unwrap_or dir []"
  obtain d1 path where path: "path = path_in (clk_path_ms clk)"
    and d1: "before_write F clk (overflow_name (format_record_id pid prev_id)) ?d d1"
    and id: "prev_id' = next_last_id (clk_rotate_ns clk) prev_id \<or>
       prev_id' = prev_id \<and> d1 \<in> {?d, prune F (clk_prune_ms clk) ?d}"
    and dir': "if is_ok r then unwrap_or dir' [] = append_text path (clk_write_ms clk) (payload_of print rec) d1
     else unwrap_or dir' [] = d1 \<or> unwrap_or dir' [] = append_text path (clk_write_ms clk) [] d1"
    by (rule append_record_cases[OF app quiet])
  note less = next_last_less[OF last, of "clk_rotate_ns clk"]
  note facts = before_write_ok[OF d1 ok names less]
  show "prev_id \<le> prev_id'" using id less by auto
  have below: "names_below pid prev_id' d1"
    using id facts(2) before_write_same(2)[OF _ ok names] by blast
  show "spool_ok (unwrap_or dir' [])"
    using dir' facts(1) complete_payload
    by (auto simp: path spool_ok_append_text complete_text_def[of "[]"] split: if_splits)
  show "names_below pid prev_id' (unwrap_or dir' [])"
    using dir' below by (auto simp: path names_below_append split: if_splits)
  have bag: "spool_bag parse (unwrap_or dir' []) = mset (if is_ok r then [rec] else []) + spool_bag parse d1"
    using dir' facts(1) json
    by (auto simp: path append_nothing_bag append_text_bag split: if_splits)
  show "spool_bag parse (unwrap_or dir' []) \<subseteq># mset (if is_ok r then [rec] else []) + spool_bag parse ?d"
    unfolding bag by (rule subset_mset.add_left_mono[OF facts(3)])
  show "spool_bag parse (unwrap_or dir' []) = mset (if is_ok r then [rec] else []) + spool_bag parse ?d"
    if "nothing_aged clk ?d"
    unfolding bag using facts(4)[OF that] by simp
qed

lemma spool_action_inv:
  assumes inv: "spool_run_inv parse pid young st" and act: "action_ok st a"
    and json: "list_all (\<lambda>r. json_line print parse (en_Record r)) (sp_written (spool_action_step print state_dir pid a st))"
  shows "spool_run_inv parse pid (young \<and> within_retention st a) (spool_action_step print state_dir pid a st)"
proof (cases a)
  case (Build now_ms now_ns call)
  have less: "sp_last st < next_last_id now_ns (sp_last st)"
    using act by (intro next_last_less) (simp add: action_ok_def)
  have "ids_below pid (next_last_id now_ns (sp_last st))
      ((sp_written st @ sp_waiting st) @ [record_of now_ms (format_record_id pid (sp_last st)) call])"
    using inv less by (intro ids_below_new) (simp_all add: spool_run_inv_def)
  with inv less show ?thesis
    by (auto simp: Build spool_run_inv_def next_record_id_def within_retention_def intro: names_below_mono)
next
  case (Locked k poisoned F clk)
  show ?thesis
  proof (cases "k < length (sp_waiting st)")
    case True
    define rec where "rec = sp_waiting st ! k"
    obtain r dir last_id where app:
      "append_record print poisoned state_dir F clk pid rec (sp_dir st) (sp_last st) = (r, dir, last_id)"
      using prod_cases3 by blast
    define w where "w = (if is_ok r then [rec] else [])"
    define rest where "rest = take k (sp_waiting st) @ drop (Suc k) (sp_waiting st)"
    have step: "spool_action_step print state_dir pid a st =
        st\<lparr>sp_dir := dir, sp_last := last_id, sp_waiting := rest, sp_written := sp_written st @ w\<rparr>"
      using app True by (simp add: Locked Let_def rec_def w_def rest_def)
    have js: "json_line print parse (en_Record rec)" if "is_ok r"
      using json step that by (simp add: w_def)
    have at: "spool_ok (unwrap_or (sp_dir st) [])" "names_below pid (sp_last st) (unwrap_or (sp_dir st) [])"
      "whole_writes F" "unat (sp_last st) < U64_MAX"
      using inv act by (simp_all add: spool_run_inv_def action_ok_def Locked)
    note d = locked_dir[OF app at js, folded w_def]
    have same: "mset (sp_written st @ sp_waiting st) = mset ((sp_written st @ rest) @ [rec])"
      using mset_take_drop_Suc[OF True] by (simp add: rest_def rec_def)
    have "ids_below pid (sp_last st) (sp_written st @ sp_waiting st)" using inv by (simp add: spool_run_inv_def)
    then have "ids_below pid last_id (sp_written st @ sp_waiting st)"
      by (rule ids_below_mono) (simp add: d)
    then have "ids_below pid last_id ((sp_written st @ rest) @ [rec])" by (rule ids_below_mset[OF same])
    then have "ids_below pid last_id ((sp_written st @ w) @ rest)"
      by (auto simp: ids_below_def w_def)
    moreover have "spool_bag parse (unwrap_or dir []) \<subseteq># mset (sp_written st @ w)"
    proof (rule subset_mset.order_trans[OF d(4)])
      have "mset w + spool_bag parse (unwrap_or (sp_dir st) []) \<subseteq># mset w + mset (sp_written st)"
        using inv by (intro subset_mset.add_left_mono) (simp add: spool_run_inv_def)
      then show "mset w + spool_bag parse (unwrap_or (sp_dir st) []) \<subseteq># mset (sp_written st @ w)"
        by (simp add: add.commute)
    qed
    moreover have "spool_bag parse (unwrap_or dir []) = mset (sp_written st @ w)"
      if "young" "nothing_aged clk (unwrap_or (sp_dir st) [])"
      using inv d(5)[OF _ that(2)] that(1) by (simp add: spool_run_inv_def)
    ultimately show ?thesis using d(2,3) unfolding step spool_run_inv_def
      by (simp add: within_retention_def Locked)
  qed (use inv in \<open>simp add: Locked spool_run_inv_def\<close>)
qed

lemma sp_written_grows: "\<exists>w. sp_written (spool_action_step print state_dir pid a st) = sp_written st @ w"
  by (cases a) (simp_all add: split_beta Let_def)

lemma spool_run_invariant:
  "spool_run print state_dir pid young st \<Longrightarrow> list_all (\<lambda>r. json_line print parse (en_Record r)) (sp_written st) \<Longrightarrow>
     spool_run_inv parse pid young st"
proof (induction rule: spool_run.induct)
  case start
  then show ?case
    by (simp add: spool_run_inv_def spool_ok_def names_below_def ids_below_def spool_bag_def)
next
  case (act young st a)
  with sp_written_grows[of print state_dir pid a st] have "spool_run_inv parse pid young st" by auto
  with act show ?case by (blast intro: spool_action_inv)
qed

section \<open>Everything written is read\<close>

lemma read_records_bag:
  assumes "\<And>name. unreadable name = None"
  shows "\<exists>stored. read_records parse unreadable scope resource_id dir = Inr stored \<and>
    mset stored = filter_mset (matches scope resource_id) (spool_bag parse dir)"
proof (induction dir)
  case Nil
  then show ?case by (simp add: read_records_def spool_bag_def and_then_def)
next
  case (Cons nf dir)
  then obtain stored where IH: "read_records parse unreadable scope resource_id dir = Inr stored"
    "mset stored = filter_mset (matches scope resource_id) (spool_bag parse dir)" by blast
  then obtain rs where rs: "traverse (\<lambda>nf. case unreadable (fst nf) of Some e \<Rightarrow> Inl e
          | None \<Rightarrow> Inr (filter (matches scope resource_id) (parse_records parse (sf_content (snd nf)))))
        (filter (\<lambda>nf. jsonl_file (fst nf)) dir) = Inr rs" "stored = concat rs"
    by (auto simp: read_records_def and_then_eq_Inr)
  have "read_records parse unreadable scope resource_id (nf # dir) =
      Inr (filter (matches scope resource_id) (file_records parse nf) @ stored)"
    using rs assms by (simp add: read_records_def file_records_def and_then_def)
  with IH(2) show ?case
    by (simp add: spool_bag_def)
qed

lemma sort_newest_unique:
  assumes "mset xs = mset ys" "distinct (map record_key ys)"
  shows "sort_newest_first xs = sort_newest_first ys"
proof -
  have sets: "set xs = set ys" "inj_on record_key (set ys)"
    using assms by (auto simp: distinct_map dest: mset_eq_setD)
  have "distinct (map record_key (sort_newest_first zs))" if "mset zs = mset ys" for zs
    using assms(2) that by (metis mset_eq_imp_distinct_iff mset_map mset_sort sort_newest_first_def)
  then show ?thesis
    using sets assms(1)
    by (intro map_sorted_distinct_set_unique[where f = record_key]) (simp_all add: sort_newest_first_def)
qed

lemma distinct_keys_of:
  assumes "mset xs \<subseteq># mset ys" "distinct (map rec_id ys)"
  shows "distinct (map record_key (filter P xs))"
proof -
  obtain zs where "mset zs = mset ys - mset xs" by (metis ex_mset)
  then have "mset ys = mset (xs @ zs)" using assms(1) by simp
  then have "mset (map rec_id ys) = mset (map rec_id (xs @ zs))" by simp
  from mset_eq_imp_distinct_iff[OF this] assms(2) have "distinct (map rec_id xs)" by simp
  then have "distinct (map rec_id (filter P xs))" by (rule distinct_map_filter)
  then show ?thesis by (auto simp: distinct_map record_key_def inj_on_def)
qed

lemma spool_run_stored:
  assumes "spool_run print state_dir pid young st"
    and "list_all (\<lambda>r. json_line print parse (en_Record r)) (sp_written st)"
  shows "\<exists>kept. mset kept \<subseteq># mset (sp_written st) \<and> (young \<longrightarrow> kept = sp_written st) \<and>
    (\<forall>scope resource_id. \<exists>stored.
      read_records parse (\<lambda>_. None) scope resource_id (unwrap_or (sp_dir st) []) = Inr stored \<and>
      mset stored = mset (filter (matches scope resource_id) kept) \<and> distinct (map record_key stored) \<and>
      sort_newest_first stored = sort_newest_first (filter (matches scope resource_id) kept))"
proof -
  have inv: "spool_run_inv parse pid young st" by (rule spool_run_invariant[OF assms])
  obtain rs where rs: "mset rs = spool_bag parse (unwrap_or (sp_dir st) [])" by (metis ex_mset)
  define kept where "kept = (if young then sp_written st else rs)"
  have kept: "mset kept = spool_bag parse (unwrap_or (sp_dir st) [])" "mset kept \<subseteq># mset (sp_written st)"
    using inv rs by (auto simp: kept_def spool_run_inv_def)
  have ids: "distinct (map rec_id (sp_written st))" using inv by (simp add: spool_run_inv_def ids_below_def)
  have "\<exists>stored. read_records parse (\<lambda>_. None) scope resource_id (unwrap_or (sp_dir st) []) = Inr stored \<and>
      mset stored = mset (filter (matches scope resource_id) kept) \<and> distinct (map record_key stored) \<and>
      sort_newest_first stored = sort_newest_first (filter (matches scope resource_id) kept)" for scope resource_id
  proof -
    obtain stored where stored: "read_records parse (\<lambda>_. None) scope resource_id (unwrap_or (sp_dir st) []) = Inr stored"
      "mset stored = mset (filter (matches scope resource_id) kept)"
      using read_records_bag[of "\<lambda>_. None" parse scope resource_id "unwrap_or (sp_dir st) []"]
      by (auto simp: mset_filter kept(1))
    have keys: "distinct (map record_key (filter (matches scope resource_id) kept))"
      by (rule distinct_keys_of[OF kept(2) ids])
    then have "distinct (map record_key stored)"
      using stored(2) by (metis mset_eq_imp_distinct_iff mset_map)
    with stored sort_newest_unique[OF stored(2) keys] show ?thesis by blast
  qed
  with kept(2) show ?thesis by (intro exI[of _ kept] conjI) (simp_all add: kept_def)
qed

text \<open>
  C9: nothing is lost between the threads of the agent: whatever the order in which they build
  records, take the lock, fail, prune and rotate the log, a client that pages through the spool with
  the cursors it is given reads, newest first and each once, records whose append succeeded and that
  match its scope and resource, for every page size; and it reads all of them as long as no file of
  the spool has come to be older than seven days. The runs are those of one process that starts with
  an empty spool, in which no write is torn in the middle of a line and the id counter does not come
  to its last value; every file can be read.
\<close>

theorem threads_lose_nothing:
  assumes "spool_run print state_dir pid young st"
    and "list_all (\<lambda>r. json_line print parse (en_Record r)) (sp_written st)"
    and "length (sp_written st) < n"
  shows "\<exists>kept. mset kept \<subseteq># mset (sp_written st) \<and> (young \<longrightarrow> kept = sp_written st) \<and>
    follow (\<lambda>c. projr (query_in parse None (\<lambda>_. None) (sp_dir st) scope resource_id c limit)) n None =
      Some (sort_newest_first (filter (matches scope resource_id) kept))"
proof -
  obtain kept where kept: "mset kept \<subseteq># mset (sp_written st)" "young \<longrightarrow> kept = sp_written st"
    and reads: "\<exists>stored.
      read_records parse (\<lambda>_. None) scope resource_id (unwrap_or (sp_dir st) []) = Inr stored \<and>
      mset stored = mset (filter (matches scope resource_id) kept) \<and> distinct (map record_key stored) \<and>
      sort_newest_first stored = sort_newest_first (filter (matches scope resource_id) kept)"
    using spool_run_stored[OF assms(1,2)] by blast
  obtain stored where stored: "read_records parse (\<lambda>_. None) scope resource_id (unwrap_or (sp_dir st) []) = Inr stored"
    "mset stored = mset (filter (matches scope resource_id) kept)" "distinct (map record_key stored)"
    "sort_newest_first stored = sort_newest_first (filter (matches scope resource_id) kept)"
    using reads by blast
  have "length stored < n"
    using mset_eq_length[OF stored(2)] assms(3) size_mset_mono[OF kept(1)]
      le_less_trans[OF length_filter_le[of "matches scope resource_id" kept]] by simp
  have "follow (\<lambda>c. projr (query_in parse None (\<lambda>_. None) (sp_dir st) scope resource_id c limit)) n None =
      Some (sort_newest_first (filter (matches scope resource_id) kept))"
  proof (cases "sp_dir st")
    case None
    with stored(1,4) assms(3) show ?thesis
      by (cases n) (simp_all add: query_in_def read_records_def and_then_def sort_newest_first_def)
  next
    case (Some d)
    with query_pages[OF stored(1,3) \<open>length stored < n\<close>, of limit] stored(4) show ?thesis by simp
  qed
  with kept show ?thesis by blast
qed

text \<open>
  The unit test \<open>concurrent_appends_produce_complete_json_records\<close>, for all schedules of its threads: one
  query for 500 records returns all 100, none of them being older than seven days.
\<close>

theorem concurrent_appends_produce_complete_json_records_holds:
  assumes "spool_run print state_dir pid True st"
    and "list_all (\<lambda>r. json_line print parse (en_Record r)) (sp_written st)"
    and "length (sp_written st) = 100"
  shows "\<exists>records next. query_in parse None (\<lambda>_. None) (sp_dir st) None None None 500 = Inr (records, next) \<and>
    length records = 100"
proof -
  have all: "filter (matches None None) rs = rs" for rs by (simp add: matches_def)
  obtain stored where stored: "read_records parse (\<lambda>_. None) None None (unwrap_or (sp_dir st) []) = Inr stored"
    "mset stored = mset (sp_written st)"
    using spool_run_stored[OF assms(1,2)] all by metis
  have hundred: "length stored = 100" using mset_eq_length[OF stored(2)] assms(3) by simp
  moreover have "sp_dir st \<noteq> None"
  proof
    assume "sp_dir st = None"
    with stored(1) have "stored = []" by (simp add: read_records_def and_then_def)
    with hundred show False by simp
  qed
  ultimately show ?thesis
    using stored(1) by (auto simp: query_in_def page_of_def Let_def after_cursor_def sort_newest_first_def clamp_limit_def)
qed

text \<open>Two threads that build their records one after the other and take the lock in the other order.\<close>

definition older :: Record where
  "older = agent_record 0 (format_record_id 1 0) ''info'' ''''"

definition later :: Record where
  "later = agent_record 0 (format_record_id 1 1) ''warn'' ''''"

definition two_print :: "json \<Rightarrow> string" where
  "two_print v = (if v = en_Record older then ''a'' else ''b'')"

definition two_parse :: "string \<Rightarrow> json option" where
  "two_parse raw = Some (en_Record (if raw = ''a'' then older else later))"

definition two_calls :: "spool_action list" where
  "two_calls = [Build 0 0 (Agent_Line ''info'' ''''), Build 0 0 (Agent_Line ''warn'' ''''),
     Locked 1 False no_faults clock_zero, Locked 0 False no_faults clock_zero]"

definition two_threads :: Spool_State where
  "two_threads = fold (spool_action_step two_print (Inr ''/state'') 1) two_calls
     \<lparr>sp_dir = None, sp_last = 0, sp_waiting = [], sp_written = []\<rparr>"

lemma older_later: "en_Record later \<noteq> en_Record older"
proof
  assume "en_Record later = en_Record older"
  then have "later = older" by (metis Record_codec.dec_enc option.inject)
  then show False by (simp add: later_def older_def agent_record_def)
qed

definition day_log :: "string \<Rightarrow> SpoolDir" where
  "day_log raw = [(path_in 0, \<lparr>sf_content = raw, sf_modified = Some 0\<rparr>)]"

lemma two_appends:
  "append_record two_print False (Inr ''/state'') no_faults clock_zero 1 later None last_id =
     (Inr (), Some (day_log (''b'' @ [newline])), last_id)"
  "append_record two_print False (Inr ''/state'') no_faults clock_zero 1 older
     (Some (day_log (''b'' @ [newline]))) last_id =
     (Inr (), Some (day_log (''b'' @ newline # ''a'' @ [newline])), last_id)"
proof -
  have "utf8_char CHR ''b'' = [0x62]" "utf8_char CHR ''a'' = [0x61]" "utf8_char newline = [0x0A]"
    by (simp_all add: utf8_char_def Let_def)
  then have "\<not> must_rotate (day_log (''b'' @ [newline])) (path_in 0)
      (length (utf8_bytes (payload_of two_print older))) MAX_BYTES"
    by (simp add: must_rotate_def current_len_def file_len_def payload_of_def two_print_def MAX_BYTES_def
        utf8_bytes_def day_log_def U64_MAX_def)
  moreover have "prune no_faults 0 (day_log raw) = day_log raw" for raw
    by (simp add: prune_filter day_log_def expired_at_def)
  ultimately show
    "append_record two_print False (Inr ''/state'') no_faults clock_zero 1 older
      (Some (day_log (''b'' @ [newline]))) last_id =
      (Inr (), Some (day_log (''b'' @ newline # ''a'' @ [newline])), last_id)"
    by (simp add: append_record_def append_to_def append_to_with_limit_def write_payload_def no_faults_def
        clock_zero_def append_text_def log_content_def payload_of_def two_print_def day_log_def)
qed (simp add: append_record_def append_to_def append_to_with_limit_def no_faults_def clock_zero_def prune_def
      must_rotate_def current_len_def write_payload_def append_text_def log_content_def payload_of_def
      two_print_def older_later day_log_def)

lemma two_threads_run:
  "spool_run two_print (Inr ''/state'') 1 True two_threads" "sp_written two_threads = [later, older]"
proof -
  define act where "act = spool_action_step two_print (Inr ''/state'') 1"
  define st0 where "st0 = \<lparr>sp_dir = None, sp_last = 0, sp_waiting = [], sp_written = []\<rparr>"
  define st1 where "st1 = \<lparr>sp_dir = None, sp_last = 1, sp_waiting = [older], sp_written = []\<rparr>"
  define st2 where "st2 = \<lparr>sp_dir = None, sp_last = 2, sp_waiting = [older, later], sp_written = []\<rparr>"
  define st3 where "st3 = \<lparr>sp_dir = Some (day_log (''b'' @ [newline])), sp_last = 2, sp_waiting = [older],
    sp_written = [later]\<rparr>"
  have ids: "next_last_id 0 0 = 1" "next_last_id 0 1 = 2"
    by (simp_all add: next_last_id_def saturating_add_def)
  have acts: "act (Build 0 0 (Agent_Line ''info'' '''')) st0 = st1" "act (Build 0 0 (Agent_Line ''warn'' '''')) st1 = st2"
    "act (Locked 1 False no_faults clock_zero) st2 = st3"
    by (simp_all add: act_def st0_def st1_def st2_def st3_def next_record_id_def record_of_def ids older_def
        two_appends[simplified] flip: later_def)
  have ok: "action_ok st0 (Build 0 0 c)" "action_ok st1 (Build 0 0 c)" "action_ok st2 (Locked k b no_faults clock_zero)"
    "action_ok st3 (Locked k b no_faults clock_zero)" for c k b
    by (simp_all add: action_ok_def st0_def st1_def st2_def st3_def U64_MAX_def whole_writes_def no_faults_def
        clock_zero_def)
  have young: "within_retention st0 (Build 0 0 c)" "within_retention st1 (Build 0 0 c)"
    "within_retention st2 (Locked k b no_faults clock_zero)" "within_retention st3 (Locked k b no_faults clock_zero)" for c k b
    by (simp_all add: within_retention_def st2_def st3_def nothing_aged_def day_log_def expired_at_def clock_zero_def)
  note step = spool_run.act[of two_print "Inr ''/state''" 1, folded act_def]
  have "spool_run two_print (Inr ''/state'') 1 True st0" unfolding st0_def by (rule spool_run.start)
  from step[OF this ok(1)] have "spool_run two_print (Inr ''/state'') 1 True st1" by (simp add: young flip: acts(1))
  from step[OF this ok(2)] have "spool_run two_print (Inr ''/state'') 1 True st2" by (simp add: young flip: acts(2))
  from step[OF this ok(3)] have run: "spool_run two_print (Inr ''/state'') 1 True st3" by (simp add: young flip: acts(3))
  have last_step: "two_threads = act (Locked 0 False no_faults clock_zero) st3"
    unfolding two_threads_def two_calls_def
    by (simp add: acts acts(3)[unfolded One_nat_def] flip: act_def st0_def del: spool_action_step.simps)
  show "spool_run two_print (Inr ''/state'') 1 True two_threads"
    unfolding last_step using step[OF run ok(4)] by (simp add: young del: spool_action_step.simps)
  show "sp_written two_threads = [later, older]"
    unfolding last_step by (simp add: act_def st3_def two_appends[simplified])
qed

lemma threads_lose_nothing_witness:
  "\<exists>kept. mset kept \<subseteq># mset [later, older] \<and> (True \<longrightarrow> kept = [later, older]) \<and>
     follow (\<lambda>c. projr (query_in two_parse None (\<lambda>_. None) (sp_dir two_threads) (Some ''agent'') None c 1)) 3 None =
       Some (sort_newest_first (filter (matches (Some ''agent'') None) kept))"
  using threads_lose_nothing[OF two_threads_run(1), of two_parse 3 "Some ''agent''" None 1]
  unfolding two_threads_run(2)
  by (simp add: json_line_def two_print_def two_parse_def older_later)

end
