(* ===== verification/Log_Writer.thy ===== *)
theory Log_Writer
  imports Log_Append
begin

text \<open>
  \<open>AgentLogWriter\<close> of \<open>src/logs.rs\<close>: the tracing output arrives in chunks of bytes, every
  complete line becomes a record of the spool. \<open>lossy\<close> is \<open>String::from_utf8_lossy\<close>.
\<close>

definition newline_byte :: u8 where
  "newline_byte = 10"

text \<open>The loop of \<open>write\<close>: the complete lines, and what stays pending.\<close>

function drain :: "u8 list \<Rightarrow> u8 list list \<times> u8 list" where
  "drain pending =
     (if newline_byte \<in> set pending then
        (let line = takeWhile (\<lambda>b. b \<noteq> newline_byte) pending;
             (rest, left) = drain (tl (dropWhile (\<lambda>b. b \<noteq> newline_byte) pending))
         in (line # rest, left))
      else ([], pending))"
  by pat_completeness auto
termination
proof (relation "measure length", goal_cases)
  case (2 pending)
  then have "dropWhile (\<lambda>b. b \<noteq> newline_byte) pending \<noteq> []" by (simp add: dropWhile_eq_Nil_conv)
  then show ?case
    using length_dropWhile_le[of "\<lambda>b. b \<noteq> newline_byte" pending]
    by (cases "dropWhile (\<lambda>b. b \<noteq> newline_byte) pending") auto
qed simp

declare drain.simps [simp del]

definition line_level :: "string \<Rightarrow> string" where
  "line_level line =
     (if contains line '' ERROR '' then ''error''
      else if contains line '' WARN '' then ''warn''
      else if contains line '' DEBUG '' then ''debug''
      else ''info'')"

text \<open>What a line hands to \<open>append_agent\<close>: its level and its trimmed text, nothing for a blank line.\<close>

definition emit_line :: "(u8 list \<Rightarrow> string) \<Rightarrow> u8 list \<Rightarrow> (string \<times> string) option" where
  "emit_line lossy bytes =
     (let line = trim (lossy bytes) in if line = [] then None else Some (line_level line, line))"

definition write_bytes ::
  "(u8 list \<Rightarrow> string) \<Rightarrow> anyhow option \<Rightarrow> u8 list \<Rightarrow> u8 list \<Rightarrow>
     nat result \<times> (string \<times> string) list \<times> u8 list" where
  "write_bytes lossy stderr_fault bytes pending =
     (case stderr_fault of
        Some e \<Rightarrow> (Inl e, [], pending)
      | None \<Rightarrow>
          (let (ls, pending) = drain (pending @ bytes)
           in (Inr (length bytes), List.map_filter (emit_line lossy) ls, pending)))"

text \<open>The records of a sequence of writes: the errors of \<open>append_agent\<close> are dropped.\<close>

fun write_chunks :: "(u8 list \<Rightarrow> string) \<Rightarrow> u8 list list \<Rightarrow> u8 list \<Rightarrow> (string \<times> string) list \<times> u8 list" where
  "write_chunks lossy [] pending = ([], pending)"
| "write_chunks lossy (b # bs) pending =
     (let (_, out, pending) = write_bytes lossy None b pending;
          (outs, pending) = write_chunks lossy bs pending
      in (out @ outs, pending))"

lemma drain_no_newline: "newline_byte \<notin> set p \<Longrightarrow> drain p = ([], p)"
  by (simp add: drain.simps[of p])

lemma drain_left: "newline_byte \<notin> set (snd (drain p))"
proof (induction p rule: drain.induct)
  case (1 p)
  then show ?case by (cases "newline_byte \<in> set p") (auto simp: drain.simps[of p] split: prod.split)
qed

lemma drain_newline:
  "newline_byte \<in> set p \<Longrightarrow>
     drain p = (takeWhile (\<lambda>b. b \<noteq> newline_byte) p # fst (drain (tl (dropWhile (\<lambda>b. b \<noteq> newline_byte) p))),
       snd (drain (tl (dropWhile (\<lambda>b. b \<noteq> newline_byte) p))))"
  by (subst drain.simps) (simp add: split_beta Let_def)

text \<open>Draining in two steps or in one is the same.\<close>

lemma drain_append:
  "drain (p @ b) = (fst (drain p) @ fst (drain (snd (drain p) @ b)), snd (drain (snd (drain p) @ b)))"
proof (induction p rule: drain.induct)
  case (1 p)
  show ?case
  proof (cases "newline_byte \<in> set p")
    case False
    then show ?thesis by (simp add: drain_no_newline)
  next
    case True
    define q where "q = tl (dropWhile (\<lambda>b. b \<noteq> newline_byte) p)"
    from True have ne: "dropWhile (\<lambda>b. b \<noteq> newline_byte) p \<noteq> []" by (simp add: dropWhile_eq_Nil_conv)
    have tw: "takeWhile (\<lambda>b. b \<noteq> newline_byte) (p @ b) = takeWhile (\<lambda>b. b \<noteq> newline_byte) p"
      by (rule takeWhile_append1[OF True]) simp
    have "dropWhile (\<lambda>b. b \<noteq> newline_byte) (p @ b) = dropWhile (\<lambda>b. b \<noteq> newline_byte) p @ b"
      by (rule dropWhile_append1[OF True]) simp
    then have dw: "tl (dropWhile (\<lambda>b. b \<noteq> newline_byte) (p @ b)) = q @ b" using ne by (simp add: q_def)
    have p: "drain p = (takeWhile (\<lambda>b. b \<noteq> newline_byte) p # fst (drain q), snd (drain q))"
      unfolding q_def by (rule drain_newline[OF True])
    have pb: "drain (p @ b) = (takeWhile (\<lambda>b. b \<noteq> newline_byte) p # fst (drain (q @ b)), snd (drain (q @ b)))"
      using drain_newline[of "p @ b"] True by (simp only: tw dw) simp
    have "drain (q @ b) = (fst (drain q) @ fst (drain (snd (drain q) @ b)), snd (drain (snd (drain q) @ b)))"
      using True unfolding q_def by (intro 1) simp_all
    then show ?thesis unfolding pb p by simp
  qed
qed

lemma map_filter_append: "List.map_filter f (xs @ ys) = List.map_filter f xs @ List.map_filter f ys"
  by (simp add: List.map_filter_def)

lemma write_chunks_drain:
  "newline_byte \<notin> set p \<Longrightarrow> write_chunks lossy bs p =
     (List.map_filter (emit_line lossy) (fst (drain (p @ concat bs))), snd (drain (p @ concat bs)))"
proof (induction bs arbitrary: p)
  case Nil
  then show ?case by (simp add: drain_no_newline List.map_filter_def)
next
  case (Cons b bs)
  have "write_chunks lossy bs (snd (drain (p @ b))) =
      (List.map_filter (emit_line lossy) (fst (drain (snd (drain (p @ b)) @ concat bs))),
       snd (drain (snd (drain (p @ b)) @ concat bs)))"
    by (rule Cons.IH) (rule drain_left)
  then show ?case
    using drain_append[of "p @ b" "concat bs"]
    by (simp add: write_bytes_def Let_def map_filter_append split_beta)
qed

text \<open>
  C30: the records mirrored into the spool do not depend on how the formatter cuts its output
  into \<open>write\<close> calls: two ways to cut the same bytes give the same records and the same pending
  rest, so no line is lost, repeated or split.
\<close>

theorem write_chunks_invariant:
  "concat bs = concat cs \<Longrightarrow> write_chunks lossy bs [] = write_chunks lossy cs []"
  by (simp add: write_chunks_drain)

lemma write_chunks_invariant_witness:
  "write_chunks (map (\<lambda>b. char_of (unat b))) [[104], [105, 10, 106]] [] =
     write_chunks (map (\<lambda>b. char_of (unat b))) [[104, 105, 10], [106]] []"
  by (rule write_chunks_invariant) simp

end
