(* ===== verification/Guest_Network.thy ===== *)
theory Guest_Network
  imports Rust_Num
begin

text \<open>
  The guest's address on the LXC bridge: \<open>src/jobs/runners/container/network.rs\<close>.
  \<open>ip addr\<close> output is parsed for the bridge's address and prefix length, and the guest's
  last octet is derived from the container's name.
\<close>

section \<open>IPv4 addresses\<close>

datatype ipv4 = Ipv4 u8 u8 u8 u8

fun octets :: "ipv4 \<Rightarrow> u8 list" where
  "octets (Ipv4 a b c d) = [a, b, c, d]"

fun show_ipv4 :: "ipv4 \<Rightarrow> string" where
  "show_ipv4 (Ipv4 a b c d) = join ''.'' (map show_word [a, b, c, d])"

text \<open>
  \<open>Ipv4Addr::from_str\<close>: four decimal octets of at most three digits, without a sign and
  without leading zeros.
\<close>

definition parse_octet :: "string \<Rightarrow> u8 option" where
  "parse_octet s =
     (if s \<noteq> [] \<and> length s \<le> 3 \<and> list_all is_ascii_digit s \<and> (hd s = CHR ''0'' \<longrightarrow> s = ''0'')
      then parse_word s else None)"

definition parse_ipv4 :: "string \<Rightarrow> ipv4 option" where
  "parse_ipv4 s =
     (case map parse_octet (split_on (\<lambda>c. c = CHR ''.'') s) of
        [Some a, Some b, Some c, Some d] \<Rightarrow> Some (Ipv4 a b c d)
      | _ \<Rightarrow> None)"

lemma show_nat_length_le3: "n < 1000 \<Longrightarrow> length (show_nat n) \<le> 3"
  by (simp add: show_nat.simps[of n] show_nat.simps[of "n div 10"] show_nat.simps[of "n div 10 div 10"])

lemma hd_show_nat: "0 < n \<Longrightarrow> hd (show_nat n) \<noteq> CHR ''0''"
proof (induction n rule: show_nat.induct)
  case (1 n)
  have d: "digit_char k = CHR ''0'' \<longleftrightarrow> k = 0" if "k < 10" for k
  proof -
    have "digit_char k = CHR ''0'' \<longleftrightarrow> (of_char (digit_char k) :: nat) = of_char CHR ''0''"
      by (simp only: of_char_eq_iff)
    then show ?thesis using that by (simp add: digit_char_code)
  qed
  show ?case
  proof (cases "n < 10")
    case True
    with 1 d show ?thesis by (subst show_nat.simps) simp
  next
    case False
    with 1 show ?thesis by (subst show_nat.simps) simp
  qed
qed

lemma parse_octet_show: "parse_octet (show_word w) = Some w"
proof (cases "unat w = 0")
  case True
  then have "w = 0" by (simp add: unat_eq_0)
  show ?thesis unfolding \<open>w = 0\<close> by code_simp
next
  case False
  have "unat w < 1000" using unat_u8_less[of w] by simp
  then have "length (show_word w) \<le> 3" by (simp only: show_word_def show_nat_length_le3)
  moreover have "hd (show_word w) \<noteq> CHR ''0''" "show_word w \<noteq> []"
    using False by (simp_all only: show_word_def hd_show_nat show_nat_neq_Nil not_False_eq_True
        neq0_conv)
  moreover have "list_all is_ascii_digit (show_word w)"
    unfolding list_all_iff show_word_def by (blast intro: show_nat_digits)
  ultimately show ?thesis by (simp add: parse_octet_def)
qed

lemma show_word_no_dot: "c \<in> set (show_word w) \<Longrightarrow> c \<noteq> CHR ''.''"
  using show_nat_digits[of c "unat w"] by (auto simp: show_word_def is_ascii_digit_def)

lemma parse_ipv4_show: "parse_ipv4 (show_ipv4 a) = Some a"
proof (cases a)
  case (Ipv4 a b c d)
  have "split_on (\<lambda>c. c = CHR ''.'') (join ''.'' (map show_word [a, b, c, d])) =
      map show_word [a, b, c, d]"
    by (rule split_join) (auto dest: show_word_no_dot)
  with Ipv4 show ?thesis by (simp add: parse_ipv4_def parse_octet_show)
qed

section \<open>The bridge\<close>

record LxcBridgeNetwork =
  gateway :: ipv4
  prefix_len :: u8

definition parse_lxc_bridge_network :: "string \<Rightarrow> LxcBridgeNetwork option" where
  "parse_lxc_bridge_network output =
     (case find_map (split_once ''/'') (split_whitespace output) of
        None \<Rightarrow> None
      | Some (address, pre) \<Rightarrow>
          Option.bind (parse_ipv4 address) (\<lambda>gw.
          Option.bind (parse_word pre) (\<lambda>len.
            if len \<le> 30 then Some \<lparr>gateway = gw, prefix_len = len\<rparr> else None)))"

text \<open>\<open>lxc_bridge_network\<close>: the bridge of the environment, the output of \<open>ip addr show\<close> if it ran well.\<close>

definition lxc_bridge_network ::
  "(string \<Rightarrow> string option) \<Rightarrow> (string list \<Rightarrow> (bool \<times> string) option) \<Rightarrow> LxcBridgeNetwork option" where
  "lxc_bridge_network env run_ip =
     (let bridge = unwrap_or (filter_option (\<lambda>v. v \<noteq> [])
            (map_option trim (env ''STATIX_LXC_NETWORK_BRIDGE''))) ''lxcbr0''
      in case run_ip [''-4'', ''-o'', ''addr'', ''show'', ''dev'', bridge] of
           None \<Rightarrow> None
         | Some (success, out) \<Rightarrow> if success then parse_lxc_bridge_network out else None)"

section \<open>The guest's address\<close>

definition name_sum :: "string \<Rightarrow> u16" where
  "name_sum name = fold (\<lambda>b acc. acc + ucast b) (utf8_bytes name) 0"

definition guest_ipv4_address :: "LxcBridgeNetwork \<Rightarrow> string \<Rightarrow> ipv4" where
  "guest_ipv4_address network container_name =
     (case gateway network of Ipv4 a b c d \<Rightarrow>
        let host_octet = 10 + (ucast (name_sum container_name mod 240) :: u8)
        in if host_octet = d then Ipv4 a b c (saturating_add host_octet 1)
           else Ipv4 a b c host_octet)"

definition guest_network_command :: "LxcBridgeNetwork \<Rightarrow> ipv4 \<Rightarrow> string" where
  "guest_network_command network guest_address =
     ''if ip -4 route show default | grep -q .; then exit 0; fi; iface=$(ip -o link show | awk -F'' @
     [CHR 0x27] @ '': '' @ [CHR 0x27] @ '' '' @ [CHR 0x27] @ ''$2 != \"lo\" {print $2; exit}'' @ [CHR 0x27] @
     '' | cut -d@ -f1); test -n \"$iface\"; ip link set \"$iface\" up; ip -4 addr show dev \"$iface\" | grep -q '' @
     [CHR 0x27] @ ''inet '' @ [CHR 0x27] @ '' || ip addr add '' @ show_ipv4 guest_address @ ''/'' @
     show_word (prefix_len network) @ '' dev \"$iface\"; ip route replace default via '' @
     show_ipv4 (gateway network) @ '' dev \"$iface\"''"

text \<open>The address as one number, and the network it belongs to.\<close>

fun ipv4_value :: "ipv4 \<Rightarrow> nat" where
  "ipv4_value (Ipv4 a b c d) = ((unat a * 256 + unat b) * 256 + unat c) * 256 + unat d"

definition same_network :: "LxcBridgeNetwork \<Rightarrow> ipv4 \<Rightarrow> bool" where
  "same_network network a \<longleftrightarrow>
     ipv4_value a div 2 ^ (32 - unat (prefix_len network)) =
     ipv4_value (gateway network) div 2 ^ (32 - unat (prefix_len network))"

definition host_part :: "LxcBridgeNetwork \<Rightarrow> ipv4 \<Rightarrow> nat" where
  "host_part network a = ipv4_value a mod 2 ^ (32 - unat (prefix_len network))"

lemma host_octet_value:
  "unat (10 + (ucast (s mod 240) :: u8)) = 10 + unat (s :: u16) mod 240"
proof -
  have m: "unat (s mod 240) = unat s mod 240" by (simp add: unat_mod)
  then have "unat (ucast (s mod 240) :: u8) = unat s mod 240"
    by (simp add: unsigned_ucast_eq take_bit_eq_mod)
  then show ?thesis by (simp add: unat_word_ariths)
qed

lemma guest_octet_bounds:
  assumes "guest_ipv4_address network name = Ipv4 a b c d"
  shows "10 \<le> unat d" "unat d \<le> 250"
proof -
  obtain a' b' c' d' where gw: "gateway network = Ipv4 a' b' c' d'" by (cases "gateway network")
  define h where "h = (10 + (ucast (name_sum name mod 240) :: u8))"
  have h: "unat h = 10 + unat (name_sum name) mod 240"
    unfolding h_def by (rule host_octet_value)
  then have "10 \<le> unat h" "unat h \<le> 249" by simp_all
  moreover have "d = h \<or> d = saturating_add h 1"
    using assms gw by (auto simp: guest_ipv4_address_def Let_def h_def split: if_splits)
  ultimately show "10 \<le> unat d" "unat d \<le> 250"
    by (auto simp: unat_saturating_add)
qed

lemma guest_not_gateway:
  "guest_ipv4_address network name \<noteq> gateway network"
proof -
  obtain a b c d where gw: "gateway network = Ipv4 a b c d" by (cases "gateway network")
  define h where "h = (10 + (ucast (name_sum name mod 240) :: u8))"
  have "unat h = 10 + unat (name_sum name) mod 240"
    unfolding h_def by (rule host_octet_value)
  then have "unat h < 255" using mod_less_divisor[of 240 "unat (name_sum name)"] by linarith
  then have "unat (saturating_add h 1) \<noteq> unat h" by (simp add: unat_saturating_add)
  then have "saturating_add h 1 \<noteq> h" by auto
  then show ?thesis by (auto simp: guest_ipv4_address_def gw Let_def h_def)
qed

lemma guest_octets_prefix:
  "take 3 (octets (guest_ipv4_address network name)) = take 3 (octets (gateway network))"
  by (cases "gateway network") (simp add: guest_ipv4_address_def Let_def)

lemma div_last_octet:
  fixes x d k :: nat
  assumes "8 \<le> k" and "d < 256"
  shows "(x * 256 + d) div 2 ^ k = x div 2 ^ (k - 8)"
proof -
  have k: "(2 :: nat) ^ k = 256 * 2 ^ (k - 8)"
    using assms(1) power_add[of "2 :: nat" 8 "k - 8"] by simp
  have "(x * 256 + d) div (256 * 2 ^ (k - 8)) = (x * 256 + d) div 256 div 2 ^ (k - 8)"
    by (simp only: div_mult2_eq)
  also have "(x * 256 + d) div 256 = x" using assms(2) by simp
  finally show ?thesis by (simp only: k)
qed

text \<open>
  On a bridge of at most 24 prefix bits the guest is in the bridge's network and is neither the
  network's own address nor its broadcast address.
\<close>

lemma guest_same_network:
  assumes "prefix_len network \<le> 24"
  shows "same_network network (guest_ipv4_address network name)"
proof -
  obtain a b c d where gw: "gateway network = Ipv4 a b c d" by (cases "gateway network")
  obtain d' where g: "guest_ipv4_address network name = Ipv4 a b c d'"
    using guest_octets_prefix[of network name] gw by (cases "guest_ipv4_address network name") simp
  have "unat (prefix_len network) \<le> 24" using assms by (simp add: word_le_nat_alt)
  then have "8 \<le> 32 - unat (prefix_len network)" by simp
  moreover have "unat d < 256" "unat d' < 256" by (rule unat_u8_less)+
  ultimately show ?thesis
    unfolding same_network_def gw g ipv4_value.simps by (simp only: div_last_octet)
qed

text \<open>The pieces of an example: a /28 bridge.\<close>

lemma parse_example:
  "find_map (split_once ''/'') (split_whitespace ''inet 10.0.3.1/28 scope global'') =
     Some (''10.0.3.1'', ''28'')"
  "parse_ipv4 ''10.0.3.1'' = Some (Ipv4 10 0 3 1)"
  "parse_word ''28'' = Some (28 :: u8)"
  subgoal by (simp add: text_defs less_eq_char_def)
  subgoal by (simp add: parse_ipv4_def parse_octet_def parse_word_def parse_unsigned_def digit_value_def
        is_ascii_digit_def less_eq_char_def)
  subgoal by (simp add: parse_word_def parse_unsigned_def digit_value_def
        is_ascii_digit_def less_eq_char_def)
  done

section \<open>Properties\<close>

text \<open>
  An IPv4 address survives printing and parsing: \<open>parse_ipv4\<close> reads back what
  \<open>Display\<close> writes.
\<close>

theorem parse_show_ipv4: "parse_ipv4 (show_ipv4 a) = Some a"
  by (rule parse_ipv4_show)

text \<open>
  The address given to a guest is never the gateway's, keeps the gateway's first three
  octets, and its last octet is in 10..250, so it is neither the network's nor the broadcast
  address of a /24.
\<close>

theorem guest_address_valid:
  "guest_ipv4_address network name \<noteq> gateway network \<and>
   take 3 (octets (guest_ipv4_address network name)) = take 3 (octets (gateway network)) \<and>
   (case guest_ipv4_address network name of Ipv4 a b c d \<Rightarrow> unat d \<in> {10..250})"
  using guest_not_gateway[of network name] guest_octets_prefix[of network name]
    guest_octet_bounds[of network name]
  by (auto split: ipv4.split)

text \<open>
  On a bridge whose prefix has at most 24 bits the guest's address lies in the bridge's
  network.
\<close>

theorem guest_address_in_network:
  "prefix_len network \<le> 24 \<Longrightarrow> same_network network (guest_ipv4_address network name)"
  by (rule guest_same_network)

lemma guest_address_in_network_witness:
  "same_network \<lparr>gateway = Ipv4 10 0 3 1, prefix_len = 24\<rparr>
     (guest_ipv4_address \<lparr>gateway = Ipv4 10 0 3 1, prefix_len = 24\<rparr> ''statix-a'')"
  by (rule guest_address_in_network) simp

text \<open>Two names whose addresses lie in the two halves of the last octet, on every bridge.\<close>

lemma name_sum_examples: "name_sum ''statix-a'' = 811" "name_sum ''statix-zz'' = 958"
  by (simp_all add: name_sum_def utf8_char_def Let_def)

lemma guest_halves:
  assumes "gateway network = Ipv4 a b c d"
  obtains d1 d2 where "guest_ipv4_address network ''statix-a'' = Ipv4 a b c d1" "unat d1 div 128 = 0"
    "guest_ipv4_address network ''statix-zz'' = Ipv4 a b c d2" "unat d2 div 128 = 1"
proof -
  have low: "unat (saturating_add (101 :: u8) 1) div 128 = 0" "unat (101 :: u8) div 128 = 0"
    and high: "unat (saturating_add (248 :: u8) 1) div 128 = 1" "unat (248 :: u8) div 128 = 1"
    by (simp_all add: unat_saturating_add)
  have names: "10 + (ucast (name_sum ''statix-a'' mod 240) :: u8) = 101"
    "10 + (ucast (name_sum ''statix-zz'' mod 240) :: u8) = 248"
    by (simp_all add: name_sum_examples)
  show thesis
    using that[of "if 101 = d then saturating_add 101 1 else 101" "if 248 = d then saturating_add 248 1 else 248"]
      assms low high
    by (simp add: guest_ipv4_address_def Let_def names)
qed

lemma same_network_halves:
  assumes "24 < unat (prefix_len network)" "gateway network = Ipv4 a b c d" "same_network network (Ipv4 a b c e)"
  shows "unat e div 128 = unat d div 128"
proof -
  define k where "k = 32 - unat (prefix_len network)"
  define x where "x = ((unat a * 256 + unat b) * 256 + unat c) * 256"
  have k: "k \<le> 7" using assms(1) by (simp add: k_def)
  have pow: "(2 :: nat) ^ k * 2 ^ (7 - k) = 128" using k power_add[of "2 :: nat" k "7 - k"] by simp
  have "(x + unat e) div 2 ^ k = (x + unat d) div 2 ^ k"
    using assms(2,3) by (simp add: same_network_def k_def x_def)
  then have "(x + unat e) div 2 ^ k div 2 ^ (7 - k) = (x + unat d) div 2 ^ k div 2 ^ (7 - k)" by simp
  then have "(x + unat e) div 128 = (x + unat d) div 128"
    unfolding div_mult2_eq[symmetric] pow .
  moreover have "(x + y) div 128 = x div 128 + y div 128" for y
    by (rule div_plus_div_distrib_dvd_left) (simp add: x_def)
  ultimately show ?thesis by simp
qed

text \<open>
  C39: the guest's address lies in the bridge's network for every container name exactly if the
  bridge's prefix has at most 24 bits; on every bridge with a longer prefix, whatever its gateway,
  some container (there are names of the form the agent makes) gets an address outside the
  network. \<open>parse_lxc_bridge_network\<close> accepts such prefixes, as that of a /28 bridge.
\<close>

theorem guest_address_outside_network:
  "((\<forall>name. same_network network (guest_ipv4_address network name)) \<longleftrightarrow> prefix_len network \<le> 24) \<and>
   ((\<exists>rest. \<not> same_network network (guest_ipv4_address network (''statix-'' @ rest))) \<longleftrightarrow> 24 < prefix_len network) \<and>
   parse_lxc_bridge_network ''inet 10.0.3.1/28 scope global'' =
     Some \<lparr>gateway = Ipv4 10 0 3 1, prefix_len = 28\<rparr>"
proof (intro conjI)
  obtain a b c d where gw: "gateway network = Ipv4 a b c d" by (cases "gateway network")
  obtain d1 d2 where g: "guest_ipv4_address network ''statix-a'' = Ipv4 a b c d1" "unat d1 div 128 = 0"
    "guest_ipv4_address network ''statix-zz'' = Ipv4 a b c d2" "unat d2 div 128 = 1"
    by (rule guest_halves[OF gw])
  have out: "\<exists>rest. \<not> same_network network (guest_ipv4_address network (''statix-'' @ rest))"
    if long: "24 < prefix_len network"
  proof -
    have "24 < unat (prefix_len network)" using long by (simp add: word_less_nat_alt)
    then have "\<not> (same_network network (Ipv4 a b c d1) \<and> same_network network (Ipv4 a b c d2))"
      using same_network_halves[OF _ gw] g(2,4) by fastforce
    then have "\<not> same_network network (guest_ipv4_address network (''statix-'' @ ''a'')) \<or>
        \<not> same_network network (guest_ipv4_address network (''statix-'' @ ''zz''))"
      using g by auto
    then show ?thesis by blast
  qed
  show "(\<forall>name. same_network network (guest_ipv4_address network name)) \<longleftrightarrow> prefix_len network \<le> 24"
    using out guest_same_network not_le by blast
  show "(\<exists>rest. \<not> same_network network (guest_ipv4_address network (''statix-'' @ rest))) \<longleftrightarrow> 24 < prefix_len network"
    using out guest_same_network not_le by blast
qed (simp add: parse_example parse_lxc_bridge_network_def)

end
