(* ===== verification/Shell_Quote.thy ===== *)
theory Shell_Quote
  imports Rust_Search
begin

text \<open>
  Quoting for the guest shell: \<open>shell_escape\<close>, \<open>shell_join\<close> and \<open>shell_env_key\<close> in
  \<open>src/jobs/runners/container/shell.rs\<close> and \<open>lxc.rs\<close>, the copies of \<open>microvm.rs\<close>, and
  \<open>redacted_command\<close> of both. The reference is a lexer of POSIX shell words; the locale
  \<open>shell_quoter\<close> is what the runners rely on, both implementations interpret it.
\<close>

section \<open>Reference: how a shell reads a command line\<close>

abbreviation squote :: char where
  "squote \<equiv> CHR 0x27"

text \<open>Characters that stand for themselves in an unquoted word.\<close>

definition shell_plain :: "char \<Rightarrow> bool" where
  "shell_plain c \<longleftrightarrow> is_ascii_alphanumeric c \<or> c \<in> set ''@%_-+=:,./''"

text \<open>
  Tokens: words, \<open>&&\<close> and \<open>;\<close>. Every other unquoted character (expansions, globs,
  redirections, comments, double quotes, pipes, newlines) makes the lexer fail: the reference
  never guesses what a shell would do with it.
\<close>

datatype sh_token = Word string | And_If | Semi

definition flush :: "string option \<Rightarrow> sh_token list \<Rightarrow> sh_token list" where
  "flush w ts = (case w of None \<Rightarrow> ts | Some v \<Rightarrow> Word v # ts)"

fun sh_lex :: "bool \<Rightarrow> string option \<Rightarrow> string \<Rightarrow> sh_token list option" where
  "sh_lex quoted w [] = (if quoted then None else Some (flush w []))"
| "sh_lex True w (c # cs) =
     (if c = squote then sh_lex False w cs else sh_lex True (Some (unwrap_or w [] @ [c])) cs)"
| "sh_lex False w (c # cs) =
     (if c = CHR '' '' then map_option (flush w) (sh_lex False None cs)
      else if c = CHR '';'' then map_option (\<lambda>ts. flush w (Semi # ts)) (sh_lex False None cs)
      else if c = CHR ''&'' then
        (case cs of
          [] \<Rightarrow> None
        | d # ds \<Rightarrow> if d = CHR ''&''
            then map_option (\<lambda>ts. flush w (And_If # ts)) (sh_lex False None ds) else None)
      else if c = squote then sh_lex True (Some (unwrap_or w [])) cs
      else if c = CHR 0x5C then
        (case cs of
          [] \<Rightarrow> None
        | d # ds \<Rightarrow> if d = newline then None else sh_lex False (Some (unwrap_or w [] @ [d])) ds)
      else if shell_plain c then sh_lex False (Some (unwrap_or w [] @ [c])) cs
      else None)"

definition sh_tokens :: "string \<Rightarrow> sh_token list option" where
  "sh_tokens s = sh_lex False None s"

lemma flush_simps [simp]: "flush None ts = ts" "flush (Some v) ts = Word v # ts"
  by (simp_all add: flush_def)

lemma flush_fun: "flush None = id" "flush (Some v) = Cons (Word v)"
  by (simp_all add: fun_eq_iff)

lemma shell_plain_not_special:
  assumes "shell_plain c"
  shows "c \<noteq> CHR '' ''" "c \<noteq> CHR '';''" "c \<noteq> CHR ''&''" "c \<noteq> squote" "c \<noteq> CHR 0x5C"
  using assms by (auto simp: shell_plain_def char_class_defs less_eq_char_def)

text \<open>Reading a run of plain characters, and the inside of single quotes.\<close>

lemma sh_lex_plain:
  "\<forall>c \<in> set v. shell_plain c \<Longrightarrow> v \<noteq> [] \<Longrightarrow>
     sh_lex False w (v @ rest) = sh_lex False (Some (unwrap_or w [] @ v)) rest"
proof (induction v arbitrary: w)
  case Nil
  then show ?case by simp
next
  case (Cons c v)
  then have c: "sh_lex False w (c # v @ rest) = sh_lex False (Some (unwrap_or w [] @ [c])) (v @ rest)"
    using shell_plain_not_special[of c] by simp
  with Cons show ?case by (cases "v = []") simp_all
qed

lemma sh_lex_quoted:
  "\<forall>c \<in> set v. c \<noteq> squote \<Longrightarrow>
     sh_lex True (Some w) (v @ rest) = sh_lex True (Some (w @ v)) rest"
  by (induction v arbitrary: w) auto

section \<open>The two implementations\<close>

definition shell_escape_plain :: "char \<Rightarrow> bool" where
  "shell_escape_plain c \<longleftrightarrow> is_ascii_alphanumeric c \<or> contains ''@%_-+=:,./'' [c]"

text \<open>\<open>shell_escape\<close> and \<open>shell_join\<close> of \<open>container/shell.rs\<close>.\<close>

definition shell_escape :: "string \<Rightarrow> string" where
  "shell_escape value =
     (if value = [] then [squote, squote]
      else if list_all shell_escape_plain value then value
      else [squote] @ replace_char squote [squote, CHR 0x5C, squote, squote] value @ [squote])"

definition shell_join :: "string list \<Rightarrow> string" where
  "shell_join command = join '' '' (map shell_escape command)"

text \<open>The copies of \<open>microvm.rs\<close>.\<close>

definition microvm_shell_escape :: "string \<Rightarrow> string" where
  "microvm_shell_escape value =
     (if value = [] then [squote, squote]
      else if list_all (\<lambda>c. is_ascii_alphanumeric c \<or> contains ''@%_-+=:,./'' [c]) value then value
      else [squote] @ replace_char squote [squote, CHR 0x5C, squote, squote] value @ [squote])"

definition microvm_shell_join :: "string list \<Rightarrow> string" where
  "microvm_shell_join command = join '' '' (map microvm_shell_escape command)"

text \<open>\<open>shell_env_key\<close> of \<open>lxc.rs\<close> and its copy in \<open>microvm.rs\<close>.\<close>

definition env_key_start :: "char \<Rightarrow> bool" where
  "env_key_start c \<longleftrightarrow> c = CHR ''_'' \<or> is_ascii_alphabetic c"

definition env_key_char :: "char \<Rightarrow> bool" where
  "env_key_char c \<longleftrightarrow> c = CHR ''_'' \<or> is_ascii_alphanumeric c"

definition shell_env_key :: "string \<Rightarrow> string" where
  "shell_env_key key =
     (if key \<noteq> [] \<and> env_key_start (hd key) \<and> list_all env_key_char key then key
      else ''STATIX_INVALID_ENV'')"

definition microvm_shell_env_key :: "string \<Rightarrow> string" where
  "microvm_shell_env_key key =
     (if key \<noteq> [] \<and> env_key_start (hd key) \<and> list_all env_key_char key then key
      else ''STATIX_INVALID_ENV'')"

text \<open>The exports that \<open>run_command\<close> and \<open>run_guest_command\<close> put before the command.\<close>

definition export_item :: "(string \<Rightarrow> string) \<Rightarrow> (string \<Rightarrow> string) \<Rightarrow> string \<times> string \<Rightarrow> string" where
  "export_item env_key escape kv = ''export '' @ env_key (fst kv) @ ''='' @ escape (snd kv) @ '';''"

definition export_line :: "(string \<Rightarrow> string) \<Rightarrow> (string \<Rightarrow> string) \<Rightarrow> (string \<times> string) list \<Rightarrow> string" where
  "export_line env_key escape env = join '' '' (map (export_item env_key escape) env)"

text \<open>\<open>cd CWD && EXPORTS exec ARGV\<close>, the command both runners hand to the guest user's shell.\<close>

definition user_command ::
  "(string \<Rightarrow> string) \<Rightarrow> (string \<Rightarrow> string) \<Rightarrow> string \<Rightarrow> (string \<times> string) list \<Rightarrow> string list \<Rightarrow> string" where
  "user_command env_key escape cwd env argv =
     ''cd '' @ escape cwd @ '' && '' @ export_line env_key escape env @ '' exec ''
       @ join '' '' (map escape argv)"

text \<open>The tokens the exports stand for.\<close>

definition export_tokens :: "(string \<Rightarrow> string) \<Rightarrow> (string \<times> string) list \<Rightarrow> sh_token list" where
  "export_tokens key env =
     concat (map (\<lambda>(k, v). [Word ''export'', Word (key k @ ''='' @ v), Semi]) env)"

section \<open>The contract of a quoting function\<close>

locale shell_quoter =
  fixes quote :: "string \<Rightarrow> string"
  assumes quote_word: "sh_lex False None (quote v @ rest) = sh_lex False (Some v) rest"
    and quote_glued: "p \<noteq> [] \<Longrightarrow> sh_lex False (Some p) (quote v @ rest) = sh_lex False (Some (p @ v)) rest"
begin

lemma quote_tokens: "sh_tokens (quote v) = Some [Word v]"
  using quote_word[of v "[]"] by (simp add: sh_tokens_def)

lemma lex_join:
  "argv \<noteq> [] \<Longrightarrow> sh_lex False None (join '' '' (map quote argv)) = Some (map Word argv)"
proof (induction argv)
  case Nil
  then show ?case by simp
next
  case (Cons a argv)
  then show ?case using quote_word[of a "[]"] by (cases argv) (simp_all add: quote_word)
qed

lemma join_tokens: "sh_tokens (join '' '' (map quote argv)) = Some (map Word argv)"
  by (cases "argv = []") (simp_all add: sh_tokens_def lex_join)

lemma lex_export_item:
  assumes "key k \<noteq> []" "\<forall>c \<in> set (key k). shell_plain c"
  shows "sh_lex False None (export_item key quote (k, v) @ rest) =
    map_option (\<lambda>ts. [Word ''export'', Word (key k @ ''='' @ v), Semi] @ ts) (sh_lex False None rest)"
proof -
  have exp: "sh_lex False None (''export '' @ r) = map_option (Cons (Word ''export'')) (sh_lex False None r)" for r
    using sh_lex_plain[of "''export''" None "CHR '' '' # r"]
    by (simp add: shell_plain_def char_class_defs flush_fun)
  have "sh_lex False None (key k @ ''='' @ quote v @ '';'' @ rest) =
      map_option (\<lambda>ts. Word (key k @ ''='' @ v) # Semi # ts) (sh_lex False None rest)"
    using assms sh_lex_plain[of "key k @ ''=''" None "quote v @ '';'' @ rest"]
    by (simp add: shell_plain_def quote_glued)
  then show ?thesis
    unfolding export_item_def fst_conv snd_conv append_assoc exp
    by (simp add: option.map_comp o_def)
qed

lemma lex_export_line:
  assumes key: "\<And>k. key k \<noteq> []" "\<And>k. \<forall>c \<in> set (key k). shell_plain c"
  shows "sh_lex False None (export_line key quote env @ '' '' @ rest) =
    map_option ((@) (export_tokens key env)) (sh_lex False None rest)"
proof (induction env)
  case Nil
  show ?case by (simp add: export_line_def export_tokens_def option.map_id flush_fun option.map_ident)
next
  case (Cons kv env)
  obtain k v where kv: "kv = (k, v)" by (cases kv)
  show ?case
  proof (cases "env = []")
    case True
    with kv show ?thesis
      by (simp add: export_line_def export_tokens_def lex_export_item key option.map_comp o_def)
  next
    case False
    then have "export_line key quote (kv # env) @ '' '' @ rest =
        export_item key quote (k, v) @ '' '' @ export_line key quote env @ '' '' @ rest"
      by (simp add: export_line_def join_Cons kv)
    with Cons kv show ?thesis
      by (simp add: lex_export_item key export_tokens_def option.map_comp o_def)
  qed
qed

text \<open>
  The whole command line: whatever the directory, the values and the arguments hold, the
  shell sees one \<open>cd\<close>, one \<open>export\<close> per variable and one \<open>exec\<close> of the argument vector.
\<close>

lemma lex_user_command:
  assumes "\<And>k. key k \<noteq> []" "\<And>k. \<forall>c \<in> set (key k). shell_plain c" "argv \<noteq> []"
  shows "sh_tokens (user_command key quote cwd env argv) =
    Some ([Word ''cd'', Word cwd, And_If] @ export_tokens key env @ [Word ''exec''] @ map Word argv)"
proof -
  have cd: "sh_lex False None (''cd '' @ r) = map_option (Cons (Word ''cd'')) (sh_lex False None r)" for r
    using sh_lex_plain[of "''cd''" None "CHR '' '' # r"]
    by (simp add: shell_plain_def char_class_defs flush_fun)
  have ex: "sh_lex False None (''exec '' @ r) = map_option (Cons (Word ''exec'')) (sh_lex False None r)" for r
    using sh_lex_plain[of "''exec''" None "CHR '' '' # r"]
    by (simp add: shell_plain_def char_class_defs flush_fun)
  have "sh_lex False None (export_line key quote env @ '' '' @ ''exec '' @ join '' '' (map quote argv)) =
      Some (export_tokens key env @ [Word ''exec''] @ map Word argv)"
    unfolding lex_export_line[OF assms(1,2)] using ex[of "join '' '' (map quote argv)"]
    by (simp add: lex_join[OF assms(3)])
  then show ?thesis
    using cd[of "quote cwd @ '' && '' @ export_line key quote env @ '' exec '' @ join '' '' (map quote argv)"]
    by (simp add: sh_tokens_def user_command_def quote_word)
qed

end

section \<open>Both implementations meet the contract\<close>

lemma contains_single: "contains s [c] \<longleftrightarrow> c \<in> set s"
  by (simp add: contains_def split_once_single)

lemma shell_escape_plain_iff: "shell_escape_plain = shell_plain"
  by (simp add: fun_eq_iff shell_escape_plain_def shell_plain_def contains_single)

lemma lex_replace_squote:
  "sh_lex True (Some w) (replace_char squote [squote, CHR 0x5C, squote, squote] v @ squote # rest)
     = sh_lex False (Some (w @ v)) rest"
  by (induction v arbitrary: w) simp_all

lemma shell_escape_lex:
  "w = None \<or> (\<exists>p. w = Some p \<and> p \<noteq> []) \<Longrightarrow>
     sh_lex False w (shell_escape v @ rest) = sh_lex False (Some (unwrap_or w [] @ v)) rest"
  unfolding shell_escape_def
  by (auto simp: shell_escape_plain_iff list_all_iff sh_lex_plain lex_replace_squote)

interpretation container_quote: shell_quoter shell_escape
  by unfold_locales (simp_all add: shell_escape_lex)

lemma microvm_shell_escape_eq: "microvm_shell_escape = shell_escape"
  by (simp add: fun_eq_iff microvm_shell_escape_def shell_escape_def
      shell_escape_plain_def[abs_def])

lemma microvm_shell_join_eq: "microvm_shell_join = shell_join"
  by (simp add: fun_eq_iff microvm_shell_join_def shell_join_def microvm_shell_escape_eq)

interpretation microvm_quote: shell_quoter microvm_shell_escape
  unfolding microvm_shell_escape_eq by (rule container_quote.shell_quoter_axioms)

lemma microvm_shell_env_key_eq: "microvm_shell_env_key = shell_env_key"
  by (simp add: fun_eq_iff microvm_shell_env_key_def shell_env_key_def)

lemma env_key_char_plain: "env_key_char c \<Longrightarrow> shell_plain c"
  by (auto simp: env_key_char_def shell_plain_def)

lemma shell_env_key_valid:
  "shell_env_key k \<noteq> []" "\<forall>c \<in> set (shell_env_key k). shell_plain c"
  by (auto simp: shell_env_key_def list_all_iff env_key_char_plain)
    (auto simp: shell_plain_def char_class_defs)

section \<open>Redaction of command lines in the log\<close>

definition sensitive_flag :: "string \<Rightarrow> bool" where
  "sensitive_flag flag \<longleftrightarrow> to_ascii_lowercase flag \<in>
     {''--token'', ''--password'', ''--secret'', ''--api-key'', ''-p''}"

text \<open>\<open>redacted_command\<close> of \<open>lxc.rs\<close>: \<open>checked_sub\<close> and \<open>get\<close> find the word before.\<close>

definition redacted_word :: "string list \<Rightarrow> nat \<times> string \<Rightarrow> string" where
  "redacted_word command iv =
     (let previous = (if fst iv = 0 then None
            else if fst iv - 1 < length command then Some (command ! (fst iv - 1)) else None)
      in if (case previous of None \<Rightarrow> False | Some flag \<Rightarrow> sensitive_flag flag)
         then ''<redacted>'' else shell_escape (snd iv))"

definition redacted_command :: "string list \<Rightarrow> string" where
  "redacted_command command =
     join '' '' (map (redacted_word command) (enumerate 0 command))"

text \<open>\<open>redacted_command\<close> of \<open>microvm.rs\<close>, which indexes the slice.\<close>

definition microvm_redacted_word :: "string list \<Rightarrow> nat \<times> string \<Rightarrow> string" where
  "microvm_redacted_word command iv =
     (if fst iv > 0 \<and> sensitive_flag (command ! (fst iv - 1))
      then ''<redacted>'' else microvm_shell_escape (snd iv))"

definition microvm_redacted_command :: "string list \<Rightarrow> string" where
  "microvm_redacted_command command =
     join '' '' (map (microvm_redacted_word command) (enumerate 0 command))"

lemma enumerate_map: "map f (enumerate 0 xs) = map (\<lambda>i. f (i, xs ! i)) [0..<length xs]"
  by (rule nth_equalityI) (simp_all add: nth_enumerate_eq)

lemma redacted_word_eq:
  "i < length command \<Longrightarrow> redacted_word command (i, v) =
     (if 0 < i \<and> sensitive_flag (command ! (i - 1)) then ''<redacted>'' else shell_escape v)"
  by (auto simp: redacted_word_def Let_def)

lemma redacted_commands_agree: "microvm_redacted_command command = redacted_command command"
proof -
  have "map (microvm_redacted_word command) (enumerate 0 command) =
      map (redacted_word command) (enumerate 0 command)"
    unfolding enumerate_map
    by (simp add: redacted_word_eq microvm_redacted_word_def microvm_shell_escape_eq)
  then show ?thesis unfolding redacted_command_def microvm_redacted_command_def by (rule arg_cong)
qed

lemma redacted_command_noninterference:
  assumes len: "length a = length b"
    and same: "\<And>i. i < length a \<Longrightarrow> a ! i = b ! i \<or>
      0 < i \<and> sensitive_flag (a ! (i - 1)) \<and> \<not> sensitive_flag (a ! i) \<and> \<not> sensitive_flag (b ! i)"
  shows "redacted_command a = redacted_command b"
proof -
  have flag: "sensitive_flag (a ! i) = sensitive_flag (b ! i)" if "i < length a" for i
    using same[OF that] by auto
  have "redacted_word a (i, a ! i) = redacted_word b (i, b ! i)" if "i < length a" for i
    using that len same[OF that] flag[of "i - 1"] by (auto simp: redacted_word_eq)
  then have "map (redacted_word a) (enumerate 0 a) = map (redacted_word b) (enumerate 0 b)"
    using len by (auto simp: enumerate_map)
  then show ?thesis by (simp add: redacted_command_def)
qed

text \<open>
  C15: joining an argument vector with \<open>shell_join\<close> loses nothing: a POSIX shell reads the
  joined text back as exactly the arguments, each as one word, whatever characters they hold,
  and the copy in \<open>microvm.rs\<close> behaves the same.
\<close>

theorem shell_join_roundtrip:
  "sh_tokens (shell_join argv) = Some (map Word argv) \<and>
   sh_tokens (microvm_shell_join argv) = Some (map Word argv)"
  by (simp add: shell_join_def microvm_shell_join_def container_quote.join_tokens
      microvm_quote.join_tokens)

text \<open>
  C35: what \<open>redacted_command\<close> writes to the log does not depend on the word after a
  sensitive flag: two commands that differ only in such words (and where those words are not
  themselves sensitive flags) give the same text, in \<open>lxc.rs\<close> and in \<open>microvm.rs\<close>.
\<close>

theorem redacted_command_hides:
  assumes "length a = length b"
    and "\<And>i. i < length a \<Longrightarrow> a ! i = b ! i \<or>
      0 < i \<and> sensitive_flag (a ! (i - 1)) \<and> \<not> sensitive_flag (a ! i) \<and> \<not> sensitive_flag (b ! i)"
  shows "redacted_command a = redacted_command b \<and>
    microvm_redacted_command a = microvm_redacted_command b"
  using redacted_command_noninterference[OF assms]
  by (simp add: redacted_commands_agree)

lemma example_flags:
  "sensitive_flag ''--Token''" "\<not> sensitive_flag ''abc''" "\<not> sensitive_flag ''xyz''"
  by code_simp+

lemma redacted_command_hides_witness:
  "redacted_command [''login'', ''--Token'', ''abc''] = redacted_command [''login'', ''--Token'', ''xyz'']"
proof -
  have "redacted_command [''login'', ''--Token'', ''abc''] = redacted_command [''login'', ''--Token'', ''xyz''] \<and>
    microvm_redacted_command [''login'', ''--Token'', ''abc''] =
      microvm_redacted_command [''login'', ''--Token'', ''xyz'']"
  proof (rule redacted_command_hides)
    fix i assume "i < length [''login'', ''--Token'', ''abc'']"
    then have "i = 0 \<or> i = 1 \<or> i = 2" by auto
    then show "[''login'', ''--Token'', ''abc''] ! i = [''login'', ''--Token'', ''xyz''] ! i \<or>
        0 < i \<and> sensitive_flag ([''login'', ''--Token'', ''abc''] ! (i - 1)) \<and>
        \<not> sensitive_flag ([''login'', ''--Token'', ''abc''] ! i) \<and>
        \<not> sensitive_flag ([''login'', ''--Token'', ''xyz''] ! i)"
      by (elim disjE) (simp_all only: nth_Cons_0 nth_Cons_Suc One_nat_def numeral_2_eq_2 diff_Suc_Suc diff_zero
          example_flags simp_thms zero_less_Suc)
  qed simp
  then show ?thesis by (rule conjunct1)
qed

end
