(* ===== verification/Container_Dns.thy ===== *)
theory Container_Dns
  imports Agent_Io Guest_Network Shell_Quote Config_Urls
begin

text \<open>
  \<open>src/jobs/runners/container/dns.rs\<close>: the resolvers a container gets, from the environment or
  from the host's \<open>resolv.conf\<close>, and the command that writes them in the guest.
\<close>

section \<open>Addresses\<close>

text \<open>
  \<open>IpAddr::from_str\<close>: an IPv4 address, or eight groups of at most four hexadecimal digits with
  one \<open>::\<close> for a run of zero groups and possibly an IPv4 address at the end.
\<close>

definition hex_value :: "char \<Rightarrow> nat" where
  "hex_value c = (if is_ascii_digit c then of_char c - 48 else of_char (char_to_ascii_lowercase c) - 87)"

definition read_group :: "string \<Rightarrow> (u16 \<times> string) option" where
  "read_group p =
     (let ds = takeWhile is_ascii_hexdigit p
      in if ds = [] \<or> 4 < length ds then None
         else Some (of_nat (foldl (\<lambda>n c. n * 16 + hex_value c) 0 ds), dropWhile is_ascii_hexdigit p))"

definition read_octet :: "string \<Rightarrow> (u8 \<times> string) option" where
  "read_octet p =
     (let ds = takeWhile is_ascii_digit p
      in map_option (\<lambda>v. (v, dropWhile is_ascii_digit p)) (parse_octet ds))"

definition after_char :: "char \<Rightarrow> string \<Rightarrow> string option" where
  "after_char c p = (case p of [] \<Rightarrow> None | d # q \<Rightarrow> if d = c then Some q else None)"

definition read_ipv4 :: "string \<Rightarrow> (ipv4 \<times> string) option" where
  "read_ipv4 p =
     Option.bind (read_octet p) (\<lambda>(a, p).
     Option.bind (Option.bind (after_char CHR ''.'' p) read_octet) (\<lambda>(b, p).
     Option.bind (Option.bind (after_char CHR ''.'' p) read_octet) (\<lambda>(c, p).
     Option.bind (Option.bind (after_char CHR ''.'' p) read_octet) (\<lambda>(d, p).
       Some (Ipv4 a b c d, p)))))"

text \<open>Every piece but the first has a colon in front.\<close>

definition separated :: "bool \<Rightarrow> (string \<Rightarrow> ('a \<times> string) option) \<Rightarrow> string \<Rightarrow> ('a \<times> string) option" where
  "separated first rd p = (if first then rd p else Option.bind (after_char CHR '':'' p) rd)"

definition pair_groups :: "ipv4 \<Rightarrow> u16 list" where
  "pair_groups a = (case a of Ipv4 a b c d \<Rightarrow> [ucast a * 256 + ucast b, ucast c * 256 + ucast d])"

text \<open>\<open>read_groups\<close>: up to \<open>k\<close> groups; an IPv4 address ends them where two are left.\<close>

fun read_groups :: "nat \<Rightarrow> bool \<Rightarrow> string \<Rightarrow> u16 list \<times> bool \<times> string" where
  "read_groups 0 first p = ([], False, p)"
| "read_groups (Suc k) first p =
     (case (if 0 < k then separated first read_ipv4 p else None) of
        Some (v4, p) \<Rightarrow> (pair_groups v4, True, p)
      | None \<Rightarrow>
          (case separated first read_group p of
             None \<Rightarrow> ([], False, p)
           | Some (g, p) \<Rightarrow> (let (gs, v4, p) = read_groups k False p in (g # gs, v4, p))))"

definition parse_ipv6 :: "string \<Rightarrow> u16 list option" where
  "parse_ipv6 s =
     (let (front, v4, p) = read_groups 8 True s
      in if length front = 8 then (if p = [] then Some front else None)
         else if v4 then None
         else case Option.bind (after_char CHR '':'' p) (after_char CHR '':'') of
             None \<Rightarrow> None
           | Some q \<Rightarrow>
               (let (back, _, r) = read_groups (7 - length front) True q
                in if r = [] then Some (front @ replicate (8 - length front - length back) 0 @ back) else None))"

text \<open>\<open>is_loopback\<close> and \<open>is_unspecified\<close> of both families.\<close>

definition is_loopback_or_unspecified_address :: "string \<Rightarrow> bool" where
  "is_loopback_or_unspecified_address value =
     (case parse_ipv4 value of
        Some a \<Rightarrow> hd (octets a) = 127 \<or> a = Ipv4 0 0 0 0
      | None \<Rightarrow>
          (case parse_ipv6 value of
             Some gs \<Rightarrow> gs = replicate 7 0 @ [1] \<or> gs = replicate 8 0
           | None \<Rightarrow> False))"

section \<open>Resolvers\<close>

definition dedupe_nameservers :: "string list \<Rightarrow> string list" where
  "dedupe_nameservers ns = fold (\<lambda>n acc. if n \<in> set acc then acc else acc @ [n]) ns []"

definition parse_configured_nameservers :: "string \<Rightarrow> string list" where
  "parse_configured_nameservers value =
     dedupe_nameservers (filter (\<lambda>v. v \<noteq> []) (map trim (split_on (\<lambda>c. c = CHR '','') value)))"

text \<open>One line: the text before a comment, trimmed, after \<open>nameserver\<close>, its first word.\<close>

definition resolv_conf_nameserver :: "string \<Rightarrow> string option" where
  "resolv_conf_nameserver line =
     Option.bind (strip_prefix ''nameserver'' (trim (hd (split_on (\<lambda>c. c = CHR ''#'') line)))) (\<lambda>value.
     case split_whitespace value of [] \<Rightarrow> None | w # _ \<Rightarrow> Some w)"

definition parse_resolv_conf_nameservers :: "string \<Rightarrow> string list" where
  "parse_resolv_conf_nameservers contents =
     dedupe_nameservers (filter (\<lambda>v. \<not> is_loopback_or_unspecified_address v)
       (List.map_filter resolv_conf_nameserver (lines contents)))"

record ContainerDnsConfig =
  dns_nameservers :: "string list"
  dns_include_default_gateway :: bool

definition display_nameservers :: "ContainerDnsConfig \<Rightarrow> string" where
  "display_nameservers c =
     join '', '' ((if dns_include_default_gateway c then [''guest default gateway''] else []) @ dns_nameservers c)"

definition resolv_conf_paths :: "string list" where
  "resolv_conf_paths = [''/run/systemd/resolve/resolv.conf'', ''/etc/resolv.conf'']"

text \<open>The loop over the files: an unreadable one is skipped, the first with a resolver is taken.\<close>

fun host_nameservers :: "(string \<Rightarrow> string result) \<Rightarrow> string list \<Rightarrow> string list" where
  "host_nameservers read [] = []"
| "host_nameservers read (path # paths) =
     (case read path of
        Inl _ \<Rightarrow> host_nameservers read paths
      | Inr contents \<Rightarrow>
          (let ns = parse_resolv_conf_nameservers contents
           in if ns \<noteq> [] then dedupe_nameservers ns else host_nameservers read paths))"

definition container_dns_config :: "env \<Rightarrow> (string \<Rightarrow> string result) \<Rightarrow> ContainerDnsConfig" where
  "container_dns_config env read =
     (let configured = (case env ''STATIX_CONTAINER_DNS'' of
            None \<Rightarrow> [] | Some value \<Rightarrow> parse_configured_nameservers value)
      in if configured \<noteq> [] then \<lparr>dns_nameservers = configured, dns_include_default_gateway = False\<rparr>
         else \<lparr>dns_nameservers = host_nameservers read resolv_conf_paths, dns_include_default_gateway = True\<rparr>)"

section \<open>The guest's file\<close>

definition dns_header :: string where
  "dns_header = ''# Generated by statix-agent for job container DNS''"

definition resolv_conf_lines :: "ContainerDnsConfig \<Rightarrow> string list" where
  "resolv_conf_lines c =
     [dns_header] @ map (\<lambda>n. ''nameserver '' @ n) (dns_nameservers c) @ [''options timeout:2 attempts:2'']"

definition write_resolv_conf :: "string list \<Rightarrow> string" where
  "write_resolv_conf ls =
     ''printf '' @ [squote] @ ''%s'' @ [CHR 0x5C] @ ''n'' @ [squote] @ '' '' @ shell_join ls @ '' > /etc/resolv.conf''"

definition guest_resolv_conf_command :: "ContainerDnsConfig \<Rightarrow> string" where
  "guest_resolv_conf_command c =
     (if \<not> dns_include_default_gateway c then ''rm -f /etc/resolv.conf && '' @ write_resolv_conf (resolv_conf_lines c)
      else ''gateway=$(ip -4 route show default 2>/dev/null | awk '' @ [squote] @ ''{print $3; exit}'' @ [squote] @
        ''); rm -f /etc/resolv.conf && { printf '' @ [squote] @ ''%s'' @ [CHR 0x5C] @ ''n'' @ [squote] @ '' '' @
        [squote] @ ''# Generated by statix-agent for job container DNS'' @ [squote] @
        ''; if [ -n \"$gateway\" ]; then printf '' @ [squote] @ ''%s'' @ [CHR 0x5C] @ ''n'' @ [squote] @
        '' \"nameserver $gateway\"; fi; printf '' @ [squote] @ ''%s'' @ [CHR 0x5C] @ ''n'' @ [squote] @ '' '' @
        shell_join (tl (resolv_conf_lines c)) @ ''; } > /etc/resolv.conf'')"

section \<open>Facts\<close>

lemma dedupe_fold:
  "distinct acc \<Longrightarrow>
     distinct (fold (\<lambda>n acc. if n \<in> set acc then acc else acc @ [n]) ns acc) \<and>
     set (fold (\<lambda>n acc. if n \<in> set acc then acc else acc @ [n]) ns acc) = set acc \<union> set ns"
  by (induction ns arbitrary: acc) auto

lemma dedupe_distinct: "distinct (dedupe_nameservers ns)"
  and dedupe_set: "set (dedupe_nameservers ns) = set ns"
  using dedupe_fold[of "[]" ns] by (simp_all add: dedupe_nameservers_def)

lemma dedupe_id: "distinct ns \<Longrightarrow> dedupe_nameservers ns = ns"
proof -
  have "distinct (acc @ ns) \<Longrightarrow> fold (\<lambda>n acc. if n \<in> set acc then acc else acc @ [n]) ns acc = acc @ ns" for acc
    by (induction ns arbitrary: acc) auto
  from this[of "[]"] show "distinct ns \<Longrightarrow> dedupe_nameservers ns = ns" by (simp add: dedupe_nameservers_def)
qed

lemma resolv_conf_nameserver_word:
  assumes "resolv_conf_nameserver line = Some w"
  shows "w \<noteq> [] \<and> (\<forall>c \<in> set w. \<not> is_whitespace c)"
proof -
  obtain v where "w \<in> set (split_whitespace v)"
    using assms unfolding resolv_conf_nameserver_def bind_eq_Some_conv
    by (metis (no_types, lifting) list.case_eq_if list.set_sel(1) option.distinct(1) option.inject)
  then show ?thesis by (rule split_whitespace_word)
qed

lemma parse_resolv_conf_ok:
  assumes "n \<in> set (parse_resolv_conf_nameservers contents)"
  shows "n \<noteq> [] \<and> (\<forall>c \<in> set n. \<not> is_whitespace c) \<and> \<not> is_loopback_or_unspecified_address n"
  using assms resolv_conf_nameserver_word
  by (auto simp: parse_resolv_conf_nameservers_def dedupe_set List.map_filter_def)

lemma host_nameservers_cases:
  "host_nameservers read paths = [] \<or>
   (\<exists>path contents. path \<in> set paths \<and> read path = Inr contents \<and>
      host_nameservers read paths = parse_resolv_conf_nameservers contents)"
proof (induction paths)
  case (Cons path paths)
  show ?case
  proof (cases "read path")
    case (Inl e)
    with Cons show ?thesis by auto
  next
    case (Inr contents)
    have "dedupe_nameservers (parse_resolv_conf_nameservers contents) = parse_resolv_conf_nameservers contents"
      by (rule dedupe_id) (simp add: parse_resolv_conf_nameservers_def dedupe_distinct)
    with Cons Inr show ?thesis by (auto simp: Let_def)
  qed
qed simp

text \<open>
  Addresses by their value: an IPv4 address outside \<open>127.0.0.0/8\<close> that is not \<open>0.0.0.0\<close>, an IPv6 address that
  is neither 0 nor 1 (\<open>::\<close> and \<open>::1\<close>); a text that is no address is a name, which says nothing of its address.
\<close>

definition ipv6_value :: "u16 list \<Rightarrow> nat" where
  "ipv6_value gs = foldl (\<lambda>n g. n * 65536 + unat g) 0 gs"

definition outside_guest :: "string \<Rightarrow> bool" where
  "outside_guest n \<longleftrightarrow>
     (case parse_ipv4 n of
        Some a \<Rightarrow> ipv4_value a div 2 ^ 24 \<noteq> 127 \<and> ipv4_value a \<noteq> 0
      | None \<Rightarrow> (case parse_ipv6 n of Some gs \<Rightarrow> ipv6_value gs \<noteq> 0 \<and> ipv6_value gs \<noteq> 1 | None \<Rightarrow> True))"

lemma read_groups_length: "length (fst (read_groups k first p)) \<le> k"
proof (induction k arbitrary: first p)
  case (Suc k)
  show ?case
    using Suc[of False]
    by (auto simp: pair_groups_def split_beta split: option.split ipv4.split if_splits)
qed simp

lemma parse_ipv6_length:
  assumes "parse_ipv6 s = Some gs"
  shows "length gs = 8"
proof -
  obtain front v4 p where front: "read_groups 8 True s = (front, v4, p)" by (cases "read_groups 8 True s")
  show ?thesis
  proof (cases "length front = 8")
    case True
    with assms front show ?thesis by (simp add: parse_ipv6_def split: if_splits)
  next
    case False
    then have short: "length front < 8" using read_groups_length[of 8 True s] front by simp
    obtain q where q: "Option.bind (after_char CHR '':'' p) (after_char CHR '':'') = Some q" "\<not> v4"
      using assms front False by (auto simp: parse_ipv6_def split: if_splits option.splits)
    obtain tail v r where tail: "read_groups (7 - length front) True q = (tail, v, r)"
      by (cases "read_groups (7 - length front) True q")
    have "length tail \<le> 7 - length front" using read_groups_length[of "7 - length front" True q] tail by simp
    moreover have "gs = front @ replicate (8 - length front - length tail) 0 @ tail"
      using assms front False q tail by (simp add: parse_ipv6_def split: if_splits)
    ultimately show ?thesis using short by simp
  qed
qed

lemma ipv6_value_snoc: "ipv6_value (gs @ [g]) = ipv6_value gs * 65536 + unat g"
  by (simp add: ipv6_value_def)

lemma ipv6_value_0: "ipv6_value gs = 0 \<Longrightarrow> gs = replicate (length gs) 0"
proof (induction gs rule: rev_induct)
  case (snoc g gs)
  then have "ipv6_value gs = 0" "unat g = 0" by (simp_all add: ipv6_value_snoc)
  with snoc.IH have "gs = replicate (length gs) 0" "g = 0" by (simp_all add: unsigned_eq_0_iff del: neq0_conv)
  then show ?case by (metis length_append_singleton replicate_append_same replicate_Suc)
qed simp

lemma ipv6_value_1:
  assumes "ipv6_value gs = 1"
  shows "gs = replicate (length gs - 1) 0 @ [1]"
proof (cases gs rule: rev_cases)
  case Nil
  with assms show ?thesis by (simp add: ipv6_value_def)
next
  case (snoc hs g)
  with assms have v: "ipv6_value hs * 65536 + unat g = 1" by (simp add: ipv6_value_snoc)
  have zero: "ipv6_value hs = 0"
  proof (rule ccontr)
    assume "ipv6_value hs \<noteq> 0"
    then have "1 * 65536 \<le> ipv6_value hs * 65536" by (intro mult_le_mono1) simp
    with v show False by linarith
  qed
  with v have "unat g = 1" by simp
  then have "g = 1" by (metis unsigned_1 word_unat_eq_iff)
  moreover have "replicate (length hs) 0 = hs" by (rule ipv6_value_0[OF zero, symmetric])
  ultimately show ?thesis by (simp add: snoc)
qed

lemma not_local_outside:
  assumes "\<not> is_loopback_or_unspecified_address n"
  shows "outside_guest n"
proof (cases "parse_ipv4 n")
  case (Some a)
  obtain b c d e where a: "a = Ipv4 b c d e" by (cases a)
  have "unat b < 256" "unat c < 256" "unat d < 256" "unat e < 256" by (rule unat_u8_less)+
  then have "ipv4_value a div 2 ^ 24 = unat b" by (simp add: a)
  moreover have "b \<noteq> 127" using assms Some by (auto simp: is_loopback_or_unspecified_address_def a)
  then have "unat b \<noteq> unat (127 :: u8)" by (metis word_unat_eq_iff)
  then have "unat b \<noteq> 127" by simp
  moreover have "ipv4_value a \<noteq> 0"
    using assms Some by (auto simp: is_loopback_or_unspecified_address_def a unsigned_eq_0_iff)
  ultimately show ?thesis by (simp add: outside_guest_def Some)
next
  case None
  show ?thesis
  proof (cases "parse_ipv6 n")
    case (Some gs)
    with None assms have "gs \<noteq> replicate 7 0 @ [1]" "gs \<noteq> replicate 8 0"
      by (simp_all add: is_loopback_or_unspecified_address_def)
    with ipv6_value_0[of gs] ipv6_value_1[of gs] parse_ipv6_length[OF Some]
    have "ipv6_value gs \<noteq> 0" "ipv6_value gs \<noteq> 1" by auto
    with None Some show ?thesis by (simp add: outside_guest_def)
  qed (simp add: outside_guest_def None)
qed

lemma host_nameservers_ok:
  "distinct (host_nameservers read paths) \<and>
   list_all (\<lambda>n. n \<noteq> [] \<and> list_all (\<lambda>c. \<not> is_whitespace c) n \<and> outside_guest n) (host_nameservers read paths)"
proof -
  have "distinct (parse_resolv_conf_nameservers contents)" for contents
    unfolding parse_resolv_conf_nameservers_def by (rule dedupe_distinct)
  moreover have "list_all (\<lambda>n. n \<noteq> [] \<and> list_all (\<lambda>c. \<not> is_whitespace c) n \<and> outside_guest n)
      (parse_resolv_conf_nameservers contents)" for contents
    using parse_resolv_conf_ok not_local_outside unfolding list_all_iff by blast
  ultimately show ?thesis using host_nameservers_cases[of read paths] by auto
qed

text \<open>
  C32: the resolvers a container gets are pairwise distinct. Unless the operator configured some, the
  guest's gateway is asked first, and each resolver is a non-empty word that is no IPv4 address of
  \<open>127.0.0.0/8\<close>, not \<open>0.0.0.0\<close>, and neither of the IPv6 addresses \<open>::1\<close> and \<open>::\<close>, by its value and however it
  is written. What the operator configured is taken as it is: non-empty texts without outer white
  space, not checked further.
\<close>

theorem container_dns_reachable:
  "distinct (dns_nameservers (container_dns_config env read)) \<and>
   (dns_include_default_gateway (container_dns_config env read) =
      (case env ''STATIX_CONTAINER_DNS'' of None \<Rightarrow> True | Some v \<Rightarrow> parse_configured_nameservers v = [])) \<and>
   (if dns_include_default_gateway (container_dns_config env read)
    then list_all (\<lambda>n. n \<noteq> [] \<and> list_all (\<lambda>c. \<not> is_whitespace c) n \<and> outside_guest n)
      (dns_nameservers (container_dns_config env read))
    else dns_nameservers (container_dns_config env read) \<noteq> [] \<and>
      list_all (\<lambda>n. n \<noteq> [] \<and> trim n = n) (dns_nameservers (container_dns_config env read)))"
proof -
  have d: "distinct (parse_configured_nameservers v) \<and>
      list_all (\<lambda>n. n \<noteq> [] \<and> trim n = n) (parse_configured_nameservers v)" for v
    by (auto simp: parse_configured_nameservers_def dedupe_distinct dedupe_set list_all_iff)
  show ?thesis
  proof (cases "case env ''STATIX_CONTAINER_DNS'' of None \<Rightarrow> True | Some v \<Rightarrow> parse_configured_nameservers v = []")
    case True
    then have "container_dns_config env read =
        \<lparr>dns_nameservers = host_nameservers read resolv_conf_paths, dns_include_default_gateway = True\<rparr>"
      unfolding container_dns_config_def Let_def by (cases "env ''STATIX_CONTAINER_DNS''") simp_all
    with True host_nameservers_ok[of read resolv_conf_paths] show ?thesis by simp
  next
    case False
    then obtain v where v: "env ''STATIX_CONTAINER_DNS'' = Some v" "parse_configured_nameservers v \<noteq> []"
      by (cases "env ''STATIX_CONTAINER_DNS''") simp_all
    then have "container_dns_config env read =
        \<lparr>dns_nameservers = parse_configured_nameservers v, dns_include_default_gateway = False\<rparr>"
      unfolding container_dns_config_def Let_def by simp
    with v d show ?thesis by simp
  qed
qed

text \<open>
  The line match is a bare prefix test: a keyword that only starts with \<open>nameserver\<close> is taken for
  it, and the rest of the keyword for the resolver.
\<close>

lemma nameserver_prefix_only: "resolv_conf_nameserver ''nameservers 10.0.0.1'' = Some ''s''"
  by code_simp

end
