(* ===== verification/Container_Diagnostics.thy ===== *)
theory Container_Diagnostics
  imports Agent_Io
begin

text \<open>
  \<open>src/jobs/runners/container/diagnostics.rs\<close>: the messages the container runner makes of a
  program's output, of LXC's log file and of the host's mounts. Outputs are the texts that
  \<open>String::from_utf8_lossy\<close> gives.
\<close>

definition summarize_raw_command_output :: "string \<Rightarrow> string \<Rightarrow> string" where
  "summarize_raw_command_output stdout stderr =
     (let stdout = trim stdout; stderr = trim stderr
      in if stdout = [] \<and> stderr = [] then ''no output''
         else if stderr = [] then ''stdout:'' @ [newline] @ stdout
         else if stdout = [] then ''stderr:'' @ [newline] @ stderr
         else ''stdout:'' @ [newline] @ stdout @ [newline, newline] @ ''stderr:'' @ [newline] @ stderr)"

definition tail_for_log :: "string \<Rightarrow> nat \<Rightarrow> string" where
  "tail_for_log value max_chars =
     (if length value \<le> max_chars then value else ''...'' @ rev (take max_chars (rev value)))"

text \<open>The outcome of reading the file, and its path; an error shows its outermost message.\<close>

definition lxc_log_excerpt :: "string result \<Rightarrow> string \<Rightarrow> string" where
  "lxc_log_excerpt contents path =
     (case contents of
        Inr log \<Rightarrow>
          (let log = trim log
           in if log = [] then ''lxc log '' @ path @ '' was empty'' else tail_for_log log 4000)
      | Inl e \<Rightarrow> ''failed to read lxc log '' @ path @ '': '' @ hd e)"

definition nics_hint :: string where
  "nics_hint = [newline] @ ''Hint: lxc-user-nic needs write access to /run/lxc/nics to serialize unprivileged veth '' @
     ''allocation. If statix-agent is running under systemd with ProtectSystem=strict, add '' @
     ''ReadWritePaths=/run/lxc and restart the service.''"

definition rootfs_hint :: string where
  "rootfs_hint = [newline] @ ''Hint: LXC needs write access to its package rootfs mountpoint under '' @
     ''/usr/lib/*/lxc/rootfs. If statix-agent is running under systemd with ProtectSystem=strict, add '' @
     ''ReadWritePaths for the distro multiarch LXC rootfs path and restart the service.''"

definition noatime_hint :: string where
  "noatime_hint = '' The statix-agent process also sees /proc mounted with noatime; unprivileged LXC can '' @
     ''fail to mount proc from that parent mount. Remount /proc with relatime and make the matching '' @
     ''/etc/fstab change persistent.''"

definition tunables_hint :: string where
  "tunables_hint = '' If ReadWritePaths is already applied, check whether systemd ProtectKernelTunables is '' @
     ''enabled for statix-agent; it can make proc/sys paths read-only in the service mount namespace and '' @
     ''block LXC'' @ [CHR 0x27] @ ''s procfs mount. Also check the host /proc mount options''"

definition findmnt_hint :: string where
  "findmnt_hint = '' with `findmnt -no OPTIONS /proc`''"

definition relatime_hint :: string where
  "relatime_hint = ''; unprivileged LXC can fail when /proc is mounted with noatime instead of relatime.''"

definition lxc_start_failure_message_with_host_context :: "string \<Rightarrow> bool option \<Rightarrow> string" where
  "lxc_start_failure_message_with_host_context log_excerpt proc_uses_noatime =
     (if contains log_excerpt ''Failed to mount \"proc\"'' \<and> contains log_excerpt ''/usr/lib/'' \<and>
         contains log_excerpt ''/lxc/rootfs/proc'' \<and> contains log_excerpt ''Operation not permitted''
      then log_excerpt @ rootfs_hint @
        (case proc_uses_noatime of
           Some True \<Rightarrow> noatime_hint
         | Some False \<Rightarrow> tunables_hint @ findmnt_hint @ relatime_hint
         | None \<Rightarrow> tunables_hint @ relatime_hint)
      else log_excerpt)"

text \<open>\<open>proc_mount_uses_noatime\<close>: the fields of a line of \<open>/proc/self/mountinfo\<close>, counted from zero.\<close>

fun mountinfo_scan :: "bool \<Rightarrow> string list \<Rightarrow> bool option" where
  "mountinfo_scan found [] = (if found then Some False else None)"
| "mountinfo_scan found (line # ls) =
     (let fields = split_whitespace line
      in if 4 < length fields \<and> fields ! 4 = ''/proc''
         then if 5 < length fields \<and> ''noatime'' \<in> set (split_on (\<lambda>c. c = CHR '','') (fields ! 5))
              then Some True else mountinfo_scan True ls
         else mountinfo_scan found ls)"

definition proc_mount_uses_noatime :: "string result \<Rightarrow> bool option" where
  "proc_mount_uses_noatime mountinfo =
     (case mountinfo of Inl _ \<Rightarrow> None | Inr text \<Rightarrow> mountinfo_scan False (Rust_Search.lines text))"

definition lxc_start_failure_message :: "string result \<Rightarrow> string \<Rightarrow> string" where
  "lxc_start_failure_message mountinfo log_excerpt =
     (if contains log_excerpt ''lxc-user-nic failed to configure requested network'' \<and>
         contains log_excerpt ''Read-only file system'' \<and> contains log_excerpt ''/run/lxc/nics''
      then log_excerpt @ nics_hint
      else lxc_start_failure_message_with_host_context log_excerpt (proc_mount_uses_noatime mountinfo))"

definition missing_dependency_message :: "string \<Rightarrow> string \<Rightarrow> string" where
  "missing_dependency_message program debian_package =
     ''failed to launch '' @ program @ ''; install the '' @ [CHR 0x27] @ debian_package @ [CHR 0x27] @
     '' package and ensure '' @ program @ '' is on PATH''"

section \<open>Facts\<close>

lemma tail_for_log_suffix:
  "length (tail_for_log v n) \<le> n + 3 \<and> suffix (drop (length v - n) v) (tail_for_log v n)"
  by (simp add: tail_for_log_def take_rev suffix_def)

text \<open>The message always starts with what LXC said; hints only follow it.\<close>

lemma lxc_start_failure_message_prefix: "prefix log (lxc_start_failure_message mountinfo log)"
  by (auto simp: lxc_start_failure_message_def lxc_start_failure_message_with_host_context_def
      split: option.split bool.split)

lemma mountinfo_scan_True:
  "mountinfo_scan found ls = Some True \<longleftrightarrow>
     (\<exists>l \<in> set ls. let fields = split_whitespace l in
        5 < length fields \<and> fields ! 4 = ''/proc'' \<and>
        ''noatime'' \<in> set (split_on (\<lambda>c. c = CHR '','') (fields ! 5)))"
  by (induction ls arbitrary: found) (auto simp: Let_def)

end
