(* ===== verification/Runtime_Names.thy ===== *)
theory Runtime_Names
  imports Rust_Num
begin

text \<open>
  Names the agent derives from identifiers it is given: the LXC container's name
  (\<open>container/shell.rs\<close>), the image reference (\<open>container/image.rs\<close>), the project VM's key,
  path segment and SSH port (\<open>microvm.rs\<close>).
\<close>

section \<open>Container names\<close>

definition container_char :: "char \<Rightarrow> char" where
  "container_char c =
     (if is_ascii_alphanumeric c \<or> c = CHR ''-'' then char_to_ascii_lowercase c else CHR ''-'')"

definition truncate_for_name :: "string \<Rightarrow> nat \<Rightarrow> string" where
  "truncate_for_name value max_chars = take max_chars value"

definition truncate_for_log :: "string \<Rightarrow> nat \<Rightarrow> string" where
  "truncate_for_log value max_chars =
     (if length value \<le> max_chars then value else take max_chars value @ ''...'')"

lemma truncate_for_log_length: "length (truncate_for_log value n) \<le> n + 3"
  by (auto simp: truncate_for_log_def)

definition container_name :: "string \<Rightarrow> string" where
  "container_name attempt_id =
     (let suffix = trim_matches (\<lambda>c. c = CHR ''-'') (map container_char attempt_id);
          suffix = (if suffix = [] then ''job'' else suffix)
      in ''statix-'' @ truncate_for_name suffix 56)"

definition container_name_char :: "char \<Rightarrow> bool" where
  "container_name_char c \<longleftrightarrow> is_ascii_lowercase c \<or> is_ascii_digit c \<or> c = CHR ''-''"

lemma container_char_ok: "container_name_char (container_char c)"
proof (cases "is_ascii_uppercase c")
  case True
  then show ?thesis
    by (simp add: container_char_def container_name_char_def is_ascii_alphanumeric_def
        is_ascii_alphabetic_def lowercase_of_uppercase)
next
  case False
  then show ?thesis
    by (auto simp: container_char_def container_name_char_def is_ascii_alphanumeric_def
        is_ascii_alphabetic_def char_to_ascii_lowercase_def)
qed

lemma container_name_chars: "c \<in> set (container_name attempt_id) \<Longrightarrow> container_name_char c"
proof -
  assume c: "c \<in> set (container_name attempt_id)"
  define t where "t = trim_matches (\<lambda>c. c = CHR ''-'') (map container_char attempt_id)"
  have t: "\<forall>c \<in> set t. container_name_char c"
    unfolding t_def using set_trim_matches[of "\<lambda>c. c = CHR ''-''" "map container_char attempt_id"]
    by (auto simp: container_char_ok)
  from c have "c \<in> set ''statix-job'' \<union> set t"
    by (auto simp: container_name_def Let_def truncate_for_name_def t_def
        dest: in_set_takeD split: if_splits)
  then show ?thesis using t by (auto simp: container_name_char_def char_class_defs)
qed

lemma container_name_length: "7 < length (container_name attempt_id)" "length (container_name attempt_id) \<le> 63"
  by (auto simp: container_name_def Let_def truncate_for_name_def)

lemma container_name_first:
  "\<exists>c rest. container_name attempt_id = ''statix-'' @ c # rest \<and> c \<noteq> CHR ''-''"
proof -
  define t where "t = trim_matches (\<lambda>c. c = CHR ''-'') (map container_char attempt_id)"
  show ?thesis
  proof (cases t)
    case Nil
    then show ?thesis
      by (simp add: container_name_def Let_def truncate_for_name_def flip: t_def)
  next
    case (Cons c cs)
    then have "hd t \<noteq> CHR ''-''"
      using trim_matches_hd[of "\<lambda>c. c = CHR ''-''" "map container_char attempt_id"]
      unfolding t_def by auto
    with Cons show ?thesis
      by (auto simp: container_name_def Let_def truncate_for_name_def simp flip: t_def)
  qed
qed

section \<open>Image references\<close>

record LxcImage =
  distribution :: string
  release :: string

definition normalize_release :: "string \<Rightarrow> string \<Rightarrow> string" where
  "normalize_release distro rel =
     (if (distro, rel) = (''ubuntu'', ''24.04'') then ''noble''
      else if (distro, rel) = (''ubuntu'', ''22.04'') then ''jammy''
      else if (distro, rel) = (''ubuntu'', ''20.04'') then ''focal''
      else rel)"

definition lxc_arch :: "string \<Rightarrow> string" where
  "lxc_arch ARCH =
     (if ARCH = ''x86_64'' then ''amd64'' else if ARCH = ''aarch64'' then ''arm64'' else ARCH)"

definition image_format_error :: string where
  "image_format_error =
     ''container image must use distribution:release format, for example ubuntu:24.04''"

definition LxcImage_parse :: "string \<Rightarrow> LxcImage result" where
  "LxcImage_parse value =
     (let trimmed = trim value in
      if trimmed = [] then bail ''container image must not be empty''
      else case split_once '':'' trimmed of
          None \<Rightarrow> bail image_format_error
        | Some (d, r) \<Rightarrow>
            (let d = trim d; r = trim r in
             if d = [] \<or> r = [] then bail image_format_error
             else Inr \<lparr>distribution = d, release = normalize_release d r\<rparr>))"

lemma normalize_release_neq_Nil: "r \<noteq> [] \<Longrightarrow> normalize_release d r \<noteq> []"
  by (simp add: normalize_release_def)

text \<open>What an accepted reference looks like: exactly the texts \<open>d:r\<close> with two non-blank parts.\<close>

lemma LxcImage_parse_Inr:
  "LxcImage_parse value = Inr img \<longleftrightarrow>
     (\<exists>d r. split_once '':'' (trim value) = Some (d, r) \<and> trim d \<noteq> [] \<and> trim r \<noteq> [] \<and>
        img = \<lparr>distribution = trim d, release = normalize_release (trim d) (trim r)\<rparr>)"
  by (auto simp: LxcImage_parse_def Let_def split: option.splits if_splits)

section \<open>Path segments and keys of project VMs\<close>

definition segment_char :: "char \<Rightarrow> char" where
  "segment_char ch =
     (if is_ascii_alphanumeric ch \<or> ch = CHR ''-'' \<or> ch = CHR ''_'' then ch else CHR ''-'')"

text \<open>The loop \<open>while out.contains("--")\<close>: every round makes the text shorter.\<close>

function collapse_dashes :: "string \<Rightarrow> string" where
  "collapse_dashes out =
     (if contains out ''--'' then collapse_dashes (replace_str ''--'' ''-'' out) else out)"
  by pat_completeness auto
termination
  by (relation "measure length") (simp_all add: replace_str_length(2))

declare collapse_dashes.simps [simp del]

definition safe_path_segment :: "string \<Rightarrow> string" where
  "safe_path_segment value =
     (let out = trim_matches (\<lambda>c. c = CHR ''-'') (collapse_dashes (map segment_char value))
      in if out = [] then ''default'' else out)"

lemma collapse_dashes_no_double: "\<not> contains (collapse_dashes s) ''--''"
proof (induction s rule: collapse_dashes.induct)
  case (1 s)
  then show ?case by (cases "contains s ''--''") (simp_all add: collapse_dashes.simps[of s])
qed

lemma collapse_dashes_set: "set (collapse_dashes s) \<subseteq> set s \<union> {CHR ''-''}"
proof (induction s rule: collapse_dashes.induct)
  case (1 s)
  show ?case
  proof (cases "contains s ''--''")
    case True
    with 1 have "set (collapse_dashes (replace_str ''--'' ''-'' s)) \<subseteq>
        set (replace_str ''--'' ''-'' s) \<union> {CHR ''-''}" by simp
    with True replace_str_set[of "''--''" "''-''" s] show ?thesis
      by (auto simp: collapse_dashes.simps[of s])
  next
    case False
    then show ?thesis by (auto simp: collapse_dashes.simps[of s])
  qed
qed

definition segment_ok :: "char \<Rightarrow> bool" where
  "segment_ok c \<longleftrightarrow> is_ascii_alphanumeric c \<or> c = CHR ''-'' \<or> c = CHR ''_''"

lemma contains_trim_matches: "contains (trim_matches P s) pat \<Longrightarrow> contains s pat"
proof -
  assume "contains (trim_matches P s) pat"
  then have "sublist pat (trim_matches P s)" by (simp add: contains_iff_sublist)
  also have "prefix (trim_matches P s) (dropWhile P s)"
    unfolding trim_matches_def trim_start_matches_def by (rule trim_end_matches_prefix)
  then have "sublist (trim_matches P s) (dropWhile P s)" by (rule prefix_imp_sublist)
  also have "suffix (dropWhile P s) s" by (rule suffix_dropWhile)
  then have "sublist (dropWhile P s) s" by (rule suffix_imp_sublist)
  finally show ?thesis by (simp add: contains_iff_sublist)
qed

lemma safe_path_segment_spec:
  "safe_path_segment value \<noteq> []"
  "\<forall>c \<in> set (safe_path_segment value). segment_ok c"
  "\<not> contains (safe_path_segment value) ''--''"
  "hd (safe_path_segment value) \<noteq> CHR ''-''"
  "last (safe_path_segment value) \<noteq> CHR ''-''"
proof -
  define dash where "dash = (\<lambda>c. c = CHR ''-'')"
  define out where "out = trim_matches dash (collapse_dashes (map segment_char value))"
  have eq: "safe_path_segment value = (if out = [] then ''default'' else out)"
    by (simp add: safe_path_segment_def Let_def out_def dash_def)
  have "set out \<subseteq> set (map segment_char value) \<union> {CHR ''-''}"
    unfolding out_def using set_trim_matches collapse_dashes_set by blast
  then have ok: "\<forall>c \<in> set out. segment_ok c"
    by (auto simp: segment_ok_def segment_char_def)
  have dd: "\<not> contains out ''--''"
    unfolding out_def using contains_trim_matches collapse_dashes_no_double by blast
  show "safe_path_segment value \<noteq> []" by (simp add: eq)
  show "\<forall>c \<in> set (safe_path_segment value). segment_ok c"
    using ok by (auto simp: eq segment_ok_def char_class_defs)
  show "\<not> contains (safe_path_segment value) ''--''"
    using dd by (simp add: eq contains_def)
  show "hd (safe_path_segment value) \<noteq> CHR ''-''"
    using trim_matches_hd[of dash "collapse_dashes (map segment_char value)"]
    by (auto simp: eq out_def dash_def)
  show "last (safe_path_segment value) \<noteq> CHR ''-''"
    using trim_matches_last[of dash "collapse_dashes (map segment_char value)"]
    by (auto simp: eq out_def dash_def)
qed

text \<open>
  SHA-256 and its hexadecimal text come from the crates \<open>sha2\<close> and \<open>hex\<close>: parameters here,
  the first with the digest's bytes.
\<close>

definition image_cache_key :: "(u8 list \<Rightarrow> u8 list) \<Rightarrow> (u8 list \<Rightarrow> string) \<Rightarrow> string \<Rightarrow> string" where
  "image_cache_key sha256 hex url = hex (sha256 (utf8_bytes url))"

definition project_vm_key ::
  "(u8 list \<Rightarrow> u8 list) \<Rightarrow> (u8 list \<Rightarrow> string) \<Rightarrow> string \<Rightarrow> string \<Rightarrow> string" where
  "project_vm_key sha256 hex project_id environment =
     safe_path_segment project_id @ ''-'' @ safe_path_segment environment @ ''-'' @
     take 12 (image_cache_key sha256 hex (project_id @ '':'' @ environment))"

definition project_vm_ssh_port :: "(u8 list \<Rightarrow> u8 list) \<Rightarrow> string \<Rightarrow> u16" where
  "project_vm_ssh_port sha256 vm_key =
     (let digest = sha256 (utf8_bytes vm_key);
          value = ucast (digest ! 0) * 256 + ucast (digest ! 1)
      in 22200 + value mod 1000)"

text \<open>The sum stays below 2^16, so the port is computed without overflow.\<close>

lemma project_vm_ssh_port_range:
  "22200 \<le> unat (project_vm_ssh_port sha256 vm_key)" "unat (project_vm_ssh_port sha256 vm_key) < 23200"
proof -
  define v :: u16 where
    "v = ucast (sha256 (utf8_bytes vm_key) ! 0) * 256 + ucast (sha256 (utf8_bytes vm_key) ! 1)"
  have "unat (v mod 1000) < 1000" by (simp add: unat_mod)
  then have "unat (22200 + v mod 1000) = 22200 + unat (v mod 1000)"
    by (simp add: unat_word_ariths)
  with \<open>unat (v mod 1000) < 1000\<close>
  show "22200 \<le> unat (project_vm_ssh_port sha256 vm_key)" "unat (project_vm_ssh_port sha256 vm_key) < 23200"
    unfolding project_vm_ssh_port_def Let_def v_def by simp_all
qed

section \<open>Properties\<close>

text \<open>
  Every container name the agent derives from an attempt id is a valid LXC name and DNS
  label: \<open>statix-\<close> followed by a character other than a dash, at most 63 characters, only lower
  case letters, digits and dashes.
\<close>

theorem container_name_valid:
  "(\<exists>c rest. container_name attempt_id = ''statix-'' @ c # rest \<and> c \<noteq> CHR ''-'') \<and>
   length (container_name attempt_id) \<le> 63 \<and>
   list_all container_name_char (container_name attempt_id)"
  using container_name_first container_name_length(2) container_name_chars
  by (simp add: list_all_iff)

text \<open>
  \<open>safe_path_segment\<close> yields a path segment that cannot leave its directory: it is not
  empty, has only letters, digits, dashes and underscores (so no \<open>/\<close> and no \<open>.\<close>), no two
  dashes in a row and no dash at either end.
\<close>

theorem safe_path_segment_valid:
  "safe_path_segment s \<noteq> [] \<and>
   list_all (\<lambda>c. is_ascii_alphanumeric c \<or> c = CHR ''-'' \<or> c = CHR ''_'') (safe_path_segment s) \<and>
   \<not> contains (safe_path_segment s) ''--'' \<and>
   hd (safe_path_segment s) \<noteq> CHR ''-'' \<and> last (safe_path_segment s) \<noteq> CHR ''-''"
  using safe_path_segment_spec[of s] by (simp add: list_all_iff segment_ok_def)

text \<open>
  The SSH port of a project VM lies in 22200..23199 whatever the digest, computed in 16 bits
  without overflow, and depends on the VM's key only.
\<close>

theorem project_vm_ssh_port_bounds:
  "unat (project_vm_ssh_port sha256 vm_key) \<in> {22200..<23200}"
  using project_vm_ssh_port_range[of sha256 vm_key] by simp

end
