(* ===== verification/Lxc_Command.thy ===== *)
theory Lxc_Command
  imports Container_Dns Container_Diagnostics Runtime_Names Agent_Config
begin

text \<open>
  The command lines, paths and configuration text of \<open>src/jobs/runners/container/lxc.rs\<close>: every
  LXC tool is called through \<open>sudo\<close> and the privilege helper, with the container's name and the
  agent's storage path. \<open>Sys\<close> is what the agent process has around it.
\<close>

record Sys =
  sys_env :: env
  sys_cwd :: "string result"
  sys_arch :: string

section \<open>Paths\<close>

definition lxc_helper_path :: string where
  "lxc_helper_path = ''/usr/local/libexec/statix-agent-lxc''"

definition lxc_env_path :: "env \<Rightarrow> string \<Rightarrow> string option" where
  "lxc_env_path env name = filter_option (\<lambda>v. v \<noteq> []) (map_option trim (env name))"

definition result_ok_option :: "'a result \<Rightarrow> 'a option" where
  "result_ok_option r = (case r of Inl _ \<Rightarrow> None | Inr x \<Rightarrow> Some x)"

definition sys_state_dir :: "Sys \<Rightarrow> string result" where
  "sys_state_dir S = agent_state_dir (sys_env S) (sys_cwd S)"

definition lxc_process_home :: "Sys \<Rightarrow> string option" where
  "lxc_process_home S =
     map_option (\<lambda>p. path_join p ''lxc'')
       (or_else (or_else (lxc_env_path (sys_env S) ''STATIX_AGENT_STATE_DIR'')
          (lxc_env_path (sys_env S) ''STATE_DIRECTORY'')) (result_ok_option (sys_state_dir S)))"

definition lxc_storage_path :: "Sys \<Rightarrow> string" where
  "lxc_storage_path S =
     unwrap_or (map_option (\<lambda>p. path_join p ''containers'') (lxc_process_home S)) ''/var/lib/lxc''"

definition lxc_config_path :: "Sys \<Rightarrow> string \<Rightarrow> string" where
  "lxc_config_path S name = path_join (path_join (lxc_storage_path S) name) ''config''"

definition lxc_log_path :: "Sys \<Rightarrow> string \<Rightarrow> string" where
  "lxc_log_path S name = path_join (path_join (lxc_storage_path S) name) ''statix-lxc.log''"

definition runtime_config_path :: "Sys \<Rightarrow> string \<Rightarrow> string" where
  "runtime_config_path S name = path_join (path_join (lxc_storage_path S) name) ''config''"

definition runtime_log_path :: "Sys \<Rightarrow> string \<Rightarrow> string" where
  "runtime_log_path S name = path_join (path_join (lxc_storage_path S) name) ''statix-runtime.log''"

section \<open>Command lines\<close>

definition lxc_environment :: "Sys \<Rightarrow> (string \<times> string) list" where
  "lxc_environment S =
     (case sys_state_dir S of Inr dir \<Rightarrow> [(''STATIX_AGENT_STATE_DIR'', dir)] | Inl _ \<Rightarrow> []) @
     (case lxc_process_home S of
        Some home \<Rightarrow>
          [(''HOME'', home), (''XDG_CACHE_HOME'', path_join home ''.cache''),
           (''XDG_CONFIG_HOME'', path_join home ''.config''),
           (''XDG_DATA_HOME'', path_join (path_join home ''.local'') ''share'')]
      | None \<Rightarrow> [])"

text \<open>\<open>lxc_command\<close> and \<open>lxc_std_command\<close> with the arguments added to them.\<close>

definition lxc_command :: "Sys \<Rightarrow> string \<Rightarrow> string list \<Rightarrow> Cmd" where
  "lxc_command S program args =
     (cmd ''sudo'' ([''-n'', ''--preserve-env=STATIX_AGENT_STATE_DIR,STATE_DIRECTORY'', lxc_helper_path, program] @ args))
       \<lparr>cmd_env := lxc_environment S\<rparr>"

definition container_args :: "Sys \<Rightarrow> string \<Rightarrow> string list" where
  "container_args S name = [''-n'', name, ''-P'', lxc_storage_path S]"

definition lxc_create_command :: "Sys \<Rightarrow> string \<Rightarrow> string \<Rightarrow> string \<Rightarrow> Cmd" where
  "lxc_create_command S name distro rel =
     lxc_command S ''lxc-create'' (container_args S name @
       [''--logfile'', path_join (lxc_storage_path S) (name @ ''.create.log''), ''--logpriority'', ''DEBUG'',
        ''-t'', ''download'', ''--'', ''-d'', distro, ''-r'', rel, ''-a'', lxc_arch (sys_arch S)])"

definition lxc_start_command :: "Sys \<Rightarrow> string \<Rightarrow> Cmd" where
  "lxc_start_command S name =
     lxc_command S ''lxc-start'' (container_args S name @
       [''--logfile'', lxc_log_path S name, ''--logpriority'', ''DEBUG'', ''-d''])"

definition lxc_wait_command :: "Sys \<Rightarrow> string \<Rightarrow> Cmd" where
  "lxc_wait_command S name =
     lxc_command S ''lxc-wait'' (container_args S name @ [''-s'', ''RUNNING'', ''-t'', ''30''])"

definition lxc_attach_command :: "Sys \<Rightarrow> string \<Rightarrow> string \<Rightarrow> Cmd" where
  "lxc_attach_command S name shell_command =
     lxc_command S ''lxc-attach'' (container_args S name @ [''--'', ''sh'', ''-lc'', shell_command])"

definition lxc_stop_command :: "Sys \<Rightarrow> string \<Rightarrow> Cmd" where
  "lxc_stop_command S name = lxc_command S ''lxc-stop'' (container_args S name @ [''--kill''])"

definition lxc_destroy_command :: "Sys \<Rightarrow> string \<Rightarrow> Cmd" where
  "lxc_destroy_command S name = lxc_command S ''lxc-destroy'' (container_args S name)"

definition lxc_info_command :: "Sys \<Rightarrow> string \<Rightarrow> string \<Rightarrow> Cmd" where
  "lxc_info_command S name flags = lxc_command S ''lxc-info'' (container_args S name @ [flags])"

text \<open>The command lines of long-lived runtimes, as argument vectors.\<close>

definition runtime_command :: "Sys \<Rightarrow> string \<Rightarrow> string \<Rightarrow> string list \<Rightarrow> string list" where
  "runtime_command S program name args =
     [''env'', ''STATIX_AGENT_STATE_DIR='' @ unwrap_or (result_ok_option (sys_state_dir S)) ''/var/lib/statix-agent'',
      ''sudo'', ''-n'', ''--preserve-env=STATIX_AGENT_STATE_DIR,STATE_DIRECTORY'', lxc_helper_path, program,
      ''-n'', name, ''-P'', lxc_storage_path S] @ args"

definition network_command :: "string list" where
  "network_command =
     [''sudo'', ''-n'', ''--preserve-env=STATIX_LXC_NETWORK_BRIDGE,STATIX_LXC_NETWORK_GATEWAY'', lxc_helper_path,
      ''network-ensure'']"

definition runtime_shell_command :: "Sys \<Rightarrow> string \<Rightarrow> string \<Rightarrow> string list" where
  "runtime_shell_command S name command =
     runtime_command S ''lxc-attach'' name [''--'', ''bash'', ''-lc'', command]"

definition runtime_guest_network_command :: "Sys \<Rightarrow> LxcBridgeNetwork option \<Rightarrow> string \<Rightarrow> string list option" where
  "runtime_guest_network_command S bridge name =
     map_option (\<lambda>network. runtime_shell_command S name
       (guest_network_command network (guest_ipv4_address network name))) bridge"

definition runtime_guest_dns_command :: "Sys \<Rightarrow> (string \<Rightarrow> string result) \<Rightarrow> string \<Rightarrow> string list" where
  "runtime_guest_dns_command S read name =
     runtime_shell_command S name (guest_resolv_conf_command (container_dns_config (sys_env S) read))"

section \<open>The container's configuration\<close>

definition enforce_lxc_limits :: "env \<Rightarrow> bool" where
  "enforce_lxc_limits env =
     (case env ''STATIX_LXC_ENFORCE_LIMITS'' of
        None \<Rightarrow> False
      | Some value \<Rightarrow> to_ascii_lowercase (trim value) \<in> {''1'', ''true'', ''yes'', ''on''})"

definition memory_bytes :: "u32 \<Rightarrow> u64" where
  "memory_bytes memory_mb = ucast memory_mb * 1024 * 1024"

definition cpu_quota :: "u8 \<Rightarrow> u64" where
  "cpu_quota cpu = ucast cpu * 100000"

text \<open>\<open>write_job_lxc_config\<close>: the lines it writes, as one text.\<close>

definition write_job_lxc_config :: "u8 \<Rightarrow> u32 \<Rightarrow> bool \<Rightarrow> string" where
  "write_job_lxc_config cpu memory_mb enforce_limits =
     concat (map (\<lambda>l. l @ [newline])
       ([[newline] @ ''# Statix job runtime config''] @
        (if enforce_limits
         then [''lxc.cgroup2.memory.max = '' @ show_word (memory_bytes memory_mb),
               ''lxc.cgroup2.cpu.max = '' @ show_word (cpu_quota cpu) @ '' 100000'']
         else [''# cgroup limits requested by Statix are not written because enforcement was disabled.'']) @
        [''lxc.apparmor.profile = unconfined'', ''lxc.apparmor.allow_nesting = 1'',
         ''lxc.mount.auto = proc:rw sys:rw'']))"

definition networkless_config :: string where
  "networkless_config =
     [newline] @ ''# Statix fallback when lxcbr0 is unavailable'' @ [newline] @ ''lxc.net.0.type = empty'' @ [newline]"

section \<open>Facts\<close>

lemma lxc_env_path_eq: "lxc_env_path = env_path"
  by (simp add: fun_eq_iff lxc_env_path_def env_path_def env_trimmed_def)

text \<open>
  The state directory decides the storage path: the two variables are looked up twice, so the
  home is always a directory below the agent's state directory.
\<close>

lemma lxc_process_home_state_dir:
  "lxc_process_home S = map_option (\<lambda>p. path_join p ''lxc'') (result_ok_option (sys_state_dir S))"
  unfolding lxc_process_home_def lxc_env_path_eq sys_state_dir_def agent_state_dir_def
  by (simp add: result_ok_option_def split: option.split)

text \<open>The limits are exact: no product wraps around.\<close>

lemma memory_bytes_exact: "unat (memory_bytes m) = unat m * 1048576"
proof -
  have "unat m < 2 ^ 32" using unsigned_less[of m] by simp
  then show ?thesis by (simp add: memory_bytes_def unat_word_ariths unsigned_ucast_eq take_bit_eq_mod)
qed

lemma cpu_quota_exact: "unat (cpu_quota c) = unat c * 100000"
proof -
  have "unat c < 2 ^ 8" using unsigned_less[of c] by simp
  then show ?thesis by (simp add: cpu_quota_def unat_word_ariths unsigned_ucast_eq take_bit_eq_mod)
qed

end
