(* ===== verification/Job_Model.thy ===== *)
theory Job_Model
  imports Agent_Io Shell_Quote "HOL-Library.Finite_Map"
begin

text \<open>
  The job model of \<open>src/jobs/mod.rs\<close>: command specifications and their validation, the execution
  context and the job's log, the summary of a command's output, and the contract every runner
  keeps (the trait \<open>Runner\<close>) as the locale \<open>runner\<close>.
\<close>

section \<open>Commands\<close>

text \<open>The environment of a command is a \<open>BTreeMap\<close>: its entries come in the order of their keys.\<close>

record CommandSpec =
  cs_argv :: "string list"
  cs_env :: "(string, string) fmap"
  cs_cwd :: "string option"

definition env_entries :: "CommandSpec \<Rightarrow> (string \<times> string) list" where
  "env_entries c = sorted_list_of_fmap (cs_env c)"

definition empty_command :: string where
  "empty_command = ''command must contain at least one non-empty token''"

definition CommandSpec_new :: "string list \<Rightarrow> CommandSpec result" where
  "CommandSpec_new argv =
     (if argv = [] \<or> trim (hd argv) = [] then bail empty_command
      else Inr \<lparr>cs_argv = argv, cs_env = fmempty, cs_cwd = None\<rparr>)"

definition valid_env_name :: "string \<Rightarrow> bool" where
  "valid_env_name key \<longleftrightarrow> key \<noteq> [] \<and> env_key_start (hd key) \<and> list_all env_key_char (tl key)"

text \<open>The loop over the keys ends at the first invalid one.\<close>

definition CommandSpec_validate :: "CommandSpec \<Rightarrow> unit result" where
  "CommandSpec_validate c =
     (if cs_argv c = [] \<or> trim (hd (cs_argv c)) = [] then bail empty_command
      else case find (\<lambda>kv. \<not> valid_env_name (fst kv)) (env_entries c) of
          Some kv \<Rightarrow> bail (''invalid environment variable name: '' @ fst kv)
        | None \<Rightarrow> Inr ())"

lemma env_key_start_char: "env_key_start c \<Longrightarrow> env_key_char c"
  by (auto simp: env_key_start_def env_key_char_def is_ascii_alphanumeric_def)

text \<open>A valid name is one the shell quoting leaves alone.\<close>

lemma valid_env_name_key: "valid_env_name key \<Longrightarrow> shell_env_key key = key"
  by (cases key) (auto simp: valid_env_name_def shell_env_key_def env_key_start_char)

lemma CommandSpec_validate_Inr:
  "CommandSpec_validate c = Inr () \<longleftrightarrow>
     cs_argv c \<noteq> [] \<and> trim (hd (cs_argv c)) \<noteq> [] \<and> list_all (\<lambda>kv. valid_env_name (fst kv)) (env_entries c)"
  by (auto simp: CommandSpec_validate_def list_all_iff find_None_iff split: option.splits dest: find_None_iff[THEN iffD1])
    (metis find_Some_iff nth_mem)

lemma validate_keys:
  assumes "CommandSpec_validate c = Inr ()"
  shows "map (\<lambda>kv. shell_env_key (fst kv)) (env_entries c) = map fst (env_entries c)"
  using assms by (auto simp: CommandSpec_validate_Inr list_all_iff valid_env_name_key)

lemma CommandSpec_new_valid: "CommandSpec_new argv = Inr c \<Longrightarrow> CommandSpec_validate c = Inr ()"
  by (auto simp: CommandSpec_new_def CommandSpec_validate_Inr env_entries_def split: if_splits)

section \<open>The context of an execution and its log\<close>

text \<open>\<open>ctx_log\<close> tells whether there is a channel (\<open>log_tx\<close>); a send to it is never waited for.\<close>

record ExecutionContext =
  ctx_job_id :: string
  ctx_attempt_id :: string
  ctx_timeout_seconds :: u64
  ctx_log :: bool
  ctx_log_scope :: string
  ctx_log_resource_id :: "string option"

definition log_line :: "ExecutionContext \<Rightarrow> JobLogStream \<Rightarrow> string \<Rightarrow> JobLogLine" where
  "log_line ctx stream l =
     \<lparr>ll_job_id = ctx_job_id ctx, ll_attempt_id = ctx_attempt_id ctx, ll_stream = stream, ll_line = l,
      ll_scope = ctx_log_scope ctx, ll_resource_id = ctx_log_resource_id ctx\<rparr>"

definition emit_log :: "ExecutionContext \<Rightarrow> JobLogStream \<Rightarrow> string \<Rightarrow> unit eff" where
  "emit_log ctx stream l = (if ctx_log ctx then emit (Emitted (log_line ctx stream l)) else ret ())"

lemma emit_log_each:
  "eff_each (emit_log ctx stream) ls h =
     (Inr (), h @ (if ctx_log ctx then map (\<lambda>l. Emitted (log_line ctx stream l)) ls else []))"
  by (induction ls arbitrary: h) (simp_all add: emit_log_def eff_defs)

lemma only_emit_log: "(\<And>l. P (Emitted (log_line ctx stream l))) \<Longrightarrow> only P (emit_log ctx stream l)"
  by (simp add: emit_log_def)

record JobExecutionResult =
  jr_status :: string
  jr_message :: "string option"

section \<open>The summary of a command's output\<close>

definition MAX_CHARS :: nat where
  "MAX_CHARS = 2000"

definition EDGE_CHARS :: nat where
  "EDGE_CHARS = (MAX_CHARS - 32) div 2"

definition truncation_mark :: string where
  "truncation_mark = [newline] @ ''... output truncated ...'' @ [newline]"

definition truncate_output :: "string \<Rightarrow> string" where
  "truncate_output value =
     (let trimmed = trim value
      in if length trimmed \<le> MAX_CHARS then trimmed
         else take EDGE_CHARS trimmed @ truncation_mark @ rev (take EDGE_CHARS (rev trimmed)))"

text \<open>\<open>stdout\<close> and \<open>stderr\<close> as \<open>String::from_utf8_lossy\<close> gives them.\<close>

definition summarize_command_output :: "string \<Rightarrow> string \<Rightarrow> string \<Rightarrow> string" where
  "summarize_command_output cwd stdout stderr =
     (if trim stderr = []
      then if trim stdout = [] then cwd @ '': command completed with no output''
           else cwd @ '': '' @ truncate_output stdout
      else if trim stdout = [] then cwd @ '': '' @ truncate_output stderr
      else cwd @ '': stdout:'' @ [newline] @ truncate_output stdout @ [newline, newline] @ ''stderr:'' @ [newline] @
        truncate_output stderr)"

lemma truncate_output_length: "length (truncate_output v) \<le> MAX_CHARS"
  by (simp add: truncate_output_def Let_def MAX_CHARS_def EDGE_CHARS_def truncation_mark_def)

lemma truncate_output_short: "length (trim v) \<le> MAX_CHARS \<Longrightarrow> truncate_output v = trim v"
  by (simp add: truncate_output_def Let_def)

text \<open>What a cut text keeps: both ends of the trimmed output.\<close>

lemma truncate_output_ends:
  "prefix (take EDGE_CHARS (trim v)) (truncate_output v) \<and>
   suffix (drop (length (trim v) - EDGE_CHARS) (trim v)) (truncate_output v)"
proof (cases "length (trim v) \<le> MAX_CHARS")
  case True
  then show ?thesis by (simp add: truncate_output_short take_is_prefix suffix_drop)
next
  case False
  have "rev (take EDGE_CHARS (rev (trim v))) = drop (length (trim v) - EDGE_CHARS) (trim v)"
    by (simp add: take_rev)
  with False show ?thesis
    unfolding truncate_output_def Let_def
    by (simp add: suffix_def)
qed

lemma summarize_length:
  "length (summarize_command_output cwd stdout stderr) \<le> length cwd + 2 * MAX_CHARS + 37"
  using truncate_output_length[of stdout] truncate_output_length[of stderr]
  by (simp add: summarize_command_output_def MAX_CHARS_def)

section \<open>The contract of a runner\<close>

definition timeout_in_range :: "ExecutionContext \<Rightarrow> bool" where
  "timeout_in_range ctx \<longleftrightarrow> ctx_timeout_seconds ctx \<noteq> 0 \<and> ctx_timeout_seconds ctx \<le> 3600"

definition timeout_error :: anyhow where
  "timeout_error = [''run timeoutSeconds must be between 1 and 3600'']"

definition no_command_error :: anyhow where
  "no_command_error = [''run command must contain at least one token'']"

text \<open>What a runner may return: a status of two, and a message whose length is bounded.\<close>

definition result_ok :: "string \<Rightarrow> JobExecutionResult \<Rightarrow> bool" where
  "result_ok workdir r \<longleftrightarrow>
     jr_status r \<in> {''succeeded'', ''failed''} \<and>
     (case jr_message r of None \<Rightarrow> False | Some m \<Rightarrow> length m \<le> length workdir + 2 * MAX_CHARS + 37)"

lemma result_ok_summary [simp]:
  "result_ok workdir \<lparr>jr_status = s, jr_message = Some (summarize_command_output workdir out err)\<rparr> \<longleftrightarrow>
     s = ''succeeded'' \<or> s = ''failed''"
  using summarize_length[of workdir out err] by (auto simp: result_ok_def)

locale runner =
  fixes run :: "ExecutionContext \<Rightarrow> string \<Rightarrow> CommandSpec \<Rightarrow> JobExecutionResult eff"
  assumes refuse_timeout: "\<not> timeout_in_range ctx \<Longrightarrow> run ctx workdir c h = (Inl timeout_error, h)"
    and refuse_empty: "timeout_in_range ctx \<Longrightarrow> cs_argv c = [] \<Longrightarrow> run ctx workdir c h = (Inl no_command_error, h)"
    and result_bounds: "run ctx workdir c h = (Inr r, h') \<Longrightarrow> result_ok workdir r"
    and adds_only: "extends (run ctx workdir c)"
begin

text \<open>A job that does anything has a timeout in range and a command.\<close>

lemma acts_only_in_range:
  assumes "run ctx workdir c h = (r, h')" "h' \<noteq> h"
  shows "timeout_in_range ctx \<and> cs_argv c \<noteq> [] \<and> prefix h h'"
proof -
  have "timeout_in_range ctx" using assms refuse_timeout[of ctx workdir c h] by auto
  moreover have "cs_argv c \<noteq> []" using assms refuse_empty[OF \<open>timeout_in_range ctx\<close>, of c workdir h] by auto
  moreover have "prefix h h'" using onlyE[OF adds_only assms(1)] by (metis prefixI)
  ultimately show ?thesis by blast
qed

lemma succeeds_only_in_range:
  assumes "run ctx workdir c h = (Inr r, h')"
  shows "timeout_in_range ctx \<and> cs_argv c \<noteq> [] \<and> result_ok workdir r"
  using assms refuse_timeout[of ctx workdir c h] refuse_empty[of ctx c workdir h] result_bounds
  by (metis Inl_Inr_False prod.inject)

end

end
