(* ===== verification/Host_Runner.thy ===== *)
theory Host_Runner
  imports Job_Model
begin

text \<open>
  \<open>src/jobs/runners/host.rs\<close>: a job's command as a child process of the agent. The two streams
  are read concurrently: their lines reach the job's log in the order in which they arrive. Where the command is
  stopped by its timeout, or a stream is not UTF-8, the lines read until then have been sent.
\<close>

section \<open>The lines of a stream\<close>

text \<open>
  \<open>read_stream\<close>: \<open>read_line\<close> yields the pieces between newlines (the last one unless it is empty);
  line ends are trimmed, also several carriage returns. The lines are joined again; \<open>emit_streams\<close> is what
  the two readers send between them.
\<close>

definition is_line_end :: "char \<Rightarrow> bool" where
  "is_line_end c \<longleftrightarrow> c = carriage_return \<or> c = newline"

definition stream_lines :: "string \<Rightarrow> string list" where
  "stream_lines s =
     (let ps = split_on (\<lambda>c. c = newline) s
      in map (trim_end_matches is_line_end) (butlast ps @ (if last ps = [] then [] else [last ps])))"

definition read_stream :: "string \<Rightarrow> string" where
  "read_stream s = join [newline] (stream_lines s)"

definition emit_streams :: "OS \<Rightarrow> ExecutionContext \<Rightarrow> string list \<Rightarrow> string list \<Rightarrow> unit eff" where
  "emit_streams os ctx outs errs =
     eff_then (arrival os) (\<lambda>order.
       eff_each (\<lambda>(stream, l). emit_log ctx stream l)
         (interleave order (map (Pair Stdout) outs) (map (Pair Stderr) errs)))"

lemma emit_pairs_run:
  "eff_each (\<lambda>(stream, l). emit_log ctx stream l) ls h =
     (Inr (), h @ (if ctx_log ctx then map (\<lambda>(stream, l). Emitted (log_line ctx stream l)) ls else []))"
  by (induction ls arbitrary: h) (auto simp: emit_log_def eff_defs)

text \<open>The log lines of two streams, in their order of arrival.\<close>

definition log_lines :: "ExecutionContext \<Rightarrow> bool list \<Rightarrow> string list \<Rightarrow> string list \<Rightarrow> JobLogLine list" where
  "log_lines ctx order outs errs =
     (if ctx_log ctx then interleave order (map (log_line ctx Stdout) outs) (map (log_line ctx Stderr) errs) else [])"

lemma emit_streams_run:
  "emit_streams os ctx outs errs h = (Inr (), h @ map Emitted (log_lines ctx (os_order os h) outs errs))"
  by (simp add: emit_streams_def eff_then_def arrival_def emit_pairs_run log_lines_def map_interleave comp_def)

lemma log_lines_shuffle:
  "if ctx_log ctx
   then log_lines ctx order outs errs \<in> shuffles (map (log_line ctx Stdout) outs) (map (log_line ctx Stderr) errs)
   else log_lines ctx order outs errs = []"
  by (simp add: log_lines_def interleave_shuffles)

lemma only_emit_streams:
  "(\<And>stream l. P (Emitted (log_line ctx stream l))) \<Longrightarrow> only P (emit_streams os ctx outs errs)"
  unfolding emit_streams_def by (auto intro!: only_then only_each only_emit_log)

text \<open>No line of a log has a line end in it.\<close>

lemma split_on_no_newline: "w \<in> set (split_on P s) \<Longrightarrow> c \<in> set w \<Longrightarrow> \<not> P c"
  using split_on_no_sep by blast

lemma stream_lines_single:
  assumes "l \<in> set (stream_lines s)"
  shows "newline \<notin> set l \<and> (l = [] \<or> last l \<noteq> carriage_return)"
proof -
  obtain w where w: "w \<in> set (split_on (\<lambda>c. c = newline) s)" "l = trim_end_matches is_line_end w"
  proof -
    have "last (split_on (\<lambda>c. c = newline) s) \<in> set (split_on (\<lambda>c. c = newline) s)"
      by (simp add: split_on_neq_Nil)
    moreover obtain w where "w \<in> set (butlast (split_on (\<lambda>c. c = newline) s)) \<or> w = last (split_on (\<lambda>c. c = newline) s)"
      "l = trim_end_matches is_line_end w"
      using assms by (auto simp: stream_lines_def Let_def split: if_splits)
    ultimately show thesis using that in_set_butlastD by metis
  qed
  have "newline \<notin> set l"
    using set_trim_end_matches[of is_line_end w] split_on_no_newline[OF w(1)] w(2) by blast
  moreover have "\<not> is_line_end (last l)" if "l \<noteq> []"
    using trim_end_matches_last[of is_line_end w] that w(2) by simp
  ultimately show ?thesis by (auto simp: is_line_end_def)
qed

section \<open>Executing\<close>

definition host_cmd :: "ExecutionContext \<Rightarrow> string \<Rightarrow> CommandSpec \<Rightarrow> Cmd" where
  "host_cmd ctx workdir c =
     cmd (hd (cs_argv c)) (tl (cs_argv c))
       \<lparr>cmd_cwd := Some (unwrap_or (cs_cwd c) workdir), cmd_env := env_entries c,
        cmd_limit_ms := Some (unat (ctx_timeout_seconds ctx) * 1000)\<rparr>"

definition host_spawn_error :: "ExecutionContext \<Rightarrow> string \<Rightarrow> CommandSpec \<Rightarrow> string" where
  "host_spawn_error ctx workdir c =
     ''failed to run '' @ hd (cs_argv c) @ '' in '' @ workdir @ '' for attempt '' @ ctx_attempt_id ctx"

definition host_result :: "string \<Rightarrow> ProcOutput \<Rightarrow> string \<Rightarrow> string \<Rightarrow> JobExecutionResult" where
  "host_result workdir out stdout stderr =
     \<lparr>jr_status = (if po_success out then ''succeeded'' else ''failed''),
      jr_message = Some (summarize_command_output workdir stdout stderr)\<rparr>"

definition HostRunner_execute ::
  "OS \<Rightarrow> ExecutionContext \<Rightarrow> string \<Rightarrow> CommandSpec \<Rightarrow> JobExecutionResult eff" where
  "HostRunner_execute os ctx workdir c =
     (if ctx_timeout_seconds ctx = 0 \<or> 3600 < ctx_timeout_seconds ctx then fail timeout_error
      else if cs_argv c = [] then fail no_command_error
      else eff_then (exec os (host_cmd ctx workdir c)) (\<lambda>r.
        case r of
          Not_Found e \<Rightarrow> eff_seq (emit_log ctx Stderr e) (fail [host_spawn_error ctx workdir c, e])
        | Spawn_Failed e \<Rightarrow> eff_seq (emit_log ctx Stderr e) (fail [host_spawn_error ctx workdir c, e])
        | Timed_Out \<Rightarrow> eff_then (delivered os) (\<lambda>(outs, errs).
            let message = ''command timed out after '' @ show_word (ctx_timeout_seconds ctx) @ '' seconds''
            in eff_seq (emit_streams os ctx (map (trim_end_matches is_line_end) outs) (map (trim_end_matches is_line_end) errs))
              (eff_seq (emit_log ctx Stderr message) (fail [message])))
        | Finished out \<Rightarrow>
            if \<not> po_utf8 out
            then eff_then (delivered os) (\<lambda>(outs, errs).
              eff_seq (emit_streams os ctx (map (trim_end_matches is_line_end) outs) (map (trim_end_matches is_line_end) errs))
                (fail [''command execution failed: stream did not contain valid UTF-8'']))
            else eff_seq (emit_streams os ctx (stream_lines (po_stdout out)) (stream_lines (po_stderr out)))
              (ret (host_result workdir out (read_stream (po_stdout out)) (read_stream (po_stderr out))))))"

lemma timeout_guard:
  "ctx_timeout_seconds ctx = 0 \<or> 3600 < ctx_timeout_seconds ctx \<longleftrightarrow> \<not> timeout_in_range ctx"
  by (auto simp: timeout_in_range_def)

text \<open>What a host job adds after its program has been run, by the program's outcome.\<close>

definition host_after :: "OS \<Rightarrow> ExecutionContext \<Rightarrow> event list \<Rightarrow> proc_outcome \<Rightarrow> JobLogLine list" where
  "host_after os ctx h r =
     (let cut = (case os_partial os h of (outs, errs) \<Rightarrow>
            log_lines ctx (os_order os h) (map (trim_end_matches is_line_end) outs) (map (trim_end_matches is_line_end) errs));
          said = (\<lambda>e. if ctx_log ctx then [log_line ctx Stderr e] else [])
      in case r of
           Not_Found e \<Rightarrow> said e
         | Spawn_Failed e \<Rightarrow> said e
         | Timed_Out \<Rightarrow> cut @ said (''command timed out after '' @ show_word (ctx_timeout_seconds ctx) @ '' seconds'')
         | Finished out \<Rightarrow>
             if po_utf8 out then log_lines ctx (os_order os h) (stream_lines (po_stdout out)) (stream_lines (po_stderr out))
             else cut)"

lemma host_execute_in_range:
  assumes "timeout_in_range ctx" "cs_argv c \<noteq> []"
  shows "HostRunner_execute os ctx workdir c h =
     (case os_exec os h (host_cmd ctx workdir c) of
        Finished out \<Rightarrow>
          if po_utf8 out then Inr (host_result workdir out (read_stream (po_stdout out)) (read_stream (po_stderr out)))
          else Inl [''command execution failed: stream did not contain valid UTF-8'']
      | Timed_Out \<Rightarrow> Inl [''command timed out after '' @ show_word (ctx_timeout_seconds ctx) @ '' seconds'']
      | Not_Found e \<Rightarrow> Inl [host_spawn_error ctx workdir c, e]
      | Spawn_Failed e \<Rightarrow> Inl [host_spawn_error ctx workdir c, e],
      h @ Ran (host_cmd ctx workdir c) # map Emitted (host_after os ctx (h @ [Ran (host_cmd ctx workdir c)])
        (os_exec os h (host_cmd ctx workdir c))))"
  using assms unfolding HostRunner_execute_def timeout_guard
  by (simp add: eff_defs emit_streams_run emit_log_def host_after_def Let_def split_beta split: proc_outcome.split)

lemma only_emit_each: "(\<And>l. P (Emitted (log_line ctx stream l))) \<Longrightarrow> only P (eff_each (emit_log ctx stream) ls)"
  by (intro only_each only_emit_log)

text \<open>The one program a host job runs is its own.\<close>

lemma host_events:
  "(\<And>stream l. P (Emitted (log_line ctx stream l))) \<Longrightarrow> P (Ran (host_cmd ctx workdir c)) \<Longrightarrow>
     only P (HostRunner_execute os ctx workdir c)"
  unfolding HostRunner_execute_def
  by (auto intro!: only_then only_seq only_emit_streams only_emit_log simp: Let_def split: proc_outcome.split)

interpretation host: runner "HostRunner_execute os"
proof
  fix ctx workdir c h r h'
  show "\<not> timeout_in_range ctx \<Longrightarrow> HostRunner_execute os ctx workdir c h = (Inl timeout_error, h)"
    unfolding HostRunner_execute_def timeout_guard by (simp add: fail_def)
  show "timeout_in_range ctx \<Longrightarrow> cs_argv c = [] \<Longrightarrow>
      HostRunner_execute os ctx workdir c h = (Inl no_command_error, h)"
    unfolding HostRunner_execute_def timeout_guard by (simp add: fail_def)
  show "extends (HostRunner_execute os ctx workdir c)" by (rule host_events) simp_all
  assume run: "HostRunner_execute os ctx workdir c h = (Inr r, h')"
  then have range: "timeout_in_range ctx" "cs_argv c \<noteq> []"
    unfolding HostRunner_execute_def timeout_guard by (auto simp: fail_def split: if_splits)
  show "result_ok workdir r"
    using run unfolding host_execute_in_range[OF range]
    by (auto simp: host_result_def Let_def split: proc_outcome.splits if_splits)
qed

text \<open>
  C24: A host job runs exactly one program, its own command with its environment, in its directory
  or the workspace, under its timeout; it sends every line of both streams to the job's log, each stream in
  its order and the two in any, none with a line end in it; it returns a result only when the program ended, and succeeded exactly
  when the exit status says so.
\<close>

theorem host_job_runs_once:
  assumes "HostRunner_execute os ctx workdir c h = (Inr r, h')"
  shows "\<exists>out logged. os_exec os h (host_cmd ctx workdir c) = Finished out \<and>
    h' = h @ Ran (host_cmd ctx workdir c) # map Emitted logged \<and>
    (jr_status r = ''succeeded'') = po_success out \<and>
    (if ctx_log ctx
     then logged \<in> shuffles (map (log_line ctx Stdout) (stream_lines (po_stdout out)))
       (map (log_line ctx Stderr) (stream_lines (po_stderr out)))
     else logged = []) \<and>
    list_all (\<lambda>l. newline \<notin> set (ll_line l)) logged"
proof -
  have range: "timeout_in_range ctx" "cs_argv c \<noteq> []"
    using host.succeeds_only_in_range[OF assms] by blast+
  obtain out where out: "os_exec os h (host_cmd ctx workdir c) = Finished out" "po_utf8 out"
    "r = host_result workdir out (read_stream (po_stdout out)) (read_stream (po_stderr out))"
    using assms unfolding host_execute_in_range[OF range]
    by (auto split: proc_outcome.splits if_splits)
  define logged where "logged = log_lines ctx (os_order os (h @ [Ran (host_cmd ctx workdir c)]))
    (stream_lines (po_stdout out)) (stream_lines (po_stderr out))"
  have "h' = h @ Ran (host_cmd ctx workdir c) # map Emitted logged"
    using assms out(1,2) unfolding host_execute_in_range[OF range] logged_def by (auto simp: host_after_def)
  moreover have "list_all (\<lambda>l. newline \<notin> set (ll_line l)) logged"
    using stream_lines_single by (auto simp: logged_def log_lines_def list_all_iff log_line_def)
  moreover note log_lines_shuffle[of ctx "os_order os (h @ [Ran (host_cmd ctx workdir c)])"
      "stream_lines (po_stdout out)" "stream_lines (po_stderr out)", folded logged_def]
  ultimately show ?thesis using out(1,3) by (intro exI[of _ out] exI[of _ logged]) (simp add: host_result_def)
qed

text \<open>A job \<open>printf\<close> whose output has two lines.\<close>

definition printf_os :: OS where
  "printf_os = idle_os\<lparr>os_exec := (\<lambda>h c. Finished (idle_output\<lparr>po_stdout := ''a'' @ [newline] @ ''b''\<rparr>))\<rparr>"

definition printf_context :: ExecutionContext where
  "printf_context = \<lparr>ctx_job_id = ''j'', ctx_attempt_id = ''1'', ctx_timeout_seconds = 60, ctx_log = True,
     ctx_log_scope = ''job'', ctx_log_resource_id = None\<rparr>"

definition printf_command :: CommandSpec where
  "printf_command = \<lparr>cs_argv = [''printf'', ''a b''], cs_env = fmempty, cs_cwd = None\<rparr>"

lemma printf_lines: "stream_lines (''a'' @ [newline] @ ''b'') = [''a'', ''b'']" "stream_lines [] = []"
  by code_simp+

lemma printf_run:
  "HostRunner_execute printf_os printf_context ''/w'' printf_command [] =
     (Inr \<lparr>jr_status = ''succeeded'',
        jr_message = Some (summarize_command_output ''/w'' (join [newline] [''a'', ''b'']) [])\<rparr>,
      [Ran (host_cmd printf_context ''/w'' printf_command),
       Emitted (log_line printf_context Stdout ''a''), Emitted (log_line printf_context Stdout ''b'')])"
  by (subst host_execute_in_range)
    (simp_all add: timeout_in_range_def printf_context_def printf_command_def printf_os_def idle_os_def
      idle_output_def host_result_def host_after_def log_lines_def read_stream_def printf_lines[simplified])

lemma host_job_runs_once_witness:
  "\<exists>logged. [Ran (host_cmd printf_context ''/w'' printf_command),
       Emitted (log_line printf_context Stdout ''a''), Emitted (log_line printf_context Stdout ''b'')] =
     [] @ Ran (host_cmd printf_context ''/w'' printf_command) # map Emitted logged \<and>
     list_all (\<lambda>l. newline \<notin> set (ll_line l)) logged"
  using host_job_runs_once[OF printf_run] by blast

end
