(* ===== verification/Lxc_Container.thy ===== *)
theory Lxc_Container
  imports Lxc_Command Host_Runner
begin

text \<open>
  The operations on a container, \<open>src/jobs/runners/container/lxc.rs\<close>: creating, starting,
  attaching, stopping and destroying. The output of an attached command is listed one stream
  after the other; what a command printed before its timeout is not in the model, and an archive
  that the guest's shell refuses to read is seen as that shell's failure.
\<close>

unbundle bit_operations_syntax

record LxcContainer =
  lc_name :: string
  lc_destroyed :: bool

section \<open>Running a tool\<close>

text \<open>
  \<open>status()\<close> or \<open>output()\<close> with a context for the error of launching; without a limit on the
  call there is no timeout.
\<close>

definition launched_output :: "string \<Rightarrow> proc_outcome \<Rightarrow> ProcOutput result" where
  "launched_output msg r =
     (case r of
        Finished out \<Rightarrow> Inr out
      | Not_Found e \<Rightarrow> Inl [msg, e]
      | Spawn_Failed e \<Rightarrow> Inl [msg, e]
      | Timed_Out \<Rightarrow> Inl [msg])"

definition run_tool :: "OS \<Rightarrow> string \<Rightarrow> Cmd \<Rightarrow> ProcOutput eff" where
  "run_tool os msg c = eff_then (exec os c) (\<lambda>r. lift (launched_output msg r))"

lemma wp_run_tool [wp_rules]:
  "wp (run_tool os msg c) Q h \<longleftrightarrow> Q (launched_output msg (os_exec os h c)) (h @ [Ran c])"
  by (simp add: run_tool_def wp_rules)

lemma only_run_tool [simp]: "only P (run_tool os msg c) \<longleftrightarrow> P (Ran c)"
  by (auto simp: run_tool_def only_def eff_defs)

section \<open>Creating\<close>

definition required_commands :: "string list" where
  "required_commands =
     [''sudo'', ''lxc-create'', ''lxc-start'', ''lxc-wait'', ''lxc-attach'', ''lxc-stop'', ''lxc-destroy'']"

fun missing_commands :: "OS \<Rightarrow> string list \<Rightarrow> string list eff" where
  "missing_commands os [] = ret []"
| "missing_commands os (c # cs) =
     eff_then (exec os (cmd c [''--version''])) (\<lambda>r.
     eff_then (missing_commands os cs) (\<lambda>missing.
       ret (case r of Not_Found e \<Rightarrow> c # missing | _ \<Rightarrow> missing)))"

definition check_dependencies :: "OS \<Rightarrow> unit eff" where
  "check_dependencies os =
     eff_then (missing_commands os required_commands) (\<lambda>missing.
       if missing \<noteq> []
       then fail [''Missing required LXC dependencies: '' @ join '', '' missing @ ''. Please install the '' @ [squote] @
         ''lxc'' @ [squote] @ '' package before creating containers.'']
       else eff_then (file_exists os lxc_helper_path) (\<lambda>is_file.
         if is_file then ret ()
         else fail [''Missing LXC privilege helper at '' @ lxc_helper_path @ ''; reinstall statix-agent'']))"

definition set_traversable_directory :: "OS \<Rightarrow> string \<Rightarrow> unit eff" where
  "set_traversable_directory os path =
     eff_then (eff_context (''failed to stat '' @ path) (stat_file os path)) (\<lambda>(is_dir, mode).
       if \<not> is_dir then ret ()
       else let traversable_mode = mode OR 457
         in if mode \<noteq> traversable_mode
            then eff_context (''failed to set permissions on '' @ path) (perform os (Mode_Set path (unat traversable_mode)))
            else ret ())"

definition ensure_lxc_directory_permissions :: "OS \<Rightarrow> Sys \<Rightarrow> unit eff" where
  "ensure_lxc_directory_permissions os S =
     (case lxc_process_home S of
        None \<Rightarrow> ret ()
      | Some home \<Rightarrow>
          eff_seq (case path_parent home of None \<Rightarrow> ret () | Some state_dir \<Rightarrow> set_traversable_directory os state_dir)
          (eff_seq (eff_context (''failed to create '' @ home) (perform os (Made_Dir home)))
            (set_traversable_directory os home)))"

text \<open>Opening the configuration for appending, then writing it.\<close>

definition append_config :: "OS \<Rightarrow> string \<Rightarrow> string \<Rightarrow> string \<Rightarrow> unit eff" where
  "append_config os name path text' =
     eff_seq (eff_context (''failed to open lxc config for '' @ name) (perform os (Opened path)))
       (perform os (Appended path text'))"

definition apply_job_config :: "OS \<Rightarrow> Sys \<Rightarrow> string \<Rightarrow> u8 \<Rightarrow> u32 \<Rightarrow> bool \<Rightarrow> unit eff" where
  "apply_job_config os S name cpu memory_mb enforce_limits =
     append_config os name (lxc_config_path S name) (write_job_lxc_config cpu memory_mb enforce_limits)"

definition append_networkless_config :: "OS \<Rightarrow> Sys \<Rightarrow> string \<Rightarrow> unit eff" where
  "append_networkless_config os S name = append_config os name (lxc_config_path S name) networkless_config"

definition configure_runtime :: "OS \<Rightarrow> Sys \<Rightarrow> string \<Rightarrow> u32 \<Rightarrow> u32 \<Rightarrow> unit eff" where
  "configure_runtime os S name cpu memory_mb =
     append_config os name (runtime_config_path S name)
       (write_job_lxc_config (ucast (min cpu 255)) memory_mb (enforce_lxc_limits (sys_env S)))"

text \<open>The bridge's network as \<open>ip\<close> reports it now.\<close>

definition bridge_command :: "env \<Rightarrow> Cmd" where
  "bridge_command env = cmd ''ip'' [''-4'', ''-o'', ''addr'', ''show'', ''dev'',
     unwrap_or (filter_option (\<lambda>v. v \<noteq> []) (map_option trim (env ''STATIX_LXC_NETWORK_BRIDGE''))) ''lxcbr0'']"

definition current_bridge :: "OS \<Rightarrow> Sys \<Rightarrow> LxcBridgeNetwork option eff" where
  "current_bridge os S =
     eff_then (exec os (bridge_command (sys_env S))) (\<lambda>r.
       ret (lxc_bridge_network (sys_env S)
         (\<lambda>_. case r of Finished out \<Rightarrow> Some (po_success out, po_stdout out) | _ \<Rightarrow> None)))"

definition create_failure :: "Sys \<Rightarrow> string \<Rightarrow> string \<Rightarrow> string \<Rightarrow> string \<Rightarrow> string \<Rightarrow> string" where
  "create_failure S name distro rel status excerpt =
     ''lxc-create failed for container '' @ name @ '' with '' @ status @ '' (requested '' @ distro @ '':'' @ rel @
     '', arch '' @ lxc_arch (sys_arch S) @ ''): '' @ excerpt @
     ''. Verify the lxc-download template and image availability with `lxc-create -t download -n probe -- --list`''"

definition LxcContainer_create ::
  "OS \<Rightarrow> Sys \<Rightarrow> string \<Rightarrow> string \<Rightarrow> string \<Rightarrow> u8 \<Rightarrow> u32 \<Rightarrow> LxcContainer eff" where
  "LxcContainer_create os S name distro rel cpu memory_mb =
     eff_seq (check_dependencies os)
     (eff_seq (ensure_lxc_directory_permissions os S)
     (eff_seq (eff_context (''failed to create '' @ lxc_storage_path S) (perform os (Made_Dir (lxc_storage_path S))))
     (eff_then (run_tool os (missing_dependency_message ''lxc-create'' ''lxc'') (lxc_create_command S name distro rel)) (\<lambda>out.
        let log_path = path_join (lxc_storage_path S) (name @ ''.create.log'')
        in if \<not> po_success out
           then eff_then (eff_try (read_file os log_path)) (\<lambda>log.
             fail [create_failure S name distro rel (po_status out) (lxc_log_excerpt log log_path)])
           else eff_seq (apply_job_config os S name cpu memory_mb (enforce_lxc_limits (sys_env S)))
             (eff_then (current_bridge os S) (\<lambda>bridge.
              eff_seq (case bridge of None \<Rightarrow> append_networkless_config os S name | Some _ \<Rightarrow> ret ())
                (ret \<lparr>lc_name = name, lc_destroyed = False\<rparr>)))))))"

section \<open>Starting, stopping, destroying\<close>

definition LxcContainer_start :: "OS \<Rightarrow> Sys \<Rightarrow> LxcContainer \<Rightarrow> unit eff" where
  "LxcContainer_start os S k =
     (let name = lc_name k; log_path = lxc_log_path S name
      in eff_then (run_tool os (missing_dependency_message ''lxc-start'' ''lxc'') (lxc_start_command S name)) (\<lambda>out.
           if \<not> po_success out
           then eff_then (eff_try (read_file os log_path)) (\<lambda>log.
                eff_then (eff_try (read_file os ''/proc/self/mountinfo'')) (\<lambda>mountinfo.
                  fail [''lxc-start failed for container '' @ name @ '' with '' @ po_status out @ '': '' @
                    lxc_start_failure_message mountinfo (lxc_log_excerpt log log_path)]))
           else eff_then (run_tool os (missing_dependency_message ''lxc-wait'' ''lxc'') (lxc_wait_command S name)) (\<lambda>out.
             if \<not> po_success out
             then eff_then (eff_try (read_file os log_path)) (\<lambda>log.
               fail [''lxc-wait did not observe container '' @ name @ '' running: '' @ po_status out @ '': '' @
                 lxc_log_excerpt log log_path])
             else ret ())))"

definition LxcContainer_stop :: "OS \<Rightarrow> Sys \<Rightarrow> LxcContainer \<Rightarrow> unit eff" where
  "LxcContainer_stop os S k =
     eff_then (run_tool os (missing_dependency_message ''lxc-stop'' ''lxc'') (lxc_stop_command S (lc_name k))) (\<lambda>out.
       if po_success out then ret ()
       else fail [''lxc-stop failed for container '' @ lc_name k @ '' with '' @ po_status out])"

definition LxcContainer_state :: "OS \<Rightarrow> Sys \<Rightarrow> LxcContainer \<Rightarrow> string eff" where
  "LxcContainer_state os S k =
     eff_then (run_tool os (missing_dependency_message ''lxc-info'' ''lxc'') (lxc_info_command S (lc_name k) ''-sH'')) (\<lambda>out.
       if po_success out then ret (trim (po_stdout out))
       else fail [''lxc-info failed for container '' @ lc_name k @ '': '' @
         summarize_raw_command_output (po_stdout out) (po_stderr out)])"

definition LxcContainer_destroy :: "OS \<Rightarrow> Sys \<Rightarrow> LxcContainer \<Rightarrow> LxcContainer eff" where
  "LxcContainer_destroy os S k =
     (if lc_destroyed k then ret k
      else eff_seq (eff_ignore (exec os (lxc_stop_command S (lc_name k))))
        (eff_seq (eff_ignore (exec os (lxc_destroy_command S (lc_name k))))
          (ret (k\<lparr>lc_destroyed := True\<rparr>))))"

definition runtime_ipv4 :: "OS \<Rightarrow> Sys \<Rightarrow> string \<Rightarrow> ipv4 eff" where
  "runtime_ipv4 os S name =
     eff_then (run_tool os (''failed to inspect lxc runtime '' @ name) (lxc_info_command S name ''-iH'')) (\<lambda>out.
       if \<not> po_success out
       then fail [''failed to resolve IPv4 address for lxc runtime '' @ name @ '': '' @
         summarize_raw_command_output (po_stdout out) (po_stderr out)]
       else case find_map parse_ipv4 (split_whitespace (po_stdout out)) of
           Some a \<Rightarrow> ret a
         | None \<Rightarrow> fail [''lxc runtime '' @ name @ '' has no IPv4 address''])"

section \<open>Facts\<close>

lemma LxcContainer_destroy_run:
  "\<not> lc_destroyed k \<Longrightarrow> LxcContainer_destroy os S k h =
     (Inr (k\<lparr>lc_destroyed := True\<rparr>), h @ [Ran (lxc_stop_command S (lc_name k)), Ran (lxc_destroy_command S (lc_name k))])"
  by (simp add: LxcContainer_destroy_def eff_defs)

text \<open>Destroying twice is destroying once.\<close>

lemma LxcContainer_destroy_twice:
  "eff_then (LxcContainer_destroy os S k) (LxcContainer_destroy os S) h = LxcContainer_destroy os S k h"
  by (cases "lc_destroyed k") (simp_all add: LxcContainer_destroy_def eff_defs)

lemma LxcContainer_create_name:
  assumes "LxcContainer_create os S name distro rel cpu memory_mb h = (Inr k, h')"
  shows "k = \<lparr>lc_name = name, lc_destroyed = False\<rparr>"
  using assms unfolding LxcContainer_create_def eff_seq_def Let_def
  by (auto simp: eff_then_Inr ret_def fail_def split: if_splits)

lemma only_missing_commands:
  "(\<And>c. c \<in> set cs \<Longrightarrow> P (Ran (cmd c [''--version'']))) \<Longrightarrow> only P (missing_commands os cs)"
  by (induction cs) (auto intro!: only_then)

text \<open>A traversable directory stays one: setting its mode again changes nothing.\<close>

lemma traversable_mode_idem: "(mode OR 457) OR 457 = (mode OR (457 :: 32 word))"
  by (simp add: or.assoc)

end
