(* ===== verification/Shell_Run.thy ===== *)
theory Shell_Run
  imports Shell_Quote
begin

text \<open>
  What a POSIX shell runs of a command line that is a list of simple commands joined by \<open>&&\<close> and
  \<open>;\<close>: the reference for the command lines the container and microVM runners build. \<open>ok\<close> tells
  whether a simple command succeeds; an \<open>exec\<close> ends the shell.
\<close>

section \<open>Simple commands\<close>

text \<open>Each simple command with the connector in front of it (\<open>True\<close> for \<open>&&\<close>).\<close>

fun sh_commands :: "bool \<Rightarrow> string list \<Rightarrow> sh_token list \<Rightarrow> (bool \<times> string list) list" where
  "sh_commands c ws [] = (if ws = [] then [] else [(c, ws)])"
| "sh_commands c ws (Word w # ts) = sh_commands c (ws @ [w]) ts"
| "sh_commands c ws (And_If # ts) = (c, ws) # sh_commands True [] ts"
| "sh_commands c ws (Semi # ts) = (c, ws) # sh_commands False [] ts"

text \<open>A command after \<open>&&\<close> runs only if the status before it is success.\<close>

fun sh_exec :: "(string list \<Rightarrow> bool) \<Rightarrow> bool \<Rightarrow> (bool \<times> string list) list \<Rightarrow> string list list" where
  "sh_exec ok status [] = []"
| "sh_exec ok status ((c, ws) # cs) =
     (if c \<and> \<not> status then sh_exec ok status cs
      else if ws \<noteq> [] \<and> hd ws = ''exec'' then [ws]
      else ws # sh_exec ok (ok ws) cs)"

definition sh_run :: "(string list \<Rightarrow> bool) \<Rightarrow> string \<Rightarrow> string list list option" where
  "sh_run ok line = map_option (\<lambda>ts. sh_exec ok True (sh_commands False [] ts)) (sh_tokens line)"

lemma sh_commands_words: "sh_commands c ws (map Word vs @ ts) = sh_commands c (ws @ vs) ts"
  by (induction vs arbitrary: ws) simp_all

definition export_command :: "(string \<Rightarrow> string) \<Rightarrow> string \<times> string \<Rightarrow> string list" where
  "export_command key kv = [''export'', key (fst kv) @ ''='' @ snd kv]"

lemma sh_commands_exports:
  "env \<noteq> [] \<Longrightarrow> sh_commands c [] (export_tokens key env @ ts) =
     (c, export_command key (hd env)) # map (\<lambda>kv. (False, export_command key kv)) (tl env) @ sh_commands False [] ts"
proof (induction env arbitrary: c)
  case (Cons kv env)
  show ?case
  proof (cases "env = []")
    case True
    then show ?thesis by (cases kv) (simp add: export_tokens_def export_command_def)
  next
    case False
    have "sh_commands c [] (export_tokens key (kv # env) @ ts) =
        (c, export_command key kv) # sh_commands False [] (export_tokens key env @ ts)"
      by (cases kv) (simp add: export_tokens_def export_command_def)
    with False Cons.IH show ?thesis by (cases env) simp_all
  qed
qed simp

lemma sh_exec_exports:
  "sh_exec ok status (map (\<lambda>kv. (False, export_command key kv)) env @ [(False, ''exec'' # argv)]) =
     map (export_command key) env @ [''exec'' # argv]"
  by (induction env arbitrary: status) (simp_all add: export_command_def)

section \<open>The command line of a job\<close>

text \<open>
  The line both runners hand to the guest user's shell: when the directory can be entered, every
  variable is exported and the command runs. When it cannot, the command still runs as soon as
  there is one variable, because a semicolon ends the list that \<open>&&\<close> guards.
\<close>

context shell_quoter begin

lemma user_command_run:
  assumes "\<And>k. key k \<noteq> []" "\<And>k. \<forall>c \<in> set (key k). shell_plain c" "argv \<noteq> []"
  shows "sh_run ok (user_command key quote cwd env argv) =
    Some ([''cd'', cwd] #
      (if ok [''cd'', cwd] then map (export_command key) env @ [''exec'' # argv]
       else if env = [] then []
       else map (export_command key) (tl env) @ [''exec'' # argv]))"
proof -
  have ts: "sh_tokens (user_command key quote cwd env argv) =
      Some ([Word ''cd'', Word cwd, And_If] @ export_tokens key env @ map Word (''exec'' # argv))"
    using lex_user_command[OF assms] by simp
  show ?thesis
  proof (cases "env = []")
    case True
    then have "sh_commands False [] ([Word ''cd'', Word cwd, And_If] @ export_tokens key env @ map Word (''exec'' # argv)) =
        [(False, [''cd'', cwd]), (True, ''exec'' # argv)]"
      using sh_commands_words[of True "[]" "''exec'' # argv" "[]"] by (simp add: export_tokens_def)
    with True ts show ?thesis by (simp add: sh_run_def)
  next
    case False
    have "sh_commands False [] ([Word ''cd'', Word cwd, And_If] @ export_tokens key env @ map Word (''exec'' # argv)) =
        (False, [''cd'', cwd]) # (True, export_command key (hd env)) #
        map (\<lambda>kv. (False, export_command key kv)) (tl env) @ [(False, ''exec'' # argv)]"
      using sh_commands_exports[OF False, of True key "map Word (''exec'' # argv)"]
        sh_commands_words[of False "[]" "''exec'' # argv" "[]"] by simp
    moreover have "map (export_command key) env = export_command key (hd env) # map (export_command key) (tl env)"
      using False by (cases env) simp_all
    moreover have "export_command key (hd env) \<noteq> []" "hd (export_command key (hd env)) \<noteq> ''exec''"
      by (simp_all add: export_command_def)
    ultimately show ?thesis using False ts by (simp add: sh_run_def sh_exec_exports)
  qed
qed

end

end
