(* ===== verification/Container_Runner.thy ===== *)
theory Container_Runner
  imports Lxc_Container Shell_Run
begin

text \<open>
  A job in a fresh container: \<open>LxcContainer\<close>'s guest operations (\<open>lxc.rs\<close>), the workspace archive
  (\<open>archive.rs\<close>) and \<open>ContainerRunner::execute\<close> (\<open>runner.rs\<close>), with the container's life cycle.
\<close>

section \<open>Attached commands\<close>

text \<open>\<open>stream_and_collect_output\<close>: the pieces between line ends, without the empty ones.\<close>

definition stream_segments :: "string \<Rightarrow> string list" where
  "stream_segments s = filter (\<lambda>w. w \<noteq> []) (split_on is_line_end s)"

text \<open>
  The loop itself: it reads the stream in chunks and goes through their bytes with the pending
  piece; at the end of the stream the pending piece is emitted too.
\<close>

definition emit_stream_segment :: "string list \<Rightarrow> string \<Rightarrow> string list" where
  "emit_stream_segment out segment = (if segment = [] then out else out @ [segment])"

definition stream_byte :: "string \<times> string list \<Rightarrow> char \<Rightarrow> string \<times> string list" where
  "stream_byte = (\<lambda>(pending, out) c.
     if is_line_end c then ([], emit_stream_segment out pending) else (pending @ [c], out))"

definition stream_and_collect :: "string list \<Rightarrow> string list" where
  "stream_and_collect chunks =
     (let (pending, out) = foldl (foldl stream_byte) ([], []) chunks in emit_stream_segment out pending)"

lemma stream_bytes:
  "(let (pending, out) = foldl stream_byte (p, out) s in emit_stream_segment out pending) =
     out @ filter (\<lambda>w. w \<noteq> []) ((p @ hd (split_on is_line_end s)) # tl (split_on is_line_end s))"
proof (induction s arbitrary: p out)
  case Nil
  then show ?case by (simp add: emit_stream_segment_def)
next
  case (Cons c s)
  obtain w ws where "split_on is_line_end s = w # ws" by (cases "split_on is_line_end s") auto
  with Cons show ?case by (simp add: stream_byte_def emit_stream_segment_def)
qed

lemma foldl_concat: "foldl (foldl f) a xss = foldl f a (concat xss)"
  by (induction xss arbitrary: a) simp_all

text \<open>
  The lines of an attached command that are sent to the job's log do not depend on how its
  output arrives in chunks: they are the non-empty pieces between line ends of all of it.
\<close>

theorem stream_chunks_irrelevant:
  "stream_and_collect chunks = stream_segments (concat chunks)"
proof -
  have "split_on is_line_end (concat chunks) =
      hd (split_on is_line_end (concat chunks)) # tl (split_on is_line_end (concat chunks))"
    by (simp add: split_on_neq_Nil)
  then show ?thesis
    using stream_bytes[of "[]" "[]" "concat chunks"]
    by (simp add: stream_and_collect_def foldl_concat stream_segments_def)
qed

text \<open>What the two tasks that read the streams send: in their order of arrival.\<close>

definition stream_output :: "OS \<Rightarrow> ExecutionContext option \<Rightarrow> string \<Rightarrow> string \<Rightarrow> unit eff" where
  "stream_output os ctx stdout stderr =
     (case ctx of
        None \<Rightarrow> ret ()
      | Some ctx \<Rightarrow> emit_streams os ctx (stream_segments stdout) (stream_segments stderr))"

definition attach_output ::
  "OS \<Rightarrow> Sys \<Rightarrow> string \<Rightarrow> u64 \<Rightarrow> string \<Rightarrow> ExecutionContext option \<Rightarrow> ProcOutput eff" where
  "attach_output os S name timeout_seconds shell_command ctx =
     eff_then (exec os ((lxc_attach_command S name shell_command)
         \<lparr>cmd_limit_ms := Some (unat timeout_seconds * 1000)\<rparr>)) (\<lambda>r.
       case r of
         Not_Found e \<Rightarrow> fail [''failed to execute command inside lxc container '' @ name, e]
       | Spawn_Failed e \<Rightarrow> fail [''failed to execute command inside lxc container '' @ name, e]
       | Timed_Out \<Rightarrow> eff_then (delivered os) (\<lambda>(outs, errs).
           eff_seq (stream_output os ctx (concat outs) (concat errs))
             (fail [''lxc command timed out after '' @ show_word timeout_seconds @ '' seconds'']))
       | Finished out \<Rightarrow>
           eff_seq (stream_output os ctx (po_stdout out) (po_stderr out)) (ret out))"

section \<open>The workspace archive\<close>

definition WORKSPACE_ARCHIVE :: string where
  "WORKSPACE_ARCHIVE = ''statix-workspace.tar.gz''"

definition tar_command :: "string \<Rightarrow> string \<Rightarrow> Cmd" where
  "tar_command archive_path workdir = cmd ''tar'' [''-C'', workdir, ''-czf'', archive_path, ''.'']"

text \<open>\<open>message\<close> differs between the containers' and the microVMs' copy of the function.\<close>

definition create_workspace_archive :: "OS \<Rightarrow> string \<Rightarrow> string \<Rightarrow> string \<Rightarrow> unit eff" where
  "create_workspace_archive os message archive_path workdir =
     eff_then (file_exists os archive_path) (\<lambda>present.
     eff_seq (eff_when present (eff_ignore (perform os (Removed archive_path))))
     (eff_then (run_tool os ''failed to launch tar'' (tar_command archive_path workdir)) (\<lambda>out.
        if po_success out then ret () else fail [message])))"

definition copy_archive_to_guest :: "OS \<Rightarrow> Sys \<Rightarrow> LxcContainer \<Rightarrow> string \<Rightarrow> unit eff" where
  "copy_archive_to_guest os S k archive_path =
     eff_then (eff_context (''failed to read workspace archive '' @ archive_path) (read_file os archive_path)) (\<lambda>archive.
     eff_then (run_tool os (''failed to start archive copy into lxc container '' @ lc_name k)
         ((lxc_attach_command S (lc_name k) (''cat > /tmp/'' @ WORKSPACE_ARCHIVE))\<lparr>cmd_stdin := Some archive\<rparr>)) (\<lambda>out.
       if po_success out then ret ()
       else fail [''failed to copy workspace archive into lxc container with '' @ po_status out @ '': '' @
         summarize_raw_command_output (po_stdout out) (po_stderr out)]))"

section \<open>The guest's network, resolvers and tools\<close>

text \<open>Reading the host's resolver files at this point of the history.\<close>

definition current_dns :: "OS \<Rightarrow> Sys \<Rightarrow> ContainerDnsConfig eff" where
  "current_dns os S = (\<lambda>h. (Inr (container_dns_config (sys_env S) (os_read os h)), h))"

definition configure_guest_dns :: "OS \<Rightarrow> Sys \<Rightarrow> LxcContainer \<Rightarrow> u64 \<Rightarrow> unit eff" where
  "configure_guest_dns os S k timeout_seconds =
     eff_then (current_dns os S) (\<lambda>c.
       if dns_nameservers c = [] \<and> \<not> dns_include_default_gateway c then ret ()
       else eff_then (attach_output os S (lc_name k) timeout_seconds (guest_resolv_conf_command c) None) (\<lambda>out.
         if po_success out then ret ()
         else fail [''failed to configure lxc container DNS with '' @ po_status out @ '': '' @
           summarize_raw_command_output (po_stdout out) (po_stderr out)]))"

definition configure_guest_network :: "OS \<Rightarrow> Sys \<Rightarrow> LxcContainer \<Rightarrow> u64 \<Rightarrow> unit eff" where
  "configure_guest_network os S k timeout_seconds =
     eff_then (current_bridge os S) (\<lambda>bridge.
       case bridge of
         None \<Rightarrow> ret ()
       | Some network \<Rightarrow>
           eff_then (attach_output os S (lc_name k) timeout_seconds
               (guest_network_command network (guest_ipv4_address network (lc_name k))) None) (\<lambda>out.
             if po_success out then ret ()
             else fail [''failed to configure lxc container network with '' @ po_status out @ '': '' @
               summarize_raw_command_output (po_stdout out) (po_stderr out)]))"

definition echo_line :: "string \<Rightarrow> string" where
  "echo_line s = ''echo '' @ [squote] @ ''[statix-agent] '' @ s @ [squote]"

definition guest_setup_command :: string where
  "guest_setup_command =
     ''set -e; '' @
     echo_line ''guest network diagnostics:'' @ ''; '' @
     echo_line ''ip addr:'' @ ''; ip addr || true; '' @
     echo_line ''ip route:'' @ ''; ip route || true; '' @
     echo_line ''/etc/resolv.conf:'' @ ''; cat /etc/resolv.conf || true; '' @
     ''command -v apt-get >/dev/null 2>&1 || { '' @
       echo_line ''Docker provisioning currently requires an apt-based LXC guest'' @ '' >&2; exit 1; }; '' @
     ''if ! id statix >/dev/null 2>&1; then useradd --create-home --shell /bin/bash statix; fi; '' @
     ''install -d -o statix -g statix -m 0755 /home/statix/docker; '' @
     echo_line ''apt-get update'' @ ''; apt-get update; '' @
     echo_line ''installing Docker, Compose, and build dependencies'' @ ''; '' @
     ''DEBIAN_FRONTEND=noninteractive apt-get install -y docker.io docker-compose-v2 build-essential '' @
       ''ca-certificates curl git libssl-dev pkg-config; '' @
     ''install -d /etc/docker; printf '' @ [squote] @ ''%s'' @ [CHR 0x5C] @ ''n'' @ [squote] @ '' '' @ [squote] @
       ''{\"storage-driver\":\"vfs\"}'' @ [squote] @ '' > /etc/docker/daemon.json; '' @
     ''systemctl enable --now docker; systemctl restart docker; '' @
     ''usermod --append --groups docker statix; '' @
     ''docker info >/dev/null; '' @
     ''if command -v cargo >/dev/null 2>&1; then '' @
     echo_line ''cargo already available'' @ ''; '' @
     ''else '' @
     echo_line ''installing rust toolchain'' @ ''; '' @
     ''curl --proto '' @ [squote] @ ''=https'' @ [squote] @ '' --tlsv1.2 -sSf https://sh.rustup.rs | sh -s -- -y '' @
       ''--profile minimal --default-toolchain stable; '' @
     ''fi''"

definition prepare_guest ::
  "OS \<Rightarrow> Sys \<Rightarrow> LxcContainer \<Rightarrow> ExecutionContext \<Rightarrow> u64 \<Rightarrow> string \<Rightarrow> JobExecutionResult option eff" where
  "prepare_guest os S k ctx timeout_seconds workdir =
     eff_then (attach_output os S (lc_name k) timeout_seconds guest_setup_command (Some ctx)) (\<lambda>out.
       ret (if po_success out then None
            else Some \<lparr>jr_status = ''failed'',
              jr_message = Some (summarize_command_output workdir (po_stdout out) (po_stderr out))\<rparr>))"

section \<open>The command\<close>

definition guest_home :: string where
  "guest_home = ''/home/statix/docker''"

definition guest_cwd :: "CommandSpec \<Rightarrow> string" where
  "guest_cwd c =
     (let cwd = unwrap_or (cs_cwd c) guest_home in if cwd = ''/workspace'' then guest_home else cwd)"

definition container_command :: "CommandSpec \<Rightarrow> string" where
  "container_command c =
     ''rm -rf /home/statix/docker && mkdir -p /home/statix/docker && tar -xzf /tmp/'' @ WORKSPACE_ARCHIVE @
     '' -C /home/statix/docker && chown -R statix:statix /home/statix/docker && su -s /bin/bash - statix -c '' @
     shell_escape (user_command shell_env_key shell_escape (guest_cwd c) (env_entries c) (cs_argv c))"

definition run_command_in_container ::
  "OS \<Rightarrow> Sys \<Rightarrow> LxcContainer \<Rightarrow> ExecutionContext \<Rightarrow> u64 \<Rightarrow> CommandSpec \<Rightarrow> string \<Rightarrow> JobExecutionResult eff" where
  "run_command_in_container os S k ctx timeout_seconds c workdir =
     (if \<not> starts_with (guest_cwd c) guest_home
      then fail [''container command cwd must be inside /home/statix/docker'']
      else eff_then (attach_output os S (lc_name k) timeout_seconds (container_command c) (Some ctx)) (\<lambda>out.
        ret \<lparr>jr_status = (if po_success out then ''succeeded'' else ''failed''),
          jr_message = Some (summarize_command_output workdir (po_stdout out) (po_stderr out))\<rparr>))"

section \<open>The runner\<close>

record ContainerRunner =
  cr_image :: string
  cr_cpu :: "u8 option"
  cr_memory_mb :: "u32 option"

definition DEFAULT_CPU_COUNT :: u8 where
  "DEFAULT_CPU_COUNT = 2"

definition DEFAULT_MEMORY_MB :: u32 where
  "DEFAULT_MEMORY_MB = 4096"

text \<open>\<open>jobs::execute\<close> on the host.\<close>

definition execute_on_host :: "OS \<Rightarrow> ExecutionContext \<Rightarrow> string \<Rightarrow> string list \<Rightarrow> JobExecutionResult eff" where
  "execute_on_host os ctx workdir argv =
     eff_then (lift (CommandSpec_new argv)) (\<lambda>c.
       eff_seq (lift (CommandSpec_validate c)) (HostRunner_execute os ctx workdir c))"

text \<open>The guarded part: every \<open>?\<close> in it ends the block, not the function.\<close>

definition container_session ::
  "OS \<Rightarrow> Sys \<Rightarrow> LxcContainer \<Rightarrow> ExecutionContext \<Rightarrow> string \<Rightarrow> CommandSpec \<Rightarrow> string \<Rightarrow> JobExecutionResult eff" where
  "container_session os S k ctx workspace_tar c workdir =
     (let timeout_seconds = ctx_timeout_seconds ctx
      in eff_seq (LxcContainer_start os S k)
        (eff_seq (configure_guest_network os S k timeout_seconds)
        (eff_seq (configure_guest_dns os S k timeout_seconds)
        (eff_then (prepare_guest os S k ctx timeout_seconds workdir) (\<lambda>early.
           case early of
             Some r \<Rightarrow> ret r
           | None \<Rightarrow> eff_seq (copy_archive_to_guest os S k workspace_tar)
               (run_command_in_container os S k ctx timeout_seconds c workdir))))))"

definition runtime_root :: "string \<Rightarrow> string \<Rightarrow> ExecutionContext \<Rightarrow> string" where
  "runtime_root state_dir kind ctx =
     path_join (path_join (path_join state_dir kind) (ctx_job_id ctx)) (ctx_attempt_id ctx)"

text \<open>The container from its creation to its end; a failed creation leaves no value to destroy.\<close>

definition container_life ::
  "OS \<Rightarrow> Sys \<Rightarrow> ContainerRunner \<Rightarrow> LxcImage \<Rightarrow> ExecutionContext \<Rightarrow> string \<Rightarrow> CommandSpec \<Rightarrow> string \<Rightarrow>
     JobExecutionResult eff" where
  "container_life os S R img ctx workspace_tar c workdir =
     eff_then (LxcContainer_create os S (container_name (ctx_attempt_id ctx)) (distribution img) (release img)
         (unwrap_or (cr_cpu R) DEFAULT_CPU_COUNT) (unwrap_or (cr_memory_mb R) DEFAULT_MEMORY_MB)) (\<lambda>k.
       eff_then (eff_try (container_session os S k ctx workspace_tar c workdir)) (\<lambda>r.
         eff_seq (LxcContainer_destroy os S k) (lift r)))"

definition ContainerRunner_execute ::
  "OS \<Rightarrow> Sys \<Rightarrow> ContainerRunner \<Rightarrow> ExecutionContext \<Rightarrow> string \<Rightarrow> CommandSpec \<Rightarrow> JobExecutionResult eff" where
  "ContainerRunner_execute os S R ctx workdir c =
     (if ctx_timeout_seconds ctx = 0 \<or> 3600 < ctx_timeout_seconds ctx then fail timeout_error
      else if cs_argv c = [] then fail no_command_error
      else eff_then (lift (LxcImage_parse (cr_image R))) (\<lambda>img.
        eff_then (lift (sys_state_dir S)) (\<lambda>state_dir.
          let root = runtime_root state_dir ''container'' ctx;
              workspace_tar = path_join root WORKSPACE_ARCHIVE
          in eff_seq (eff_context (''failed to create '' @ root) (perform os (Made_Dir root)))
            (eff_seq (create_workspace_archive os ''failed to archive workspace for container execution'' workspace_tar workdir)
            (eff_then (execute_on_host os ctx workdir network_command) (\<lambda>network.
               if jr_status network = ''failed'' then ret network
               else container_life os S R img ctx workspace_tar c workdir))))))"

end
