(* ===== verification/Container_Command.thy ===== *)
theory Container_Command
  imports Container_Runner
begin

text \<open>
  What the shells make of a container job's command line (\<open>run_command\<close> of \<open>lxc.rs\<close>): root's shell
  unpacks the workspace and hands one argument to \<open>su\<close>; the user's shell enters the directory,
  exports the variables and becomes the command.
\<close>

section \<open>The root shell\<close>

definition unpack_commands :: "string list list" where
  "unpack_commands =
     [[''rm'', ''-rf'', guest_home], [''mkdir'', ''-p'', guest_home],
      [''tar'', ''-xzf'', ''/tmp/'' @ WORKSPACE_ARCHIVE, ''-C'', guest_home],
      [''chown'', ''-R'', ''statix:statix'', guest_home]]"

definition su_command :: "string list" where
  "su_command = [''su'', ''-s'', ''/bin/bash'', ''-'', ''statix'', ''-c'']"

definition user_line :: "CommandSpec \<Rightarrow> string" where
  "user_line c = user_command shell_env_key shell_escape (guest_cwd c) (env_entries c) (cs_argv c)"

definition words_blank :: "string list \<Rightarrow> string" where
  "words_blank ws = concat (map (\<lambda>w. w @ '' '') ws)"

definition plain_words :: "string list \<Rightarrow> bool" where
  "plain_words ws \<longleftrightarrow> list_all (\<lambda>w. w \<noteq> [] \<and> list_all shell_plain w) ws"

lemma lex_word_blank:
  "v \<noteq> [] \<Longrightarrow> list_all shell_plain v \<Longrightarrow>
     sh_lex False None (v @ CHR '' '' # rest) = map_option (Cons (Word v)) (sh_lex False None rest)"
  by (simp add: sh_lex_plain list_all_iff flush_fun)

lemma lex_and_blank: "sh_lex False None (''&& '' @ rest) = map_option (Cons And_If) (sh_lex False None rest)"
  by (cases "sh_lex False None rest") simp_all

lemma lex_words:
  "plain_words ws \<Longrightarrow>
     sh_lex False None (words_blank ws @ rest) = map_option ((@) (map Word ws)) (sh_lex False None rest)"
proof (induction ws)
  case Nil
  show ?case by (cases "sh_lex False None rest") (simp_all add: words_blank_def)
next
  case (Cons w ws)
  then show ?case
    by (cases "sh_lex False None rest") (simp_all add: words_blank_def plain_words_def lex_word_blank)
qed

lemma lex_and_list:
  "list_all plain_words cmds \<Longrightarrow>
     sh_lex False None (concat (map (\<lambda>ws. words_blank ws @ ''&& '') cmds) @ rest) =
     map_option ((@) (concat (map (\<lambda>ws. map Word ws @ [And_If]) cmds))) (sh_lex False None rest)"
proof (induction cmds)
  case Nil
  show ?case by (cases "sh_lex False None rest") simp_all
next
  case (Cons ws cmds)
  then show ?case by (cases "sh_lex False None rest") (simp_all add: lex_words lex_and_blank)
qed

lemma fixed_words: "list_all plain_words unpack_commands" "plain_words su_command"
  by code_simp+

lemma container_command_words:
  "container_command c =
     concat (map (\<lambda>ws. words_blank ws @ ''&& '') unpack_commands) @ words_blank su_command @ shell_escape (user_line c)"
  by (simp add: container_command_def WORKSPACE_ARCHIVE_def user_line_def unpack_commands_def su_command_def
      words_blank_def guest_home_def)

lemma container_command_tokens:
  "sh_tokens (container_command c) = Some
     (concat (map (\<lambda>ws. map Word ws @ [And_If]) unpack_commands) @ map Word (su_command @ [user_line c]))"
  using container_quote.quote_tokens[of "user_line c"]
  unfolding container_command_words sh_tokens_def lex_and_list[OF fixed_words(1)] lex_words[OF fixed_words(2)]
  by (simp del: sh_lex.simps)

text \<open>Commands joined by \<open>&&\<close> run up to the first that fails.\<close>

fun and_run :: "(string list \<Rightarrow> bool) \<Rightarrow> string list list \<Rightarrow> string list list" where
  "and_run ok [] = []"
| "and_run ok (ws # cs) = ws # (if ok ws then and_run ok cs else [])"

lemma sh_commands_and_list:
  "ws \<noteq> [] \<Longrightarrow> sh_commands b [] (concat (map (\<lambda>ws. map Word ws @ [And_If]) cmds) @ map Word ws) =
     (b, hd (cmds @ [ws])) # map (\<lambda>w. (True, w)) (tl (cmds @ [ws]))"
proof (induction cmds arbitrary: b)
  case Nil
  then show ?case using sh_commands_words[of b "[]" ws "[]"] by simp
next
  case (Cons v cmds)
  then show ?case by (cases cmds) (simp_all add: sh_commands_words)
qed

lemma sh_exec_and_list:
  "list_all (\<lambda>ws. ws \<noteq> [] \<and> hd ws \<noteq> ''exec'') cs \<Longrightarrow>
     sh_exec ok status (map (\<lambda>w. (True, w)) cs) = (if status then and_run ok cs else [])"
  by (induction cs arbitrary: status) auto

lemma sh_run_container:
  "sh_run ok (container_command c) = Some (and_run ok (unpack_commands @ [su_command @ [user_line c]]))"
proof -
  have ne: "su_command @ [user_line c] \<noteq> []" by simp
  have "list_all (\<lambda>ws. ws \<noteq> [] \<and> hd ws \<noteq> ''exec'') (unpack_commands @ [su_command @ [user_line c]])"
    by (simp add: unpack_commands_def su_command_def)
  then have "sh_exec ok True (map (\<lambda>w. (True, w)) (unpack_commands @ [su_command @ [user_line c]])) =
      and_run ok (unpack_commands @ [su_command @ [user_line c]])"
    using sh_exec_and_list by (simp del: map_append)
  moreover have "unpack_commands @ [su_command @ [user_line c]] =
      hd (unpack_commands @ [su_command @ [user_line c]]) # tl (unpack_commands @ [su_command @ [user_line c]])"
    by simp
  ultimately show ?thesis
    unfolding sh_run_def container_command_tokens map_append[symmetric] option.map
    unfolding map_append[symmetric] sh_commands_and_list[OF ne]
    by (simp add: unpack_commands_def)
qed

section \<open>The user's shell\<close>

lemma user_line_run:
  "cs_argv c \<noteq> [] \<Longrightarrow> sh_run ok (user_line c) =
    Some ([''cd'', guest_cwd c] #
      (if ok [''cd'', guest_cwd c] then map (export_command shell_env_key) (env_entries c) @ [''exec'' # cs_argv c]
       else if env_entries c = [] then []
       else map (export_command shell_env_key) (tl (env_entries c)) @ [''exec'' # cs_argv c]))"
  unfolding user_line_def by (rule container_quote.user_command_run) (simp_all add: shell_env_key_valid)

text \<open>
  C10: Whatever the arguments, the environment and the directory of a validated command hold, root's
  shell runs the four unpacking steps and one \<open>su\<close>, stopping at the first that fails, and the user's
  shell then enters the directory, exports exactly the variables and becomes exactly the command.
\<close>

theorem container_command_faithful:
  assumes "CommandSpec_validate c = Inr ()" "ok [''cd'', guest_cwd c]"
  shows "sh_run ok' (container_command c) =
      Some (and_run ok' (unpack_commands @ [su_command @ [user_line c]])) \<and>
    sh_run ok (user_line c) = Some ([''cd'', guest_cwd c] #
      map (\<lambda>(k, v). [''export'', k @ ''='' @ v]) (env_entries c) @ [''exec'' # cs_argv c])"
proof -
  have "cs_argv c \<noteq> []" using assms(1) by (simp add: CommandSpec_validate_Inr)
  moreover have "map (export_command shell_env_key) (env_entries c) =
      map (\<lambda>(k, v). [''export'', k @ ''='' @ v]) (env_entries c)"
    using assms(1)
    by (auto simp: CommandSpec_validate_Inr export_command_def list_all_iff valid_env_name_key)
  ultimately show ?thesis using assms(2) by (simp add: user_line_run sh_run_container)
qed

text \<open>
  C38: A directory that cannot be entered does not stop a command that has a variable: the shell
  leaves out the first export and runs the command in the directory it started in.
\<close>

theorem failed_cd_still_runs:
  assumes "cs_argv c \<noteq> []" "env_entries c \<noteq> []" "\<not> ok [''cd'', guest_cwd c]"
  shows "sh_run ok (user_line c) = Some ([''cd'', guest_cwd c] #
    map (export_command shell_env_key) (tl (env_entries c)) @ [''exec'' # cs_argv c])"
  using assms by (simp add: user_line_run)

text \<open>
  The guard on the directory compares texts: every path that begins with the letters of the
  workspace passes, \<open>/home/statix/docker-other\<close> and \<open>/home/statix/docker/../..\<close> with it, and its
  command is run.
\<close>

theorem cwd_guard_textual:
  "Ran ((lxc_attach_command S (lc_name k) (container_command (c\<lparr>cs_cwd := Some (guest_home @ rest)\<rparr>)))
      \<lparr>cmd_limit_ms := Some (unat n * 1000)\<rparr>)
    \<in> set (snd (run_command_in_container os S k ctx n (c\<lparr>cs_cwd := Some (guest_home @ rest)\<rparr>) workdir h))"
proof -
  have cwd: "guest_cwd (c\<lparr>cs_cwd := Some (guest_home @ rest)\<rparr>) = guest_home @ rest"
    by (simp add: guest_cwd_def Let_def guest_home_def)
  have ext: "extends (stream_output os ctx' stdout stderr)" for ctx' stdout stderr
    by (auto simp: stream_output_def intro!: only_emit_streams split: option.split)
  then have rest: "extends (eff_seq (stream_output os ctx' stdout stderr) m)" if "extends m" for ctx' stdout stderr and m :: "ProcOutput eff"
    using that by (intro only_seq)
  have "wp (attach_output os S name n line ctx')
      (\<lambda>r h'. Ran ((lxc_attach_command S name line)\<lparr>cmd_limit_ms := Some (unat n * 1000)\<rparr>) \<in> set h') h"
    for name line ctx'
    unfolding attach_output_def wp_then wp_basic
    by (auto simp: wp_basic split: proc_outcome.split intro!: wp_extends rest)
  then have "wp (run_command_in_container os S k ctx n (c\<lparr>cs_cwd := Some (guest_home @ rest)\<rparr>) workdir)
      (\<lambda>r h'. Ran ((lxc_attach_command S (lc_name k) (container_command (c\<lparr>cs_cwd := Some (guest_home @ rest)\<rparr>)))
        \<lparr>cmd_limit_ms := Some (unat n * 1000)\<rparr>) \<in> set h') h"
    unfolding run_command_in_container_def cwd
    by (auto simp: starts_with_def intro!: wp_extends_then)
  then show ?thesis by (simp add: wp_run)
qed

section \<open>Examples\<close>

definition env_command :: CommandSpec where
  "env_command = \<lparr>cs_argv = [''ls''], cs_env = fmap_of_list [(''A'', ''x y'')], cs_cwd = None\<rparr>"

lemma env_command_entries: "env_entries env_command = [(''A'', ''x y'')]"
  by (simp add: env_entries_def env_command_def sorted_list_of_fmap_def fmdom_fmap_of_list sorted_list_of_fset.rep_eq)

lemma env_command_valid: "CommandSpec_validate env_command = Inr ()"
proof -
  have "trim ''ls'' \<noteq> []" "valid_env_name ''A''" by code_simp+
  then show ?thesis by (simp add: CommandSpec_validate_Inr env_command_entries) (simp add: env_command_def)
qed

lemma container_command_faithful_witness:
  "sh_run (\<lambda>_. True) (user_line env_command) =
     Some [[''cd'', guest_home], [''export'', ''A=x y''], [''exec'', ''ls'']]"
  using container_command_faithful[OF env_command_valid, of "\<lambda>_. True"]
  by (simp add: env_command_entries) (simp add: env_command_def guest_cwd_def Let_def guest_home_def)

lemma failed_cd_still_runs_witness:
  "sh_run (\<lambda>ws. hd ws \<noteq> ''cd'') (user_line env_command) = Some [[''cd'', guest_home], [''exec'', ''ls'']]"
  using failed_cd_still_runs[of env_command "\<lambda>ws. hd ws \<noteq> ''cd''"]
  by (simp add: env_command_entries) (simp add: env_command_def guest_cwd_def Let_def guest_home_def)

end
