(* ===== verification/Microvm_Guest.thy ===== *)
theory Microvm_Guest
  imports Container_Command
begin

text \<open>
  The virtual machine of \<open>src/jobs/runners/microvm.rs\<close>: its image and disk, key pair and cloud-init
  seed, the QEMU process with its last log lines, the probes that wait for the guest, and the job's
  command in it. Killing a child and reaping it is one event; a probe that is dropped at its limit
  leaves nothing here.
\<close>

section \<open>Constants and small functions\<close>

definition DEFAULT_SSH_USER :: string where
  "DEFAULT_SSH_USER = ''statix''"

definition DEFAULT_SSH_PORT :: u16 where
  "DEFAULT_SSH_PORT = 2222"

definition DEFAULT_DISK_SIZE :: string where
  "DEFAULT_DISK_SIZE = ''16G''"

definition microvm_missing_dependency_message :: "string \<Rightarrow> string \<Rightarrow> string" where
  "microvm_missing_dependency_message program debian_package =
     ''failed to launch '' @ program @ ''; install the '' @ [squote] @ debian_package @ [squote] @
     '' package and ensure '' @ program @ '' is on PATH''"

definition qemu_binary :: "string \<Rightarrow> string result" where
  "qemu_binary ARCH =
     (if ARCH = ''x86_64'' then Inr ''qemu-system-x86_64''
      else if ARCH = ''aarch64'' then Inr ''qemu-system-aarch64''
      else bail (''unsupported host architecture for microvm runner: '' @ ARCH))"

definition qemu_package_hint :: "string \<Rightarrow> string" where
  "qemu_package_hint ARCH =
     (if ARCH = ''x86_64'' then ''qemu-system-x86''
      else if ARCH = ''aarch64'' then ''qemu-system-arm'' else ''qemu-system'')"

definition canonical_ubuntu_image_url :: "string \<Rightarrow> string" where
  "canonical_ubuntu_image_url ARCH =
     ''https://cloud-images.ubuntu.com/noble/current/noble-server-cloudimg-'' @
     (if ARCH = ''aarch64'' then ''arm64.img'' else ''amd64.img'')"

definition microvm_truncate_for_log :: "string \<Rightarrow> nat \<Rightarrow> string" where
  "microvm_truncate_for_log value max_chars =
     (if length value \<le> max_chars then value else take max_chars value @ ''...'')"

text \<open>\<open>Path::with_extension\<close>, for a path that ends in its file name.\<close>

definition with_extension :: "string \<Rightarrow> string \<Rightarrow> string" where
  "with_extension path extension =
     (let file = rev (takeWhile (\<lambda>c. c \<noteq> CHR ''/'') (rev path));
          dir = take (length path - length file) path;
          suffix = rev (takeWhile (\<lambda>c. c \<noteq> CHR ''.'') (rev file));
          stem = take (length file - length suffix - 1) file
      in if file = [] \<or> file = ''.'' \<or> file = ''..'' then path
         else dir @ (if length suffix = length file \<or> stem = [] then file else stem) @ ''.'' @ extension)"

section \<open>Image, disk, keys and seed\<close>

definition resolve_base_image ::
  "OS \<Rightarrow> (u8 list \<Rightarrow> u8 list) \<Rightarrow> (u8 list \<Rightarrow> string) \<Rightarrow> string \<Rightarrow> string \<Rightarrow> string \<Rightarrow> string eff" where
  "resolve_base_image os sha256 hex ARCH img vm_root =
     (let trimmed = trim img in
      if trimmed = [] then fail [''microvm image must not be empty'']
      else eff_then (file_exists os trimmed) (\<lambda>present.
        if present then ret trimmed
        else eff_then
          (if trimmed = ''ubuntu-24.04'' \<or> trimmed = ''ubuntu-24.04-lts'' \<or> trimmed = ''ubuntu-noble''
           then ret (canonical_ubuntu_image_url ARCH)
           else if starts_with trimmed ''http://'' \<or> starts_with trimmed ''https://'' then ret trimmed
           else fail [''unsupported microvm image reference: '' @ trimmed]) (\<lambda>url.
          let cache_dir = path_join vm_root ''images'';
              cached_image = path_join cache_dir (image_cache_key sha256 hex url @ ''.img'')
          in eff_seq (eff_context (''failed to create '' @ cache_dir) (perform os (Made_Dir cache_dir)))
            (eff_then (file_exists os cached_image) (\<lambda>cached.
              if cached then ret cached_image
              else eff_then (eff_context (''failed to download microvm image from '' @ url)
                  (http os \<lparr>rq_url = url, rq_body = None\<rparr>)) (\<lambda>r.
                if 400 \<le> rp_status r \<and> rp_status r < 600
                then lift (with_context (''microvm image request failed for '' @ url) (Inl (rp_error r)))
                else eff_then (lift (with_context (''failed to read microvm image from '' @ url) (rp_text r))) (\<lambda>bytes.
                  eff_seq (eff_context (''failed to cache microvm image at '' @ cached_image)
                      (perform os (Wrote cached_image bytes)))
                    (ret cached_image))))))))"

definition create_overlay_disk :: "OS \<Rightarrow> string \<Rightarrow> string \<Rightarrow> unit eff" where
  "create_overlay_disk os base_image overlay_image =
     eff_then (run_tool os (microvm_missing_dependency_message ''qemu-img'' ''qemu-utils'')
         (cmd ''qemu-img'' [''create'', ''-f'', ''qcow2'', ''-F'', ''qcow2'', ''-b'', base_image, overlay_image])) (\<lambda>out.
       if po_success out then ret () else fail [''qemu-img failed to create overlay disk''])"

definition resize_overlay_disk :: "OS \<Rightarrow> string \<Rightarrow> unit eff" where
  "resize_overlay_disk os overlay_image =
     eff_then (run_tool os (microvm_missing_dependency_message ''qemu-img'' ''qemu-utils'')
         (cmd ''qemu-img'' [''resize'', overlay_image, DEFAULT_DISK_SIZE])) (\<lambda>out.
       if po_success out then ret () else fail [''qemu-img failed to resize the microvm overlay disk''])"

definition remove_if_present :: "OS \<Rightarrow> string \<Rightarrow> unit eff" where
  "remove_if_present os path =
     eff_then (file_exists os path) (\<lambda>present. eff_when present (eff_ignore (perform os (Removed path))))"

definition generate_ssh_keypair :: "OS \<Rightarrow> string \<Rightarrow> string \<Rightarrow> unit eff" where
  "generate_ssh_keypair os private_key public_key =
     eff_seq (remove_if_present os private_key)
     (eff_seq (remove_if_present os public_key)
     (eff_then (run_tool os ''failed to launch ssh-keygen''
         (cmd ''ssh-keygen'' [''-q'', ''-t'', ''ed25519'', ''-N'', [], ''-f'', private_key])) (\<lambda>out.
       if \<not> po_success out then fail [''ssh-keygen failed to create guest keypair'']
       else eff_then (file_exists os public_key) (\<lambda>present.
         if present then ret () else fail [''ssh-keygen did not create a public key'']))))"

definition cloud_init_user_data :: "string \<Rightarrow> string" where
  "cloud_init_user_data public_key =
     ''#cloud-config'' @ [newline] @ ''users:'' @ [newline] @
     ''  - name: '' @ DEFAULT_SSH_USER @ [newline] @
     ''    groups: [sudo]'' @ [newline] @
     ''    shell: /bin/bash'' @ [newline] @
     ''    sudo: ALL=(ALL) NOPASSWD:ALL'' @ [newline] @
     ''    ssh_authorized_keys:'' @ [newline] @
     ''      - '' @ trim public_key @ [newline] @
     ''ssh_pwauth: false'' @ [newline] @ ''disable_root: true'' @ [newline]"

definition cloud_init_meta_data :: string where
  "cloud_init_meta_data =
     ''instance-id: statix-microvm'' @ [newline] @ ''local-hostname: statix-microvm'' @ [newline]"

definition create_cloud_init_seed :: "OS \<Rightarrow> string \<Rightarrow> string \<Rightarrow> unit eff" where
  "create_cloud_init_seed os seed_iso public_key_path =
     eff_then (eff_context (''failed to read '' @ public_key_path) (read_file os public_key_path)) (\<lambda>public_key.
       let user_data_path = with_extension seed_iso ''user-data'';
           meta_data_path = with_extension seed_iso ''meta-data''
       in eff_seq (eff_context (''failed to write '' @ user_data_path)
            (perform os (Wrote user_data_path (cloud_init_user_data public_key))))
         (eff_seq (eff_context (''failed to write '' @ meta_data_path)
            (perform os (Wrote meta_data_path cloud_init_meta_data)))
         (eff_then (run_tool os (microvm_missing_dependency_message ''cloud-localds'' ''cloud-image-utils'')
             (cmd ''cloud-localds'' [seed_iso, user_data_path, meta_data_path])) (\<lambda>out.
           eff_seq (eff_ignore (perform os (Removed user_data_path)))
           (eff_seq (eff_ignore (perform os (Removed meta_data_path)))
             (if po_success out then ret () else fail [''cloud-localds failed to create the seed image'']))))))"

section \<open>The QEMU process\<close>

text \<open>Whether there is a child to wait for; its last log lines come from the threads that read them.\<close>

record QemuProcess =
  qp_child :: bool

definition push_log :: "string list \<Rightarrow> string \<times> string \<Rightarrow> string list" where
  "push_log logs l = (if length logs = 32 then tl logs else logs) @ [fst l @ '': '' @ snd l]"

definition recent_logs :: "(string \<times> string) list \<Rightarrow> string list" where
  "recent_logs ls = foldl push_log [] ls"

text \<open>\<open>try_wait\<close> changes the process also where it fails: its result comes as a value.\<close>

definition QemuProcess_try_wait :: "OS \<Rightarrow> QemuProcess \<Rightarrow> (string option result \<times> QemuProcess) eff" where
  "QemuProcess_try_wait os q =
     (if \<not> qp_child q then ret (Inr None, q)
      else eff_then (eff_try (eff_context ''failed to poll qemu status'' (poll_child os))) (\<lambda>status.
        ret (status, case status of Inr (Some s) \<Rightarrow> q\<lparr>qp_child := False\<rparr> | _ \<Rightarrow> q)))"

definition failure_message :: "string list \<Rightarrow> string \<Rightarrow> string" where
  "failure_message logs status =
     (let logs = join [newline] logs
      in if trim logs = [] then ''qemu exited before the guest became ready: '' @ status
         else ''qemu exited before the guest became ready: '' @ status @ [newline] @ ''recent qemu logs:'' @
           [newline] @ logs)"

definition QemuProcess_shutdown :: "OS \<Rightarrow> QemuProcess \<Rightarrow> unit eff" where
  "QemuProcess_shutdown os q =
     eff_then (QemuProcess_try_wait os q) (\<lambda>(status, q).
       case status of
         Inr (Some s) \<Rightarrow> ret ()
       | _ \<Rightarrow> if qp_child q then emit Killed else ret ())"

definition qemu_launch_args :: "string \<Rightarrow> string \<Rightarrow> u8 \<Rightarrow> u32 \<Rightarrow> u16 \<Rightarrow> string list" where
  "qemu_launch_args overlay_image seed_iso cpu memory_mb ssh_port =
     [''-m'', show_word memory_mb, ''-smp'', show_word cpu, ''-accel'', ''kvm'', ''-accel'',
      ''tcg,split-wx=on,thread=multi'', ''-drive'', ''if=virtio,format=qcow2,file='' @ overlay_image, ''-drive'',
      ''if=virtio,format=raw,file='' @ seed_iso @ '',media=cdrom'', ''-netdev'',
      ''user,id=net0,hostfwd=tcp::'' @ show_word ssh_port @ ''-:22'', ''-device'', ''virtio-net-pci,netdev=net0'',
      ''-nographic'']"

definition launch_qemu :: "OS \<Rightarrow> string \<Rightarrow> string \<Rightarrow> string \<Rightarrow> u8 \<Rightarrow> u32 \<Rightarrow> u16 \<Rightarrow> QemuProcess eff" where
  "launch_qemu os ARCH overlay_image seed_iso cpu memory_mb ssh_port =
     eff_then (lift (qemu_binary ARCH)) (\<lambda>binary.
       eff_seq (eff_context (microvm_missing_dependency_message binary (qemu_package_hint ARCH))
           (perform os (Launched (cmd binary (qemu_launch_args overlay_image seed_iso cpu memory_mb ssh_port)))))
         (ret \<lparr>qp_child = True\<rparr>))"

definition launch_project_qemu ::
  "OS \<Rightarrow> string \<Rightarrow> string \<Rightarrow> string \<Rightarrow> string \<Rightarrow> u8 \<Rightarrow> u32 \<Rightarrow> u16 \<Rightarrow> unit eff" where
  "launch_project_qemu os ARCH vm_root overlay_image seed_iso cpu memory_mb ssh_port =
     (let stdout = path_join vm_root ''qemu.stdout.log'';
          stderr = path_join vm_root ''qemu.stderr.log'';
          pid_path = path_join vm_root ''qemu.pid''
      in eff_then (lift (qemu_binary ARCH)) (\<lambda>binary.
        eff_seq (eff_context (''failed to open '' @ stdout) (perform os (Opened stdout)))
        (eff_seq (eff_context (''failed to open '' @ stderr) (perform os (Opened stderr)))
        (eff_seq (eff_context (microvm_missing_dependency_message binary (qemu_package_hint ARCH))
           (perform os (Launched (cmd binary (qemu_launch_args overlay_image seed_iso cpu memory_mb ssh_port)))))
        (eff_then (child_id os) (\<lambda>pid.
          eff_context (''failed to write '' @ pid_path) (perform os (Wrote pid_path (show_word pid)))))))))"

section \<open>Waiting for the guest\<close>

definition common_ssh_options :: "u64 \<Rightarrow> string list" where
  "common_ssh_options connect_timeout_seconds =
     [''-o'', ''BatchMode=yes'', ''-o'', ''ConnectTimeout='' @ show_word connect_timeout_seconds,
      ''-o'', ''StrictHostKeyChecking=no'', ''-o'', ''UserKnownHostsFile=/dev/null'',
      ''-o'', ''GlobalKnownHostsFile=/dev/null'', ''-o'', ''LogLevel=ERROR'']"

definition guest_login :: string where
  "guest_login = DEFAULT_SSH_USER @ ''@127.0.0.1''"

definition readiness_probe :: "u16 \<Rightarrow> string \<Rightarrow> nat \<Rightarrow> Cmd" where
  "readiness_probe ssh_port private_key limit_ms =
     (cmd ''ssh'' ([''-i'', private_key] @ common_ssh_options 3 @
       [''-p'', show_word ssh_port, guest_login, ''test'', ''-f'', ''/var/lib/cloud/instance/boot-finished'']))
       \<lparr>cmd_limit_ms := Some limit_ms\<rparr>"

definition readiness_stderr_is_non_actionable :: "string \<Rightarrow> bool" where
  "readiness_stderr_is_non_actionable stderr \<longleftrightarrow>
     stderr = [] \<or> starts_with stderr ''Warning: Permanently added ''"

text \<open>\<open>status.code() == Some(1)\<close> is the status that reads \<open>exit status: 1\<close>.\<close>

definition readiness_probe_failure :: "ProcOutput \<Rightarrow> string" where
  "readiness_probe_failure out =
     (let stderr = trim (po_stderr out)
      in if po_status out = ''exit status: 1'' \<and> readiness_stderr_is_non_actionable stderr
         then ''ssh is reachable; waiting for cloud-init boot-finished marker''
         else if stderr = [] then ''ssh readiness probe exited with '' @ po_status out
         else ''ssh readiness probe exited with '' @ po_status out @ '': '' @ microvm_truncate_for_log stderr 240)"

definition probe_again :: "string \<Rightarrow> QemuProcess \<Rightarrow> ((string \<times> QemuProcess) + (unit result \<times> QemuProcess)) eff" where
  "probe_again last_probe_failure q = eff_seq (emit (Slept 2000)) (ret (Inl (last_probe_failure, q)))"

text \<open>One round of the loop, with the failure of the last probe and the process as its state.\<close>

definition guest_round ::
  "OS \<Rightarrow> u16 \<Rightarrow> string \<Rightarrow> nat \<Rightarrow> nat \<Rightarrow> string \<times> QemuProcess \<Rightarrow>
     ((string \<times> QemuProcess) + (unit result \<times> QemuProcess)) eff" where
  "guest_round os ssh_port private_key start deadline = (\<lambda>(last_probe_failure, q).
     eff_then (QemuProcess_try_wait os q) (\<lambda>(status, q).
       case status of
         Inl e \<Rightarrow> ret (Inr (Inl e, q))
       | Inr (Some s) \<Rightarrow> eff_then (child_log os) (\<lambda>ls. ret (Inr (bail (failure_message (recent_logs ls) s), q)))
       | Inr None \<Rightarrow>
         eff_then (clock os) (\<lambda>now.
           if deadline \<le> now - start
           then ret (Inr (bail (''microvm did not become ready before timeout; last probe: '' @ last_probe_failure), q))
           else eff_then (exec os (readiness_probe ssh_port private_key (min (deadline - (now - start)) 5000))) (\<lambda>r.
             case r of
               Finished out \<Rightarrow>
                 if po_success out then ret (Inr (Inr (), q)) else probe_again (readiness_probe_failure out) q
             | Not_Found e \<Rightarrow> probe_again (''failed to launch ssh readiness probe: '' @ e) q
             | Spawn_Failed e \<Rightarrow> probe_again (''failed to launch ssh readiness probe: '' @ e) q
             | Timed_Out \<Rightarrow> probe_again ''ssh readiness probe timed out'' q))))"

text \<open>A round takes two seconds at least: the timeout in seconds bounds the number of rounds.\<close>

definition wait_fuel :: "u64 \<Rightarrow> nat" where
  "wait_fuel timeout_seconds = Suc (unat timeout_seconds)"

definition wait_for_guest_ready ::
  "OS \<Rightarrow> QemuProcess \<Rightarrow> u16 \<Rightarrow> string \<Rightarrow> u64 \<Rightarrow> (unit result \<times> QemuProcess) eff" where
  "wait_for_guest_ready os q ssh_port private_key timeout_seconds =
     eff_then (clock os) (\<lambda>start.
       eff_loop (wait_fuel timeout_seconds)
         (guest_round os ssh_port private_key start (unat timeout_seconds * 1000))
         (''SSH readiness probe has not run yet'', q))"

definition guest_ready :: "OS \<Rightarrow> u16 \<Rightarrow> string \<Rightarrow> bool eff" where
  "guest_ready os ssh_port private_key =
     eff_then (exec os (readiness_probe ssh_port private_key 5000)) (\<lambda>r.
       ret (case r of Finished out \<Rightarrow> po_success out | _ \<Rightarrow> False))"

definition project_round :: "OS \<Rightarrow> u16 \<Rightarrow> string \<Rightarrow> nat \<Rightarrow> nat \<Rightarrow> unit \<Rightarrow> (unit + unit) eff" where
  "project_round os ssh_port private_key start deadline = (\<lambda>_.
     eff_then (clock os) (\<lambda>now.
       if deadline \<le> now - start then fail [''project microvm did not become ready before timeout'']
       else eff_then (guest_ready os ssh_port private_key) (\<lambda>ready.
         if ready then ret (Inr ()) else eff_seq (emit (Slept 2000)) (ret (Inl ())))))"

definition wait_for_project_guest_ready :: "OS \<Rightarrow> u16 \<Rightarrow> string \<Rightarrow> u64 \<Rightarrow> unit eff" where
  "wait_for_project_guest_ready os ssh_port private_key timeout_seconds =
     eff_then (clock os) (\<lambda>start.
       eff_loop (wait_fuel timeout_seconds)
         (project_round os ssh_port private_key start (unat timeout_seconds * 1000)) ())"

section \<open>The command in the guest\<close>

definition microvm_guest_cwd :: "CommandSpec \<Rightarrow> string" where
  "microvm_guest_cwd c =
     (let cwd = unwrap_or (cs_cwd c) ''/home/statix/docker''
      in if cwd = ''/workspace'' then ''/home/statix/docker'' else cwd)"

definition microvm_user_line :: "CommandSpec \<Rightarrow> string" where
  "microvm_user_line c =
     user_command microvm_shell_env_key microvm_shell_escape (microvm_guest_cwd c) (env_entries c) (cs_argv c)"

definition remote_setup :: string where
  "remote_setup =
     ''set -e; if ! command -v docker >/dev/null 2>&1 || ! sudo docker info >/dev/null 2>&1; then sudo apt-get update '' @
     ''&& sudo env DEBIAN_FRONTEND=noninteractive apt-get install -y docker.io docker-compose-v2 curl; '' @
     ''sudo systemctl enable --now docker; fi; sudo usermod --append --groups docker '' @ DEFAULT_SSH_USER @
     ''; sudo install -d -o '' @ DEFAULT_SSH_USER @ '' -g '' @ DEFAULT_SSH_USER @ '' -m 0755 /home/'' @
     DEFAULT_SSH_USER @ ''/docker; find /home/'' @ DEFAULT_SSH_USER @
     ''/docker -mindepth 1 -maxdepth 1 -exec rm -rf -- {} +; tar -xzf /home/'' @ DEFAULT_SSH_USER @
     ''/workspace.tar.gz -C /home/'' @ DEFAULT_SSH_USER @ ''/docker; sudo chown -R '' @ DEFAULT_SSH_USER @ '':'' @
     DEFAULT_SSH_USER @ '' /home/'' @ DEFAULT_SSH_USER @ ''/docker; ''"

definition remote_command :: "CommandSpec \<Rightarrow> string" where
  "remote_command c = remote_setup @ ''sg docker -c '' @ microvm_shell_escape (microvm_user_line c)"

definition upload_command :: "u16 \<Rightarrow> string \<Rightarrow> u64 \<Rightarrow> string \<Rightarrow> Cmd" where
  "upload_command ssh_port private_key timeout_seconds workspace_tar =
     (cmd ''scp'' ([''-i'', private_key] @ common_ssh_options 5 @
       [''-P'', show_word ssh_port, workspace_tar,
        DEFAULT_SSH_USER @ ''@127.0.0.1:/home/'' @ DEFAULT_SSH_USER @ ''/workspace.tar.gz'']))
       \<lparr>cmd_limit_ms := Some (unat timeout_seconds * 1000)\<rparr>"

definition guest_exec_command :: "u16 \<Rightarrow> string \<Rightarrow> u64 \<Rightarrow> CommandSpec \<Rightarrow> string \<Rightarrow> Cmd" where
  "guest_exec_command ssh_port private_key timeout_seconds c workdir =
     (cmd ''ssh'' ([''-i'', private_key] @ common_ssh_options 5 @
       [''-p'', show_word ssh_port, guest_login, remote_command c]))
       \<lparr>cmd_limit_ms := Some (unat timeout_seconds * 1000), cmd_cwd := Some workdir\<rparr>"

text \<open>The output of a call under the job's timeout, with the messages of its two failures.\<close>

definition limited_output :: "string \<Rightarrow> string \<Rightarrow> proc_outcome \<Rightarrow> ProcOutput result" where
  "limited_output timed_out failed r =
     (case r of
        Finished out \<Rightarrow> Inr out
      | Timed_Out \<Rightarrow> Inl [timed_out]
      | Not_Found e \<Rightarrow> Inl [failed, e]
      | Spawn_Failed e \<Rightarrow> Inl [failed, e])"

definition run_guest_command ::
  "OS \<Rightarrow> u16 \<Rightarrow> string \<Rightarrow> u64 \<Rightarrow> CommandSpec \<Rightarrow> string \<Rightarrow> string \<Rightarrow> JobExecutionResult eff" where
  "run_guest_command os ssh_port private_key timeout_seconds c workdir workspace_tar =
     eff_then (exec os (upload_command ssh_port private_key timeout_seconds workspace_tar)) (\<lambda>r.
     eff_then (lift (limited_output
         (''microvm archive upload timed out after '' @ show_word timeout_seconds @ '' seconds'')
         ''failed to upload workspace archive to microvm'' r)) (\<lambda>upload.
       if \<not> po_success upload
       then ret \<lparr>jr_status = ''failed'',
         jr_message = Some (summarize_command_output workdir (po_stdout upload) (po_stderr upload))\<rparr>
       else if \<not> starts_with (microvm_guest_cwd c) ''/home/statix/docker''
       then fail [''microvm command cwd must be inside /home/statix/docker'']
       else eff_then (exec os (guest_exec_command ssh_port private_key timeout_seconds c workdir)) (\<lambda>r.
         eff_then (lift (limited_output
             (''microvm command timed out after '' @ show_word timeout_seconds @ '' seconds'')
             ''failed to execute command inside microvm'' r)) (\<lambda>out.
           ret \<lparr>jr_status = (if po_success out then ''succeeded'' else ''failed''),
             jr_message = Some (summarize_command_output workdir (po_stdout out) (po_stderr out))\<rparr>))))"

end
