(* ===== verification/Microvm_Runner.thy ===== *)
theory Microvm_Runner
  imports Microvm_Guest
begin

text \<open>
  \<open>MicrovmRunner::execute\<close> and \<open>ProjectMicrovmRunner::execute\<close> of \<open>src/jobs/runners/microvm.rs\<close>: a
  machine per job that is shut down at its end, and a machine per project that is started when it
  does not answer and left running.
\<close>

record MicrovmRunner =
  mv_cpu :: "u8 option"
  mv_memory_mb :: "u32 option"

record ProjectMicrovmRunner =
  pv_project_id :: string
  pv_environment :: string
  pv_cpu :: "u8 option"
  pv_memory_mb :: "u32 option"

definition microvm_DEFAULT_MEMORY_MB :: u32 where
  "microvm_DEFAULT_MEMORY_MB = 4096"

definition microvm_DEFAULT_CPU_COUNT :: u8 where
  "microvm_DEFAULT_CPU_COUNT = 2"

definition base_image_name :: "Sys \<Rightarrow> string" where
  "base_image_name S = unwrap_or (sys_env S ''STATIX_MICROVM_BASE_IMAGE'') ''ubuntu-24.04''"

definition microvm_archive :: "OS \<Rightarrow> string \<Rightarrow> string \<Rightarrow> unit eff" where
  "microvm_archive os archive_path workdir =
     create_workspace_archive os ''failed to archive workspace for microvm execution'' archive_path workdir"

text \<open>From the launch to the shutdown: the result of the guest is inspected, not propagated.\<close>

definition microvm_life ::
  "OS \<Rightarrow> Sys \<Rightarrow> MicrovmRunner \<Rightarrow> ExecutionContext \<Rightarrow> string \<Rightarrow> string \<Rightarrow> string \<Rightarrow> string \<Rightarrow> string \<Rightarrow> CommandSpec \<Rightarrow>
     JobExecutionResult eff" where
  "microvm_life os S R ctx overlay_image seed_iso private_key workspace_tar workdir c =
     eff_then (launch_qemu os (sys_arch S) overlay_image seed_iso (unwrap_or (mv_cpu R) microvm_DEFAULT_CPU_COUNT)
         (unwrap_or (mv_memory_mb R) microvm_DEFAULT_MEMORY_MB) DEFAULT_SSH_PORT) (\<lambda>q.
     eff_then (wait_for_guest_ready os q DEFAULT_SSH_PORT private_key (ctx_timeout_seconds ctx)) (\<lambda>(ready, q).
     eff_then (case ready of
         Inl e \<Rightarrow> ret (Inl e)
       | Inr _ \<Rightarrow> eff_try (run_guest_command os DEFAULT_SSH_PORT private_key (ctx_timeout_seconds ctx) c workdir
           workspace_tar)) (\<lambda>result.
     eff_seq (QemuProcess_shutdown os q) (lift result))))"

definition MicrovmRunner_execute ::
  "OS \<Rightarrow> Sys \<Rightarrow> (u8 list \<Rightarrow> u8 list) \<Rightarrow> (u8 list \<Rightarrow> string) \<Rightarrow> MicrovmRunner \<Rightarrow> ExecutionContext \<Rightarrow> string \<Rightarrow>
     CommandSpec \<Rightarrow> JobExecutionResult eff" where
  "MicrovmRunner_execute os S sha256 hex R ctx workdir c =
     (if ctx_timeout_seconds ctx = 0 \<or> 3600 < ctx_timeout_seconds ctx then fail timeout_error
      else if cs_argv c = [] then fail no_command_error
      else eff_then (lift (sys_state_dir S)) (\<lambda>state_dir.
        let vm_root = runtime_root state_dir ''microvm'' ctx;
            overlay_image = path_join vm_root ''disk.qcow2'';
            ssh_dir = path_join vm_root ''ssh'';
            private_key = path_join ssh_dir ''id_ed25519'';
            public_key = path_join ssh_dir ''id_ed25519.pub'';
            seed_iso = path_join vm_root ''seed.iso'';
            workspace_tar = path_join vm_root ''workspace.tar.gz''
        in eff_seq (eff_context (''failed to create '' @ vm_root) (perform os (Made_Dir vm_root)))
          (eff_then (resolve_base_image os sha256 hex (sys_arch S) (base_image_name S) vm_root) (\<lambda>base_image.
           eff_seq (create_overlay_disk os base_image overlay_image)
          (eff_seq (resize_overlay_disk os overlay_image)
          (eff_seq (eff_context (''failed to create '' @ ssh_dir) (perform os (Made_Dir ssh_dir)))
          (eff_seq (generate_ssh_keypair os private_key public_key)
          (eff_seq (microvm_archive os workspace_tar workdir)
          (eff_seq (create_cloud_init_seed os seed_iso public_key)
            (microvm_life os S R ctx overlay_image seed_iso private_key workspace_tar workdir c)))))))))) "

definition unless_exists :: "OS \<Rightarrow> string \<Rightarrow> unit eff \<Rightarrow> unit eff" where
  "unless_exists os path m = eff_then (file_exists os path) (\<lambda>present. eff_when (\<not> present) m)"

text \<open>The start of a project's machine unless it answers.\<close>

definition ensure_project_vm ::
  "OS \<Rightarrow> Sys \<Rightarrow> ProjectMicrovmRunner \<Rightarrow> string \<Rightarrow> string \<Rightarrow> string \<Rightarrow> string \<Rightarrow> u16 \<Rightarrow> unit eff" where
  "ensure_project_vm os S R vm_root overlay_image seed_iso private_key ssh_port =
     eff_then (guest_ready os ssh_port private_key) (\<lambda>ready.
       eff_when (\<not> ready)
         (launch_project_qemu os (sys_arch S) vm_root overlay_image seed_iso
           (unwrap_or (pv_cpu R) microvm_DEFAULT_CPU_COUNT)
           (unwrap_or (pv_memory_mb R) microvm_DEFAULT_MEMORY_MB) ssh_port))"

definition project_job ::
  "OS \<Rightarrow> ExecutionContext \<Rightarrow> string \<Rightarrow> u16 \<Rightarrow> string \<Rightarrow> string \<Rightarrow> CommandSpec \<Rightarrow> JobExecutionResult eff" where
  "project_job os ctx vm_root ssh_port private_key workdir c =
     (let workspace_tar = path_join vm_root (''workspace-'' @ safe_path_segment (ctx_attempt_id ctx) @ ''.tar.gz'')
      in eff_seq (wait_for_project_guest_ready os ssh_port private_key (ctx_timeout_seconds ctx))
        (eff_seq (microvm_archive os workspace_tar workdir)
        (eff_then (eff_try (run_guest_command os ssh_port private_key (ctx_timeout_seconds ctx) c workdir workspace_tar))
          (\<lambda>result. eff_seq (eff_ignore (perform os (Removed workspace_tar))) (lift result)))))"

definition ProjectMicrovmRunner_execute ::
  "OS \<Rightarrow> Sys \<Rightarrow> (u8 list \<Rightarrow> u8 list) \<Rightarrow> (u8 list \<Rightarrow> string) \<Rightarrow> ProjectMicrovmRunner \<Rightarrow> ExecutionContext \<Rightarrow> string \<Rightarrow>
     CommandSpec \<Rightarrow> JobExecutionResult eff" where
  "ProjectMicrovmRunner_execute os S sha256 hex R ctx workdir c =
     (if ctx_timeout_seconds ctx = 0 \<or> 3600 < ctx_timeout_seconds ctx then fail timeout_error
      else if cs_argv c = [] then fail no_command_error
      else eff_then (lift (sys_state_dir S)) (\<lambda>state_dir.
        let vm_key = project_vm_key sha256 hex (pv_project_id R) (pv_environment R);
            vm_root = path_join (path_join (path_join state_dir ''microvm'') ''projects'') vm_key;
            overlay_image = path_join vm_root ''disk.qcow2'';
            ssh_dir = path_join vm_root ''ssh'';
            private_key = path_join ssh_dir ''id_ed25519'';
            public_key = path_join ssh_dir ''id_ed25519.pub'';
            seed_iso = path_join vm_root ''seed.iso'';
            ssh_port = project_vm_ssh_port sha256 vm_key
        in eff_seq (eff_context (''failed to create '' @ vm_root) (perform os (Made_Dir vm_root)))
          (eff_then (resolve_base_image os sha256 hex (sys_arch S) (base_image_name S) vm_root) (\<lambda>base_image.
           eff_seq (unless_exists os overlay_image (create_overlay_disk os base_image overlay_image))
          (eff_seq (resize_overlay_disk os overlay_image)
          (eff_seq (eff_context (''failed to create '' @ ssh_dir) (perform os (Made_Dir ssh_dir)))
          (eff_seq (eff_then (file_exists os private_key) (\<lambda>private_present.
             eff_then (if private_present then file_exists os public_key else ret False) (\<lambda>both_present.
               eff_when (\<not> both_present) (generate_ssh_keypair os private_key public_key))))
          (eff_seq (unless_exists os seed_iso (create_cloud_init_seed os seed_iso public_key))
          (eff_seq (ensure_project_vm os S R vm_root overlay_image seed_iso private_key ssh_port)
            (project_job os ctx vm_root ssh_port private_key workdir c)))))))))) "

section \<open>Log lines and messages\<close>

text \<open>What is kept of QEMU's output: its last 32 lines, in their order.\<close>

lemma recent_logs_append: "recent_logs (ls @ [l]) = push_log (recent_logs ls) l"
  by (simp add: recent_logs_def)

lemma recent_logs_last:
  "recent_logs ls = drop (length ls - 32) (map (\<lambda>l. fst l @ '': '' @ snd l) ls)"
proof (induction ls rule: rev_induct)
  case Nil
  show ?case by (simp add: recent_logs_def)
next
  case (snoc l ls)
  have tl: "tl (drop n xs) = drop (Suc n) xs" for n and xs :: "string list"
    by (simp add: drop_Suc tl_drop)
  show ?case
  proof (cases "32 \<le> length ls")
    case True
    then have "Suc (length ls - 32) = length ls - 31" by simp
    with True snoc tl[of "length ls - 32"] show ?thesis
      by (simp add: recent_logs_append push_log_def Suc_diff_le del: tl_drop)
  next
    case False
    with snoc show ?thesis by (simp add: recent_logs_append push_log_def)
  qed
qed

lemma microvm_messages_agree:
  "microvm_missing_dependency_message = missing_dependency_message"
  "microvm_truncate_for_log = truncate_for_log"
  by (simp_all add: fun_eq_iff microvm_missing_dependency_message_def missing_dependency_message_def
      microvm_truncate_for_log_def truncate_for_log_def)

lemma with_extension_file:
  assumes "dir = [] \<or> last dir = CHR ''/''" "CHR ''/'' \<notin> set stem" "CHR ''/'' \<notin> set old" "CHR ''.'' \<notin> set old"
    and "stem \<noteq> []" "stem @ ''.'' @ old \<noteq> ''..''"
  shows "with_extension (dir @ stem @ ''.'' @ old) ext = dir @ stem @ ''.'' @ ext"
proof -
  have "takeWhile (\<lambda>c. c \<noteq> CHR ''/'') (rev dir) = []"
    using assms(1) by (cases dir rule: rev_cases) auto
  then have name: "rev (takeWhile (\<lambda>c. c \<noteq> CHR ''/'') (rev (dir @ stem @ ''.'' @ old))) = stem @ ''.'' @ old"
  proof -
    have "x \<noteq> CHR ''/''" if "x \<in> set (rev (stem @ ''.'' @ old))" for x using assms(2,3) that by auto
    from takeWhile_append2[of "rev (stem @ ''.'' @ old)" "\<lambda>c. c \<noteq> CHR ''/''" "rev dir", OF this] show ?thesis
      using \<open>takeWhile (\<lambda>c. c \<noteq> CHR ''/'') (rev dir) = []\<close> by simp
  qed
  have suffix: "rev (takeWhile (\<lambda>c. c \<noteq> CHR ''.'') (rev (stem @ ''.'' @ old))) = old"
  proof -
    have "x \<noteq> CHR ''.''" if "x \<in> set (rev old)" for x using assms(4) that by auto
    from takeWhile_append2[of "rev old" "\<lambda>c. c \<noteq> CHR ''.''" "CHR ''.'' # rev stem", OF this] show ?thesis by simp
  qed
  show ?thesis
    using assms(5,6) unfolding with_extension_def name suffix Let_def by (cases stem) auto
qed

lemma path_join_parts:
  assumes "\<not> starts_with f ''/''"
  shows "\<exists>dir'. (dir' = [] \<or> last dir' = CHR ''/'') \<and> (\<forall>g. starts_with g ''/'' \<or> path_join dir g = dir' @ g)"
proof (cases "dir = [] \<or> ends_with dir ''/''")
  case True
  then have "dir = [] \<or> last dir = CHR ''/''" by (auto simp: ends_with_def suffix_def)
  with True show ?thesis by (intro exI[of _ dir]) (auto simp: path_join_def)
next
  case False
  then show ?thesis by (intro exI[of _ "dir @ ''/''"]) (auto simp: path_join_def)
qed

text \<open>The two texts lie beside the seed.\<close>

lemma seed_files:
  "with_extension (path_join dir ''seed.iso'') ext = path_join dir (''seed.'' @ ext)"
proof -
  have ns: "\<not> starts_with (''seed.'' @ r) ''/''" for r by (simp add: starts_with_def)
  obtain d where d: "d = [] \<or> last d = CHR ''/''" "\<forall>g. starts_with g ''/'' \<or> path_join dir g = d @ g"
    using path_join_parts[OF ns] by blast
  have "path_join dir (''seed.'' @ r) = d @ ''seed.'' @ r" for r using d(2) ns by blast
  from this[of "''iso''"] this[of ext] show ?thesis
    using with_extension_file[OF d(1), of "''seed''" "''iso''" ext] by simp
qed

end
