(* ===== verification/Container_Props.thy ===== *)
theory Container_Props
  imports Container_Runner
begin

text \<open>
  Properties of the container runner: which programs a job runs, the contract of a runner, and
  the life cycle of the container on success and on every error.
\<close>

section \<open>What each operation adds to the history\<close>

text \<open>A set of events closed under what every operation on a container may do.\<close>

locale container_events =
  fixes S :: Sys and name :: string and P :: "event \<Rightarrow> bool"
  assumes emits: "P (Emitted l)"
    and tools: "P (Ran ((lxc_command S program (container_args S name @ args))\<lparr>cmd_stdin := i, cmd_limit_ms := n\<rparr>))"
    and ip: "P (Ran (bridge_command (sys_env S)))"
begin

lemma tool_plain: "P (Ran (lxc_command S program (container_args S name @ args)))"
proof -
  have "lxc_command S program (container_args S name @ args) =
      (lxc_command S program (container_args S name @ args))\<lparr>cmd_stdin := None, cmd_limit_ms := None\<rparr>"
    by (simp add: lxc_command_def cmd_def)
  then show ?thesis using tools by metis
qed

lemma tool_stdin: "P (Ran ((lxc_command S program (container_args S name @ args))\<lparr>cmd_stdin := i\<rparr>))"
proof -
  have "(lxc_command S program (container_args S name @ args))\<lparr>cmd_stdin := i\<rparr> =
      (lxc_command S program (container_args S name @ args))\<lparr>cmd_stdin := i, cmd_limit_ms := None\<rparr>"
    by (simp add: lxc_command_def cmd_def)
  then show ?thesis using tools by metis
qed

lemma tool_limit: "P (Ran ((lxc_command S program (container_args S name @ args))\<lparr>cmd_limit_ms := n\<rparr>))"
proof -
  have "(lxc_command S program (container_args S name @ args))\<lparr>cmd_limit_ms := n\<rparr> =
      (lxc_command S program (container_args S name @ args))\<lparr>cmd_stdin := None, cmd_limit_ms := n\<rparr>"
    by (simp add: lxc_command_def cmd_def)
  then show ?thesis using tools by metis
qed

lemma own_tools:
  "P (Ran (lxc_start_command S name))" "P (Ran (lxc_wait_command S name))" "P (Ran (lxc_stop_command S name))"
  "P (Ran (lxc_create_command S name distro rel))"
  "P (Ran ((lxc_attach_command S name line)\<lparr>cmd_stdin := i\<rparr>))"
  "P (Ran ((lxc_attach_command S name line)\<lparr>cmd_limit_ms := n\<rparr>))"
  by (simp_all add: lxc_start_command_def lxc_wait_command_def lxc_stop_command_def lxc_create_command_def
      lxc_attach_command_def tool_plain tool_stdin tool_limit)

lemma own_destroy: "P (Ran (lxc_destroy_command S name))"
  using tool_plain[of "''lxc-destroy''" "[]"] by (simp add: lxc_destroy_command_def)

lemma only_stream: "only P (stream_output os ctx stdout stderr)"
  by (auto simp: stream_output_def emits split: option.split intro!: only_emit_streams)

lemma only_attach: "only P (attach_output os S name timeout_seconds line ctx)"
  unfolding attach_output_def
  by (auto simp: own_tools split: proc_outcome.split intro!: only_then only_seq only_stream)

lemma only_bridge: "only P (current_bridge os S)"
  unfolding current_bridge_def by (auto simp: ip intro!: only_then)

lemma only_dns: "only P (current_dns os S)"
  by (simp add: current_dns_def only_def)

lemma only_start:
  assumes "lc_name k = name"
  shows "only P (LxcContainer_start os S k)"
  unfolding LxcContainer_start_def Let_def assms by (auto simp: own_tools intro!: only_then only_if)

lemma only_destroy:
  assumes "lc_name k = name"
  shows "only P (LxcContainer_destroy os S k)"
  unfolding LxcContainer_destroy_def assms by (auto simp: own_tools own_destroy intro!: only_seq)

lemma only_session_parts:
  assumes "lc_name k = name"
  shows "only P (configure_guest_network os S k n)" "only P (configure_guest_dns os S k n)"
    "only P (prepare_guest os S k ctx n workdir)" "only P (copy_archive_to_guest os S k workspace_tar)"
    "only P (run_command_in_container os S k ctx n c workdir)"
proof -
  show "only P (configure_guest_network os S k n)"
    unfolding configure_guest_network_def assms
    by (auto split: option.split intro!: only_then only_bridge only_attach only_if)
  show "only P (configure_guest_dns os S k n)"
    unfolding configure_guest_dns_def assms by (auto intro!: only_then only_dns only_attach only_if)
  show "only P (prepare_guest os S k ctx n workdir)"
    unfolding prepare_guest_def assms by (intro only_then only_attach only_prims)
  show "only P (copy_archive_to_guest os S k workspace_tar)"
    unfolding copy_archive_to_guest_def assms by (auto simp: own_tools intro!: only_then)
  show "only P (run_command_in_container os S k ctx n c workdir)"
    unfolding run_command_in_container_def assms by (auto intro!: only_then only_attach)
qed

lemma only_session:
  assumes "lc_name k = name"
  shows "only P (container_session os S k ctx workspace_tar c workdir)"
  unfolding container_session_def Let_def using only_start[OF assms] only_session_parts[OF assms]
  by (auto split: option.split intro!: only_then only_seq)

end

text \<open>The parts before the container is there, for any set of events that holds what they do.\<close>

lemma only_check_dependencies:
  "(\<And>c. c \<in> set required_commands \<Longrightarrow> P (Ran (cmd c [''--version'']))) \<Longrightarrow> only P (check_dependencies os)"
  unfolding check_dependencies_def by (auto intro!: only_then only_missing_commands)

lemma only_traversable: "(\<And>m. P (Mode_Set path m)) \<Longrightarrow> only P (set_traversable_directory os path)"
  unfolding set_traversable_directory_def Let_def by (auto intro!: only_then)

lemma only_permissions:
  "(\<And>p m. P (Mode_Set p m)) \<Longrightarrow> (\<And>p. P (Made_Dir p)) \<Longrightarrow> only P (ensure_lxc_directory_permissions os S)"
  unfolding ensure_lxc_directory_permissions_def
  by (auto split: option.split intro!: only_seq only_traversable)

lemma only_append_config:
  "(\<And>p. P (Opened p)) \<Longrightarrow> (\<And>p t. P (Appended p t)) \<Longrightarrow> only P (append_config os name path text')"
  unfolding append_config_def by (auto intro!: only_seq)

lemma only_create:
  assumes "\<And>c. c \<in> set required_commands \<Longrightarrow> P (Ran (cmd c [''--version'']))"
    and "\<And>p m. P (Mode_Set p m)" "\<And>p. P (Made_Dir p)" "\<And>p. P (Opened p)" "\<And>p t. P (Appended p t)"
    and "P (Ran (lxc_create_command S name distro rel))" "P (Ran (bridge_command (sys_env S)))"
  shows "only P (LxcContainer_create os S name distro rel cpu memory_mb)"
  unfolding LxcContainer_create_def Let_def apply_job_config_def append_networkless_config_def current_bridge_def
  using assms
  by (auto split: option.split
      intro!: only_then only_seq only_check_dependencies only_permissions only_append_config)

lemma only_workspace_archive:
  "(\<And>p. P (Removed p)) \<Longrightarrow> P (Ran (tar_command archive_path workdir)) \<Longrightarrow>
     only P (create_workspace_archive os message archive_path workdir)"
  unfolding create_workspace_archive_def by (auto intro!: only_then only_seq only_when)

lemma only_execute_on_host:
  assumes "\<And>stream l. P (Emitted (log_line ctx stream l))"
    and "\<And>c. CommandSpec_new argv = Inr c \<Longrightarrow> P (Ran (host_cmd ctx workdir c))"
  shows "only P (execute_on_host os ctx workdir argv)"
proof (cases "CommandSpec_new argv")
  case (Inl e)
  then show ?thesis by (simp add: execute_on_host_def only_def eff_defs)
next
  case (Inr c)
  have "only P (HostRunner_execute os ctx workdir c)" by (rule host_events) (use assms Inr in auto)
  then have "only P (eff_seq (lift (CommandSpec_validate c)) (HostRunner_execute os ctx workdir c))"
    by (intro only_seq) simp_all
  then show ?thesis using Inr by (simp add: execute_on_host_def eff_then_def lift_def only_def)
qed

lemma network_spec: "CommandSpec_new network_command = Inr c \<Longrightarrow> c = \<lparr>cs_argv = network_command, cs_env = fmempty, cs_cwd = None\<rparr>"
  by (simp add: CommandSpec_new_def split: if_splits)

section \<open>The whole job\<close>

text \<open>A set of events that holds everything a container job does.\<close>

locale job_events = container_events S "container_name (ctx_attempt_id ctx)" P
  for S :: Sys and ctx :: ExecutionContext and P :: "event \<Rightarrow> bool" +
  assumes dependency: "c \<in> set required_commands \<Longrightarrow> P (Ran (cmd c [''--version'']))"
    and files: "P (Mode_Set p m)" "P (Made_Dir p)" "P (Opened p)" "P (Appended p t)" "P (Removed p)"
    and archive: "P (Ran (tar_command archive_path workdir))"
    and network: "P (Ran (host_cmd ctx workdir \<lparr>cs_argv = network_command, cs_env = fmempty, cs_cwd = None\<rparr>))"
begin

lemma only_created:
  "only P (LxcContainer_create os S (container_name (ctx_attempt_id ctx)) distro rel cpu memory_mb)"
  by (rule only_create) (auto simp: dependency files ip own_tools)

lemma only_life: "only P (container_life os S R img ctx workspace_tar c workdir)"
  unfolding container_life_def
  by (rule only_then_value[OF only_created], drule LxcContainer_create_name)
    (auto intro!: only_then only_seq only_session only_destroy)

lemma only_execute: "only P (ContainerRunner_execute os S R ctx workdir c)"
proof -
  have "only P (execute_on_host os ctx workdir network_command)"
    by (rule only_execute_on_host) (auto simp: emits network dest!: network_spec)
  moreover have "only P (create_workspace_archive os message archive_path workdir)" for message archive_path
    by (rule only_workspace_archive) (simp_all add: files archive)
  ultimately show ?thesis
    unfolding ContainerRunner_execute_def Let_def
    by (auto simp: files intro!: only_then only_seq only_if only_life)
qed

end

section \<open>The programs of a job\<close>

text \<open>
  What a container job may do: LXC tools on the container named after its own attempt, the fixed
  helper calls, and files; it never launches, kills or downloads anything itself.
\<close>

definition container_job_command :: "Sys \<Rightarrow> ExecutionContext \<Rightarrow> Cmd \<Rightarrow> bool" where
  "container_job_command S ctx c \<longleftrightarrow>
     (\<exists>program args i n. c = (lxc_command S program (container_args S (container_name (ctx_attempt_id ctx)) @ args))
        \<lparr>cmd_stdin := i, cmd_limit_ms := n\<rparr>) \<or>
     c = bridge_command (sys_env S) \<or> (\<exists>p \<in> set required_commands. c = cmd p [''--version'']) \<or>
     (\<exists>a w. c = tar_command a w) \<or>
     (\<exists>w. c = host_cmd ctx w \<lparr>cs_argv = network_command, cs_env = fmempty, cs_cwd = None\<rparr>)"

fun container_job_event :: "Sys \<Rightarrow> ExecutionContext \<Rightarrow> event \<Rightarrow> bool" where
  "container_job_event S ctx (Ran c) \<longleftrightarrow> container_job_command S ctx c"
| "container_job_event S ctx (Wrote p t) \<longleftrightarrow> False"
| "container_job_event S ctx (Slept n) \<longleftrightarrow> False"
| "container_job_event S ctx (Launched c) \<longleftrightarrow> False"
| "container_job_event S ctx Killed \<longleftrightarrow> False"
| "container_job_event S ctx (Http r) \<longleftrightarrow> False"
| "container_job_event S ctx (Printed s) \<longleftrightarrow> False"
| "container_job_event S ctx _ \<longleftrightarrow> True"

interpretation container_job: job_events S ctx "container_job_event S ctx"
  by unfold_locales
    (simp_all only: container_job_event.simps container_job_command_def simp_thms, blast+)

text \<open>
  C26: A container job touches no container but its own: every program it runs is an LXC tool on
  the container named after its attempt, one of the checks that the tools are there, \<open>ip\<close>, \<open>tar\<close>
  or the network helper, whatever happens on the way.
\<close>

theorem container_job_stays_inside:
  "\<exists>t. snd (ContainerRunner_execute os S R ctx workdir c h) = h @ t \<and> list_all (container_job_event S ctx) t"
  using container_job.only_execute[of S ctx os R workdir c] unfolding only_def by blast

text \<open>Every result comes with a status of two and a bounded message.\<close>

lemma session_result: "yields (result_ok workdir) (container_session os S k ctx tar c workdir)"
proof -
  have "yields (\<lambda>early. \<forall>r. early = Some r \<longrightarrow> result_ok workdir r) (prepare_guest os S k ctx n workdir)" for n
    unfolding prepare_guest_def by (intro yields_then) simp
  moreover have "yields (result_ok workdir) (run_command_in_container os S k ctx n c workdir)" for n
    unfolding run_command_in_container_def by (auto intro!: yields_then)
  ultimately show ?thesis
    unfolding container_session_def Let_def
    by (intro yields_seq, rule_tac R = "\<lambda>early. \<forall>r. early = Some r \<longrightarrow> result_ok workdir r" in yields_then_value)
      (auto split: option.split intro!: yields_seq)
qed

lemma host_result_ok: "yields (result_ok workdir) (execute_on_host os ctx workdir argv)"
  unfolding execute_on_host_def by (intro yields_then yields_seq) (auto simp: yields_def dest: host.result_bounds)

lemma life_result: "yields (result_ok workdir) (container_life os S R img ctx tar c workdir)"
  unfolding container_life_def
  by (rule yields_then, rule yields_then_value[OF yields_try[THEN iffD2, OF session_result]])
    (auto intro!: yields_seq)

lemma execute_result: "yields (result_ok workdir) (ContainerRunner_execute os S R ctx workdir c)"
  unfolding ContainerRunner_execute_def Let_def
  by (auto intro!: yields_then yields_seq yields_then_value[OF host_result_ok] life_result)

interpretation container: runner "ContainerRunner_execute os S R"
proof
  fix ctx workdir c h r h'
  show "\<not> timeout_in_range ctx \<Longrightarrow> ContainerRunner_execute os S R ctx workdir c h = (Inl timeout_error, h)"
    unfolding ContainerRunner_execute_def timeout_guard by (simp add: fail_def)
  show "timeout_in_range ctx \<Longrightarrow> cs_argv c = [] \<Longrightarrow>
      ContainerRunner_execute os S R ctx workdir c h = (Inl no_command_error, h)"
    unfolding ContainerRunner_execute_def timeout_guard by (simp add: fail_def)
  show "extends (ContainerRunner_execute os S R ctx workdir c)"
    by (rule only_extends[OF container_job.only_execute])
  show "ContainerRunner_execute os S R ctx workdir c h = (Inr r, h') \<Longrightarrow> result_ok workdir r"
    by (rule yieldsD[OF execute_result])
qed

section \<open>The container's life\<close>

lemma start_is_unique:
  "cmd p [''--version''] \<noteq> lxc_start_command S name"
  "bridge_command env \<noteq> lxc_start_command S name"
  "tar_command a w \<noteq> lxc_start_command S name"
  "lxc_create_command S name distro rel \<noteq> lxc_start_command S name'"
  "host_cmd ctx w \<lparr>cs_argv = network_command, cs_env = e, cs_cwd = d\<rparr> \<noteq> lxc_start_command S name"
  by (simp_all add: cmd_def lxc_start_command_def lxc_command_def bridge_command_def tar_command_def
      lxc_create_command_def host_cmd_def network_command_def container_args_def)

definition cleanup_events :: "Sys \<Rightarrow> string \<Rightarrow> event list" where
  "cleanup_events S name = [Ran (lxc_stop_command S name), Ran (lxc_destroy_command S name)]"

lemma life_closes:
  "closes (Ran (lxc_start_command S (container_name (ctx_attempt_id ctx))))
     (cleanup_events S (container_name (ctx_attempt_id ctx))) (container_life os S R img ctx tar c workdir)"
proof -
  have "only (\<lambda>e. e \<noteq> Ran (lxc_start_command S (container_name (ctx_attempt_id ctx))))
      (LxcContainer_create os S (container_name (ctx_attempt_id ctx)) distro rel cpu mem)" for distro rel cpu mem
    by (rule only_create) (simp_all add: start_is_unique)
  then show ?thesis
    unfolding container_life_def
  proof (rule closes_then)
    fix k h h'
    assume "LxcContainer_create os S (container_name (ctx_attempt_id ctx)) (distribution img) (release img)
        (unwrap_or (cr_cpu R) DEFAULT_CPU_COUNT) (unwrap_or (cr_memory_mb R) DEFAULT_MEMORY_MB) h = (Inr k, h')"
    then have k: "k = \<lparr>lc_name = container_name (ctx_attempt_id ctx), lc_destroyed = False\<rparr>"
      by (rule LxcContainer_create_name)
    have "extends (container_session os S k ctx tar c workdir)"
      by (rule only_extends[OF container_job.only_session]) (simp add: k)
    then show "closes (Ran (lxc_start_command S (container_name (ctx_attempt_id ctx))))
        (cleanup_events S (container_name (ctx_attempt_id ctx)))
        (eff_then (eff_try (container_session os S k ctx tar c workdir)) (\<lambda>r. eff_seq (LxcContainer_destroy os S k) (lift r)))"
      by (rule closes_guarded) (simp_all add: k LxcContainer_destroy_run cleanup_events_def)
  qed
qed

lemma execute_closes:
  "closes (Ran (lxc_start_command S (container_name (ctx_attempt_id ctx))))
     (cleanup_events S (container_name (ctx_attempt_id ctx))) (ContainerRunner_execute os S R ctx workdir c)"
    (is "closes ?ev ?fin _")
proof -
  have host: "only (\<lambda>e. e \<noteq> ?ev) (execute_on_host os ctx workdir network_command)"
    by (rule only_execute_on_host) (auto simp: start_is_unique dest!: network_spec)
  have archive: "only (\<lambda>e. e \<noteq> ?ev) (create_workspace_archive os msg a workdir)" for msg a
    by (rule only_workspace_archive) (simp_all add: start_is_unique)
  show ?thesis
    unfolding ContainerRunner_execute_def Let_def
    by (auto intro!: closes_then closes_seq closes_only[of _ "fail _"] closes_only[of _ "ret _"] archive host
        life_closes)
qed

text \<open>
  C5: A container that was started is always taken down: whatever fails afterwards, and whatever
  the job returns, the last two things the agent does are to stop and to destroy that container.
\<close>

theorem started_container_destroyed:
  assumes "ContainerRunner_execute os S R ctx workdir c h = (r, h @ t)"
    and "Ran (lxc_start_command S (container_name (ctx_attempt_id ctx))) \<in> set t"
  shows "suffix [Ran (lxc_stop_command S (container_name (ctx_attempt_id ctx))),
    Ran (lxc_destroy_command S (container_name (ctx_attempt_id ctx)))] t"
proof -
  obtain t' where "snd (ContainerRunner_execute os S R ctx workdir c h) = h @ t'"
    "Ran (lxc_start_command S (container_name (ctx_attempt_id ctx))) \<in> set t' \<longrightarrow>
       suffix (cleanup_events S (container_name (ctx_attempt_id ctx))) t'"
    using execute_closes unfolding guarded_def by blast
  with assms show ?thesis by (simp add: cleanup_events_def)
qed

text \<open>A job on a system where every program succeeds silently.\<close>

definition example_sys :: Sys where
  "example_sys = \<lparr>sys_env = (\<lambda>n. if n = ''STATIX_AGENT_STATE_DIR'' then Some ''/s'' else None), sys_cwd = Inr ''/'',
     sys_arch = ''x86_64''\<rparr>"

definition example_runner :: ContainerRunner where
  "example_runner = \<lparr>cr_image = ''debian:12'', cr_cpu = None, cr_memory_mb = None\<rparr>"

lemma example_image: "LxcImage_parse ''debian:12'' = Inr \<lparr>distribution = ''debian'', release = ''12''\<rparr>"
  by code_simp
lemma example_state_dir: "sys_state_dir example_sys = Inr ''/s''"
  by (simp add: sys_state_dir_def agent_state_dir_def example_sys_def lxc_env_path_eq[symmetric] lxc_env_path_def) code_simp

lemma network_spec_new:
  "CommandSpec_new network_command = Inr \<lparr>cs_argv = network_command, cs_env = fmempty, cs_cwd = None\<rparr>"
proof -
  have "trim ''sudo'' \<noteq> []" by code_simp
  then show ?thesis by (simp add: CommandSpec_new_def network_command_def)
qed


text \<open>A system where every program succeeds silently; its files may still refuse.\<close>

definition calm :: "OS \<Rightarrow> bool" where
  "calm os \<longleftrightarrow> (\<forall>h c. os_exec os h c = Finished idle_output) \<and> (\<forall>h p. os_exists os h p) \<and>
     (\<forall>h p. os_stat os h p = Inr (True, 493)) \<and>
     (\<forall>h p. os_fault os h (Made_Dir p) = None)"

lemma wp_missing: "calm os \<Longrightarrow> wp (missing_commands os cs) Q h \<longleftrightarrow> Q (Inr []) (h @ map (\<lambda>c. Ran (cmd c [''--version''])) cs)"
  by (induction cs arbitrary: h Q) (simp_all add: wp_rules calm_def)

lemma wp_check: "calm os \<Longrightarrow> wp (check_dependencies os) Q h \<longleftrightarrow> Q (Inr ()) (h @ map (\<lambda>c. Ran (cmd c [''--version''])) required_commands)"
  by (simp add: check_dependencies_def wp_rules wp_missing) (simp add: calm_def)

lemma wp_permissions: "calm os \<Longrightarrow> wp (ensure_lxc_directory_permissions os S) Q h \<longleftrightarrow>
   Q (Inr ()) (h @ (case lxc_process_home S of None \<Rightarrow> [] | Some home \<Rightarrow> [Made_Dir home]))"
  by (auto simp: ensure_lxc_directory_permissions_def set_traversable_directory_def wp_rules with_context_def calm_def
      split: option.split)

lemma wp_archive: "calm os \<Longrightarrow> wp (create_workspace_archive os msg a w) Q h \<longleftrightarrow> Q (Inr ()) (h @ [Removed a, Ran (tar_command a w)])"
  by (simp add: create_workspace_archive_def wp_rules launched_output_def calm_def)

lemma idle_stream: "stream_lines [] = []"
  by (simp add: stream_lines_def)

lemma wp_network_helper:
  assumes "calm os" "timeout_in_range ctx"
  shows "wp (execute_on_host os ctx workdir network_command) Q h \<longleftrightarrow>
    Q (Inr \<lparr>jr_status = ''succeeded'', jr_message = Some (summarize_command_output workdir [] [])\<rparr>)
      (h @ [Ran (host_cmd ctx workdir \<lparr>cs_argv = network_command, cs_env = fmempty, cs_cwd = None\<rparr>)])"
proof -
  have ne: "network_command \<noteq> []" by (simp add: network_command_def)
  have "os_exec os h c = Finished idle_output" for h c using assms(1) by (simp add: calm_def)
  then show ?thesis
    using assms(2) ne
    by (simp add: execute_on_host_def wp_rules network_spec_new CommandSpec_new_valid[OF network_spec_new])
      (simp add: wp_run host_execute_in_range host_result_def host_after_def log_lines_def read_stream_def idle_stream)
qed

text \<open>What creating does where programs succeed: the first refused file ends it.\<close>

lemma wp_create:
  assumes "calm os" "\<And>h t. os_fault os h (Appended (lxc_config_path S name) t) = None"
  shows "wp (LxcContainer_create os S name distro rel cpu mem)
    (\<lambda>r h'. Ran (lxc_create_command S name distro rel) \<in> set h' \<and>
       (if \<forall>h. os_fault os h (Opened (lxc_config_path S name)) = None then r = Inr \<lparr>lc_name = name, lc_destroyed = False\<rparr>
        else (\<forall>h. os_fault os h (Opened (lxc_config_path S name)) \<noteq> None) \<longrightarrow> (\<exists>e. r = Inl e))) h"
  using assms unfolding LxcContainer_create_def
  by (auto simp: wp_rules wp_check wp_permissions with_context_def launched_output_def Let_def calm_def
     apply_job_config_def append_networkless_config_def append_config_def current_bridge_def
     split: option.split sum.split)

lemma wp_session_start:
  assumes "calm os" "lc_name k = container_name (ctx_attempt_id ctx)"
  shows "wp (container_session os S k ctx tar c workdir)
     (\<lambda>r h'. Ran (lxc_start_command S (lc_name k)) \<in> set h') h"
  unfolding container_session_def Let_def
proof (rule wp_extends_seq)
  show "wp (LxcContainer_start os S k) (\<lambda>r h'. Ran (lxc_start_command S (lc_name k)) \<in> set h') h"
    using assms(1) by (simp add: LxcContainer_start_def Let_def wp_rules launched_output_def calm_def)
qed (use assms(2) container_job.only_session_parts[THEN only_extends] in \<open>auto split: option.split intro!: only_seq only_then\<close>)

lemma wp_life_start:
  assumes "calm os" "\<And>h ev. os_fault os h ev = None"
  shows "wp (container_life os S R img ctx tar c workdir)
     (\<lambda>r h'. Ran (lxc_start_command S (container_name (ctx_attempt_id ctx))) \<in> set h') h"
  unfolding container_life_def wp_then
proof (rule wp_mono[OF wp_create])
  fix r h'
  assume "Ran (lxc_create_command S (container_name (ctx_attempt_id ctx)) (distribution img) (release img)) \<in> set h' \<and>
       (if \<forall>h. os_fault os h (Opened (lxc_config_path S (container_name (ctx_attempt_id ctx)))) = None 
        then r = Inr \<lparr>lc_name = container_name (ctx_attempt_id ctx), lc_destroyed = False\<rparr>
        else (\<forall>h. os_fault os h (Opened (lxc_config_path S (container_name (ctx_attempt_id ctx)))) \<noteq> None) \<longrightarrow> (\<exists>e. r = Inl e))"
  then have r: "r = Inr \<lparr>lc_name = container_name (ctx_attempt_id ctx), lc_destroyed = False\<rparr>" using assms(2) by simp
  show "case r of Inl e \<Rightarrow> Ran (lxc_start_command S (container_name (ctx_attempt_id ctx))) \<in> set h'
      | Inr k \<Rightarrow> wp (eff_try (container_session os S k ctx tar c workdir))
          (\<lambda>r h'. case r of Inl e \<Rightarrow> Ran (lxc_start_command S (container_name (ctx_attempt_id ctx))) \<in> set h'
             | Inr r \<Rightarrow> wp (eff_seq (LxcContainer_destroy os S k) (lift r)) (\<lambda>r h'. Ran (lxc_start_command S (container_name (ctx_attempt_id ctx))) \<in> set h') h') h'"
    unfolding r sum.case wp_rules
    by (rule wp_mono[OF wp_session_start[OF assms(1)]]) (auto simp: LxcContainer_destroy_def wp_rules)
qed (use assms in auto)

text \<open>The job up to its container, where the programs succeed.\<close>

definition setup_events :: "string \<Rightarrow> ExecutionContext \<Rightarrow> string \<Rightarrow> event list" where
  "setup_events dir ctx workdir =
     (let root = runtime_root dir ''container'' ctx; archive = path_join root WORKSPACE_ARCHIVE
      in [Made_Dir root, Removed archive, Ran (tar_command archive workdir),
          Ran (host_cmd ctx workdir \<lparr>cs_argv = network_command, cs_env = fmempty, cs_cwd = None\<rparr>)])"

lemma wp_execute_life:
  assumes "calm os" "timeout_in_range ctx" "cs_argv c \<noteq> []" "LxcImage_parse (cr_image R) = Inr img"
    and "sys_state_dir S = Inr dir"
  shows "wp (ContainerRunner_execute os S R ctx workdir c) Q h \<longleftrightarrow>
    wp (container_life os S R img ctx (path_join (runtime_root dir ''container'' ctx) WORKSPACE_ARCHIVE) c workdir) Q
      (h @ setup_events dir ctx workdir)"
proof -
  have "os_fault os h (Made_Dir p) = None" for h p using assms(1) by (simp add: calm_def)
  with assms show ?thesis
    unfolding ContainerRunner_execute_def timeout_guard Let_def
    by (simp add: wp_rules wp_archive wp_network_helper with_context_def setup_events_def Let_def)
qed

text \<open>The helper is asked to stop or to destroy a container, whatever its name and the flags.\<close>

definition ends_container :: "event \<Rightarrow> bool" where
  "ends_container e \<longleftrightarrow>
     (case e of
        Ran c \<Rightarrow> cmd_program c = ''sudo'' \<and>
          (take 1 (drop 3 (cmd_args c)) = [''lxc-stop''] \<or> take 1 (drop 3 (cmd_args c)) = [''lxc-destroy''])
      | _ \<Rightarrow> False)"

lemma ends_container_simps:
  "\<not> ends_container (Ran (cmd p [''--version'']))" "\<not> ends_container (Ran (bridge_command env))"
  "\<not> ends_container (Ran (tar_command a w))" "\<not> ends_container (Ran (lxc_create_command S name distro rel))"
  "\<not> ends_container (Ran (host_cmd ctx w \<lparr>cs_argv = network_command, cs_env = e, cs_cwd = d\<rparr>))"
  "\<not> ends_container (Made_Dir p')" "\<not> ends_container (Removed p')" "\<not> ends_container (Mode_Set p' m)"
  "\<not> ends_container (Opened p')" "\<not> ends_container (Appended p' t)"
  "ends_container (Ran (lxc_stop_command S name))" "ends_container (Ran (lxc_destroy_command S name))"
  by (simp_all add: ends_container_def cmd_def lxc_stop_command_def lxc_destroy_command_def lxc_command_def
      bridge_command_def tar_command_def lxc_create_command_def host_cmd_def network_command_def)

text \<open>
  C37: a container whose configuration cannot be written after \<open>lxc-create\<close> has made it is left
  behind: the job ends with an error, and in all that the job does no container is ever stopped or
  destroyed.
\<close>

theorem failed_configuration_leaks:
  assumes "calm os" "timeout_in_range ctx" "cs_argv c \<noteq> []" "LxcImage_parse (cr_image R) = Inr img"
    and "sys_state_dir S = Inr dir"
    and "\<And>h. os_fault os h (Opened (lxc_config_path S (container_name (ctx_attempt_id ctx)))) \<noteq> None"
    and "\<And>h t. os_fault os h (Appended (lxc_config_path S (container_name (ctx_attempt_id ctx))) t) = None"
  shows "\<exists>e h'. ContainerRunner_execute os S R ctx workdir c [] = (Inl e, h') \<and>
    Ran (lxc_create_command S (container_name (ctx_attempt_id ctx)) (distribution img) (release img)) \<in> set h' \<and>
    list_all (\<lambda>ev. \<not> ends_container ev) h'"
proof -
  let ?name = "container_name (ctx_attempt_id ctx)"
  let ?create = "LxcContainer_create os S ?name (distribution img) (release img)
    (unwrap_or (cr_cpu R) DEFAULT_CPU_COUNT) (unwrap_or (cr_memory_mb R) DEFAULT_MEMORY_MB)"
  let ?h = "setup_events dir ctx workdir"
  obtain r h' where run: "?create ?h = (r, h')" by (cases "?create ?h")
  have "Ran (lxc_create_command S ?name (distribution img) (release img)) \<in> set h' \<and> (\<exists>e. r = Inl e)"
    using wp_create[OF assms(1,7), of "distribution img" "release img" "unwrap_or (cr_cpu R) DEFAULT_CPU_COUNT"
        "unwrap_or (cr_memory_mb R) DEFAULT_MEMORY_MB" ?h] assms(6) run
    by (simp add: wp_def)
  moreover have "only (\<lambda>ev. \<not> ends_container ev) ?create"
    by (rule only_create) (simp_all add: ends_container_simps)
  with run obtain t where "h' = ?h @ t" "list_all (\<lambda>ev. \<not> ends_container ev) t"
    using onlyE by blast
  then have "list_all (\<lambda>ev. \<not> ends_container ev) h'"
    by (simp add: setup_events_def Let_def ends_container_simps)
  ultimately have "wp (ContainerRunner_execute os S R ctx workdir c)
     (\<lambda>r h'. (\<exists>e. r = Inl e) \<and> Ran (lxc_create_command S ?name (distribution img) (release img)) \<in> set h' \<and>
       list_all (\<lambda>ev. \<not> ends_container ev) h') []"
    unfolding wp_execute_life[OF assms(1-5)] using run by (auto simp: container_life_def eff_then_def wp_def)
  then show ?thesis by (auto simp: wp_def split: prod.splits)
qed

section \<open>Examples\<close>

text \<open>A system where all goes well, and one that refuses to open the configuration.\<close>

definition refusing_os :: OS where
  "refusing_os = idle_os\<lparr>os_fault := (\<lambda>h e. if e = Opened (lxc_config_path example_sys (container_name ''1''))
     then Some [''refused''] else None)\<rparr>"

lemma example_timeout: "timeout_in_range printf_context"
  by (simp add: timeout_in_range_def printf_context_def)

lemma example_parts:
  "calm idle_os" "calm refusing_os" "cs_argv printf_command \<noteq> []" "ctx_attempt_id printf_context = ''1''"
  "LxcImage_parse (cr_image example_runner) = Inr \<lparr>distribution = ''debian'', release = ''12''\<rparr>"
  by (simp_all add: calm_def refusing_os_def printf_command_def printf_context_def example_runner_def example_image)

lemma failed_configuration_leaks_witness:
  "\<exists>e h'. ContainerRunner_execute refusing_os example_sys example_runner printf_context ''/w'' printf_command [] = (Inl e, h') \<and>
    Ran (lxc_create_command example_sys (container_name ''1'') ''debian'' ''12'') \<in> set h' \<and>
    list_all (\<lambda>ev. \<not> ends_container ev) h'"
  using failed_configuration_leaks[OF example_parts(2) example_timeout example_parts(3,5) example_state_dir]
  unfolding example_parts(4) by (simp add: refusing_os_def)

lemma started_container_destroyed_witness:
  "\<exists>r t. ContainerRunner_execute idle_os example_sys example_runner printf_context ''/w'' printf_command [] = (r, [] @ t) \<and>
     suffix [Ran (lxc_stop_command example_sys (container_name ''1'')),
       Ran (lxc_destroy_command example_sys (container_name ''1''))] t"
proof -
  let ?run = "ContainerRunner_execute idle_os example_sys example_runner printf_context ''/w'' printf_command []"
  have "wp (ContainerRunner_execute idle_os example_sys example_runner printf_context ''/w'' printf_command)
      (\<lambda>r h'. Ran (lxc_start_command example_sys (container_name (ctx_attempt_id printf_context))) \<in> set h') []"
    unfolding wp_execute_life[OF example_parts(1) example_timeout example_parts(3,5) example_state_dir]
    by (rule wp_life_start) (simp_all add: example_parts)
  then have "Ran (lxc_start_command example_sys (container_name (ctx_attempt_id printf_context))) \<in> set (snd ?run)"
    by (simp add: wp_run)
  then have "suffix [Ran (lxc_stop_command example_sys (container_name (ctx_attempt_id printf_context))),
      Ran (lxc_destroy_command example_sys (container_name (ctx_attempt_id printf_context)))] (snd ?run)"
    by (intro started_container_destroyed[of idle_os example_sys example_runner printf_context "''/w''" printf_command "[]" "fst ?run"])
      simp_all
  then show ?thesis unfolding example_parts(4) by (intro exI[of _ "fst ?run"] exI[of _ "snd ?run"]) simp
qed

end
