(* ===== verification/Microvm_Props.thy ===== *)
theory Microvm_Props
  imports Microvm_Runner Container_Props
begin

text \<open>
  Properties of the virtual machine runners: the waits return in time, a job's machine is never
  left running, a project's machine is never killed, and both keep the contract of a runner.
\<close>

section \<open>Time passes\<close>

text \<open>The law of the monotonic clock: it never goes back, and a sleep lasts at least its time.\<close>

definition ticking :: "OS \<Rightarrow> bool" where
  "ticking os \<longleftrightarrow> (\<forall>h t. os_clock os h \<le> os_clock os (h @ t)) \<and>
     (\<forall>h n. os_clock os h + n \<le> os_clock os (h @ [Slept n]))"

lemma ticking_mono: "ticking os \<Longrightarrow> os_clock os h \<le> os_clock os (h @ t)"
  by (simp add: ticking_def)

lemma ticking_round: "ticking os \<Longrightarrow> os_clock os h + n \<le> os_clock os (h @ [ev] @ [Slept n])"
  unfolding ticking_def by (metis add_le_mono1 append_assoc order_trans)

text \<open>The rounds that are left at a history: each takes two seconds.\<close>

definition rounds_left :: "OS \<Rightarrow> nat \<Rightarrow> nat \<Rightarrow> event list \<Rightarrow> nat" where
  "rounds_left os start deadline h = (start + deadline - os_clock os h + 1999) div 2000"

lemma rounds_left_step:
  assumes "ticking os" "\<not> deadline \<le> os_clock os h - start"
  shows "rounds_left os start deadline (h @ [ev] @ [Slept 2000]) < rounds_left os start deadline h"
proof -
  have "os_clock os h + 2000 \<le> os_clock os (h @ [ev] @ [Slept 2000])" by (rule ticking_round[OF assms(1)])
  moreover have "os_clock os h < start + deadline" using assms(2) by linarith
  moreover have "(D - b + 1999) div 2000 < (D - a + 1999) div 2000" if "a + 2000 \<le> b" "a < D" for a b D :: nat
  proof (cases "b \<le> D")
    case True
    with that have "D - b + 1999 + 2000 \<le> D - a + 1999" by simp
    then have "(D - b + 1999 + 2000) div 2000 \<le> (D - a + 1999) div 2000" by (rule div_le_mono)
    moreover have "(D - b + 1999 + 2000) div 2000 = (D - b + 1999) div 2000 + 1" by (rule div_add_self2) simp
    ultimately show ?thesis by linarith
  next
    case False
    moreover have "2000 div 2000 \<le> (D - a + 1999) div 2000" using that by (intro div_le_mono) simp
    ultimately show ?thesis by simp
  qed
  ultimately show ?thesis unfolding rounds_left_def by blast
qed

lemma rounds_left_start:
  "rounds_left os (os_clock os h) (unat T * 1000) h < wait_fuel T"
  unfolding rounds_left_def wait_fuel_def by simp

section \<open>The waits return\<close>

text \<open>
  The last thing done was a probe that the guest answered; the child was seen to have ended.
\<close>

definition guest_answered :: "OS \<Rightarrow> u16 \<Rightarrow> string \<Rightarrow> event list \<Rightarrow> bool" where
  "guest_answered os port key h' \<longleftrightarrow> (\<exists>h limit_ms out. h' = h @ [Ran (readiness_probe port key limit_ms)] \<and>
     os_exec os h (readiness_probe port key limit_ms) = Finished out \<and> po_success out)"

definition seen_exit :: "OS \<Rightarrow> event list \<Rightarrow> event list \<Rightarrow> bool" where
  "seen_exit os h h' \<longleftrightarrow> (\<exists>t s. prefix (h @ t) h' \<and> os_poll os (h @ t) = Inr (Some s))"

lemma rounds_left_length:
  "2 * rounds_left os (os_clock os h) (unat T * 1000) h \<le> unat T + 2"
  unfolding rounds_left_def by simp

lemma wp_try_wait:
  "wp (QemuProcess_try_wait os q) Q h \<longleftrightarrow>
     Q (Inr (if qp_child q
       then (with_context ''failed to poll qemu status'' (os_poll os h),
         case os_poll os h of Inr (Some s) \<Rightarrow> q\<lparr>qp_child := False\<rparr> | _ \<Rightarrow> q)
       else (Inr None, q))) h"
  by (auto simp: QemuProcess_try_wait_def wp_rules with_context_def split: sum.split option.split)

lemma wp_wait_for_guest:
  assumes tick: "ticking os" and child: "qp_child q"
  shows "wp (wait_for_guest_ready os q port key T) (\<lambda>r h'. \<exists>ready q'. r = Inr (ready, q') \<and>
    (\<exists>t. h' = h @ t \<and> length t \<le> unat T + 2) \<and> (qp_child q' \<or> seen_exit os h h') \<and> (ready = Inr () \<longrightarrow> guest_answered os port key h')) h"
proof -
  define R where "R = rounds_left os (os_clock os h) (unat T * 1000)"
  define I where "I = (\<lambda>s :: string \<times> QemuProcess. \<lambda>h'. qp_child (snd s) \<and>
    (\<exists>t. h' = h @ t \<and> length t + 2 * R h' \<le> 2 * R h))"
  have bound: "2 * R h \<le> unat T + 2" unfolding R_def by (rule rounds_left_length)
  show ?thesis
    unfolding wait_for_guest_ready_def wp_then wp_basic sum.case
  proof (rule wp_loop[where I = I and \<mu> = "\<lambda>s. R"])
    show "I (''SSH readiness probe has not run yet'', q) h" by (simp add: I_def child)
    show "R h < wait_fuel T" unfolding R_def by (rule rounds_left_start)
  next
    fix s h'
    assume inv: "I s h'"
    obtain last' q' where s: "s = (last', q')" by (cases s)
    from inv s have q': "qp_child q'" by (simp add: I_def)
    from inv obtain t where t: "h' = h @ t" "length t + 2 * R h' \<le> 2 * R h" by (auto simp: I_def)
    have seen: "seen_exit os h h'" if "os_poll os h' = Inr (Some st)" for st
      using that t(1) by (auto simp: seen_exit_def intro!: exI[of _ t])
    have next_round: "I (m, q') (h' @ [ev] @ [Slept 2000]) \<and> R (h' @ [ev] @ [Slept 2000]) < R h'"
      if "\<not> unat T * 1000 \<le> os_clock os h' - os_clock os h" for m ev
    proof -
      have "R (h' @ [ev] @ [Slept 2000]) < R h'" unfolding R_def by (rule rounds_left_step[OF tick that])
      with t q' show ?thesis by (auto simp: I_def)
    qed
    have pos: "0 < R h'" if "\<not> unat T * 1000 \<le> os_clock os h' - os_clock os h"
      using next_round[OF that, of "[]" Killed] by linarith
    have ans: "guest_answered os port key (h' @ [Ran (readiness_probe port key n)])"
      if "os_exec os h' (readiness_probe port key n) = Finished out" "po_success out" for n out
      using that by (auto simp: guest_answered_def)
    show "wp (guest_round os port key (os_clock os h) (unat T * 1000) s) (\<lambda>r h''. case r of
        Inl e \<Rightarrow> \<exists>ready q'. Inl e = Inr (ready, q') \<and> (\<exists>t. h'' = h @ t \<and> length t \<le> unat T + 2) \<and> (qp_child q' \<or> seen_exit os h h'') \<and>
          (ready = Inr () \<longrightarrow> guest_answered os port key h'')
      | Inr (Inl s') \<Rightarrow> I s' h'' \<and> R h'' < R h'
      | Inr (Inr x) \<Rightarrow> \<exists>ready q'. Inr x = Inr (ready, q') \<and> (\<exists>t. h'' = h @ t \<and> length t \<le> unat T + 2) \<and> (qp_child q' \<or> seen_exit os h h'') \<and>
          (ready = Inr () \<longrightarrow> guest_answered os port key h'')) h'"
      using t bound next_round q' seen pos ans unfolding s guest_round_def
      by (auto simp: bail_def wp_rules wp_try_wait probe_again_def with_context_def split: sum.split option.split proc_outcome.split)
  qed
qed

lemma wp_wait_for_project:
  assumes tick: "ticking os"
  shows "wp (wait_for_project_guest_ready os port key T) (\<lambda>r h'.
    (\<exists>t. h' = h @ t \<and> length t \<le> unat T + 2) \<and>
    (r = Inl [''project microvm did not become ready before timeout''] \<or> r = Inr () \<and> guest_answered os port key h')) h"
proof -
  define R where "R = rounds_left os (os_clock os h) (unat T * 1000)"
  define I where "I = (\<lambda>s :: unit. \<lambda>h'. \<exists>t. h' = h @ t \<and> length t + 2 * R h' \<le> 2 * R h)"
  have bound: "2 * R h \<le> unat T + 2" unfolding R_def by (rule rounds_left_length)
  show ?thesis
    unfolding wait_for_project_guest_ready_def wp_then wp_basic sum.case
  proof (rule wp_loop[where I = I and \<mu> = "\<lambda>s. R"])
    show "I () h" by (simp add: I_def)
    show "R h < wait_fuel T" unfolding R_def by (rule rounds_left_start)
  next
    fix s h'
    assume "I s h'"
    then obtain t where t: "h' = h @ t" "length t + 2 * R h' \<le> 2 * R h" by (auto simp: I_def)
    have next_round: "I u (h' @ [ev] @ [Slept 2000]) \<and> R (h' @ [ev] @ [Slept 2000]) < R h'"
      if "\<not> unat T * 1000 \<le> os_clock os h' - os_clock os h" for ev u
    proof -
      have "R (h' @ [ev] @ [Slept 2000]) < R h'" unfolding R_def by (rule rounds_left_step[OF tick that])
      with t show ?thesis by (auto simp: I_def)
    qed
    have pos: "0 < R h'" if "\<not> unat T * 1000 \<le> os_clock os h' - os_clock os h"
      using next_round[OF that, of "()" Killed] by linarith
    have ans: "guest_answered os port key (h' @ [Ran (readiness_probe port key n)])"
      if "os_exec os h' (readiness_probe port key n) = Finished out" "po_success out" for n out
      using that by (auto simp: guest_answered_def)
    show "wp (project_round os port key (os_clock os h) (unat T * 1000) s) (\<lambda>r h''. case r of
        Inl e \<Rightarrow> (\<exists>t. h'' = h @ t \<and> length t \<le> unat T + 2) \<and>
          (Inl e = Inl [''project microvm did not become ready before timeout''] \<or>
           Inl e = Inr () \<and> guest_answered os port key h'')
      | Inr (Inl s') \<Rightarrow> I s' h'' \<and> R h'' < R h'
      | Inr (Inr x) \<Rightarrow> (\<exists>t. h'' = h @ t \<and> length t \<le> unat T + 2) \<and>
          (Inr x = Inl [''project microvm did not become ready before timeout''] \<or>
           Inr x = Inr () \<and> guest_answered os port key h'')) h'"
      using t bound next_round pos ans unfolding project_round_def guest_ready_def
      by (auto simp: wp_rules split: sum.split proc_outcome.split)
  qed
qed

lemma guest_wait_run:
  assumes "ticking os" "qp_child q"
  shows "\<exists>ready q' t. wait_for_guest_ready os q port key T h = (Inr (ready, q'), h @ t) \<and>
    length t \<le> unat T + 2 \<and> (ready = Inr () \<longrightarrow> guest_answered os port key (h @ t))"
proof -
  obtain r h' where run: "wait_for_guest_ready os q port key T h = (r, h')" by (cases "wait_for_guest_ready os q port key T h")
  then show ?thesis using wp_wait_for_guest[OF assms, of port key T h] by (auto simp: wp_def)
qed

text \<open>
  C13: Waiting for a virtual machine ends: where time passes while the agent sleeps, the loop returns
  within its rounds, after at most \<open>timeout + 2\<close> probes and sleeps, and it says that the guest is
  ready only right after a probe that the guest answered.
\<close>

theorem guest_wait_returns:
  assumes "ticking os" "qp_child q"
  shows "\<exists>ready q' t. wait_for_guest_ready os q port key T h = (Inr (ready, q'), h @ t) \<and>
    length t \<le> unat T + 2 \<and> (ready = Inr () \<longrightarrow> guest_answered os port key (h @ t))"
  by (rule guest_wait_run[OF assms])

text \<open>
  Waiting for a project's machine ends as well, with the error of its timeout or right after a
  probe that the guest answered.
\<close>

theorem project_wait_returns:
  assumes "ticking os"
  shows "\<exists>r t. wait_for_project_guest_ready os port key T h = (r, h @ t) \<and> length t \<le> unat T + 2 \<and>
    (if r = Inr () then guest_answered os port key (h @ t)
     else r = Inl [''project microvm did not become ready before timeout''])"
proof -
  obtain r h' where run: "wait_for_project_guest_ready os port key T h = (r, h')" by (cases "wait_for_project_guest_ready os port key T h")
  then show ?thesis using wp_wait_for_project[OF assms, of port key T h] by (auto simp: wp_def)
qed

text \<open>The fuel is enough: with more of it the wait returns the same.\<close>

lemma guest_wait_any_fuel:
  assumes "ticking os" "qp_child q"
  shows "eff_then (clock os) (\<lambda>start. eff_loop (wait_fuel T + m)
      (guest_round os port key start (unat T * 1000)) (''SSH readiness probe has not run yet'', q)) h =
    wait_for_guest_ready os q port key T h"
proof -
  let ?loop = "\<lambda>n. eff_loop n (guest_round os port key (os_clock os h) (unat T * 1000))
      (''SSH readiness probe has not run yet'', q) h"
  obtain ready q' t where run: "wait_for_guest_ready os q port key T h = (Inr (ready, q'), h @ t)"
    using guest_wait_run[OF assms] by blast
  then have "?loop (wait_fuel T) = (Inr (ready, q'), h @ t)"
    by (simp add: wait_for_guest_ready_def eff_then_def clock_def)
  moreover have "guest_round os port key st dl s h \<noteq> (Inl [], h')" for st dl s h h'
  proof -
    have "wp (guest_round os port key st dl s) (\<lambda>r _. r \<noteq> Inl []) h"
      unfolding guest_round_def
      by (auto simp: wp_rules wp_try_wait probe_again_def split: sum.split option.split proc_outcome.split prod.split)
    then show ?thesis by (auto simp: wp_def)
  qed
  ultimately have "?loop (wait_fuel T + m) = (Inr (ready, q'), h @ t)" by (intro loop_more_fuel) auto
  with run show ?thesis by (simp add: eff_then_def clock_def)
qed

section \<open>What a machine's job does\<close>

lemma only_run_guest_command:
  "P (Ran (upload_command port key T tar)) \<Longrightarrow> P (Ran (guest_exec_command port key T c workdir)) \<Longrightarrow>
     only P (run_guest_command os port key T c workdir tar)"
  unfolding run_guest_command_def by (auto intro!: only_then)

lemma only_guest_ready: "P (Ran (readiness_probe port key 5000)) \<Longrightarrow> only P (guest_ready os port key)"
  unfolding guest_ready_def by (auto intro!: only_then)

lemma only_try_wait: "only P (QemuProcess_try_wait os q)"
  unfolding QemuProcess_try_wait_def by (auto intro!: only_then)

lemma only_shutdown: "P Killed \<Longrightarrow> only P (QemuProcess_shutdown os q)"
  unfolding QemuProcess_shutdown_def by (auto intro!: only_then only_try_wait split: sum.split option.split)

lemma only_wait_for_guest:
  assumes "\<And>n. P (Ran (readiness_probe port key n))" "P (Slept 2000)"
  shows "only P (wait_for_guest_ready os q port key T)"
proof -
  have "only P (guest_round os port key start deadline s)" for start deadline s
    unfolding guest_round_def probe_again_def using assms
    by (auto intro!: only_then only_seq only_try_wait split: sum.split option.split proc_outcome.split prod.split)
  then show ?thesis unfolding wait_for_guest_ready_def by (intro only_then only_loop) simp_all
qed

lemma only_wait_for_project:
  assumes "\<And>n. P (Ran (readiness_probe port key n))" "P (Slept 2000)"
  shows "only P (wait_for_project_guest_ready os port key T)"
proof -
  have "only P (project_round os port key start deadline s)" for start deadline s
    unfolding project_round_def using assms by (auto intro!: only_then only_seq only_guest_ready)
  then show ?thesis unfolding wait_for_project_guest_ready_def by (intro only_then only_loop) simp_all
qed

text \<open>A set of events that holds what is done before a machine is launched.\<close>

locale setup_events =
  fixes P :: "event \<Rightarrow> bool"
  assumes files: "P (Made_Dir p)" "P (Removed p)" "P (Wrote p t)"
    and download: "P (Http rq)"
    and tools: "cmd_program c \<in> {''qemu-img'', ''ssh-keygen'', ''tar'', ''cloud-localds''} \<Longrightarrow> P (Ran c)"
begin

lemma only_base_image: "only P (resolve_base_image os sha256 hex ARCH img dir)"
  unfolding resolve_base_image_def Let_def by (auto simp: files download intro!: only_then only_seq)

lemma only_disk: "only P (create_overlay_disk os base overlay)" "only P (resize_overlay_disk os overlay)"
  unfolding create_overlay_disk_def resize_overlay_disk_def by (auto simp: cmd_def intro!: only_then tools)

lemma only_keypair: "only P (generate_ssh_keypair os private public)"
  unfolding generate_ssh_keypair_def remove_if_present_def
  by (auto simp: files cmd_def intro!: only_then only_seq only_when tools)

lemma only_seed: "only P (create_cloud_init_seed os seed public)"
  unfolding create_cloud_init_seed_def Let_def by (auto simp: files cmd_def intro!: only_then only_seq tools)

lemma only_archive: "only P (microvm_archive os archive workdir)"
  unfolding microvm_archive_def
  by (rule only_workspace_archive) (auto simp: files tar_command_def cmd_def intro!: tools)

end

section \<open>A job's machine is shut down\<close>

fun is_launch :: "event \<Rightarrow> bool" where
  "is_launch (Launched c) \<longleftrightarrow> True"
| "is_launch _ \<longleftrightarrow> False"

text \<open>
  How a launch ends well: it failed, or the child was seen to have exited after it, or the last
  thing done is to kill the child.
\<close>

definition vm_over :: "OS \<Rightarrow> event list \<Rightarrow> event list \<Rightarrow> bool" where
  "vm_over os h t \<longleftrightarrow>
     (\<exists>t1 c. t = t1 @ [Launched c] \<and> os_fault os (h @ t1) (Launched c) \<noteq> None) \<or>
     (\<exists>t1 c t2 t3 s. t = t1 @ Launched c # t2 @ t3 \<and> os_poll os (h @ t1 @ Launched c # t2) = Inr (Some s)) \<or>
     suffix [Killed] t"

lemma vm_over_shift: "vm_over os (h @ t) t' \<Longrightarrow> vm_over os h (t @ t')"
  unfolding vm_over_def suffix_append by (elim disjE exE conjE; metis append.assoc append_Cons)

interpretation before_launch: setup_events "\<lambda>e. \<not> is_launch e"
  by unfold_locales simp_all

lemma wp_shutdown:
  "wp (QemuProcess_shutdown os q) Q h \<longleftrightarrow>
     (if qp_child q
      then (case os_poll os h of Inr (Some s) \<Rightarrow> Q (Inr ()) h | _ \<Rightarrow> Q (Inr ()) (h @ [Killed]))
      else Q (Inr ()) h)"
  by (auto simp: QemuProcess_shutdown_def wp_then wp_try_wait wp_basic with_context_def split: sum.split option.split)

text \<open>From a running child to its end.\<close>

lemma shutdown_over:
  assumes "qp_child q \<or> seen_exit os (h @ [Launched c]) (h @ [Launched c] @ t)"
  shows "wp (eff_seq (QemuProcess_shutdown os q) (lift r))
    (\<lambda>r' h'. \<exists>t'. h' = h @ t' \<and> vm_over os h t') (h @ [Launched c] @ t @ u)"
proof (cases "qp_child q")
  case True
  have "vm_over os h (Launched c # t @ u)" if "os_poll os (h @ Launched c # t @ u) = Inr (Some s)" for s
    unfolding vm_over_def using that
    by (intro disjI2 disjI1 exI[of _ "[]"] exI[of _ c] exI[of _ "t @ u"] exI[of _ s]) simp
  moreover have "vm_over os h (Launched c # t @ u @ [Killed])"
    unfolding vm_over_def suffix_def by (intro disjI2 exI[of _ "Launched c # t @ u"]) simp
  ultimately show ?thesis using True
    by (auto simp: wp_rules wp_shutdown split: sum.split option.split)
next
  case False
  with assms obtain t2 s where "prefix (h @ [Launched c] @ t2) (h @ [Launched c] @ t)"
    "os_poll os (h @ [Launched c] @ t2) = Inr (Some s)" by (auto simp: seen_exit_def)
  then obtain t3 where "t = t2 @ t3" by (auto simp: prefix_def)
  then have "vm_over os h (Launched c # t @ u)"
    unfolding vm_over_def using \<open>os_poll os (h @ [Launched c] @ t2) = Inr (Some s)\<close>
    by (intro disjI2 disjI1 exI[of _ "[]"] exI[of _ c] exI[of _ t2] exI[of _ "t3 @ u"] exI[of _ s]) simp
  with False show ?thesis by (auto simp: wp_rules wp_shutdown)
qed

text \<open>Once the wait for the guest is over, with or without a guest that is ready.\<close>

lemma after_ready_over:
  assumes "qp_child q \<or> seen_exit os (h @ [Launched c']) (h @ [Launched c'] @ t)"
  shows "wp (eff_then (case ready of
         Inl e \<Rightarrow> ret (Inl e)
       | Inr _ \<Rightarrow> eff_try (run_guest_command os port key n c workdir tar)) (\<lambda>result.
           eff_seq (QemuProcess_shutdown os q) (lift result)))
    (\<lambda>r h'. \<exists>t. h' = h @ t \<and> vm_over os h t) (h @ [Launched c'] @ t)"
proof -
  have "wp (run_guest_command os port key n c workdir tar)
      (\<lambda>r h'. \<exists>u. h' = (h @ [Launched c'] @ t) @ u \<and> list_all (\<lambda>_. True) u) (h @ [Launched c'] @ t)"
    by (intro wp_only only_run_guest_command) simp_all
  then have "wp (run_guest_command os port key n c workdir tar)
      (\<lambda>r h'. wp (eff_seq (QemuProcess_shutdown os q) (lift r)) (\<lambda>r h'. \<exists>t. h' = h @ t \<and> vm_over os h t) h')
      (h @ [Launched c'] @ t)"
    by (rule wp_mono) (use shutdown_over[OF assms] in auto)
  then show ?thesis
    using shutdown_over[OF assms, where u = "[]"] by (auto simp: wp_then wp_basic wp_wrap split: sum.split)
qed

lemma life_over:
  assumes "ticking os"
  shows "guarded is_launch (vm_over os) (microvm_life os S R ctx overlay seed key tar workdir c)"
proof -
  have "wp (microvm_life os S R ctx overlay seed key tar workdir c)
      (\<lambda>r h'. \<exists>t. h' = h @ t \<and> ((\<exists>e \<in> set t. is_launch e) \<longrightarrow> vm_over os h t)) h" for h
  proof (cases "qemu_binary (sys_arch S)")
    case (Inl e)
    then show ?thesis by (simp add: microvm_life_def launch_qemu_def wp_rules)
  next
    case (Inr binary)
    define c' where "c' = cmd binary (qemu_launch_args overlay seed (unwrap_or (mv_cpu R) microvm_DEFAULT_CPU_COUNT)
      (unwrap_or (mv_memory_mb R) microvm_DEFAULT_MEMORY_MB) DEFAULT_SSH_PORT)"
    show ?thesis
    proof (cases "os_fault os h (Launched c')")
      case (Some e)
      then have "vm_over os h [Launched c']" unfolding vm_over_def by auto
      with Inr Some show ?thesis
        by (simp add: microvm_life_def launch_qemu_def wp_rules with_context_def flip: c'_def)
    next
      case None
      define cont where "cont = (\<lambda>(ready :: unit result, q). eff_then (case ready of
         Inl e \<Rightarrow> ret (Inl e)
       | Inr _ \<Rightarrow> eff_try (run_guest_command os DEFAULT_SSH_PORT key (ctx_timeout_seconds ctx) c workdir tar)) (\<lambda>result.
           eff_seq (QemuProcess_shutdown os q) (lift result)))"
      have cont: "wp (cont (ready, q)) (\<lambda>r h'. \<exists>t. h' = h @ t \<and> vm_over os h t) (h @ [Launched c'] @ t)"
        if "qp_child q \<or> seen_exit os (h @ [Launched c']) (h @ [Launched c'] @ t)" for ready q t
        unfolding cont_def prod.case by (rule after_ready_over[OF that])
      have "wp (wait_for_guest_ready os \<lparr>qp_child = True\<rparr> DEFAULT_SSH_PORT key (ctx_timeout_seconds ctx))
          (\<lambda>r h'. case r of Inl e \<Rightarrow> \<exists>t. h' = h @ t \<and> vm_over os h t
             | Inr x \<Rightarrow> wp (cont x) (\<lambda>r h'. \<exists>t. h' = h @ t \<and> vm_over os h t) h') (h @ [Launched c'])"
        by (rule wp_mono[OF wp_wait_for_guest[OF assms]]) (use cont in \<open>auto simp: cont_def\<close>)
      then have "wp (microvm_life os S R ctx overlay seed key tar workdir c)
          (\<lambda>r h'. \<exists>t. h' = h @ t \<and> vm_over os h t) h"
        using Inr None unfolding microvm_life_def cont_def[symmetric]
        by (simp add: launch_qemu_def wp_then wp_seq wp_basic wp_wrap wp_perform with_context_def flip: c'_def)
      then show ?thesis by (rule wp_mono) blast
    qed
  qed
  then show ?thesis unfolding guarded_def by (simp add: wp_run)
qed

lemma microvm_execute_over:
  assumes "ticking os"
  shows "guarded is_launch (vm_over os) (MicrovmRunner_execute os S sha256 hex R ctx workdir c)"
  unfolding MicrovmRunner_execute_def Let_def
  using life_over[OF assms]
  by (auto intro!: guarded_then guarded_seq guarded_only[of _ "fail _"] vm_over_shift
      before_launch.only_base_image before_launch.only_disk before_launch.only_keypair
      before_launch.only_archive before_launch.only_seed)

text \<open>
  C1: A job's virtual machine is never left running: if the job launched one, then the launch
  itself failed, or the agent saw the process exit, or the last thing it does is to kill it;
  whatever the probes, the upload and the command did, and whatever the job returns.
\<close>

theorem machine_shut_down:
  assumes "ticking os" "MicrovmRunner_execute os S sha256 hex R ctx workdir c h = (r, h @ t)"
    and "Launched command \<in> set t"
  shows "(\<exists>t1 c. t = t1 @ [Launched c] \<and> os_fault os (h @ t1) (Launched c) \<noteq> None) \<or>
     (\<exists>t1 c t2 t3 s. t = t1 @ Launched c # t2 @ t3 \<and> os_poll os (h @ t1 @ Launched c # t2) = Inr (Some s)) \<or>
     suffix [Killed] t"
proof -
  obtain t' where "snd (MicrovmRunner_execute os S sha256 hex R ctx workdir c h) = h @ t'"
    "(\<exists>e \<in> set t'. is_launch e) \<longrightarrow> vm_over os h t'"
    using microvm_execute_over[OF assms(1)] unfolding guarded_def by blast
  moreover have "\<exists>e \<in> set t. is_launch e" using assms(3) by (intro bexI[of _ "Launched command"]) simp_all
  ultimately show ?thesis using assms(2) by (simp add: vm_over_def)
qed

section \<open>The contract of a runner\<close>

lemma guest_command_result: "yields (result_ok workdir) (run_guest_command os port key T c workdir tar)"
  unfolding run_guest_command_def by (auto intro!: yields_then)

lemma microvm_life_result: "yields (result_ok workdir) (microvm_life os S R ctx overlay seed key tar workdir c)"
proof -
  have "yields (result_ok workdir) (eff_then (case ready of
         Inl e \<Rightarrow> ret (Inl e)
       | Inr _ \<Rightarrow> eff_try (run_guest_command os port key T c workdir tar)) (\<lambda>result.
     eff_seq (QemuProcess_shutdown os q) (lift result)))" for ready :: "unit result" and q port T
    by (rule yields_then_value[where R = "\<lambda>r. \<forall>x. r = Inr x \<longrightarrow> result_ok workdir x"])
      (auto simp: yields_try guest_command_result split: sum.split intro!: yields_seq)
  then show ?thesis
    unfolding microvm_life_def by (intro yields_then) (auto split: prod.split)
qed

lemma project_job_result: "yields (result_ok workdir) (project_job os ctx dir port key workdir c)"
  unfolding project_job_def Let_def
  by (intro yields_seq, rule yields_then_value[OF yields_try[THEN iffD2, OF guest_command_result]])
    (auto intro!: yields_seq)

interpretation anything: setup_events "\<lambda>_. True"
  by unfold_locales simp_all

lemma microvm_life_extends: "extends (microvm_life os S R ctx overlay seed key tar workdir c)"
  unfolding microvm_life_def launch_qemu_def
  by (auto intro!: only_then only_seq only_wait_for_guest only_run_guest_command only_shutdown
      split: prod.split sum.split)

interpretation microvm: runner "MicrovmRunner_execute os S sha256 hex R"
proof
  fix ctx workdir c h r h'
  show "\<not> timeout_in_range ctx \<Longrightarrow> MicrovmRunner_execute os S sha256 hex R ctx workdir c h = (Inl timeout_error, h)"
    unfolding MicrovmRunner_execute_def timeout_guard by (simp add: fail_def)
  show "timeout_in_range ctx \<Longrightarrow> cs_argv c = [] \<Longrightarrow>
      MicrovmRunner_execute os S sha256 hex R ctx workdir c h = (Inl no_command_error, h)"
    unfolding MicrovmRunner_execute_def timeout_guard by (simp add: fail_def)
  show "extends (MicrovmRunner_execute os S sha256 hex R ctx workdir c)"
    unfolding MicrovmRunner_execute_def Let_def
    by (auto intro!: only_then only_seq microvm_life_extends anything.only_base_image anything.only_disk
        anything.only_keypair anything.only_archive anything.only_seed)
  assume run: "MicrovmRunner_execute os S sha256 hex R ctx workdir c h = (Inr r, h')"
  have "yields (result_ok workdir) (MicrovmRunner_execute os S sha256 hex R ctx workdir c)"
    unfolding MicrovmRunner_execute_def Let_def by (auto intro!: yields_then yields_seq microvm_life_result)
  with run show "result_ok workdir r" by (rule yieldsD[rotated])
qed

section \<open>A project's machine\<close>

lemma only_launch_project:
  assumes "\<And>p. P (Opened p)" "\<And>c. P (Launched c)" "\<And>p t. P (Wrote p t)"
  shows "only P (launch_project_qemu os ARCH dir overlay seed cpu mem port)"
  unfolding launch_project_qemu_def Let_def using assms by (auto intro!: only_then only_seq)

lemma only_project_job:
  assumes "\<And>n. P (Ran (readiness_probe port key n))" "P (Slept 2000)" "\<And>p. P (Removed p)"
    and "\<And>tar. P (Ran (tar_command tar workdir))" "\<And>T tar. P (Ran (upload_command port key T tar))"
    and "\<And>T. P (Ran (guest_exec_command port key T c workdir))"
  shows "only P (project_job os ctx dir port key workdir c)"
  unfolding project_job_def Let_def microvm_archive_def using assms
  by (auto intro!: only_then only_seq only_wait_for_project only_workspace_archive only_run_guest_command)

interpretation project: runner "ProjectMicrovmRunner_execute os S sha256 hex R"
proof
  fix ctx workdir c h r h'
  show "\<not> timeout_in_range ctx \<Longrightarrow>
      ProjectMicrovmRunner_execute os S sha256 hex R ctx workdir c h = (Inl timeout_error, h)"
    unfolding ProjectMicrovmRunner_execute_def timeout_guard by (simp add: fail_def)
  show "timeout_in_range ctx \<Longrightarrow> cs_argv c = [] \<Longrightarrow>
      ProjectMicrovmRunner_execute os S sha256 hex R ctx workdir c h = (Inl no_command_error, h)"
    unfolding ProjectMicrovmRunner_execute_def timeout_guard by (simp add: fail_def)
  show "extends (ProjectMicrovmRunner_execute os S sha256 hex R ctx workdir c)"
    unfolding ProjectMicrovmRunner_execute_def Let_def unless_exists_def ensure_project_vm_def
    by (auto intro!: only_then only_seq only_when only_guest_ready only_launch_project only_project_job
        anything.only_base_image anything.only_disk anything.only_keypair anything.only_seed)
  assume run: "ProjectMicrovmRunner_execute os S sha256 hex R ctx workdir c h = (Inr r, h')"
  have "yields (result_ok workdir) (ProjectMicrovmRunner_execute os S sha256 hex R ctx workdir c)"
    unfolding ProjectMicrovmRunner_execute_def Let_def by (auto intro!: yields_then yields_seq project_job_result)
  with run show "result_ok workdir r" by (rule yieldsD[rotated])
qed

text \<open>
  What a project's job leaves of its machine: nothing is killed, and one machine at most is launched,
  right after a probe of the project's guest that was not answered.
\<close>

definition guest_answers :: "proc_outcome \<Rightarrow> bool" where
  "guest_answers r \<longleftrightarrow> (case r of Finished out \<Rightarrow> po_success out | _ \<Rightarrow> False)"

definition calm_event :: "event \<Rightarrow> bool" where
  "calm_event e \<longleftrightarrow> \<not> is_launch e \<and> e \<noteq> Killed"

definition started_when_silent ::
  "OS \<Rightarrow> u16 \<Rightarrow> string \<Rightarrow> (Cmd \<Rightarrow> bool) \<Rightarrow> event list \<Rightarrow> event list \<Rightarrow> bool" where
  "started_when_silent os port key L h t \<longleftrightarrow>
     (\<exists>t1 files c t3. t = t1 @ Ran (readiness_probe port key 5000) # map Opened files @ Launched c # t3 \<and>
        \<not> guest_answers (os_exec os (h @ t1) (readiness_probe port key 5000)) \<and>
        L c \<and> list_all calm_event (t1 @ t3))"

lemma started_shift:
  assumes "list_all calm_event t" "started_when_silent os port key L (h @ t) t'"
  shows "started_when_silent os port key L h (t @ t')"
proof -
  obtain t1 files c t3 where "t' = t1 @ Ran (readiness_probe port key 5000) # map Opened files @ Launched c # t3" "L c"
    "\<not> guest_answers (os_exec os ((h @ t) @ t1) (readiness_probe port key 5000))"
    "list_all calm_event (t1 @ t3)"
    using assms(2) unfolding started_when_silent_def by blast
  then show ?thesis
    using assms(1) unfolding started_when_silent_def
    by (intro exI[of _ "t @ t1"] exI[of _ files] exI[of _ c] exI[of _ t3]) simp
qed

lemma started_extend:
  assumes "started_when_silent os port key L h t" "list_all calm_event t'"
  shows "started_when_silent os port key L h (t @ t')"
proof -
  obtain t1 files c t3 where "t = t1 @ Ran (readiness_probe port key 5000) # map Opened files @ Launched c # t3" "L c"
    "\<not> guest_answers (os_exec os (h @ t1) (readiness_probe port key 5000))"
    "list_all calm_event (t1 @ t3)"
    using assms(1) unfolding started_when_silent_def by blast
  then show ?thesis
    using assms(2) unfolding started_when_silent_def
    by (intro exI[of _ t1] exI[of _ files] exI[of _ c] exI[of _ "t3 @ t'"]) simp
qed

definition project_trace ::
  "OS \<Rightarrow> u16 \<Rightarrow> string \<Rightarrow> (Cmd \<Rightarrow> bool) \<Rightarrow> event list \<Rightarrow> event list \<Rightarrow> bool" where
  "project_trace os port key L h t \<longleftrightarrow> list_all calm_event t \<or> started_when_silent os port key L h t"

lemma project_trace_seq:
  assumes "wp m (\<lambda>r h'. \<exists>t. h' = h @ t \<and> list_all calm_event t) h"
    and "\<And>t x. list_all calm_event t \<Longrightarrow> wp (f x) (\<lambda>r h'. \<exists>u. h' = (h @ t) @ u \<and> project_trace os port key L (h @ t) u) (h @ t)"
  shows "wp (eff_then m f) (\<lambda>r h'. \<exists>t. h' = h @ t \<and> project_trace os port key L h t) h"
  unfolding wp_then
proof (rule wp_mono[OF assms(1)])
  fix r h'
  assume "\<exists>t. h' = h @ t \<and> list_all calm_event t"
  then obtain t where t: "h' = h @ t" "list_all calm_event t" by blast
  have "wp (f x) (\<lambda>r h'. \<exists>t. h' = h @ t \<and> project_trace os port key L h t) h'" for x
    using assms(2)[OF t(2), of x] unfolding t(1)
    by (rule wp_mono) (use t(2) started_shift[OF t(2)] in \<open>auto simp: project_trace_def\<close>)
  then show "case r of Inl e \<Rightarrow> \<exists>t. h' = h @ t \<and> project_trace os port key L h t
      | Inr x \<Rightarrow> wp (f x) (\<lambda>r h'. \<exists>t. h' = h @ t \<and> project_trace os port key L h t) h'"
    using t by (auto simp: project_trace_def split: sum.split)
qed

text \<open>Such effects, from every history.\<close>

definition keeps_machine :: "OS \<Rightarrow> u16 \<Rightarrow> string \<Rightarrow> (Cmd \<Rightarrow> bool) \<Rightarrow> 'a eff \<Rightarrow> bool" where
  "keeps_machine os port key L m \<longleftrightarrow> (\<forall>h. wp m (\<lambda>r h'. \<exists>t. h' = h @ t \<and> project_trace os port key L h t) h)"

lemma keeps_only: "only calm_event m \<Longrightarrow> keeps_machine os port key L m"
  unfolding keeps_machine_def by (auto intro: wp_mono[OF wp_only] simp: project_trace_def)

lemma keeps_then: "only calm_event m \<Longrightarrow> (\<And>x. keeps_machine os port key L (f x)) \<Longrightarrow> keeps_machine os port key L (eff_then m f)"
  unfolding keeps_machine_def by (auto intro!: project_trace_seq wp_only)

lemma keeps_seq: "only calm_event m \<Longrightarrow> keeps_machine os port key L n \<Longrightarrow> keeps_machine os port key L (eff_seq m n)"
  unfolding eff_seq_def by (rule keeps_then)

lemma keeps_before:
  assumes "keeps_machine os port key L m" "only calm_event n"
  shows "keeps_machine os port key L (eff_seq m n)"
  unfolding keeps_machine_def wp_seq
proof
  fix h
  show "wp m (\<lambda>r h'. case r of Inl e \<Rightarrow> \<exists>t. h' = h @ t \<and> project_trace os port key L h t
      | Inr _ \<Rightarrow> wp n (\<lambda>r h'. \<exists>t. h' = h @ t \<and> project_trace os port key L h t) h') h"
  proof (rule wp_mono[OF assms(1)[unfolded keeps_machine_def, THEN spec]])
    fix r :: "'a result" and h'
    assume "\<exists>t. h' = h @ t \<and> project_trace os port key L h t"
    then obtain t where t: "h' = h @ t" "project_trace os port key L h t" by blast
    have "wp n (\<lambda>r h'. \<exists>t. h' = h @ t \<and> project_trace os port key L h t) h'"
      by (rule wp_mono[OF wp_only[OF assms(2)]]) (use t started_extend in \<open>auto simp: project_trace_def\<close>)
    with t show "case r of Inl e \<Rightarrow> \<exists>t. h' = h @ t \<and> project_trace os port key L h t
        | Inr _ \<Rightarrow> wp n (\<lambda>r h'. \<exists>t. h' = h @ t \<and> project_trace os port key L h t) h'"
      by (auto split: sum.split)
  qed
qed

definition project_launch ::
  "Sys \<Rightarrow> ProjectMicrovmRunner \<Rightarrow> string \<Rightarrow> string \<Rightarrow> u16 \<Rightarrow> Cmd \<Rightarrow> bool" where
  "project_launch S R overlay seed port c \<longleftrightarrow>
     (case qemu_binary (sys_arch S) of Inl _ \<Rightarrow> False
      | Inr binary \<Rightarrow> c = cmd binary (qemu_launch_args overlay seed
          (unwrap_or (pv_cpu R) microvm_DEFAULT_CPU_COUNT)
          (unwrap_or (pv_memory_mb R) microvm_DEFAULT_MEMORY_MB) port))"

lemma keeps_ensure:
  "keeps_machine os port key (project_launch S R overlay seed port)
     (ensure_project_vm os S R dir overlay seed key port)"
  unfolding keeps_machine_def
proof
  fix h
  let ?probe = "readiness_probe port key 5000"
  let ?L = "project_launch S R overlay seed port"
  show "wp (ensure_project_vm os S R dir overlay seed key port)
      (\<lambda>r h'. \<exists>t. h' = h @ t \<and> project_trace os port key ?L h t) h"
  proof (cases "guest_answers (os_exec os h ?probe)")
    case True
    then show ?thesis
      by (simp add: ensure_project_vm_def guest_ready_def guest_answers_def wp_rules project_trace_def calm_event_def)
  next
    case False
    have start: "started_when_silent os port key ?L h (Ran ?probe # map Opened files @ [Launched c] @ t3)"
      if "?L c" "list_all calm_event t3" for files c t3
      using False that unfolding started_when_silent_def
      by (intro exI[of _ "[]"] exI[of _ files] exI[of _ c] exI[of _ t3]) simp
    have calm: "calm_event (Opened p)" "calm_event (Wrote p t)" "calm_event (Ran ?probe)" for p t
      by (simp_all add: calm_event_def)
    have "project_trace os port key ?L h (Ran ?probe # map Opened ps)" for ps
      by (auto simp: project_trace_def calm list_all_iff)
    from this[of "[]"] this[of "[p]" for p] this[of "[p, p']" for p p']
      start[of _ "[]" "[p, p']" for p p'] start[of _ "[Wrote pid n]" "[p, p']" for p p' pid n]
    show ?thesis
      using False
      by (simp add: ensure_project_vm_def guest_ready_def guest_answers_def launch_project_qemu_def Let_def wp_rules
          with_context_def project_trace_def calm project_launch_def split: sum.split option.split)
  qed
qed

interpretation no_machine: setup_events calm_event
  by unfold_locales (simp_all add: calm_event_def)

lemma calm_simps [simp]:
  "calm_event (Ran c)" "calm_event (Slept n)" "calm_event (Removed p)" "calm_event (Made_Dir p)"
  by (simp_all add: calm_event_def)

lemma keeps_started_job:
  "keeps_machine os port key (project_launch S R overlay seed port)
     (eff_seq (ensure_project_vm os S R dir overlay seed key port) (project_job os ctx dir port key workdir c))"
  by (rule keeps_before[OF keeps_ensure]) (rule only_project_job; simp)

text \<open>
  The directory of a project's machine, its port and the key that opens it: the three are fixed by
  the project and its environment.
\<close>

definition project_home :: "(u8 list \<Rightarrow> u8 list) \<Rightarrow> (u8 list \<Rightarrow> string) \<Rightarrow> ProjectMicrovmRunner \<Rightarrow> string \<Rightarrow> string" where
  "project_home sha256 hex R dir = path_join (path_join (path_join dir ''microvm'') ''projects'')
     (project_vm_key sha256 hex (pv_project_id R) (pv_environment R))"

definition project_port :: "(u8 list \<Rightarrow> u8 list) \<Rightarrow> (u8 list \<Rightarrow> string) \<Rightarrow> ProjectMicrovmRunner \<Rightarrow> u16" where
  "project_port sha256 hex R =
     project_vm_ssh_port sha256 (project_vm_key sha256 hex (pv_project_id R) (pv_environment R))"

definition project_started ::
  "OS \<Rightarrow> Sys \<Rightarrow> (u8 list \<Rightarrow> u8 list) \<Rightarrow> (u8 list \<Rightarrow> string) \<Rightarrow> ProjectMicrovmRunner \<Rightarrow> string \<Rightarrow>
     event list \<Rightarrow> event list \<Rightarrow> bool" where
  "project_started os S sha256 hex R dir =
     (let home = project_home sha256 hex R dir; port = project_port sha256 hex R
      in started_when_silent os port (path_join (path_join home ''ssh'') ''id_ed25519'')
           (project_launch S R (path_join home ''disk.qcow2'') (path_join home ''seed.iso'') port))"

lemma project_execute_keeps:
  assumes "sys_state_dir S = Inr dir"
  shows "keeps_machine os (project_port sha256 hex R)
    (path_join (path_join (project_home sha256 hex R dir) ''ssh'') ''id_ed25519'')
    (project_launch S R (path_join (project_home sha256 hex R dir) ''disk.qcow2'')
      (path_join (project_home sha256 hex R dir) ''seed.iso'') (project_port sha256 hex R))
    (ProjectMicrovmRunner_execute os S sha256 hex R ctx workdir c)"
proof -
  have lift_Inr: "eff_then (lift (Inr dir)) f = f dir" for f :: "string \<Rightarrow> JobExecutionResult eff"
    by (simp add: eff_defs fun_eq_iff)
  show ?thesis
    unfolding ProjectMicrovmRunner_execute_def Let_def assms lift_Inr project_home_def[symmetric]
      project_port_def[symmetric] unless_exists_def
    by (auto intro!: keeps_started_job keeps_then keeps_seq keeps_only[of "fail _"]
        only_then only_when no_machine.only_base_image no_machine.only_disk no_machine.only_keypair no_machine.only_seed)
qed

lemma project_execute_no_dir:
  "sys_state_dir S = Inl e \<Longrightarrow> only calm_event (ProjectMicrovmRunner_execute os S sha256 hex R ctx workdir c)"
  unfolding ProjectMicrovmRunner_execute_def by (simp add: only_def eff_defs)

text \<open>
  C25: A job on a project's virtual machine kills nothing and launches at most one machine. It
  launches one only if a probe of the project's own guest, at the port and with the key that the
  project's name and environment determine, was not answered; between that probe and the launch
  nothing happens but that files are opened for its output, and what is launched is QEMU on the project's own
  disk, forwarding the port that was probed. A machine that answers is used as it is.
\<close>

theorem project_machine_kept:
  "\<exists>t. snd (ProjectMicrovmRunner_execute os S sha256 hex R ctx workdir c h) = h @ t \<and>
     (list_all calm_event t \<or>
      (\<exists>dir. sys_state_dir S = Inr dir \<and> project_started os S sha256 hex R dir h t))"
proof (cases "sys_state_dir S")
  case (Inl e)
  then have "only calm_event (ProjectMicrovmRunner_execute os S sha256 hex R ctx workdir c)"
    by (rule project_execute_no_dir)
  then show ?thesis unfolding only_def by blast
next
  case (Inr dir)
  then show ?thesis
    using project_execute_keeps[OF Inr, of os sha256 hex R ctx workdir c]
    unfolding keeps_machine_def wp_run project_trace_def project_started_def Let_def by blast
qed

text \<open>
  Both kinds of guest get the same line: the shell of the microVM's user is handed exactly what
  the shell of the container's user is handed, so what is shown of the one holds of the other.
\<close>

theorem guest_lines_agree:
  "microvm_user_line c = user_line c \<and>
   suffix (''sg docker -c '' @ shell_escape (user_line c)) (remote_command c) \<and>
   suffix (''su -s /bin/bash - statix -c '' @ shell_escape (user_line c)) (container_command c)"
proof -
  have line: "microvm_user_line c = user_line c"
    by (simp add: microvm_user_line_def user_line_def microvm_guest_cwd_def guest_cwd_def guest_home_def Let_def
        microvm_shell_env_key_eq microvm_shell_escape_eq)
  have "suffix (''sg docker -c '' @ shell_escape (user_line c)) (remote_command c)"
    unfolding remote_command_def line microvm_shell_escape_eq by (rule suffixI) (rule refl)
  moreover have "suffix (''su -s /bin/bash - statix -c '' @ shell_escape (user_line c)) (container_command c)"
    by (simp add: container_command_def user_line_def suffix_def)
  ultimately show ?thesis using line by blast
qed

section \<open>Examples\<close>

text \<open>A machine whose clock is moved by its sleeps.\<close>

definition sleep_time :: "event \<Rightarrow> nat" where
  "sleep_time e = (case e of Slept n \<Rightarrow> n | _ \<Rightarrow> 0)"

definition vm_os :: OS where
  "vm_os = idle_os\<lparr>os_clock := (\<lambda>h. sum_list (map sleep_time h))\<rparr>"

lemma vm_os_ticking: "ticking vm_os"
  by (simp add: ticking_def vm_os_def sleep_time_def)

lemma vm_os_simps [simp]:
  "os_exec vm_os h c = Finished idle_output" "os_read vm_os h p = Inr []" "os_exists vm_os h p"
  "os_fault vm_os h e = None"
  by (simp_all add: vm_os_def)

lemma guest_wait_returns_witness:
  "\<exists>ready q' t. wait_for_guest_ready vm_os \<lparr>qp_child = True\<rparr> 2222 ''/k'' 60 [] = (Inr (ready, q'), [] @ t) \<and>
    length t \<le> unat (60 :: u64) + 2 \<and> (ready = Inr () \<longrightarrow> guest_answered vm_os 2222 ''/k'' ([] @ t))"
  using guest_wait_returns[OF vm_os_ticking, of "\<lparr>qp_child = True\<rparr>" 2222 "''/k''" 60 "[]"] by simp

lemma project_wait_returns_witness:
  "\<exists>r t. wait_for_project_guest_ready vm_os 22300 ''/k'' 60 [] = (r, [] @ t) \<and> length t \<le> unat (60 :: u64) + 2 \<and>
    (if r = Inr () then guest_answered vm_os 22300 ''/k'' ([] @ t)
     else r = Inl [''project microvm did not become ready before timeout''])"
  using project_wait_returns[OF vm_os_ticking] .

definition vm_runner :: MicrovmRunner where
  "vm_runner = \<lparr>mv_cpu = None, mv_memory_mb = None\<rparr>"

lemma vm_example:
  "\<exists>c. Launched c \<in> set (snd (MicrovmRunner_execute vm_os example_sys sha256 hex vm_runner printf_context ''/w'' printf_command []))"
proof -
  let ?run = "MicrovmRunner_execute vm_os example_sys sha256 hex vm_runner printf_context ''/w'' printf_command"
  have arch: "sys_arch example_sys = ''x86_64''" "base_image_name example_sys = ''ubuntu-24.04''"
    by (simp_all add: example_sys_def base_image_name_def)
  have trim: "trim ''ubuntu-24.04'' = ''ubuntu-24.04''" by code_simp
  have life: "wp (microvm_life vm_os example_sys vm_runner printf_context overlay seed key tar ''/w'' printf_command)
      (\<lambda>r h'. \<exists>c. Launched c \<in> set h') h" for overlay seed key tar h
  proof -
    define c where "c = cmd ''qemu-system-x86_64'' (qemu_launch_args overlay seed (unwrap_or (mv_cpu vm_runner) microvm_DEFAULT_CPU_COUNT)
      (unwrap_or (mv_memory_mb vm_runner) microvm_DEFAULT_MEMORY_MB) DEFAULT_SSH_PORT)"
    have "wp (microvm_life vm_os example_sys vm_runner printf_context overlay seed key tar ''/w'' printf_command)
        (\<lambda>r h'. Launched c \<in> set h') h"
      unfolding microvm_life_def
    proof (rule wp_extends_then)
      show "wp (launch_qemu vm_os (sys_arch example_sys) overlay seed (unwrap_or (mv_cpu vm_runner) microvm_DEFAULT_CPU_COUNT)
          (unwrap_or (mv_memory_mb vm_runner) microvm_DEFAULT_MEMORY_MB) DEFAULT_SSH_PORT) (\<lambda>r h'. Launched c \<in> set h') h"
        by (simp add: launch_qemu_def arch qemu_binary_def wp_rules with_context_def c_def)
    qed (auto intro!: only_then only_seq only_wait_for_guest only_run_guest_command only_shutdown split: prod.split sum.split)
    then show ?thesis by (rule wp_mono) blast
  qed
  have "wp ?run (\<lambda>r h'. \<exists>c. Launched c \<in> set h') []"
    unfolding MicrovmRunner_execute_def timeout_guard
    using example_timeout example_parts(3)
    by (simp add: example_state_dir Let_def wp_rules arch resolve_base_image_def trim with_context_def
        create_overlay_disk_def resize_overlay_disk_def generate_ssh_keypair_def remove_if_present_def
        microvm_archive_def create_workspace_archive_def create_cloud_init_seed_def launched_output_def life)
  then show ?thesis by (simp add: wp_run)
qed

lemma machine_shut_down_witness:
  "\<exists>r t c. MicrovmRunner_execute vm_os example_sys id (\<lambda>_. ''00'') vm_runner printf_context ''/w'' printf_command [] = (r, [] @ t) \<and>
     Launched c \<in> set t \<and> suffix [Killed] t"
proof -
  let ?run = "MicrovmRunner_execute vm_os example_sys id (\<lambda>_. ''00'') vm_runner printf_context ''/w'' printf_command []"
  obtain c where c: "Launched c \<in> set (snd ?run)" using vm_example by blast
  have run: "?run = (fst ?run, [] @ snd ?run)" by simp
  have "suffix [Killed] (snd ?run)"
    using machine_shut_down[OF vm_os_ticking run c] by (auto simp: vm_os_def idle_os_def)
  with c run show ?thesis by blast
qed

end
