(* ===== verification/Job_Execute.thy ===== *)
theory Job_Execute
  imports Microvm_Props
begin

text \<open>
  \<open>jobs::execute\<close> and \<open>execute_spec\<close> of \<open>src/jobs/mod.rs\<close>: a validated command is given to the runner
  of its environment. What the runners promise through their contract holds of every job.
\<close>

datatype RunnerEnvironment =
    Host
  | Env_Microvm string "u8 option" "u32 option"
  | Env_ProjectMicrovm string string string "u8 option" "u32 option"
  | Env_Container string "u8 option" "u32 option"

text \<open>The constructors of the runners: both machines drop the image they are given.\<close>

definition MicrovmRunner_new :: "string \<Rightarrow> u8 option \<Rightarrow> u32 option \<Rightarrow> MicrovmRunner" where
  "MicrovmRunner_new img cpu memory_mb = \<lparr>mv_cpu = cpu, mv_memory_mb = memory_mb\<rparr>"

definition ProjectMicrovmRunner_new ::
  "string \<Rightarrow> string \<Rightarrow> string \<Rightarrow> u8 option \<Rightarrow> u32 option \<Rightarrow> ProjectMicrovmRunner" where
  "ProjectMicrovmRunner_new project_id environment img cpu memory_mb =
     \<lparr>pv_project_id = project_id, pv_environment = environment, pv_cpu = cpu, pv_memory_mb = memory_mb\<rparr>"

definition ContainerRunner_new :: "string \<Rightarrow> u8 option \<Rightarrow> u32 option \<Rightarrow> ContainerRunner" where
  "ContainerRunner_new img cpu memory_mb = \<lparr>cr_image = img, cr_cpu = cpu, cr_memory_mb = memory_mb\<rparr>"

text \<open>The \<open>match\<close> of \<open>execute_spec\<close>.\<close>

fun environment_runner ::
  "OS \<Rightarrow> Sys \<Rightarrow> (u8 list \<Rightarrow> u8 list) \<Rightarrow> (u8 list \<Rightarrow> string) \<Rightarrow> RunnerEnvironment \<Rightarrow> ExecutionContext \<Rightarrow> string \<Rightarrow>
     CommandSpec \<Rightarrow> JobExecutionResult eff" where
  "environment_runner os S sha256 hex Host = HostRunner_execute os"
| "environment_runner os S sha256 hex (Env_Microvm img cpu memory_mb) =
     MicrovmRunner_execute os S sha256 hex (MicrovmRunner_new img cpu memory_mb)"
| "environment_runner os S sha256 hex (Env_ProjectMicrovm project_id environment img cpu memory_mb) =
     ProjectMicrovmRunner_execute os S sha256 hex
       (ProjectMicrovmRunner_new project_id environment img cpu memory_mb)"
| "environment_runner os S sha256 hex (Env_Container img cpu memory_mb) =
     ContainerRunner_execute os S (ContainerRunner_new img cpu memory_mb)"

definition execute_spec ::
  "OS \<Rightarrow> Sys \<Rightarrow> (u8 list \<Rightarrow> u8 list) \<Rightarrow> (u8 list \<Rightarrow> string) \<Rightarrow> RunnerEnvironment \<Rightarrow> ExecutionContext \<Rightarrow> string \<Rightarrow>
     CommandSpec \<Rightarrow> JobExecutionResult eff" where
  "execute_spec os S sha256 hex environment ctx workdir c =
     eff_seq (lift (CommandSpec_validate c)) (environment_runner os S sha256 hex environment ctx workdir c)"

definition execute ::
  "OS \<Rightarrow> Sys \<Rightarrow> (u8 list \<Rightarrow> u8 list) \<Rightarrow> (u8 list \<Rightarrow> string) \<Rightarrow> RunnerEnvironment \<Rightarrow> ExecutionContext \<Rightarrow> string \<Rightarrow>
     string list \<Rightarrow> JobExecutionResult eff" where
  "execute os S sha256 hex environment ctx workdir command =
     eff_then (lift (CommandSpec_new command)) (\<lambda>c. execute_spec os S sha256 hex environment ctx workdir c)"

text \<open>The container runner's call back into \<open>execute\<close> is \<open>execute\<close> on the host.\<close>

lemma execute_on_host_is_execute:
  "execute_on_host os ctx workdir argv = execute os S sha256 hex Host ctx workdir argv"
  by (simp add: execute_on_host_def execute_def execute_spec_def)

section \<open>The contract of every environment\<close>

lemma environment_is_runner: "runner (environment_runner os S sha256 hex environment)"
  by (cases environment) (simp_all add: host.runner_axioms microvm.runner_axioms project.runner_axioms
      container.runner_axioms)

interpretation environment: runner "environment_runner os S sha256 hex environment"
  by (rule environment_is_runner)

text \<open>
  C12: Whatever the environment, a job with an invalid command or a timeout out of range ends in its
  error and does nothing; every job that returns a result has a valid command, a timeout of 1 to
  3600 seconds, a status that is \<open>succeeded\<close> or \<open>failed\<close>, and a message of bounded length.
\<close>

theorem job_contract:
  "case execute_spec os S sha256 hex environment ctx workdir c h of
     (Inl e, h') \<Rightarrow>
       prefix h h' \<and>
       (if CommandSpec_validate c \<noteq> Inr () then Inl e = CommandSpec_validate c \<and> h' = h
        else if ctx_timeout_seconds ctx = 0 \<or> 3600 < ctx_timeout_seconds ctx then e = timeout_error \<and> h' = h
        else True)
   | (Inr r, h') \<Rightarrow>
       prefix h h' \<and> CommandSpec_validate c = Inr () \<and> 1 \<le> unat (ctx_timeout_seconds ctx) \<and>
       unat (ctx_timeout_seconds ctx) \<le> 3600 \<and> jr_status r \<in> {''succeeded'', ''failed''} \<and>
       (case jr_message r of None \<Rightarrow> False | Some m \<Rightarrow> length m \<le> length workdir + 4037)"
proof (cases "CommandSpec_validate c")
  case (Inl e)
  then show ?thesis by (simp add: execute_spec_def eff_seq_def eff_then_def lift_def)
next
  case (Inr u)
  have run: "execute_spec os S sha256 hex environment ctx workdir c h =
      environment_runner os S sha256 hex environment ctx workdir c h"
    using Inr by (simp add: execute_spec_def eff_seq_def eff_then_def lift_def)
  obtain r h' where r: "environment_runner os S sha256 hex environment ctx workdir c h = (r, h')"
    by (cases "environment_runner os S sha256 hex environment ctx workdir c h")
  have prefix: "prefix h h'" using onlyE[OF environment.adds_only r] by (metis prefixI)
  show ?thesis
  proof (cases r)
    case (Inl e)
    then show ?thesis
      using Inr r prefix environment.refuse_timeout[of ctx os S sha256 hex environment workdir c h]
      unfolding run by (auto simp: timeout_guard)
  next
    case result: (Inr x)
    have "timeout_in_range ctx" "result_ok workdir x"
      using environment.succeeds_only_in_range[of os S sha256 hex environment ctx workdir c h x h'] r result by simp_all
    then have "unat (ctx_timeout_seconds ctx) \<noteq> 0" "unat (ctx_timeout_seconds ctx) \<le> 3600"
      by (simp_all add: timeout_in_range_def word_le_nat_alt unsigned_eq_0_iff del: neq0_conv)
    then have "1 \<le> unat (ctx_timeout_seconds ctx)" "unat (ctx_timeout_seconds ctx) \<le> 3600"
      by (metis One_nat_def Suc_leI neq0_conv) (rule \<open>unat (ctx_timeout_seconds ctx) \<le> 3600\<close>)
    with \<open>result_ok workdir x\<close> show ?thesis
      using Inr r result prefix unfolding run by (simp add: result_ok_def MAX_CHARS_def split: option.splits)
  qed
qed

text \<open>
  The image a job asks for its virtual machine makes no difference: both machine runners drop
  it and boot what the agent's own environment names.
\<close>

theorem machine_image_ignored:
  "execute os S sha256 hex (Env_Microvm img cpu memory_mb) = execute os S sha256 hex (Env_Microvm img' cpu memory_mb) \<and>
   execute os S sha256 hex (Env_ProjectMicrovm p e img cpu memory_mb) =
     execute os S sha256 hex (Env_ProjectMicrovm p e img' cpu memory_mb)"
  by (simp add: execute_def[abs_def] execute_spec_def[abs_def] MicrovmRunner_new_def ProjectMicrovmRunner_new_def)

end
