(* ===== verification/Enrollment.thy ===== *)
theory Enrollment
  imports Agent_Config System_Info Lxc_Container
begin

text \<open>
  Enrolling a node: \<open>src/enrollment.rs\<close>. The requests and responses with their JSON, the check of
  the tools, and \<open>run_login\<close> with its loop of polls. The library's text of a JSON error is not in
  the model; a failed \<open>finish\<close> whose response is an error is only logged by the code.
\<close>

section \<open>Requests\<close>

record AgentMetadata =
  am_hostname :: string
  am_os_platform :: string
  am_os_arch :: string
  am_agent_version :: "string option"
  am_mac_addresses :: "string list option"
  am_wireguard_public_key :: "string option"

record EnrollmentStartRequest =
  es_requested_name :: "string option"
  es_agent_metadata :: AgentMetadata

definition en_AgentMetadata :: "AgentMetadata \<Rightarrow> json" where
  "en_AgentMetadata m = struct_json
     [field ''hostname'' (Str (am_hostname m)),
      field ''osPlatform'' (Str (am_os_platform m)),
      field ''osArch'' (Str (am_os_arch m)),
      skip_none ''agentVersion'' Str (am_agent_version m),
      skip_none ''macAddresses'' (\<lambda>ms. Arr (map Str ms)) (am_mac_addresses m),
      skip_none ''wireguardPublicKey'' Str (am_wireguard_public_key m)]"

definition en_EnrollmentStartRequest :: "EnrollmentStartRequest \<Rightarrow> json" where
  "en_EnrollmentStartRequest r = struct_json
     [skip_none ''requestedName'' Str (es_requested_name r),
      field ''agentMetadata'' (en_AgentMetadata (es_agent_metadata r))]"

text \<open>\<open>json!({"token": ...})\<close>, the body of \<open>poll\<close> and \<open>finish\<close>.\<close>

definition token_json :: "string \<Rightarrow> json" where
  "token_json token = Obj [(''token'', Str token)]"

section \<open>Responses\<close>

record EnrollmentStartResponse =
  sr_enrollment_token :: string
  sr_verification_url :: string
  sr_user_code :: string
  sr_expires_at :: string
  sr_poll_interval_ms :: u64

definition de_EnrollmentStartResponse :: "EnrollmentStartResponse decoder" where
  "de_EnrollmentStartResponse v = do {
     f \<leftarrow> struct_fields [''enrollmentToken'', ''verificationUrl'', ''userCode'', ''expiresAt'', ''pollIntervalMs''] v;
     token \<leftarrow> required f 0 ''enrollmentToken'' de_string;
     url \<leftarrow> required f 1 ''verificationUrl'' de_string;
     code \<leftarrow> required f 2 ''userCode'' de_string;
     expires \<leftarrow> required f 3 ''expiresAt'' de_string;
     interval \<leftarrow> required f 4 ''pollIntervalMs'' de_word;
     Some \<lparr>sr_enrollment_token = token, sr_verification_url = url, sr_user_code = code, sr_expires_at = expires,
       sr_poll_interval_ms = interval\<rparr> }"

record EnrollmentWireGuardPeerConfig =
  ep_public_key :: string
  ep_endpoint :: string
  ep_allowed_ips :: "string list"
  ep_preshared_key :: "string option"
  ep_persistent_keepalive_seconds :: "u16 option"

record EnrollmentWireGuardConfig =
  ew_interface_name :: string
  ew_addresses :: "string list"
  ew_dns :: "string list"
  ew_server :: EnrollmentWireGuardPeerConfig

definition de_EnrollmentWireGuardPeerConfig :: "EnrollmentWireGuardPeerConfig decoder" where
  "de_EnrollmentWireGuardPeerConfig v = do {
     f \<leftarrow> struct_fields
       [''publicKey'', ''endpoint'', ''allowedIps'', ''presharedKey'', ''persistentKeepaliveSeconds''] v;
     public_key \<leftarrow> required f 0 ''publicKey'' de_string;
     ep \<leftarrow> required f 1 ''endpoint'' de_string;
     allowed_ips \<leftarrow> required f 2 ''allowedIps'' (de_list de_string);
     preshared_key \<leftarrow> optional f 3 ''presharedKey'' de_string;
     keepalive \<leftarrow> optional f 4 ''persistentKeepaliveSeconds'' de_word;
     Some \<lparr>ep_public_key = public_key, ep_endpoint = ep, ep_allowed_ips = allowed_ips,
       ep_preshared_key = preshared_key, ep_persistent_keepalive_seconds = keepalive\<rparr> }"

definition de_EnrollmentWireGuardConfig :: "EnrollmentWireGuardConfig decoder" where
  "de_EnrollmentWireGuardConfig v = do {
     f \<leftarrow> struct_fields [''interfaceName'', ''addresses'', ''dns'', ''server''] v;
     interface_name \<leftarrow> required f 0 ''interfaceName'' de_string;
     addresses \<leftarrow> required f 1 ''addresses'' (de_list de_string);
     dns \<leftarrow> defaulted f 2 ''dns'' (de_list de_string) [];
     server \<leftarrow> required f 3 ''server'' de_EnrollmentWireGuardPeerConfig;
     Some \<lparr>ew_interface_name = interface_name, ew_addresses = addresses, ew_dns = dns, ew_server = server\<rparr> }"

text \<open>
  \<open>#[serde(tag = "status")]\<close>: the tag is a text under the key \<open>status\<close>, once, or the first element
  of an array; the rest of the object or array is the variant, and \<open>pending\<close> ignores the keys of an
  object but takes no further elements of an array.
\<close>

datatype EnrollmentPollResponse =
    Pending_Approval
  | Approved string string string "EnrollmentWireGuardConfig option"

definition poll_variant :: "string \<Rightarrow> json \<Rightarrow> EnrollmentPollResponse option" where
  "poll_variant tag v =
     (if tag = ''pending''
      then (case v of Obj kvs \<Rightarrow> Some Pending_Approval | Arr [] \<Rightarrow> Some Pending_Approval | _ \<Rightarrow> None)
      else if tag = ''approved''
      then do {
        f \<leftarrow> struct_fields [''nodeId'', ''nodeToken'', ''agentWsUrl'', ''wireguard''] v;
        node_id \<leftarrow> required f 0 ''nodeId'' de_string;
        node_token \<leftarrow> required f 1 ''nodeToken'' de_string;
        agent_ws_url \<leftarrow> required f 2 ''agentWsUrl'' de_string;
        wireguard \<leftarrow> optional f 3 ''wireguard'' de_EnrollmentWireGuardConfig;
        Some (Approved node_id node_token agent_ws_url wireguard) }
      else None)"

fun de_EnrollmentPollResponse :: "EnrollmentPollResponse decoder" where
  "de_EnrollmentPollResponse (Obj kvs) =
     (case filter (\<lambda>kv. fst kv = ''status'') kvs of
        [(_, Str tag)] \<Rightarrow> poll_variant tag (Obj (filter (\<lambda>kv. fst kv \<noteq> ''status'') kvs))
      | _ \<Rightarrow> None)"
| "de_EnrollmentPollResponse (Arr (Str tag # vs)) = poll_variant tag (Arr vs)"
| "de_EnrollmentPollResponse _ = None"

section \<open>Logging in\<close>

definition enroll_check_dependencies :: "OS \<Rightarrow> unit eff" where
  "enroll_check_dependencies os =
     eff_then (missing_commands os [''ip'', ''tar'']) (\<lambda>missing.
       if missing \<noteq> []
       then fail [''Missing required dependencies: '' @ join '', '' missing @ ''. Please install them before proceeding.'']
       else ret ())"

text \<open>
  What the agent process has around it: \<open>serde_json\<close>'s parser and its two printers, SHA-256 and
  \<open>hex\<close>, the system, and what it reads of the host's network interfaces.
\<close>

record LoginSys =
  ls_parse :: "string \<Rightarrow> json option"
  ls_print :: "json \<Rightarrow> string"
  ls_print_pretty :: "json \<Rightarrow> string"
  ls_sha256 :: "u8 list \<Rightarrow> u8 list"
  ls_hex :: "u8 list \<Rightarrow> string"
  ls_env :: env
  ls_cwd :: "string result"
  ls_source :: SystemSource
  ls_read :: "string \<Rightarrow> string option"
  ls_interfaces :: "string list option"

definition post :: "OS \<Rightarrow> LoginSys \<Rightarrow> string \<Rightarrow> json \<Rightarrow> HttpResponse eff" where
  "post os L url body = http os \<lparr>rq_url = url, rq_body = Some (ls_print L body)\<rparr>"

definition is_success :: "nat \<Rightarrow> bool" where
  "is_success status \<longleftrightarrow> 200 \<le> status \<and> status < 300"

definition or_unknown :: "string \<Rightarrow> string" where
  "or_unknown payload = (if payload = [] then ''unknown error'' else payload)"

definition start_request ::
  "string option \<Rightarrow> SystemInfo \<Rightarrow> string list \<Rightarrow> WireGuardIdentity option \<Rightarrow> EnrollmentStartRequest" where
  "start_request requested_name info mac_addresses identity =
     \<lparr>es_requested_name =
        or_else (filter_option (\<lambda>v. trim v \<noteq> []) requested_name)
          (if trim (si_hostname info) = [] then None else Some (trim (si_hostname info))),
      es_agent_metadata =
        \<lparr>am_hostname = si_hostname info, am_os_platform = si_os_platform info, am_os_arch = si_os_arch info,
         am_agent_version = si_agent_version info,
         am_mac_addresses = (if mac_addresses = [] then None else Some mac_addresses),
         am_wireguard_public_key = map_option ident_public_key identity\<rparr>\<rparr>"

definition enroll_start ::
  "OS \<Rightarrow> LoginSys \<Rightarrow> string \<Rightarrow> EnrollmentStartRequest \<Rightarrow> EnrollmentStartResponse eff" where
  "enroll_start os L api_base_url request =
     eff_then (eff_context ''failed to start node enrollment''
         (post os L (api_base_url @ ''/nodes/enroll/start'') (en_EnrollmentStartRequest request))) (\<lambda>r.
     eff_then (lift (with_context ''failed to read enrollment response'' (rp_text r))) (\<lambda>payload.
       if \<not> is_success (rp_status r)
       then fail [''enrollment start failed ('' @ show_nat (rp_status r) @ ''): '' @ or_unknown payload]
       else case Option.bind (ls_parse L payload) de_EnrollmentStartResponse of
           None \<Rightarrow> fail [''invalid enrollment start payload'']
         | Some started \<Rightarrow> ret started))"

definition poll_url :: "string \<Rightarrow> string" where
  "poll_url api_base_url = api_base_url @ ''/nodes/enroll/poll''"

definition poll_answer :: "LoginSys \<Rightarrow> HttpResponse \<Rightarrow> string \<Rightarrow> EnrollmentPollResponse result" where
  "poll_answer L r payload =
     (if rp_status r = 409 then bail (''enrollment conflict: '' @ or_unknown payload)
      else if rp_status r = 410 then bail ''enrollment expired''
      else if \<not> is_success (rp_status r)
      then bail (''enrollment poll failed ('' @ show_nat (rp_status r) @ ''): '' @ or_unknown payload)
      else case Option.bind (ls_parse L payload) de_EnrollmentPollResponse of
          None \<Rightarrow> bail ''invalid enrollment poll payload''
        | Some p \<Rightarrow> Inr p)"

definition enroll_poll :: "OS \<Rightarrow> LoginSys \<Rightarrow> string \<Rightarrow> string \<Rightarrow> EnrollmentPollResponse eff" where
  "enroll_poll os L api_base_url token =
     eff_then (eff_context ''failed to poll enrollment'' (post os L (poll_url api_base_url) (token_json token))) (\<lambda>r.
     eff_then (lift (with_context ''failed to read poll response'' (rp_text r))) (\<lambda>payload.
       lift (poll_answer L r payload)))"

definition wireguard_of ::
  "WireGuardIdentity option \<Rightarrow> EnrollmentWireGuardConfig option \<Rightarrow> WireGuardConfig option result" where
  "wireguard_of identity wireguard =
     (case wireguard of
        None \<Rightarrow> Inr None
      | Some v \<Rightarrow>
          (case identity of
             None \<Rightarrow> bail ''enrollment returned WireGuard configuration, but wg is unavailable''
           | Some i \<Rightarrow> Inr (Some
               \<lparr>wg_interface_name = ew_interface_name v, wg_addresses = ew_addresses v, wg_dns = ew_dns v,
                wg_private_key = ident_private_key i, wg_public_key = ident_public_key i,
                wg_server =
                  \<lparr>peer_public_key = ep_public_key (ew_server v), peer_endpoint = ep_endpoint (ew_server v),
                   peer_allowed_ips = ep_allowed_ips (ew_server v),
                   peer_preshared_key = ep_preshared_key (ew_server v),
                   peer_persistent_keepalive_seconds = ep_persistent_keepalive_seconds (ew_server v)\<rparr>\<rparr>)))"

definition enrolled_config ::
  "string \<Rightarrow> string \<Rightarrow> string \<Rightarrow> string \<Rightarrow> WireGuardConfig option \<Rightarrow> PersistedAgentConfig" where
  "enrolled_config api_base_url node_id node_token agent_ws_url wireguard =
     \<lparr>pc_node_id = node_id, pc_node_token = node_token, pc_agent_ws_url = agent_ws_url,
      pc_api_base_url = Some api_base_url, pc_wireguard = wireguard\<rparr>"

definition println :: "string \<Rightarrow> unit eff" where
  "println s = emit (Printed s)"

definition enrolled_report :: "string \<Rightarrow> string \<Rightarrow> WireGuardConfig option \<Rightarrow> string \<Rightarrow> unit eff" where
  "enrolled_report node_id agent_ws_url wireguard path =
     eff_seq (println ''Node enrolled successfully.'')
     (eff_seq (println (''Node ID: '' @ node_id))
     (eff_seq (println (''Agent websocket: '' @ agent_ws_url))
     (eff_seq (case wireguard of
         None \<Rightarrow> ret ()
       | Some w \<Rightarrow> println (''WireGuard: '' @ wg_interface_name w @ '' '' @ join '', '' (wg_addresses w)))
     (println (''Saved config: '' @ path)))))"

text \<open>The \<open>Approved\<close> arm: store, finish, report.\<close>

definition enroll_approved ::
  "OS \<Rightarrow> LoginSys \<Rightarrow> string \<Rightarrow> string \<Rightarrow> WireGuardIdentity option \<Rightarrow> string \<Rightarrow> string \<Rightarrow> string \<Rightarrow>
     EnrollmentWireGuardConfig option \<Rightarrow> unit eff" where
  "enroll_approved os L api_base_url token identity node_id node_token agent_ws_url wireguard =
     eff_then (lift (wireguard_of identity wireguard)) (\<lambda>wireguard.
     eff_then (save_persisted_config (ls_print_pretty L) (ls_env L) (ls_cwd L) os
         (enrolled_config api_base_url node_id node_token agent_ws_url wireguard)) (\<lambda>path.
     eff_seq (eff_context ''failed to finalize enrollment''
         (post os L (api_base_url @ ''/nodes/enroll/finish'') (token_json token)))
       (enrolled_report node_id agent_ws_url wireguard path)))"

definition enroll_round ::
  "OS \<Rightarrow> LoginSys \<Rightarrow> string \<Rightarrow> EnrollmentStartResponse \<Rightarrow> WireGuardIdentity option \<Rightarrow> unit \<Rightarrow> (unit + unit) eff" where
  "enroll_round os L api_base_url started identity = (\<lambda>_.
     eff_then (enroll_poll os L api_base_url (sr_enrollment_token started)) (\<lambda>p.
       case p of
         Pending_Approval \<Rightarrow>
           eff_seq (emit (Slept (unat (max (sr_poll_interval_ms started) 1000)))) (ret (Inl ()))
       | Approved node_id node_token agent_ws_url wireguard \<Rightarrow>
           eff_seq (enroll_approved os L api_base_url (sr_enrollment_token started) identity node_id node_token
             agent_ws_url wireguard) (ret (Inr ()))))"

definition announce :: "EnrollmentStartResponse \<Rightarrow> unit eff" where
  "announce started =
     eff_seq (println ''Open this link in your browser and sign in to approve the node:'')
     (eff_seq (println (sr_verification_url started))
     (eff_seq (println (''Code: '' @ sr_user_code started))
     (eff_seq (println (''Expires: '' @ sr_expires_at started))
     (println ''Waiting for approval...''))))"

text \<open>The loop; \<open>fuel\<close> bounds the polls, as the code's loop has no bound of its own.\<close>

definition await_approval ::
  "nat \<Rightarrow> OS \<Rightarrow> LoginSys \<Rightarrow> string \<Rightarrow> EnrollmentStartResponse \<Rightarrow> WireGuardIdentity option \<Rightarrow> unit eff" where
  "await_approval fuel os L api_base_url started identity =
     eff_loop fuel (enroll_round os L api_base_url started identity) ()"

definition run_login :: "nat \<Rightarrow> OS \<Rightarrow> LoginSys \<Rightarrow> string \<Rightarrow> string option \<Rightarrow> unit eff" where
  "run_login fuel os L api_base_url requested_name =
     eff_seq (enroll_check_dependencies os)
     (eff_then (eff_try (load_persisted_config_snapshot (ls_parse L) (ls_env L) (ls_cwd L) os)) (\<lambda>snapshot.
      eff_then (resolve_or_generate_identity os
          (map_sum id (\<lambda>c. Option.bind c pc_wireguard) snapshot)) (\<lambda>identity.
      eff_then (collect_system_info (ls_sha256 L) (ls_hex L) (ls_print L) os (ls_source L) None) (\<lambda>system_info.
      eff_then (enroll_start os L api_base_url
          (start_request requested_name (sp_info system_info)
            (collect_mac_addresses (sy_os (ls_source L) = ''linux'') (ls_read L) (ls_interfaces L)) identity)) (\<lambda>started.
      eff_seq (announce started)
        (await_approval fuel os L api_base_url started identity))))))"

end
