(* ===== verification/Enrollment_Props.thy ===== *)
theory Enrollment_Props
  imports Enrollment
begin

text \<open>
  Properties of enrolling: when the loop of polls ends, what a successful login has stored and in
  which order, and that the agent that is started next loads exactly that.
\<close>

section \<open>Errors have a message\<close>

text \<open>\<open>speaks m\<close>: an error of the effect is never the empty chain, the mark of a loop out of fuel.\<close>

definition speaks :: "'a eff \<Rightarrow> bool" where
  "speaks m \<longleftrightarrow> (\<forall>h. fst (m h) \<noteq> Inl [])"

lemma speaks_basic [simp]:
  "speaks (ret x)" "speaks (fail (e # es))" "speaks (eff_context msg m)" "speaks (emit ev)"
  "speaks (lift r) \<longleftrightarrow> r \<noteq> Inl []"
  by (auto simp: speaks_def eff_defs with_context_def split: prod.split sum.split)

lemma speaks_then_value:
  assumes m: "speaks m" and f: "\<And>x h h'. m h = (Inr x, h') \<Longrightarrow> speaks (f x)"
  shows "speaks (eff_then m f)"
  unfolding speaks_def
proof
  fix h
  obtain r h' where r: "m h = (r, h')" by (cases "m h")
  with m have "r \<noteq> Inl []" unfolding speaks_def by (metis fst_conv)
  then show "fst (eff_then m f h) \<noteq> Inl []"
    using r f[of h] unfolding speaks_def by (cases r) (auto simp: eff_then_def)
qed

lemma speaks_then [intro]: "speaks m \<Longrightarrow> (\<And>x. speaks (f x)) \<Longrightarrow> speaks (eff_then m f)"
  by (rule speaks_then_value)

lemma speaks_seq [intro]: "speaks m \<Longrightarrow> speaks n \<Longrightarrow> speaks (eff_seq m n)"
  unfolding eff_seq_def by (rule speaks_then)

lemma with_context_neq_Nil [simp]: "with_context msg r \<noteq> Inl []"
  by (simp add: with_context_def split: sum.split)

lemma config_path_speaks: "persisted_config_path env cwd \<noteq> Inl []"
  by (auto simp: persisted_config_path_def and_then_def split: option.split sum.split)

lemma save_speaks: "speaks (save_persisted_config print env cwd os c)"
  unfolding save_persisted_config_def
  by (auto simp: config_path_speaks intro!: speaks_then speaks_seq split: option.split)

lemma wireguard_of_speaks: "wireguard_of identity wireguard \<noteq> Inl []"
  by (auto simp: wireguard_of_def bail_def split: option.split)

lemma poll_answer_speaks: "poll_answer L r payload \<noteq> Inl []"
  by (auto simp: poll_answer_def bail_def split: option.split)

lemma approved_speaks: "speaks (enroll_approved os L base token identity node_id node_token url wireguard)"
  unfolding enroll_approved_def enrolled_report_def println_def
  by (auto simp: wireguard_of_speaks intro!: speaks_then speaks_seq save_speaks split: option.split)

lemma poll_speaks: "speaks (enroll_poll os L base token)"
  unfolding enroll_poll_def by (intro speaks_then) (simp_all add: poll_answer_speaks)

lemma round_speaks: "speaks (enroll_round os L base started identity u)"
  unfolding enroll_round_def
  by (auto intro!: speaks_then speaks_seq approved_speaks poll_speaks split: EnrollmentPollResponse.split)

section \<open>The rounds\<close>

definition poll_request :: "LoginSys \<Rightarrow> string \<Rightarrow> string \<Rightarrow> HttpRequest" where
  "poll_request L base token = \<lparr>rq_url = poll_url base, rq_body = Some (ls_print L (token_json token))\<rparr>"

text \<open>What a poll after the history \<open>h\<close> returns.\<close>

definition poll_at :: "OS \<Rightarrow> LoginSys \<Rightarrow> string \<Rightarrow> string \<Rightarrow> event list \<Rightarrow> EnrollmentPollResponse result" where
  "poll_at os L base token h = fst (enroll_poll os L base token h)"

lemma enroll_poll_run:
  "enroll_poll os L base token h = (poll_at os L base token h, h @ [Http (poll_request L base token)])"
  by (auto simp: poll_at_def enroll_poll_def post_def poll_request_def eff_defs split: sum.split prod.split)

text \<open>The history after \<open>k\<close> polls that were all answered \<open>pending\<close>.\<close>

definition pending_events :: "LoginSys \<Rightarrow> string \<Rightarrow> EnrollmentStartResponse \<Rightarrow> nat \<Rightarrow> event list" where
  "pending_events L base started k = concat (replicate k
     [Http (poll_request L base (sr_enrollment_token started)),
      Slept (unat (max (sr_poll_interval_ms started) 1000))])"

lemma pending_events_Suc:
  "pending_events L base started (Suc k) =
     pending_events L base started 1 @ pending_events L base started k"
  by (simp add: pending_events_def)

lemma round_pending:
  "poll_at os L base (sr_enrollment_token started) h = Inr Pending_Approval \<Longrightarrow>
     enroll_round os L base started identity u h = (Inr (Inl ()), h @ pending_events L base started 1)"
  by (simp add: enroll_round_def eff_then_def enroll_poll_run pending_events_def eff_seq_def emit_def ret_def)

lemma round_not_pending:
  assumes "poll_at os L base (sr_enrollment_token started) h \<noteq> Inr Pending_Approval"
  shows "\<exists>r h'. enroll_round os L base started identity u h = (r, h') \<and>
    ((\<exists>e. r = Inl e \<and> e \<noteq> []) \<or> r = Inr (Inr ()))"
proof -
  obtain r h' where run: "enroll_round os L base started identity u h = (r, h')"
    by (cases "enroll_round os L base started identity u h")
  moreover have "r \<noteq> Inl []" using round_speaks run unfolding speaks_def by (metis fst_conv)
  moreover have "r \<noteq> Inr (Inl v)" for v
    using assms run
    by (auto simp: enroll_round_def eff_then_def enroll_poll_run eff_seq_def emit_def ret_def
        split: sum.splits EnrollmentPollResponse.splits prod.splits)
  ultimately show ?thesis
  proof (cases r)
    case (Inr x)
    with \<open>\<And>v. r \<noteq> Inr (Inl v)\<close> run show ?thesis by (cases x) simp_all
  qed simp
qed

lemma await_step:
  "await_approval (Suc n) os L base started identity h =
     (if poll_at os L base (sr_enrollment_token started) h = Inr Pending_Approval
      then await_approval n os L base started identity (h @ pending_events L base started 1)
      else case enroll_round os L base started identity () h of
        (Inl e, h') \<Rightarrow> (Inl e, h') | (Inr _, h') \<Rightarrow> (Inr (), h'))"
proof (cases "poll_at os L base (sr_enrollment_token started) h = Inr Pending_Approval")
  case True
  then show ?thesis by (simp add: await_approval_def eff_then_def round_pending)
next
  case False
  then show ?thesis
    using round_not_pending[OF False, of identity "()"]
    by (auto simp: await_approval_def eff_then_def ret_def)
qed

lemma await_pending:
  "(\<And>i. i < k \<Longrightarrow> poll_at os L base (sr_enrollment_token started) (h @ pending_events L base started i) = Inr Pending_Approval) \<Longrightarrow>
     await_approval (k + n) os L base started identity h =
     await_approval n os L base started identity (h @ pending_events L base started k)"
proof (induction k arbitrary: h)
  case 0
  then show ?case by (simp add: pending_events_def)
next
  case (Suc k)
  from Suc.prems[of 0] have "poll_at os L base (sr_enrollment_token started) h = Inr Pending_Approval"
    by (simp add: pending_events_def)
  moreover have "poll_at os L base (sr_enrollment_token started)
      ((h @ pending_events L base started 1) @ pending_events L base started i) = Inr Pending_Approval" if "i < k" for i
    using Suc.prems[of "Suc i"] that unfolding pending_events_Suc[of L base started i] by simp
  ultimately show ?case
    using Suc.IH[of "h @ pending_events L base started 1"]
    unfolding add_Suc await_step pending_events_Suc[of L base started k] by simp
qed

section \<open>When the login ends\<close>

text \<open>
  C21: Waiting for the approval ends exactly if the server once answers a poll with something else
  than \<open>pending\<close>: then the loop returns, with that answer's error or success, however many polls
  came before; while the server answers \<open>pending\<close> the loop goes on, also past the expiry it printed.
\<close>

theorem login_ends_iff_answered:
  "(\<exists>fuel. fst (await_approval fuel os L base started identity h) \<noteq> Inl []) =
   (\<exists>k. poll_at os L base (sr_enrollment_token started) (h @ pending_events L base started k) \<noteq> Inr Pending_Approval)"
proof
  assume "\<exists>k. poll_at os L base (sr_enrollment_token started) (h @ pending_events L base started k) \<noteq> Inr Pending_Approval"
  then obtain k where k: "poll_at os L base (sr_enrollment_token started) (h @ pending_events L base started k) \<noteq> Inr Pending_Approval"
    and before: "\<And>i. i < k \<Longrightarrow> poll_at os L base (sr_enrollment_token started) (h @ pending_events L base started i) = Inr Pending_Approval"
    using exists_least_iff[of "\<lambda>k. poll_at os L base (sr_enrollment_token started) (h @ pending_events L base started k) \<noteq> Inr Pending_Approval"]
    by blast
  have "await_approval (k + 1) os L base started identity h =
      await_approval 1 os L base started identity (h @ pending_events L base started k)"
    by (rule await_pending[OF before])
  then have "fst (await_approval (k + 1) os L base started identity h) \<noteq> Inl []"
    using k round_not_pending[OF k, of identity "()"]
    by (auto simp: await_step[of 0, simplified])
  then show "\<exists>fuel. fst (await_approval fuel os L base started identity h) \<noteq> Inl []" by blast
next
  assume "\<exists>fuel. fst (await_approval fuel os L base started identity h) \<noteq> Inl []"
  then obtain n where n: "fst (await_approval n os L base started identity h) \<noteq> Inl []" by blast
  show "\<exists>k. poll_at os L base (sr_enrollment_token started) (h @ pending_events L base started k) \<noteq> Inr Pending_Approval"
  proof (rule ccontr)
    assume "\<nexists>k. poll_at os L base (sr_enrollment_token started) (h @ pending_events L base started k) \<noteq> Inr Pending_Approval"
    then have "await_approval (n + 0) os L base started identity h =
        await_approval 0 os L base started identity (h @ pending_events L base started n)"
      by (intro await_pending) blast
    with n show False by (simp add: await_approval_def fail_def)
  qed
qed

section \<open>What a login stores\<close>

lemma await_success:
  assumes "await_approval n os L base started identity h = (Inr (), h')"
  shows "\<exists>h1 node_id node_token url wireguard.
    poll_at os L base (sr_enrollment_token started) h1 = Inr (Approved node_id node_token url wireguard) \<and>
    enroll_approved os L base (sr_enrollment_token started) identity node_id node_token url wireguard
      (h1 @ [Http (poll_request L base (sr_enrollment_token started))]) = (Inr (), h')"
  using assms
proof (induction n arbitrary: h)
  case 0
  then show ?case by (simp add: await_approval_def fail_def)
next
  case (Suc n)
  show ?case
  proof (cases "poll_at os L base (sr_enrollment_token started) h = Inr Pending_Approval")
    case True
    with Suc show ?thesis unfolding await_step by simp
  next
    case False
    then obtain x where x: "enroll_round os L base started identity () h = (Inr x, h')"
      using Suc.prems unfolding await_step by (auto split: prod.splits sum.splits)
    then obtain p where p: "poll_at os L base (sr_enrollment_token started) h = Inr p" "p \<noteq> Pending_Approval"
      using False by (auto simp: enroll_round_def eff_then_def enroll_poll_run split: sum.splits)
    then obtain a b c d where p': "p = Approved a b c d" by (cases p) auto
    have "enroll_approved os L base (sr_enrollment_token started) identity a b c d
        (h @ [Http (poll_request L base (sr_enrollment_token started))]) = (Inr (), h')"
      using x p p' by (auto simp: enroll_round_def eff_then_def eff_seq_def enroll_poll_run ret_def
          split: sum.splits prod.splits)
    with p p' show ?thesis by blast
  qed
qed

text \<open>The events of storing: nothing that touches the file comes after it.\<close>

definition touches :: "string \<Rightarrow> event \<Rightarrow> bool" where
  "touches path e \<longleftrightarrow> (case e of
     Wrote p _ \<Rightarrow> p = path | Removed p \<Rightarrow> p = path | Appended p _ \<Rightarrow> p = path | Opened p \<Rightarrow> p = path | _ \<Rightarrow> False)"

lemma approved_success:
  assumes "enroll_approved os L base token identity node_id node_token url wireguard h = (Inr (), h')"
  shows "\<exists>w path h1 t. wireguard_of identity wireguard = Inr w \<and>
    persisted_config_path (ls_env L) (ls_cwd L) = Inr path \<and> prefix h h1 \<and>
    os_fault os h1 (Wrote path (ls_print_pretty L (en_PersistedAgentConfig (enrolled_config base node_id node_token url w)))) = None \<and>
    h' = h1 @ Wrote path (ls_print_pretty L (en_PersistedAgentConfig (enrolled_config base node_id node_token url w))) #
      Http \<lparr>rq_url = base @ ''/nodes/enroll/finish'', rq_body = Some (ls_print L (token_json token))\<rparr> # t \<and>
    (\<forall>e \<in> set t. \<exists>l. e = Printed l)"
proof -
  obtain w where w: "wireguard_of identity wireguard = Inr w"
    using assms by (cases "wireguard_of identity wireguard") (auto simp: enroll_approved_def eff_then_def lift_def)
  obtain path where path: "persisted_config_path (ls_env L) (ls_cwd L) = Inr path"
    using assms w
    by (cases "persisted_config_path (ls_env L) (ls_cwd L)")
      (auto simp: enroll_approved_def save_persisted_config_def eff_then_def lift_def)
  define dirs where "dirs = (case path_parent path of None \<Rightarrow> [] | Some p \<Rightarrow> [Made_Dir p])"
  define text' where "text' = ls_print_pretty L (en_PersistedAgentConfig (enrolled_config base node_id node_token url w))"
  have report: "enrolled_report node_id url w path h = (Inr (), h @ t) \<Longrightarrow> \<forall>e \<in> set t. \<exists>l. e = Printed l" for h t
    by (auto simp: enrolled_report_def println_def eff_seq_def eff_then_def emit_def ret_def split: option.splits)
  have report_run: "\<exists>t. enrolled_report node_id url w path h = (Inr (), h @ t) \<and> (\<forall>e \<in> set t. \<exists>l. e = Printed l)" for h
    by (cases w) (simp_all add: enrolled_report_def println_def eff_seq_def eff_then_def emit_def ret_def)
  have "wp (enroll_approved os L base token identity node_id node_token url wireguard)
      (\<lambda>r h'. r = Inr () \<longrightarrow> os_fault os (h @ dirs) (Wrote path text') = None \<and>
        (\<exists>t. h' = (h @ dirs) @ Wrote path text' #
          Http \<lparr>rq_url = base @ ''/nodes/enroll/finish'', rq_body = Some (ls_print L (token_json token))\<rparr> # t \<and>
          (\<forall>e \<in> set t. \<exists>l. e = Printed l))) h"
  proof -
    have rep: "wp (enrolled_report node_id url w path) (\<lambda>r h'. \<exists>t. h' = h @ t \<and> (\<forall>e \<in> set t. \<exists>l. e = Printed l)) h" for h
      using report_run[of h] by (auto simp: wp_def)
    show ?thesis
      unfolding enroll_approved_def save_persisted_config_def post_def
      using w path
      by (auto simp: wp_then wp_seq wp_basic wp_wrap wp_perform with_context_def dirs_def simp flip: text'_def
          split: option.split sum.split intro!: wp_mono[OF rep])
  qed
  then obtain t where "os_fault os (h @ dirs) (Wrote path text') = None"
    "h' = (h @ dirs) @ Wrote path text' #
      Http \<lparr>rq_url = base @ ''/nodes/enroll/finish'', rq_body = Some (ls_print L (token_json token))\<rparr> # t"
    "\<forall>e \<in> set t. \<exists>l. e = Printed l"
    using assms by (auto simp: wp_def)
  with w path show ?thesis
    unfolding text'_def by (intro exI[of _ w] exI[of _ path] exI[of _ "h @ dirs"] exI[of _ t]) simp
qed

text \<open>The law of the file system for one file: it holds what was last written to it.\<close>

definition file_law :: "OS \<Rightarrow> string \<Rightarrow> bool" where
  "file_law os path \<longleftrightarrow> (\<forall>h text t. os_fault os h (Wrote path text) = None \<longrightarrow> list_all (\<lambda>e. \<not> touches path e) t \<longrightarrow>
     os_exists os (h @ Wrote path text # t) path \<and> os_read os (h @ Wrote path text # t) path = Inr text)"

text \<open>The configurations the server's approvals stand for.\<close>

definition approved_config :: "OS \<Rightarrow> LoginSys \<Rightarrow> string \<Rightarrow> PersistedAgentConfig \<Rightarrow> bool" where
  "approved_config os L base c \<longleftrightarrow>
     (\<exists>h token identity node_id node_token url wireguard w.
        poll_at os L base token h = Inr (Approved node_id node_token url wireguard) \<and>
        wireguard_of identity wireguard = Inr w \<and>
        c = \<lparr>pc_node_id = node_id, pc_node_token = node_token, pc_agent_ws_url = url, pc_api_base_url = Some base,
          pc_wireguard = w\<rparr>)"

text \<open>
  C16: A login that succeeds has stored what the server approved: the agent that is started after it
  loads a configuration with the node id, token and address of an approval, the login's API address
  and the WireGuard network of that approval, if it had one.
\<close>

theorem login_then_load:
  assumes "run_login fuel os L base name h = (Inr (), h')"
    and "\<And>c. approved_config os L base c \<Longrightarrow>
      ls_parse L (ls_print_pretty L (en_PersistedAgentConfig c)) = Some (en_PersistedAgentConfig c)"
    and "\<And>path. file_law os path"
  shows "\<exists>c. approved_config os L base c \<and>
    fst (load_persisted_config (ls_parse L) (ls_env L) (ls_cwd L) os h') = Inr (Some c)"
proof -
  obtain h0 started identity where "await_approval fuel os L base started identity h0 = (Inr (), h')"
    using assms(1) unfolding run_login_def eff_seq_def by (auto simp: eff_then_Inr)
  then obtain h1 node_id node_token url wireguard where
    poll: "poll_at os L base (sr_enrollment_token started) h1 = Inr (Approved node_id node_token url wireguard)" and
    approved: "enroll_approved os L base (sr_enrollment_token started) identity node_id node_token url wireguard
      (h1 @ [Http (poll_request L base (sr_enrollment_token started))]) = (Inr (), h')"
    using await_success by blast
  obtain w path h2 t where w: "wireguard_of identity wireguard = Inr w"
    and path: "persisted_config_path (ls_env L) (ls_cwd L) = Inr path"
    and stored: "os_fault os h2 (Wrote path (ls_print_pretty L (en_PersistedAgentConfig (enrolled_config base node_id node_token url w)))) = None"
    and h': "h' = h2 @ Wrote path (ls_print_pretty L (en_PersistedAgentConfig (enrolled_config base node_id node_token url w))) #
      Http \<lparr>rq_url = base @ ''/nodes/enroll/finish'',
        rq_body = Some (ls_print L (token_json (sr_enrollment_token started)))\<rparr> # t"
    and t: "\<forall>e \<in> set t. \<exists>l. e = Printed l"
    using approved_success[OF approved] by blast
  have config: "approved_config os L base (enrolled_config base node_id node_token url w)"
    unfolding approved_config_def enrolled_config_def using poll w by blast
  have "list_all (\<lambda>e. \<not> touches path e) (Http \<lparr>rq_url = base @ ''/nodes/enroll/finish'',
        rq_body = Some (ls_print L (token_json (sr_enrollment_token started)))\<rparr> # t)"
    using t by (auto simp: list_all_iff touches_def)
  then have "os_exists os h' path"
    "os_read os h' path = Inr (ls_print_pretty L (en_PersistedAgentConfig (enrolled_config base node_id node_token url w)))"
    using assms(3)[of path] stored unfolding file_law_def h' by blast+
  then have "fst (load_persisted_config (ls_parse L) (ls_env L) (ls_cwd L) os h') =
      Inr (Some (enrolled_config base node_id node_token url w))"
    by (simp add: load_persisted_config_def path eff_defs assms(2)[OF config] with_context_def
        PersistedAgentConfig_codec.laws)
  with config show ?thesis by blast
qed

section \<open>Example\<close>

text \<open>A host with a file system and without \<open>wg\<close>, and a server that approves at once.\<close>

definition written :: "string \<Rightarrow> event list \<Rightarrow> string option" where
  "written path h = fold (\<lambda>e a. case e of Wrote p s \<Rightarrow> if p = path then Some s else a | _ \<Rightarrow> a) h None"

definition login_os :: OS where
  "login_os = idle_os\<lparr>
     os_exec := (\<lambda>h c. if cmd_program c = ''wg'' then Not_Found ''no wg'' else Finished idle_output),
     os_exists := (\<lambda>h p. written p h \<noteq> None),
     os_read := (\<lambda>h p. case written p h of None \<Rightarrow> Inl [''absent''] | Some s \<Rightarrow> Inr s),
     os_http := (\<lambda>h r. Inr \<lparr>rp_status = 200,
       rp_text = Inr (if rq_url r = ''http://s/nodes/enroll/start'' then ''S'' else ''A''), rp_error = []\<rparr>)\<rparr>"

definition example_enrolled :: PersistedAgentConfig where
  "example_enrolled = \<lparr>pc_node_id = ''n1'', pc_node_token = ''t1'', pc_agent_ws_url = ''ws://s'',
     pc_api_base_url = Some ''http://s'', pc_wireguard = None\<rparr>"

definition login_sys :: LoginSys where
  "login_sys =
     \<lparr>ls_parse = (\<lambda>s. if s = ''S''
        then Some (Obj [(''enrollmentToken'', Str ''e''), (''verificationUrl'', Str ''http://s/v''), (''userCode'', Str ''U''),
          (''expiresAt'', Str ''later''), (''pollIntervalMs'', Num (PosInt 500))])
        else if s = ''A''
        then Some (Obj [(''status'', Str ''approved''), (''nodeId'', Str ''n1''), (''nodeToken'', Str ''t1''),
          (''agentWsUrl'', Str ''ws://s'')])
        else if s = ''C'' then Some (en_PersistedAgentConfig example_enrolled) else None),
      ls_print = (\<lambda>_. ''J''), ls_print_pretty = (\<lambda>_. ''C''), ls_sha256 = id, ls_hex = (\<lambda>_. ''00''),
      ls_env = (\<lambda>n. if n = ''STATIX_AGENT_CONFIG'' then Some ''/c'' else None), ls_cwd = Inr ''/'',
      ls_source = \<lparr>sy_os = ''linux'', sy_arch = ''x86_64'', sy_kernel_version = None, sy_host_name = Some ''h'',
        sy_cpu_brands = [], sy_total_memory = 1, sy_version = None, sy_now_ms = 0\<rparr>,
      ls_read = (\<lambda>_. None), ls_interfaces = None\<rparr>"

lemma written_append:
  "written path (h @ t) = fold (\<lambda>e a. case e of Wrote p s \<Rightarrow> if p = path then Some s else a | _ \<Rightarrow> a) t (written path h)"
  by (simp add: written_def)

lemma written_keeps:
  "list_all (\<lambda>e. \<not> touches path e) t \<Longrightarrow>
     fold (\<lambda>e a. case e of Wrote p s \<Rightarrow> if p = path then Some s else a | _ \<Rightarrow> a) t a = a"
  by (induction t arbitrary: a) (auto simp: touches_def split: event.splits)

lemma login_file_law: "file_law login_os path"
  by (auto simp: file_law_def login_os_def written_append written_keeps)

lemma example_approval:
  "poll_at login_os login_sys ''http://s'' token h = Inr (Approved ''n1'' ''t1'' ''ws://s'' None)"
  by (simp add: poll_at_def enroll_poll_def post_def eff_defs login_os_def login_sys_def poll_url_def with_context_def
      poll_answer_def is_success_def poll_variant_def struct_defs)

lemma example_approved: "approved_config login_os login_sys ''http://s'' c \<longleftrightarrow> c = example_enrolled"
  by (auto simp: approved_config_def example_approval wireguard_of_def example_enrolled_def)

lemma example_path: "persisted_config_path (ls_env login_sys) (ls_cwd login_sys) = Inr ''/c''"
  by (simp add: login_sys_def) code_simp

lemma login_round:
  "poll_at login_os login_sys ''http://s'' (sr_enrollment_token started) h = Inr (Approved ''n1'' ''t1'' ''ws://s'' None) \<Longrightarrow>
     fst (await_approval 1 login_os login_sys ''http://s'' started None h) = Inr ()"
  by (cases "path_parent ''/c''")
    (simp_all add: await_approval_def enroll_round_def eff_then_def eff_seq_def enroll_poll_run enroll_approved_def wireguard_of_def
      lift_def save_persisted_config_def example_path perform_def login_os_def eff_context_def with_context_def ret_def
      post_def http_def enrolled_report_def println_def emit_def split: option.split)

lemma login_start:
  "fst (enroll_start login_os login_sys ''http://s'' request h) =
     Inr \<lparr>sr_enrollment_token = ''e'', sr_verification_url = ''http://s/v'', sr_user_code = ''U'',
       sr_expires_at = ''later'', sr_poll_interval_ms = 500\<rparr>"
  by (simp add: enroll_start_def post_def eff_defs login_os_def login_sys_def with_context_def is_success_def
      de_EnrollmentStartResponse_def struct_defs)

lemma login_run: "fst (run_login 1 login_os login_sys ''http://s'' None []) = Inr ()"
proof -
  have deps: "wp (enroll_check_dependencies login_os) (\<lambda>r h'. r = Inr () \<and> (\<forall>p. written p h' = None)) []"
    by (simp add: enroll_check_dependencies_def wp_rules login_os_def written_def cmd_def)
  have load: "wp (eff_try (load_persisted_config_snapshot (ls_parse login_sys) (ls_env login_sys) (ls_cwd login_sys) login_os))
      (\<lambda>r h'. r = Inr (Inr None)) h" if "\<forall>p. written p h = None" for h
    using that by (simp add: load_persisted_config_snapshot_def load_persisted_config_def example_path wp_rules login_os_def)
  have ident: "wp (resolve_or_generate_identity login_os (Inr None)) (\<lambda>r h'. r = Inr None) h" for h
    by (simp add: resolve_or_generate_identity_def wp_rules login_os_def cmd_def filter_option_def)
  have info: "wp (collect_system_info (ls_sha256 login_sys) (ls_hex login_sys) (ls_print login_sys) login_os
      (ls_source login_sys) None) (\<lambda>r h'. \<exists>x. r = Inr x) h" for h
    by (simp add: collect_system_info_def collect_status_def collect_gpu_info_def try_collect_nvidia_smi_gpus_def
        try_collect_linux_pci_gpus_def run_command_with_timeout_def tool_text_def eff_defs login_os_def cmd_def
        create_info_hash_def Let_def wp_def split: option.split)
  have start: "wp (enroll_start login_os login_sys ''http://s'' request) (\<lambda>r h'. \<exists>st. r = Inr st) h" for request h
    using login_start[of request h] by (simp add: wp_run)
  have wait: "wp (await_approval 1 login_os login_sys ''http://s'' st None) (\<lambda>r h'. r = Inr ()) h" for st h
    using login_round[OF example_approval] by (simp add: wp_run)
  have rest: "wp (eff_seq (announce st) (await_approval 1 login_os login_sys ''http://s'' st None)) (\<lambda>r h'. r = Inr ()) h" for st h
    using wait by (simp add: announce_def println_def wp_seq wp_basic)
  have "wp (run_login 1 login_os login_sys ''http://s'' None) (\<lambda>r h'. r = Inr ()) []"
    unfolding run_login_def wp_seq wp_then
    by (rule wp_mono[OF deps], clarsimp, rule wp_mono[OF load], simp, clarsimp, rule wp_mono[OF ident], clarsimp,
        rule wp_mono[OF info], clarsimp, rule wp_mono[OF start], clarsimp, rule rest[unfolded wp_seq])
  then show ?thesis by (simp add: wp_run)
qed

lemma login_then_load_witness:
  "\<exists>h'. run_login 1 login_os login_sys ''http://s'' None [] = (Inr (), h') \<and>
     fst (load_persisted_config (ls_parse login_sys) (ls_env login_sys) (ls_cwd login_sys) login_os h') =
       Inr (Some example_enrolled)"
proof -
  obtain h' where run: "run_login 1 login_os login_sys ''http://s'' None [] = (Inr (), h')"
    using login_run by (metis prod.collapse)
  have "ls_parse login_sys (ls_print_pretty login_sys (en_PersistedAgentConfig c)) = Some (en_PersistedAgentConfig c)"
    if "approved_config login_os login_sys ''http://s'' c" for c
    using that unfolding example_approved by (simp add: login_sys_def)
  from login_then_load[OF run this login_file_law] run show ?thesis unfolding example_approved by blast
qed

end
