(* ===== verification/Agent_Main.thy ===== *)
theory Agent_Main
  imports Enrollment_Props
begin

text \<open>
  The command line, \<open>src/main.rs\<close>: the subcommands, starting the agent, and the update request. The
  argument parser is \<open>clap\<close>'s; \<open>session\<close> stands for \<open>transport::session::run\<close>, whose rounds and
  connections have their own theory with another notion of effect.
\<close>

section \<open>Commands\<close>

record LoginArgs =
  la_api_base_url :: "string option"
  la_requested_name :: "string option"
  la_api_base_url_positional :: "string option"

record LoginOptions =
  lo_api_base_url :: "string option"
  lo_requested_name :: "string option"

definition into_options :: "LoginArgs \<Rightarrow> LoginOptions" where
  "into_options a =
     \<lparr>lo_api_base_url = or_else (la_api_base_url a) (la_api_base_url_positional a),
      lo_requested_name = la_requested_name a\<rparr>"

datatype Command = Run | Login LoginArgs | Update

record Cli =
  cli_version :: bool
  cli_command :: "Command option"

definition format_version :: "string \<Rightarrow> string" where
  "format_version version = ''statix-agent '' @ version"

text \<open>
  The directives of the log filter; \<open>try_new\<close> tells whether \<open>tracing_subscriber\<close> accepts the text
  of \<open>RUST_LOG\<close>.
\<close>

definition log_filter :: "(string \<Rightarrow> bool) \<Rightarrow> env \<Rightarrow> string" where
  "log_filter try_new env =
     (case env ''RUST_LOG'' of
        Some v \<Rightarrow> if try_new v then v else ''info''
      | None \<Rightarrow> if main_env_flag env ''STATIX_VERBOSE_LOGS'' then ''debug'' else ''info'')"

section \<open>Running the agent\<close>

definition not_configured :: string where
  "not_configured =
     ''Agent identity not configured. Run `statix-agent login --api-base-url http://host:3001` with '' @
     ''STATIX_AGENT_CONFIG pointing at the service config, or set NODE_ID/NODE_TOKEN in the environment.''"

text \<open>
  The state directory is only resolved for a line of the debug log: an error of it ends the function
  when that level is on (\<open>debug_enabled\<close>).
\<close>

definition run_agent ::
  "(AgentConfig \<Rightarrow> unit eff) \<Rightarrow> bool \<Rightarrow> bool \<Rightarrow> OS \<Rightarrow> (string \<Rightarrow> json option) \<Rightarrow> env \<Rightarrow> string result \<Rightarrow> unit eff" where
  "run_agent session debug_enabled linux os parse env cwd =
     eff_then (AgentConfig_load parse env cwd os) (\<lambda>c.
       case c of
         None \<Rightarrow> fail [not_configured]
       | Some config \<Rightarrow>
           eff_seq (eff_when debug_enabled (eff_then (lift (agent_state_dir env cwd)) (\<lambda>_. ret ())))
           (eff_seq
             (case ac_wireguard config of
                None \<Rightarrow> ret ()
              | Some w \<Rightarrow> eff_when (main_env_flag env ''STATIX_APPLY_WIREGUARD'')
                  (eff_ignore (ensure_applied os linux (agent_state_dir env cwd) w)))
             (session config)))"

section \<open>Updating\<close>

definition update_service :: "env \<Rightarrow> string" where
  "update_service env =
     unwrap_or (filter_option (\<lambda>v. trim v \<noteq> []) (env ''STATIX_UPDATE_SERVICE'')) ''statix-agent-update.service''"

definition systemctl_command :: "env \<Rightarrow> Cmd" where
  "systemctl_command env = cmd ''systemctl'' [''start'', update_service env]"

definition sudo_systemctl_command :: "env \<Rightarrow> Cmd" where
  "sudo_systemctl_command env = cmd ''sudo'' [''-n'', ''systemctl'', ''start'', update_service env]"

definition permission_denied :: "ProcOutput \<Rightarrow> bool" where
  "permission_denied out \<longleftrightarrow>
     (let stderr = to_ascii_lowercase (po_stderr out)
      in contains stderr ''interactive authentication required'' \<or> contains stderr ''access denied'' \<or>
         contains stderr ''permission denied'')"

definition spawn_error :: "proc_outcome \<Rightarrow> string" where
  "spawn_error r = (case r of Not_Found e \<Rightarrow> e | Spawn_Failed e \<Rightarrow> e | _ \<Rightarrow> [])"

definition request_update_with :: "OS \<Rightarrow> env \<Rightarrow> unit eff" where
  "request_update_with os env =
     eff_then (exec os (systemctl_command env)) (\<lambda>r.
     eff_then (case r of
         Finished out \<Rightarrow>
           if po_success out then ret out
           else if permission_denied out
           then run_tool os ''failed to start update service via sudo'' (sudo_systemctl_command env)
           else ret out
       | _ \<Rightarrow> run_tool os (''failed to start update service: '' @ spawn_error r) (sudo_systemctl_command env)) (\<lambda>out.
       if \<not> po_success out
       then let stderr = trim (po_stderr out)
         in fail [''systemctl start '' @ update_service env @ '' failed: '' @
           (if stderr = [] then ''unknown error'' else stderr)]
       else ret ()))"

definition journal_command :: "env \<Rightarrow> Cmd" where
  "journal_command env =
     cmd ''journalctl'' [''--follow'', ''--unit'', update_service env, ''--since'', ''now'', ''--no-pager'']"

definition start_update_log_stream :: "OS \<Rightarrow> env \<Rightarrow> bool eff" where
  "start_update_log_stream os env =
     eff_then (eff_try (perform os (Launched (journal_command env)))) (\<lambda>r. ret (is_ok r))"

definition request_update :: "OS \<Rightarrow> env \<Rightarrow> unit eff" where
  "request_update os env =
     eff_then (start_update_log_stream os env) (\<lambda>log_stream.
     eff_then (eff_try (request_update_with os env)) (\<lambda>result.
       eff_seq (eff_when log_stream (emit Killed)) (lift result)))"

section \<open>Dispatch\<close>

definition dispatch ::
  "nat \<Rightarrow> (AgentConfig \<Rightarrow> unit eff) \<Rightarrow> bool \<Rightarrow> OS \<Rightarrow> LoginSys \<Rightarrow> Cli \<Rightarrow> unit eff" where
  "dispatch fuel session debug_enabled os L cli =
     (case cli_command cli of
        None \<Rightarrow> run_agent session debug_enabled (sy_os (ls_source L) = ''linux'') os (ls_parse L) (ls_env L) (ls_cwd L)
      | Some Run \<Rightarrow> run_agent session debug_enabled (sy_os (ls_source L) = ''linux'') os (ls_parse L) (ls_env L) (ls_cwd L)
      | Some (Login args) \<Rightarrow>
          (let options = into_options args
           in eff_then (resolve_login_config (ls_parse L) (ls_env L) (ls_cwd L) os (lo_api_base_url options)) (\<lambda>api_base_url.
              run_login fuel os L api_base_url (lo_requested_name options)))
      | Some Update \<Rightarrow> request_update os (ls_env L))"

text \<open>
  \<open>main\<close> after the arguments are parsed: the exit status. \<open>version\<close> is \<open>agent_version\<close> of \<open>System_Info\<close>; the
  registration of the log writer and the line that reports a fatal error are left out.
\<close>

definition main_program ::
  "nat \<Rightarrow> (AgentConfig \<Rightarrow> unit eff) \<Rightarrow> bool \<Rightarrow> OS \<Rightarrow> LoginSys \<Rightarrow> string \<Rightarrow> Cli \<Rightarrow> nat eff" where
  "main_program fuel session debug_enabled os L version cli =
     (if cli_version cli then eff_seq (println (format_version version)) (ret 0)
      else eff_then (eff_try (dispatch fuel session debug_enabled os L cli)) (\<lambda>r.
        ret (case r of Inr _ \<Rightarrow> 0 | Inl _ \<Rightarrow> 1)))"

section \<open>Facts\<close>

lemma only_request_update_with:
  "P (Ran (systemctl_command env)) \<Longrightarrow> P (Ran (sudo_systemctl_command env)) \<Longrightarrow> only P (request_update_with os env)"
  unfolding request_update_with_def Let_def by (auto intro!: only_then split: proc_outcome.split)

text \<open>
  An update request asks \<open>systemctl\<close> first and uses \<open>sudo\<close> exactly when \<open>systemctl\<close> could not be
  run or its error says that permission is missing; it succeeds exactly when the last of the two
  calls did.
\<close>

theorem update_request:
  "let r = os_exec os h (systemctl_command env);
       sudo = (case r of Finished out \<Rightarrow> \<not> po_success out \<and> permission_denied out | _ \<Rightarrow> True);
       h1 = h @ [Ran (systemctl_command env)];
       last_call = (if sudo then os_exec os h1 (sudo_systemctl_command env) else r)
   in snd (request_update_with os env h) = (if sudo then h1 @ [Ran (sudo_systemctl_command env)] else h1) \<and>
      is_ok (fst (request_update_with os env h)) =
        (case last_call of Finished out \<Rightarrow> po_success out | _ \<Rightarrow> False)"
proof -
  let ?r = "os_exec os h (systemctl_command env)"
  let ?s = "os_exec os (h @ [Ran (systemctl_command env)]) (sudo_systemctl_command env)"
  have "wp (request_update_with os env) (\<lambda>x h'.
      (let sudo = (case ?r of Finished out \<Rightarrow> \<not> po_success out \<and> permission_denied out | _ \<Rightarrow> True);
           h1 = h @ [Ran (systemctl_command env)];
           last_call = (if sudo then ?s else ?r)
       in h' = (if sudo then h1 @ [Ran (sudo_systemctl_command env)] else h1) \<and>
          is_ok x = (case last_call of Finished out \<Rightarrow> po_success out | _ \<Rightarrow> False))) h"
    by (cases ?r; cases ?s)
      (simp_all add: request_update_with_def wp_rules launched_output_def Let_def)
  then show ?thesis by (simp add: wp_run Let_def)
qed

text \<open>
  The journal stream of an update never outlives it: if the stream was started, the last thing
  done is to kill it, whatever the update's result.
\<close>

theorem update_stream_killed:
  "let started = (os_fault os h (Launched (journal_command env)) = None);
       h1 = h @ [Launched (journal_command env)]
   in request_update os env h =
     (fst (request_update_with os env h1), snd (request_update_with os env h1) @ (if started then [Killed] else []))"
  by (cases "request_update_with os env (h @ [Launched (journal_command env)])";
      cases "os_fault os h (Launched (journal_command env))")
    (simp_all add: request_update_def start_update_log_stream_def eff_defs Let_def)

lemma ensure_applied_extends: "extends (ensure_applied os linux dir w)"
  unfolding ensure_applied_def write_runtime_config_def run_command_def Let_def by (auto intro!: only_then only_seq)

text \<open>
  With a configuration the agent always reaches its session: bringing the WireGuard interface up
  may fail in any way without ending it; without a configuration it ends before it does anything.
\<close>

theorem agent_reaches_session:
  "case AgentConfig_load parse env cwd os h of
     (Inl e, h1) \<Rightarrow> run_agent session False linux os parse env cwd h = (Inl e, h1)
   | (Inr None, h1) \<Rightarrow> run_agent session False linux os parse env cwd h = (Inl [not_configured], h1)
   | (Inr (Some config), h1) \<Rightarrow>
       (\<exists>h2. prefix h1 h2 \<and> run_agent session False linux os parse env cwd h = session config h2)"
proof -
  obtain r h1 where load: "AgentConfig_load parse env cwd os h = (r, h1)"
    by (cases "AgentConfig_load parse env cwd os h")
  have "\<exists>h2. prefix h1 h2 \<and> run_agent session False linux os parse env cwd h = session config h2"
    if r: "r = Inr (Some config)" for config
  proof (cases "\<exists>w. ac_wireguard config = Some w \<and> main_env_flag env ''STATIX_APPLY_WIREGUARD''")
    case True
    then obtain w where w: "ac_wireguard config = Some w" "main_env_flag env ''STATIX_APPLY_WIREGUARD''" by blast
    obtain x h2 where up: "ensure_applied os linux (agent_state_dir env cwd) w h1 = (x, h2)"
      by (cases "ensure_applied os linux (agent_state_dir env cwd) w h1")
    then have "prefix h1 h2" using onlyE[OF ensure_applied_extends up] by (metis prefixI)
    moreover have "run_agent session False linux os parse env cwd h = session config h2"
      using load r w up by (simp add: run_agent_def eff_defs)
    ultimately show ?thesis by blast
  next
    case False
    then have "run_agent session False linux os parse env cwd h = session config h1"
      using load r by (auto simp: run_agent_def eff_defs split: option.split)
    then show ?thesis by blast
  qed
  with load show ?thesis
    by (auto simp: run_agent_def eff_then_def fail_def split: sum.split option.split)
qed

end
