(* ===== verification/Wireguard_File.thy ===== *)
theory Wireguard_File
  imports Agent_Wireguard
begin

text \<open>
  The file that \<open>src/wireguard.rs\<close> writes for \<open>wg-quick\<close> (\<open>render_config\<close>): its lines, and that they
  determine the configuration. How the tools read the lines is not modelled.
\<close>

section \<open>The settings of the file\<close>

text \<open>The settings of the two sections, each a key and a value, in the order of the lines.\<close>

definition interface_settings :: "WireGuardConfig \<Rightarrow> (string \<times> string) list" where
  "interface_settings c =
     [(''PrivateKey'', wg_private_key c), (''Address'', join '', '' (wg_addresses c))] @
     (if wg_dns c = [] then [] else [(''DNS'', join '', '' (wg_dns c))])"

definition peer_settings :: "WireGuardPeerConfig \<Rightarrow> (string \<times> string) list" where
  "peer_settings s =
     [(''PublicKey'', peer_public_key s), (''Endpoint'', peer_endpoint s),
      (''AllowedIPs'', join '', '' (peer_allowed_ips s))] @
     (case peer_preshared_key s of None \<Rightarrow> [] | Some k \<Rightarrow> [(''PresharedKey'', k)]) @
     (case peer_persistent_keepalive_seconds s of
        None \<Rightarrow> [] | Some k \<Rightarrow> [(''PersistentKeepalive'', show_word k)])"

definition setting_line :: "string \<times> string \<Rightarrow> string" where
  "setting_line kv = fst kv @ '' = '' @ snd kv"

definition file_lines :: "string \<Rightarrow> string list" where
  "file_lines content = split_on (\<lambda>c. c = newline) content"

text \<open>Texts that stay on one line, and items of a list that its commas keep apart.\<close>

definition single_line :: "string \<Rightarrow> bool" where
  "single_line v \<longleftrightarrow> newline \<notin> set v"

definition plain_item :: "string \<Rightarrow> bool" where
  "plain_item v \<longleftrightarrow> v \<noteq> [] \<and> newline \<notin> set v \<and> CHR '','' \<notin> set v"

definition plain_config :: "WireGuardConfig \<Rightarrow> bool" where
  "plain_config c \<longleftrightarrow>
     single_line (wg_private_key c) \<and> single_line (peer_public_key (wg_server c)) \<and>
     single_line (peer_endpoint (wg_server c)) \<and>
     single_line (unwrap_or (peer_preshared_key (wg_server c)) []) \<and>
     list_all plain_item (wg_addresses c) \<and> list_all plain_item (wg_dns c) \<and>
     list_all plain_item (peer_allowed_ips (wg_server c))"

section \<open>The lines of a rendered configuration\<close>

definition config_lines :: "WireGuardConfig \<Rightarrow> string list" where
  "config_lines c = ''[Interface]'' # map setting_line (interface_settings c) @
     [] # ''[Peer]'' # map setting_line (peer_settings (wg_server c)) @ [[]]"

lemma render_config_lines: "render_config c = join [newline] (config_lines c)"
  unfolding render_config_def config_lines_def interface_settings_def peer_settings_def setting_line_def
  by (cases "peer_preshared_key (wg_server c)"; cases "peer_persistent_keepalive_seconds (wg_server c)";
      cases "wg_dns c = []") simp_all

lemma single_line_join: "list_all plain_item xs \<Longrightarrow> newline \<notin> set (join '', '' xs)"
  by (induction "'', ''" xs rule: join.induct) (simp_all add: plain_item_def)

lemma single_line_number: "newline \<notin> set (show_word w)"
proof
  assume "newline \<in> set (show_word w)"
  then have "is_ascii_digit newline" using show_nat_digits by (simp add: show_word_def)
  then show False by (simp add: is_ascii_digit_def less_eq_char_def)
qed

lemma no_breaks:
  assumes "plain_config c"
  shows "\<forall>l \<in> set (config_lines c). newline \<notin> set l"
proof -
  have "\<forall>kv \<in> set (interface_settings c @ peer_settings (wg_server c)). newline \<notin> set (setting_line kv)"
    using assms
    by (cases "peer_preshared_key (wg_server c)"; cases "peer_persistent_keepalive_seconds (wg_server c)")
      (simp_all add: interface_settings_def peer_settings_def plain_config_def single_line_def
        single_line_join single_line_number setting_line_def)
  then show ?thesis by (auto simp: config_lines_def)
qed

lemma file_lines_render: "plain_config c \<Longrightarrow> file_lines (render_config c) = config_lines c"
  unfolding render_config_lines file_lines_def
  by (rule split_join) (use no_breaks in \<open>auto simp: config_lines_def\<close>)

section \<open>What the lines determine\<close>

lemma join_items_inj:
  "list_all plain_item xs \<Longrightarrow> list_all plain_item ys \<Longrightarrow> join '', '' xs = join '', '' ys \<Longrightarrow> xs = ys"
proof (induction xs arbitrary: ys)
  case Nil
  then show ?case
    by (cases ys) (auto simp: plain_item_def elim: join.elims dest!: sym[of "[]"])
next
  case (Cons x xs)
  have first: "takeWhile (\<lambda>c. c \<noteq> CHR '','') (join '', '' (z # zs)) = z"
    "dropWhile (\<lambda>c. c \<noteq> CHR '','') (join '', '' (z # zs)) = (if zs = [] then [] else '', '' @ join '', '' zs)"
    if "plain_item z" for z zs
  proof -
    have "\<forall>c \<in> set z. c \<noteq> CHR '',''" using that by (auto simp: plain_item_def)
    then show "takeWhile (\<lambda>c. c \<noteq> CHR '','') (join '', '' (z # zs)) = z"
      "dropWhile (\<lambda>c. c \<noteq> CHR '','') (join '', '' (z # zs)) = (if zs = [] then [] else '', '' @ join '', '' zs)"
      by (cases zs; simp add: takeWhile_append2 dropWhile_append2 takeWhile_eq_all_conv)+
  qed
  obtain y ys' where ys: "ys = y # ys'"
    using Cons.prems by (cases ys; cases xs) (auto simp: plain_item_def)
  have items: "plain_item x" "plain_item y" using Cons.prems ys by simp_all
  have "x = y" using first(1)[OF items(1), of xs] first(1)[OF items(2), of ys'] Cons.prems(3) ys by simp
  moreover have "(if xs = [] then [] else '', '' @ join '', '' xs) = (if ys' = [] then [] else '', '' @ join '', '' ys')"
    using first(2)[OF items(1), of xs] first(2)[OF items(2), of ys'] Cons.prems(3) ys by simp
  then have "xs = ys'"
    using Cons.IH[of ys'] Cons.prems ys by (simp split: if_splits)
  ultimately show ?case using ys by simp
qed

lemma optional_settings_inj:
  assumes "map setting_line ((case p of None \<Rightarrow> [] | Some k \<Rightarrow> [(''PresharedKey'', k)]) @
      (case n of None \<Rightarrow> [] | Some k \<Rightarrow> [(''PersistentKeepalive'', show_word k)])) @ [[]] =
    map setting_line ((case p' of None \<Rightarrow> [] | Some k \<Rightarrow> [(''PresharedKey'', k)]) @
      (case n' of None \<Rightarrow> [] | Some k \<Rightarrow> [(''PersistentKeepalive'', show_word k)])) @ [[]]"
  shows "p = p' \<and> n = n'"
  using assms by (auto simp: setting_line_def dest: show_word_inj split: option.splits)

lemma config_lines_inj:
  assumes "plain_config c" "plain_config c'" "config_lines c = config_lines c'"
  shows "wg_private_key c = wg_private_key c' \<and> wg_addresses c = wg_addresses c' \<and> wg_dns c = wg_dns c' \<and>
    wg_server c = wg_server c'"
proof -
  note lines = assms(3)[unfolded config_lines_def interface_settings_def peer_settings_def]
  have dns: "wg_dns c = [] \<longleftrightarrow> wg_dns c' = []"
    using lines by (auto simp: setting_line_def split: if_splits)
  then have join_dns: "join '', '' (wg_dns c) = join '', '' (wg_dns c')"
    using lines by (auto simp: setting_line_def split: if_splits)
  have opts: "peer_preshared_key (wg_server c) = peer_preshared_key (wg_server c') \<and>
      peer_persistent_keepalive_seconds (wg_server c) = peer_persistent_keepalive_seconds (wg_server c')"
    using lines dns by (intro optional_settings_inj) (simp split: if_splits)
  have texts: "wg_private_key c = wg_private_key c'" "join '', '' (wg_addresses c) = join '', '' (wg_addresses c')"
    "peer_public_key (wg_server c) = peer_public_key (wg_server c')"
    "peer_endpoint (wg_server c) = peer_endpoint (wg_server c')"
    "join '', '' (peer_allowed_ips (wg_server c)) = join '', '' (peer_allowed_ips (wg_server c'))"
    using lines dns by (simp_all add: setting_line_def split: if_splits)
  have "wg_addresses c = wg_addresses c'" "wg_dns c = wg_dns c'"
    "peer_allowed_ips (wg_server c) = peer_allowed_ips (wg_server c')"
    using assms(1,2) join_dns texts(2,5) join_items_inj by (auto simp: plain_config_def)
  with texts opts show ?thesis by (simp add: WireGuardPeerConfig.equality)
qed

text \<open>
  C19: The file the agent writes carries the whole configuration, and each setting in its place: its
  lines are the settings of the interface and those of the server, each \<open>Key = value\<close> under the key
  and in the section that it has in the documented format of \<open>wg-quick\<close>, and two configurations have the same
  file exactly if they agree on everything but the interface's name (which is the file's name) and
  its public key (which follows from the private one), as long as no text has a line break and no
  item of a list is empty or has a comma.
\<close>

theorem wireguard_file_determines_config:
  assumes "plain_config c" "plain_config c'"
  shows "file_lines (render_config c) = ''[Interface]'' # map setting_line (interface_settings c) @
      [] # ''[Peer]'' # map setting_line (peer_settings (wg_server c)) @ [[]] \<and>
    (render_config c = render_config c' \<longleftrightarrow>
       wg_private_key c = wg_private_key c' \<and> wg_addresses c = wg_addresses c' \<and> wg_dns c = wg_dns c' \<and>
       wg_server c = wg_server c')"
proof -
  have "config_lines c = config_lines c'" if "render_config c = render_config c'"
    using that file_lines_render[OF assms(1)] file_lines_render[OF assms(2)] by simp
  moreover have "render_config c = render_config c'"
    if "wg_private_key c = wg_private_key c'" "wg_addresses c = wg_addresses c'" "wg_dns c = wg_dns c'"
      "wg_server c = wg_server c'"
    unfolding render_config_lines config_lines_def interface_settings_def that ..
  ultimately show ?thesis
    using config_lines_inj[OF assms] file_lines_render[OF assms(1)] unfolding config_lines_def by blast
qed

text \<open>Two configurations as the login stores them.\<close>

definition example_wireguard :: WireGuardConfig where
  "example_wireguard =
     \<lparr>wg_interface_name = ''wg0'', wg_addresses = [''10.0.0.2/32'', ''fd00::2/128''], wg_dns = [],
      wg_private_key = ''aGk='', wg_public_key = ''cHU='',
      wg_server = \<lparr>peer_public_key = ''c3J2='', peer_endpoint = ''vpn:51820'', peer_allowed_ips = [''10.0.0.0/24''],
        peer_preshared_key = None, peer_persistent_keepalive_seconds = Some 25\<rparr>\<rparr>"

lemma wireguard_file_determines_config_witness:
  "render_config example_wireguard \<noteq> render_config (example_wireguard\<lparr>wg_dns := [''10.0.0.1'']\<rparr>)"
proof -
  have "plain_config example_wireguard" "plain_config (example_wireguard\<lparr>wg_dns := [''10.0.0.1'']\<rparr>)"
    by (simp_all add: plain_config_def example_wireguard_def single_line_def plain_item_def)
  from wireguard_file_determines_config[OF this] show ?thesis by (simp add: example_wireguard_def)
qed

text \<open>
  C40: no text is checked before it is written. Where the one address of a configuration is a text
  with a line break and a \<open>PostUp\<close> setting behind it (and nothing else in the way has a line break),
  the file has that setting as a line of the interface's section, right after the address;
  \<open>wg-quick\<close> runs such a line as a command.
\<close>

theorem wireguard_file_injection:
  assumes "wg_addresses c = [a @ newline # ''PostUp = '' @ command]"
    and "list_all single_line [wg_private_key c, a, command]"
  shows "\<exists>rest. file_lines (render_config c) =
    [''[Interface]'', ''PrivateKey = '' @ wg_private_key c, ''Address = '' @ a, ''PostUp = '' @ command] @ rest"
proof -
  have line: "split_on (\<lambda>c. c = newline) (l @ newline # s) = l # split_on (\<lambda>c. c = newline) s"
    if "newline \<notin> set l" for l s
    using that by (intro split_on_append_sep) auto
  obtain others where "render_config c = ''[Interface]'' @ newline # (''PrivateKey = '' @ wg_private_key c) @ newline #
      (''Address = '' @ a) @ newline # (''PostUp = '' @ command) @ newline # others"
    unfolding render_config_lines config_lines_def interface_settings_def setting_line_def assms(1)
    by (simp add: join_Cons)
  then have "file_lines (render_config c) = ''[Interface]'' # (''PrivateKey = '' @ wg_private_key c) #
      (''Address = '' @ a) # (''PostUp = '' @ command) # split_on (\<lambda>c. c = newline) others"
    using assms(2) by (simp add: file_lines_def line single_line_def)
  then show ?thesis by auto
qed

lemma wireguard_file_injection_witness:
  "\<exists>rest. file_lines (render_config (example_wireguard\<lparr>wg_addresses := [''10.0.0.2/32'' @ newline # ''PostUp = '' @ ''id'']\<rparr>)) =
    [''[Interface]'', ''PrivateKey = '' @ ''aGk='', ''Address = '' @ ''10.0.0.2/32'', ''PostUp = '' @ ''id''] @ rest"
  using wireguard_file_injection[of "example_wireguard\<lparr>wg_addresses := [''10.0.0.2/32'' @ newline # ''PostUp = '' @ ''id'']\<rparr>"
      "''10.0.0.2/32''" "''id''"]
  by (simp add: single_line_def example_wireguard_def)

end
