(* ===== verification/Session_Spec.thy ===== *)
theory Session_Spec
  imports Session_Props
begin

text \<open>
  The abstract protocol of a session: what the node-controller may rely on, without the clock, the ids, the
  hashes and the contents of messages. Its state is the desired state it holds and the log queries that
  are open; every step of the steady loop (\<open>src/transport/session.rs\<close>) is a step of the protocol.
\<close>

section \<open>The protocol\<close>

record protocol_state =
  pr_desired :: "NodeDesiredState option"
  pr_open :: "string multiset"

datatype observation =
    Obs_Pong
  | Obs_Status "ObjectKind \<times> string \<times> string \<times> u64"
  | Obs_Event "u64 option"
  | Obs_Metrics
  | Obs_Info
  | Obs_Answer string
  | Obs_Capabilities

datatype protocol_input =
    Got_Ping
  | Got_Desired NodeDesiredState
  | Got_Query string
  | Query_Ended string
  | Tick_Resync
  | Tick_Metrics
  | Tick_Info
  | Nothing

definition report :: "NodeDesiredState \<Rightarrow> observation list" where
  "report d = map Obs_Status (desired_refs d)"

inductive protocol_step :: "protocol_state \<Rightarrow> protocol_input \<Rightarrow> observation list \<Rightarrow> protocol_state \<Rightarrow> bool" where
  pong: "protocol_step s Got_Ping [Obs_Pong] s"
| desired: "protocol_step s (Got_Desired d) (report d @ [Obs_Event (Some (ds_generation d))]) (s\<lparr>pr_desired := Some d\<rparr>)"
| query: "protocol_step s (Got_Query i) [] (s\<lparr>pr_open := add_mset i (pr_open s)\<rparr>)"
| answer: "i \<in># pr_open s \<Longrightarrow> out = [] \<or> out = [Obs_Answer i] \<Longrightarrow>
    protocol_step s (Query_Ended i) out (s\<lparr>pr_open := pr_open s - {#i#}\<rparr>)"
| resync: "out = (case pr_desired s of None \<Rightarrow> [] | Some d \<Rightarrow> report d) \<Longrightarrow> protocol_step s Tick_Resync out s"
| metrics: "out = [] \<or> out = [Obs_Metrics] \<Longrightarrow> protocol_step s Tick_Metrics out s"
| info: "out = [] \<or> out = [Obs_Info] \<Longrightarrow> protocol_step s Tick_Info out s"
| silent: "protocol_step s Nothing [] s"

inductive_cases protocol_step_cases: "protocol_step s i out s'"

inductive_simps protocol_step_simps [simp]:
  "protocol_step s Got_Ping out s'" "protocol_step s (Got_Desired d) out s'" "protocol_step s (Got_Query i) out s'"
  "protocol_step s (Query_Ended i) out s'" "protocol_step s Tick_Resync out s'" "protocol_step s Tick_Metrics out s'"
  "protocol_step s Tick_Info out s'" "protocol_step s Nothing out s'"

fun protocol_run :: "protocol_state \<Rightarrow> (protocol_input \<times> observation list) list \<Rightarrow> protocol_state \<Rightarrow> bool" where
  "protocol_run s [] s' \<longleftrightarrow> s' = s"
| "protocol_run s ((i, out) # tr) s' \<longleftrightarrow> (\<exists>s1. protocol_step s i out s1 \<and> protocol_run s1 tr s')"

text \<open>The desired state a run leaves behind is the last one it was given.\<close>

definition latest :: "protocol_input list \<Rightarrow> NodeDesiredState option \<Rightarrow> NodeDesiredState option" where
  "latest is d = fold (\<lambda>i d. case i of Got_Desired d' \<Rightarrow> Some d' | _ \<Rightarrow> d) is d"

lemma protocol_step_desired:
  "protocol_step s i out s' \<Longrightarrow> pr_desired s' = (case i of Got_Desired d \<Rightarrow> Some d | _ \<Rightarrow> pr_desired s)"
  by (induction rule: protocol_step.induct) simp_all

lemma protocol_run_desired: "protocol_run s tr s' \<Longrightarrow> pr_desired s' = latest (map fst tr) (pr_desired s)"
  by (induction s tr s' rule: protocol_run.induct) (auto simp: latest_def dest: protocol_step_desired)

section \<open>The abstraction\<close>

fun observe :: "OutboundMessage \<Rightarrow> observation" where
  "observe Out_Pong = Obs_Pong"
| "observe (Out_Status s) = Obs_Status (status_ref s)"
| "observe (Out_Event e) = Obs_Event (ne_generation e)"
| "observe (Out_Metrics p) = Obs_Metrics"
| "observe (Out_SystemInfo p) = Obs_Info"
| "observe (Out_LogResult b) = Obs_Answer (lr_request_id b)"
| "observe Out_LogCapabilities = Obs_Capabilities"

definition observed :: "SessionState \<Rightarrow> observation list" where
  "observed st = map observe (ses_sent st)"

definition abs_session :: "SessionState \<Rightarrow> protocol_state" where
  "abs_session st = \<lparr>pr_desired = ses_last_desired st, pr_open = mset (map lq_request_id (ses_queries st))\<rparr>"

text \<open>What an input means to the protocol.\<close>

definition message_input :: "IncomingMessage \<Rightarrow> protocol_input" where
  "message_input m = (case m of Ping \<Rightarrow> Got_Ping | Desired d \<Rightarrow> Got_Desired d
     | LogQuery q \<Rightarrow> Got_Query (lq_request_id q) | _ \<Rightarrow> Nothing)"

definition input_of :: "(string \<Rightarrow> json option) \<Rightarrow> SessionState \<Rightarrow> session_input \<Rightarrow> protocol_input" where
  "input_of parse st i =
     (case i of
        In_Text raw _ _ \<Rightarrow> (case decode parse raw of Inl _ \<Rightarrow> Nothing | Inr m \<Rightarrow> message_input m)
      | In_Publish _ \<Rightarrow> Tick_Metrics
      | In_System _ _ _ _ \<Rightarrow> Tick_Info
      | In_Resync _ _ \<Rightarrow> Tick_Resync
      | In_Query_Done k _ \<Rightarrow>
          if k < length (ses_queries st) then Query_Ended (lq_request_id (ses_queries st ! k)) else Nothing
      | _ \<Rightarrow> Nothing)"

fun session_inputs ::
  "(string \<Rightarrow> json option) \<Rightarrow> AgentConfig \<Rightarrow> (bool \<times> session_input) list \<Rightarrow> SessionState \<Rightarrow> protocol_input list" where
  "session_inputs parse config [] st = []"
| "session_inputs parse config (x # xs) st = input_of parse st (snd x) #
     (case session_step parse config x st of
        (st, None) \<Rightarrow> session_inputs parse config xs st
      | (st, Some e) \<Rightarrow> [])"

lemma observed_send [simp]: "observed (send_out ms st) = observed st @ map observe ms"
  by (simp add: observed_def)

lemma observed_fields [simp]:
  "observed (st\<lparr>ses_last_desired := d\<rparr>) = observed st" "observed (st\<lparr>ses_queries := q\<rparr>) = observed st"
  "observed (st\<lparr>ses_last_hash := hash\<rparr>) = observed st" "observed (st\<lparr>ses_last_published_at := t\<rparr>) = observed st"
  by (simp_all add: observed_def)

lemma abs_fields [simp]:
  "abs_session (send_out ms st) = abs_session st"
  "abs_session (st\<lparr>ses_last_hash := hash\<rparr>) = abs_session st"
  "abs_session (st\<lparr>ses_last_published_at := t\<rparr>) = abs_session st"
  "abs_session (st\<lparr>ses_last_desired := d\<rparr>) = (abs_session st)\<lparr>pr_desired := d\<rparr>"
  "abs_session (st\<lparr>ses_queries := q\<rparr>) = (abs_session st)\<lparr>pr_open := mset (map lq_request_id q)\<rparr>"
  "pr_desired (abs_session st) = ses_last_desired st"
  "pr_open (abs_session st) = mset (map lq_request_id (ses_queries st))"
  by (simp_all add: abs_session_def)

lemma observe_reports [simp]:
  "map observe (resync now new_id d) = report d"
  "map observe (apply_desired now new_id d) = report d @ [Obs_Event (Some (ds_generation d))]"
proof -
  have "map (observe \<circ> Out_Status) ss = map Obs_Status (map status_ref ss)" for ss by simp
  then show "map observe (resync now new_id d) = report d"
    "map observe (apply_desired now new_id d) = report d @ [Obs_Event (Some (ds_generation d))]"
    by (simp_all add: resync_def apply_desired_def Let_def report_def plan_statuses_refs plan_generation del: map_map
        flip: map_map[of observe Out_Status])
qed

section \<open>The simulation\<close>

lemma handle_simulates:
  assumes "handle now new_id m (pr_desired s) = (es, outcome, d)"
  shows "protocol_step s (message_input m) (map observe (sends es))
    (s\<lparr>pr_desired := d, pr_open := mset (map lq_request_id (queries es)) + pr_open s\<rparr>)"
  using assms by (cases m) (auto simp: message_input_def)

text \<open>The state and the observations after a step, by its input.\<close>

definition simulates :: "SessionState \<Rightarrow> protocol_input \<Rightarrow> SessionState \<Rightarrow> bool" where
  "simulates st i st' \<longleftrightarrow>
     (\<exists>out. protocol_step (abs_session st) i out (abs_session st') \<and> observed st' = observed st @ out)"

lemma simulatesI:
  "protocol_step (abs_session st) i out (abs_session st') \<Longrightarrow> observed st' = observed st @ out \<Longrightarrow> simulates st i st'"
  unfolding simulates_def by blast

lemma text_simulates:
  assumes "session_step parse config (stop, In_Text raw now new_id) st = (st', e)"
  shows "simulates st (input_of parse st (In_Text raw now new_id)) st'"
proof (cases "decode parse raw")
  case (Inl err)
  with assms have "st' = st" by simp
  with Inl show ?thesis by (intro simulatesI[where out = "[]"]) (simp_all add: input_of_def)
next
  case (Inr m)
  obtain es oc d where h: "handle now new_id m (ses_last_desired st) = (es, oc, d)"
    by (cases "handle now new_id m (ses_last_desired st)")
  have st': "st' = (send_out (sends es) st)\<lparr>ses_last_desired := d, ses_queries := ses_queries st @ queries es\<rparr>"
    using assms Inr h by (cases oc) (auto simp: Let_def)
  have "protocol_step (abs_session st) (message_input m) (map observe (sends es)) (abs_session st')"
    using handle_simulates[of now new_id m "abs_session st" es oc d] h
    by (simp add: st' abs_session_def send_out_def ac_simps)
  then show ?thesis using Inr by (intro simulatesI) (simp_all add: input_of_def st')
qed

lemma publish_simulates:
  "simulates st Tick_Metrics (publish_metrics_once r st)"
  "simulates st Tick_Info (snd (publish_system_info_if_needed ch force ri r' t1 t2 st))"
proof -
  have idle: "simulates st Tick_Metrics st" "simulates st Tick_Info st"
    by (rule simulatesI[where out = "[]"]; simp)+
  have "simulates st Tick_Metrics (send_out [Out_Metrics p] st)" for p
    by (rule simulatesI[where out = "[Obs_Metrics]"]) simp_all
  then show "simulates st Tick_Metrics (publish_metrics_once r st)"
    using publish_metrics_cases[of r st] idle by metis
  have "simulates st Tick_Info
      ((send_out [Out_SystemInfo p] st)\<lparr>ses_last_hash := Some (sp_hash p), ses_last_published_at := Some t2\<rparr>)" for p
    by (rule simulatesI[where out = "[Obs_Info]"]) simp_all
  then show "simulates st Tick_Info (snd (publish_system_info_if_needed ch force ri r' t1 t2 st))"
    using publish_info_cases[of ch force ri r' t1 t2 st] idle by metis
qed

lemma done_simulates:
  assumes "session_step parse config (stop, In_Query_Done k r) st = (st', e)"
  shows "simulates st (input_of parse st (In_Query_Done k r)) st'"
proof (cases "k < length (ses_queries st)")
  case True
  define q where "q = ses_queries st ! k"
  define rest where "rest = take k (ses_queries st) @ drop (Suc k) (ses_queries st)"
  have st': "st' = send_out (log_query_reply q r) (st\<lparr>ses_queries := rest\<rparr>)"
    using assms True by (simp add: q_def rest_def)
  have "mset (map lq_request_id (ses_queries st)) = add_mset (lq_request_id q) (mset (map lq_request_id rest))"
    using arg_cong[OF mset_take_drop_Suc[OF True], of "image_mset lq_request_id"]
    unfolding q_def rest_def by (simp only: image_mset_add_mset mset_map)
  then have abs: "pr_open (abs_session st) = add_mset (lq_request_id q) (pr_open (abs_session st'))"
    "abs_session st' = (abs_session st)\<lparr>pr_open := pr_open (abs_session st')\<rparr>"
    by (simp_all add: st')
  have out: "map observe (log_query_reply q r) = [] \<or> map observe (log_query_reply q r) = [Obs_Answer (lq_request_id q)]"
    using log_query_reply_cases[of q r] by auto
  have "protocol_step (abs_session st) (Query_Ended (lq_request_id q)) (map observe (log_query_reply q r))
      ((abs_session st)\<lparr>pr_open := pr_open (abs_session st) - {#lq_request_id q#}\<rparr>)"
    by (rule protocol_step.answer[OF _ out]) (unfold abs(1), simp)
  moreover have "(abs_session st)\<lparr>pr_open := pr_open (abs_session st) - {#lq_request_id q#}\<rparr> = abs_session st'"
    by (subst abs(2)) (simp only: abs(1) add_mset_remove_trivial)
  ultimately show ?thesis
    using True by (intro simulatesI[where out = "map observe (log_query_reply q r)"]) (simp_all add: input_of_def q_def[symmetric] st')
next
  case False
  with assms have "st' = st" by simp
  with False show ?thesis by (intro simulatesI[where out = "[]"]) (simp_all add: input_of_def)
qed

lemma session_step_simulates:
  assumes "session_step parse config (stop, i) st = (st', e)"
  shows "simulates st (input_of parse st i) st'"
proof (cases i)
  case (In_Resync now new_id)
  show ?thesis
  proof (cases "ses_last_desired st")
    case None
    with assms In_Resync show ?thesis by (intro simulatesI[where out = "[]"]) (simp_all add: input_of_def)
  next
    case (Some d)
    with assms In_Resync have "st' = send_out (resync now new_id d) st" by simp
    with In_Resync Some show ?thesis by (intro simulatesI[where out = "report d"]) (simp_all add: input_of_def)
  qed
next
  case (In_Text raw now new_id)
  with assms text_simulates show ?thesis by blast
next
  case (In_Query_Done k r)
  with assms done_simulates show ?thesis by blast
next
  case (In_Publish r)
  with assms publish_simulates(1)[of st r] show ?thesis by (simp add: input_of_def)
next
  case (In_System ch r t1 t2)
  with assms publish_simulates(2)[of st ch False "ac_system_info_republish_interval_ms config" r t1 t2] show ?thesis
    by (simp add: input_of_def)
qed (use assms in \<open>auto intro!: simulatesI simp: input_of_def\<close>)

lemma simulates_run: "simulates st i st' \<Longrightarrow> protocol_run (abs_session st') tr s \<Longrightarrow>
    \<exists>out. protocol_run (abs_session st) ((i, out) # tr) s \<and> observed st' = observed st @ out"
  unfolding simulates_def by auto

lemma session_loop_simulates:
  "session_loop parse config xs st = (st', e) \<Longrightarrow>
     \<exists>tr. protocol_run (abs_session st) tr (abs_session st') \<and> map fst tr = session_inputs parse config xs st \<and>
       observed st' = observed st @ concat (map snd tr)"
proof (induction xs arbitrary: st)
  case Nil
  then show ?case by (intro exI[of _ "[]"]) simp
next
  case (Cons x xs)
  obtain stop i where x: "x = (stop, i)" by (cases x)
  obtain st1 e1 where step: "session_step parse config (stop, i) st = (st1, e1)"
    by (cases "session_step parse config (stop, i) st")
  note sim = simulates_run[OF session_step_simulates[OF step]]
  show ?case
  proof (cases e1)
    case None
    with Cons x step obtain tr where tr: "protocol_run (abs_session st1) tr (abs_session st')"
      "map fst tr = session_inputs parse config xs st1" "observed st' = observed st1 @ concat (map snd tr)"
      by auto
    obtain out where "protocol_run (abs_session st) ((input_of parse st i, out) # tr) (abs_session st')"
      "observed st1 = observed st @ out"
      using sim[OF tr(1)] by blast
    with tr x step None show ?thesis
      by (intro exI[of _ "(input_of parse st i, out) # tr"]) simp
  next
    case (Some e2)
    with Cons.prems x step have "st' = st1" by simp
    obtain out where "protocol_run (abs_session st) [(input_of parse st i, out)] (abs_session st1)"
      "observed st1 = observed st @ out"
      using sim[of "[]" "abs_session st1"] by auto
    with x step Some \<open>st' = st1\<close> show ?thesis
      by (intro exI[of _ "[(input_of parse st i, out)]"]) simp
  qed
qed

definition protocol_idle :: protocol_state where
  "protocol_idle = \<lparr>pr_desired = None, pr_open = {#}\<rparr>"

lemma session_start_simulates:
  "\<exists>tr. protocol_run protocol_idle tr (abs_session (session_start config metrics ch info t1 t2)) \<and>
     map fst tr = [Tick_Metrics, Tick_Info] \<and>
     observed (session_start config metrics ch info t1 t2) = Obs_Capabilities # concat (map snd tr)"
proof -
  define st0 where "st0 = \<lparr>ses_last_desired = None, ses_last_hash = None, ses_last_published_at = None,
    ses_sent = [Out_LogCapabilities], ses_queries = []\<rparr>"
  let ?st1 = "publish_metrics_once metrics st0"
  let ?st2 = "session_start config metrics ch info t1 t2"
  have init: "abs_session st0 = protocol_idle" "observed st0 = [Obs_Capabilities]"
    by (simp_all add: st0_def abs_session_def protocol_idle_def observed_def)
  have sim: "simulates st0 Tick_Metrics ?st1" "simulates ?st1 Tick_Info ?st2"
    by (simp_all add: session_start_def st0_def publish_simulates)
  obtain out2 where two: "protocol_run (abs_session ?st1) [(Tick_Info, out2)] (abs_session ?st2)"
    "observed ?st2 = observed ?st1 @ out2"
    using simulates_run[OF sim(2), of "[]" "abs_session ?st2"] by auto
  obtain out1 where "protocol_run (abs_session st0) [(Tick_Metrics, out1), (Tick_Info, out2)] (abs_session ?st2)"
    "observed ?st1 = observed st0 @ out1"
    using simulates_run[OF sim(1) two(1)] by blast
  with init two show ?thesis
    by (intro exI[of _ "[(Tick_Metrics, out1), (Tick_Info, out2)]"]) simp
qed

lemma protocol_run_append:
  "protocol_run s tr1 s1 \<Longrightarrow> protocol_run s1 tr2 s' \<Longrightarrow> protocol_run s (tr1 @ tr2) s'"
  by (induction s tr1 s1 rule: protocol_run.induct) auto

lemma started_simulates:
  assumes "session_loop parse config xs (session_start config metrics ch info t1 t2) = (st, e)"
  shows "\<exists>tr. protocol_run protocol_idle tr (abs_session st) \<and>
    map fst tr = Tick_Metrics # Tick_Info # session_inputs parse config xs (session_start config metrics ch info t1 t2) \<and>
    observed st = Obs_Capabilities # concat (map snd tr)"
proof -
  let ?st0 = "session_start config metrics ch info t1 t2"
  obtain tr1 where one: "protocol_run protocol_idle tr1 (abs_session ?st0)"
    "map fst tr1 = [Tick_Metrics, Tick_Info]" "observed ?st0 = Obs_Capabilities # concat (map snd tr1)"
    using session_start_simulates[of config metrics ch info t1 t2] by (elim exE conjE)
  obtain tr2 where two: "protocol_run (abs_session ?st0) tr2 (abs_session st)"
    "map fst tr2 = session_inputs parse config xs ?st0" "observed st = observed ?st0 @ concat (map snd tr2)"
    using session_loop_simulates[OF assms] by (elim exE conjE)
  have "protocol_run protocol_idle (tr1 @ tr2) (abs_session st)"
    by (rule protocol_run_append[OF one(1) two(1)])
  moreover have "map fst (tr1 @ tr2) = Tick_Metrics # Tick_Info # session_inputs parse config xs ?st0"
    by (simp only: map_append one(2) two(2) append.simps)
  moreover have "observed st = Obs_Capabilities # concat (map snd (tr1 @ tr2))"
    by (simp only: two(3) one(3) map_append concat_append append.simps)
  ultimately show ?thesis by (intro exI[of _ "tr1 @ tr2"] conjI)
qed

text \<open>
  C4: the session refines its protocol: whatever frames, timers, answers and shutdown requests
  arrive, and in whatever order, what the node-controller observes after the capabilities is a
  run of the protocol on the inputs the frames mean: one pong per ping, the status of every
  object and then the event on a desired state, at most one answer to a query that is open, a
  repetition of the latest report at a resync, and nothing on any other frame. The state the
  session ends in abstracts to the state the run ends in.
\<close>

theorem session_refines_protocol:
  assumes "session_loop parse config xs (session_start config metrics ch info t1 t2) = (st, e)"
  shows "\<exists>tr. protocol_run protocol_idle tr (abs_session st) \<and>
    map fst tr = Tick_Metrics # Tick_Info # session_inputs parse config xs (session_start config metrics ch info t1 t2) \<and>
    observed st = Obs_Capabilities # concat (map snd tr)"
  using assms by (rule started_simulates)

text \<open>Two queries are asked; the answer to the second comes first, the first task fails.\<close>

lemma session_refines_protocol_witness:
  "\<forall>config now. \<exists>tr st. protocol_run protocol_idle tr (abs_session st) \<and>
     map fst tr = [Tick_Metrics, Tick_Info, Got_Query ''a'', Got_Query ''b'', Query_Ended ''b'', Query_Ended ''a''] \<and>
     observed st = Obs_Capabilities # concat (map snd tr) \<and> pr_open (abs_session st) = {#}"
proof (intro allI)
  fix config and now :: "nat \<Rightarrow> string"
  define xs where "xs = [(False, In_Text ''a'' now []), (False, In_Text ''b'' now []),
    (False, In_Query_Done 1 (Some (Inr ([], None)))), (False, In_Query_Done 0 None)]"
  define st0 where "st0 = session_start config (Inl []) True (Inl []) 0 0"
  define st where "st = fst (session_loop query_frames config xs st0)"
  have none: "ses_queries st0 = []"
    by (simp add: st0_def session_start_def publish_metrics_once_def publish_system_info_if_needed_def)
  have ins: "session_inputs query_frames config xs st0 =
      [Got_Query ''a'', Got_Query ''b'', Query_Ended ''b'', Query_Ended ''a'']" "ses_queries st = []"
    by (simp_all add: xs_def st_def input_of_def message_input_def decode_query_frames query_of_def none)
  have "\<exists>tr. protocol_run protocol_idle tr (abs_session st) \<and>
      map fst tr = Tick_Metrics # Tick_Info # session_inputs query_frames config xs st0 \<and>
      observed st = Obs_Capabilities # concat (map snd tr)"
    unfolding st_def st0_def by (rule session_refines_protocol[OF prod.collapse[symmetric]])
  with ins show "\<exists>tr st. protocol_run protocol_idle tr (abs_session st) \<and>
     map fst tr = [Tick_Metrics, Tick_Info, Got_Query ''a'', Got_Query ''b'', Query_Ended ''b'', Query_Ended ''a''] \<and>
     observed st = Obs_Capabilities # concat (map snd tr) \<and> pr_open (abs_session st) = {#}"
    by (auto intro!: exI[of _ st])
qed

text \<open>
  C18: a resync repeats the report of the latest desired state and of no older one: after any
  inputs that leave the session open, the resync timer sends the statuses of exactly the
  objects of the last desired frame that was understood, in its order, and nothing when there
  was none.
\<close>

theorem resync_repeats_latest:
  assumes "session_loop parse config xs (session_start config metrics ch info t1 t2) = (st, None)"
  shows "observed (fst (session_step parse config (stop, In_Resync now new_id) st)) = observed st @
    (case latest (session_inputs parse config xs (session_start config metrics ch info t1 t2)) None of
       None \<Rightarrow> [] | Some d \<Rightarrow> report d)"
proof -
  have idle: "ses_last_desired (session_start config metrics ch info t1 t2) = None"
    using session_start_simulates[of config metrics ch info t1 t2]
    by (auto dest!: protocol_run_desired simp: latest_def protocol_idle_def)
  obtain tr where "protocol_run (abs_session (session_start config metrics ch info t1 t2)) tr (abs_session st)"
    "map fst tr = session_inputs parse config xs (session_start config metrics ch info t1 t2)"
    using session_loop_simulates[OF assms] by (elim exE conjE)
  then have "ses_last_desired st = latest (session_inputs parse config xs (session_start config metrics ch info t1 t2)) None"
    using protocol_run_desired idle by fastforce
  then show ?thesis by (auto split: option.split)
qed

text \<open>A desired state with one runtime that should run.\<close>

definition example_state :: NodeDesiredState where
  "example_state = \<lparr>ds_node_id = ''n1'', ds_generation = 3, ds_runtimes =
     [\<lparr>rs_api_version = ''v2'', rs_kind = ''Runtime'',
       rs_meta = \<lparr>om_id = ''r1'', om_project_id = ''p1'', om_node_id = ''n1'', om_generation = 2,
         om_labels = fmempty\<rparr>,
       rs_spec = \<lparr>rb_runtime_type = Lxc, rb_image = ''debian'', rb_resources = \<lparr>rc_cpu = 1, rc_memory_mb = 512,
         rc_disk_gb = 4, rc_gpu = None\<rparr>, rb_power = Power_Running\<rparr>\<rparr>], ds_workloads = []\<rparr>"

lemma resync_repeats_latest_witness:
  "\<forall>config now. \<exists>st. fst (session_step (\<lambda>raw. Some (envelope ''1'' 0 ''desired'' (wire_NodeDesiredState example_state)))
      config (False, In_Resync now ''e2'') st) \<noteq> st \<and>
    observed (fst (session_step (\<lambda>raw. Some (envelope ''1'' 0 ''desired'' (wire_NodeDesiredState example_state)))
      config (False, In_Resync now ''e2'') st)) =
    observed st @ [Obs_Status (Runtime_Object, ''r1'', ''n1'', 2)]"
proof (intro allI)
  fix config and now :: "nat \<Rightarrow> string"
  define parse where "parse = (\<lambda>raw :: string. Some (envelope ''1'' 0 ''desired'' (wire_NodeDesiredState example_state)))"
  define st0 where "st0 = session_start config (Inl []) True (Inl []) 0 0"
  define xs where "xs = [(False, In_Text ''{}'' now ''e1'')]"
  define st where "st = fst (session_loop parse config xs st0)"
  have dec: "decode parse ''{}'' = Inr (Desired example_state)"
    by (simp add: parse_def decode_def de_envelope decode_body_def body_result_def NodeDesiredState_codec.laws)
  have loop: "session_loop parse config xs st0 = (st, None)"
    by (simp add: st_def xs_def dec)
  have "latest (session_inputs parse config xs st0) None = Some example_state"
    by (simp add: xs_def dec input_of_def message_input_def latest_def)
  moreover have "report example_state = [Obs_Status (Runtime_Object, ''r1'', ''n1'', 2)]"
    by (simp add: report_def desired_refs_def object_ref_def example_state_def)
  ultimately have obs: "observed (fst (session_step parse config (False, In_Resync now ''e2'') st)) =
      observed st @ [Obs_Status (Runtime_Object, ''r1'', ''n1'', 2)]"
    using resync_repeats_latest[OF loop[unfolded st0_def], of False now "''e2''"] by (simp flip: st0_def)
  then have "fst (session_step parse config (False, In_Resync now ''e2'') st) \<noteq> st" by auto
  with obs show "\<exists>st. fst (session_step (\<lambda>raw. Some (envelope ''1'' 0 ''desired'' (wire_NodeDesiredState example_state)))
      config (False, In_Resync now ''e2'') st) \<noteq> st \<and>
    observed (fst (session_step (\<lambda>raw. Some (envelope ''1'' 0 ''desired'' (wire_NodeDesiredState example_state)))
      config (False, In_Resync now ''e2'') st)) =
    observed st @ [Obs_Status (Runtime_Object, ''r1'', ''n1'', 2)]"
    unfolding parse_def by blast
qed

end
