(* ===== verification/Session_Run.thy ===== *)
theory Session_Run
  imports Session_Spec
begin

text \<open>
  The whole life of the transport, \<open>run\<close> of \<open>src/transport/session.rs\<close>: the reconnect loop over
  \<open>run_once\<close>, from the first connection to the stop. Each connection has its own socket, state and
  channel; only the configuration and the boot id are the same in all of them.
\<close>

section \<open>The reconnect loop over whole connections\<close>

text \<open>What one round meets: the connection's environment, and the stop flag after it and in the wait.\<close>

record Connection =
  cn_env :: HandshakeEnv
  cn_connect :: connect_result
  cn_metrics :: "MetricsPayload result"
  cn_chan_open :: bool
  cn_info :: "SystemInfoPayload result"
  cn_now1 :: nat
  cn_now2 :: nat
  cn_inputs :: "(bool \<times> session_input) list"
  cn_stop_after :: bool
  cn_stop_in_wait :: bool

definition connection_run ::
  "AgentConfig \<Rightarrow> string \<Rightarrow> Connection \<Rightarrow> handshake_frame list \<times> OutboundMessage list \<times> run_result" where
  "connection_run config boot_id c =
     run_once (cn_env c) config boot_id (cn_connect c) (cn_metrics c) (cn_chan_open c) (cn_info c)
       (cn_now1 c) (cn_now2 c) (cn_inputs c)"

record Transport =
  tp_connections :: "(handshake_frame list \<times> OutboundMessage list) list"
  tp_delays :: "u64 list"
  tp_result :: "run_result option"

text \<open>
  \<open>tp_result\<close> is None where the loop returned \<open>Ok\<close>, and otherwise how the last connection stands: it
  panicked, it is still open, or it has ended and no further connection is given.
\<close>

fun transport_run :: "AgentConfig \<Rightarrow> string \<Rightarrow> bool \<Rightarrow> Connection list \<Rightarrow> Transport" where
  "transport_run config boot_id stop [] =
     \<lparr>tp_connections = [], tp_delays = [], tp_result = (if stop then None else Some Still_Running)\<rparr>"
| "transport_run config boot_id stop (c # cs) =
     (if stop then \<lparr>tp_connections = [], tp_delays = [], tp_result = None\<rparr>
      else
        (let (frames, sent, r) = connection_run config boot_id c in
         case r of
           Outcome e \<Rightarrow>
             if e = Stopped \<or> cn_stop_after c
             then \<lparr>tp_connections = [(frames, sent)], tp_delays = [], tp_result = None\<rparr>
             else
               (let rest = transport_run config boot_id (cn_stop_in_wait c) cs
                in \<lparr>tp_connections = (frames, sent) # tp_connections rest,
                    tp_delays = reconnect_delay config e # tp_delays rest, tp_result = tp_result rest\<rparr>)
         | _ \<Rightarrow> \<lparr>tp_connections = [(frames, sent)], tp_delays = [], tp_result = Some r\<rparr>))"

section \<open>One connection\<close>

text \<open>What the node-controller may observe of a connection: nothing, or a run of the protocol from its idle state.\<close>

definition speaks :: "OutboundMessage list \<Rightarrow> bool" where
  "speaks sent \<longleftrightarrow>
     (\<exists>tr s. protocol_run protocol_idle tr s \<and> map observe sent = Obs_Capabilities # concat (map snd tr))"

lemma run_once_speaks:
  assumes "run_once E config boot_id connect metrics chan_open info now1 now2 inputs = (frames, sent, r)"
  shows "sent = [] \<or> frames = [hello_frame E boot_id, auth_frame E config] \<and> speaks sent"
proof (cases "\<exists>items trace wb rest. connect = Connected items \<and>
    handshake E config boot_id items = (trace, Inr wb, rest) \<and> wb_resync_sec wb \<noteq> 0")
  case True
  then obtain items trace wb rest where c: "connect = Connected items"
    and shake: "handshake E config boot_id items = (trace, Inr wb, rest)" and pos: "wb_resync_sec wb \<noteq> 0"
    by blast
  obtain st e where loop:
    "session_loop (he_parse E) config inputs (session_start config metrics chan_open info now1 now2) = (st, e)"
    by (cases "session_loop (he_parse E) config inputs (session_start config metrics chan_open info now1 now2)")
  with assms c shake pos have sent: "sent = ses_sent st" and frames: "frames = sent_frames trace"
    by (simp_all add: run_once_def)
  from sent have "map observe sent = observed st" by (simp add: observed_def)
  moreover obtain tr where "protocol_run protocol_idle tr (abs_session st)"
    "observed st = Obs_Capabilities # concat (map snd tr)"
    using started_simulates[OF loop] by (elim exE conjE)
  ultimately have "speaks sent" unfolding speaks_def by (intro exI conjI) simp_all
  with handshake_frames[OF shake] frames show ?thesis by simp
next
  case False
  with assms have "sent = []"
    by (auto simp: run_once_def Let_def split: connect_result.splits prod.splits sum.splits if_splits)
  then show ?thesis ..
qed

section \<open>The whole run\<close>

text \<open>
  C14: over the whole life of the agent, through every failed, closed and refused connection, the
  controller sees on each connection either nothing behind the handshake, or hello and auth
  (with the one boot id) followed by a run of the protocol from its idle state: no connection
  carries on with the desired state or the queries of the one before.
\<close>

theorem transport_speaks_protocol:
  "list_all (\<lambda>(frames, sent). sent = [] \<or>
      (\<exists>E. frames = [hello_frame E boot_id, auth_frame E config]) \<and> speaks sent)
    (tp_connections (transport_run config boot_id stop cs))"
proof (induction config boot_id stop cs rule: transport_run.induct)
  case (2 config boot_id stop c cs)
  obtain frames sent r where run: "connection_run config boot_id c = (frames, sent, r)"
    by (cases "connection_run config boot_id c")
  have here: "sent = [] \<or> (\<exists>E. frames = [hello_frame E boot_id, auth_frame E config]) \<and> speaks sent"
    using run_once_speaks[OF run[unfolded connection_run_def]] by blast
  show ?case
  proof (cases stop)
    case False
    with here run "2.IH"[OF False run[symmetric] refl] show ?thesis
      by (auto simp: Let_def split: run_result.split)
  qed simp
qed simp

text \<open>
  Where every connection comes to an end, the loop's delays and its stop are those of \<open>run_rounds\<close>.
\<close>

definition round_of :: "AgentConfig \<Rightarrow> string \<Rightarrow> Connection \<Rightarrow> Round option" where
  "round_of config boot_id c =
     (case snd (snd (connection_run config boot_id c)) of
        Outcome e \<Rightarrow> Some \<lparr>rd_end = e, rd_stop_after = cn_stop_after c, rd_stop_in_wait = cn_stop_in_wait c\<rparr>
      | _ \<Rightarrow> None)"

lemma transport_stopped [simp]: "transport_run config boot_id True cs =
    \<lparr>tp_connections = [], tp_delays = [], tp_result = None\<rparr>"
  by (cases cs) simp_all

lemma transport_rounds:
  "those (map (round_of config boot_id) cs) = Some rs \<Longrightarrow>
     (tp_delays (transport_run config boot_id False cs), tp_result (transport_run config boot_id False cs) = None) =
     run_rounds config rs"
proof (induction cs arbitrary: rs)
  case (Cons c cs)
  obtain frames sent r where run: "connection_run config boot_id c = (frames, sent, r)"
    by (cases "connection_run config boot_id c")
  from Cons.prems obtain x rs' where rs: "rs = x # rs'" "round_of config boot_id c = Some x"
    "those (map (round_of config boot_id) cs) = Some rs'"
    by (auto split: option.splits)
  with run obtain e where e: "r = Outcome e"
    "x = \<lparr>rd_end = e, rd_stop_after = cn_stop_after c, rd_stop_in_wait = cn_stop_in_wait c\<rparr>"
    by (auto simp: round_of_def split: run_result.splits)
  show ?case
    using Cons.IH[OF rs(3)] run e rs(1)
    by (cases "run_rounds config rs'"; cases "cn_stop_in_wait c") (auto simp: Let_def)
qed simp

end
