(* ===== verification/Source_Tests_Wire.thy ===== *)
theory Source_Tests_Wire
  imports Log_Session
begin

text \<open>
  The unit tests of \<open>protocol.rs\<close>, \<open>reconcile.rs\<close>, \<open>dispatch.rs\<close> and \<open>logs.rs\<close>, stated of the model. A JSON text of a
  test stands here as the tree it denotes; the readings of the clock and the fresh ids are arbitrary.
\<close>

section \<open>Decoding\<close>

definition test_frame :: "string \<Rightarrow> string \<Rightarrow> u64 \<Rightarrow> json \<Rightarrow> json" where
  "test_frame kind i ts body = Obj [(''v'', Num (PosInt 2)), (''type'', Str kind), (''id'', Str i),
     (''ts'', Num (PosInt ts)), (''body'', body)]"

definition test_decoded :: "json \<Rightarrow> DecodeError + IncomingMessage" where
  "test_decoded v = decode (\<lambda>_. Some v) []"

definition decodes_logs_query :: bool where
  "decodes_logs_query \<longleftrightarrow>
     (case test_decoded (test_frame ''logs.query'' ''01J'' 1 (Obj [(''requestId'', Str ''r1''), (''scope'', Str ''agent''),
         (''resourceId'', Str ''x''), (''cursor'', Str ''c''), (''limit'', Num (PosInt 5))])) of
        Inr (LogQuery q) \<Rightarrow> lq_request_id q = ''r1'' \<and> lq_scope q = Some ''agent'' \<and>
          lq_resource_id q = Some ''x'' \<and> lq_limit q = Some 5
      | _ \<Rightarrow> False)"

definition decodes_challenge_and_welcome_and_goaway :: bool where
  "decodes_challenge_and_welcome_and_goaway \<longleftrightarrow>
     (case test_decoded (test_frame ''challenge'' ''1'' 0 (Obj [(''nonce'', Str ''0123456789abcdef'')])) of
        Inr (Challenge body) \<Rightarrow> ch_nonce body = ''0123456789abcdef'' | _ \<Rightarrow> False) \<and>
     (case test_decoded (test_frame ''welcome'' ''1'' 0 (Obj [(''sessionId'', Str ''s1''), (''heartbeatSec'', Num (PosInt 15)),
         (''resyncSec'', Num (PosInt 300)), (''serverTime'', Str ''2026-01-01T00:00:00Z'')])) of
        Inr (Welcome body) \<Rightarrow> wb_session_id body = ''s1'' \<and> wb_heartbeat_sec body = 15 | _ \<Rightarrow> False) \<and>
     (case test_decoded (test_frame ''goaway'' ''1'' 0 (Obj [(''retryAfterMs'', Num (PosInt 5000))])) of
        Inr (Goaway body) \<Rightarrow> ga_retry_after_ms body = 5000 | _ \<Rightarrow> False)"

definition decodes_ping_and_unhandled_types :: bool where
  "decodes_ping_and_unhandled_types \<longleftrightarrow>
     test_decoded (test_frame ''ping'' ''1'' 0 (Obj [])) = Inr Ping \<and>
     test_decoded (test_frame ''op_dispatch'' ''1'' 0 (Obj [])) = Inr (Unhandled ''op_dispatch'')"

lemmas decode_frame = test_decoded_def test_frame_def decode_def de_IncomingEnvelope_def struct_defs decode_body_def
  body_result_def last_wins_def

lemma decodes_logs_query_holds: decodes_logs_query
  by (simp add: decodes_logs_query_def decode_frame de_LogQueryBody_def)

lemma decodes_challenge_and_welcome_and_goaway_holds: decodes_challenge_and_welcome_and_goaway
  by (simp add: decodes_challenge_and_welcome_and_goaway_def decode_frame de_ChallengeBody_def de_WelcomeBody_def de_GoawayBody_def)

lemma decodes_ping_and_unhandled_types_holds: decodes_ping_and_unhandled_types
  by (simp add: decodes_ping_and_unhandled_types_def decode_frame)
definition meta_json :: "string \<Rightarrow> json" where
  "meta_json i = Obj [(''id'', Str i), (''projectId'', Str ''p1''), (''nodeId'', Str ''n1''),
     (''generation'', Num (PosInt 1)), (''labels'', Obj [])]"

definition runtime_json :: json where
  "runtime_json = Obj [(''apiVersion'', Str ''statix.node/v1''), (''kind'', Str ''Runtime''), (''meta'', meta_json ''r1''),
     (''spec'', Obj [(''type'', Str ''lxc''), (''image'', Str ''ubuntu:24.04''),
       (''resources'', Obj [(''cpu'', Num (PosInt 2)), (''memoryMb'', Num (PosInt 4096)), (''diskGb'', Num (PosInt 20))]),
       (''power'', Str ''running'')])]"

definition service_json :: json where
  "service_json = Obj [(''name'', Str ''api''), (''image'', Str ''nginx:1.27''), (''env'', Obj []), (''secrets'', Arr []),
     (''mounts'', Arr []), (''ports'', Arr []), (''networks'', Arr [Str ''default'']), (''restart'', Str ''unless-stopped''),
     (''dependsOn'', Arr [])]"

definition workload_json :: json where
  "workload_json = Obj [(''apiVersion'', Str ''statix.node/v1''), (''kind'', Str ''Workload''), (''meta'', meta_json ''w1''),
     (''spec'', Obj [(''runtimeId'', Str ''r1''), (''engine'', Str ''docker''), (''definitionRevision'', Num (PosInt 7)),
       (''networks'', Obj [(''default'', Obj [(''internal'', Bool False)])]), (''services'', Arr [service_json]),
       (''rollout'', Obj [(''strategy'', Str ''recreate''), (''healthTimeoutSec'', Num (PosInt 120)),
         (''autoRollback'', Bool True)])])]"

definition decodes_desired_state_with_a_runtime_and_workload :: bool where
  "decodes_desired_state_with_a_runtime_and_workload \<longleftrightarrow>
     (case test_decoded (test_frame ''desired'' ''1'' 0 (Obj [(''nodeId'', Str ''n1''), (''generation'', Num (PosInt 3)),
         (''runtimes'', Arr [runtime_json]), (''workloads'', Arr [workload_json])])) of
        Inr (Desired s) \<Rightarrow> ds_generation s = 3 \<and> length (ds_runtimes s) = 1 \<and>
          sv_image (wk_services (ws_spec (ds_workloads s ! 0)) ! 0) = ''nginx:1.27'' \<and>
          rb_runtime_type (rs_spec (ds_runtimes s ! 0)) = Lxc
      | _ \<Rightarrow> False)"

lemma decodes_desired_state_with_a_runtime_and_workload_holds: decodes_desired_state_with_a_runtime_and_workload
  by (simp add: decodes_desired_state_with_a_runtime_and_workload_def decode_frame de_NodeDesiredState_def
      de_RuntimeSpec_def de_ObjectMeta_def de_RuntimeSpecBody_def de_RuntimeType_def de_Resources_def de_PowerState_def
      de_WorkloadSpec_def de_WorkloadSpecBody_def de_NetworkSpec_def de_ServiceSpec_def de_RestartPolicy_def
      de_RolloutSpec_def de_RolloutStrategy_def runtime_json_def workload_json_def service_json_def meta_json_def)

section \<open>Encoding\<close>

text \<open>Indexing a value by a key or a position; what is missing is null.\<close>

fun at_key :: "json \<Rightarrow> string \<Rightarrow> json" where
  "at_key (Obj kvs) k = (case map_of kvs k of None \<Rightarrow> Null | Some v \<Rightarrow> v)"
| "at_key _ k = Null"

fun at_index :: "json \<Rightarrow> nat \<Rightarrow> json" where
  "at_index (Arr vs) i = (if i < length vs then vs ! i else Null)"
| "at_index _ i = Null"

fun has_key :: "json \<Rightarrow> string \<Rightarrow> bool" where
  "has_key (Obj kvs) k = (map_of kvs k \<noteq> None)"
| "has_key _ k = False"

definition logs_result_serializes_camel_case_and_skips_empty_cursor :: bool where
  "logs_result_serializes_camel_case_and_skips_empty_cursor \<longleftrightarrow>
     (let v = en_LogResultBody \<lparr>lr_request_id = ''r1'', lr_records = [], lr_next_cursor = None\<rparr>
      in at_key v ''requestId'' = Str ''r1'' \<and> \<not> has_key v ''nextCursor'')"

definition encodes_hello_with_camel_case_fields :: "string \<Rightarrow> int \<Rightarrow> bool" where
  "encodes_hello_with_camel_case_fields new_id unix_millis \<longleftrightarrow>
     (let v = envelope new_id unix_millis ''hello'' (en_HelloBody \<lparr>hello_protocol = [2], hello_agent_version = ''1.0.0'',
            hello_boot_id = ''boot123'', hello_capabilities = [], hello_observed = fmempty, hello_pending_op_results = []\<rparr>);
          body = at_key v ''body''
      in at_key v ''v'' = Num (PosInt 2) \<and> at_key v ''type'' = Str ''hello'' \<and>
         at_key body ''agentVersion'' = Str ''1.0.0'' \<and> at_key body ''bootId'' = Str ''boot123'' \<and>
         at_key body ''pendingOpResults'' = Arr [] \<and>
         (case at_key v ''id'' of Str _ \<Rightarrow> True | _ \<Rightarrow> False) \<and> (case at_key v ''ts'' of Num _ \<Rightarrow> True | _ \<Rightarrow> False))"

definition encodes_status_with_condition_status_pascal_case :: bool where
  "encodes_status_with_condition_status_pascal_case \<longleftrightarrow>
     (let v = en_ObjectStatus \<lparr>os_id = ''r1'', os_kind = Runtime_Object, os_node_id = ''n1'', os_observed_generation = 1,
            os_phase = Pending, os_conditions = [\<lparr>cond_condition_type = ''Available'', cond_status = Cond_False,
              cond_reason = Some ''Unsupported'', cond_message = None, cond_last_transition_at = ''2026-01-01T00:00:00Z''\<rparr>],
            os_services = None, os_last_error = None, os_reported_at = ''2026-01-01T00:00:00Z''\<rparr>
      in at_key v ''phase'' = Str ''Pending'' \<and> at_key (at_index (at_key v ''conditions'') 0) ''status'' = Str ''False'' \<and>
         at_key v ''observedGeneration'' = Num (PosInt 1))"

lemma logs_result_serializes_camel_case_and_skips_empty_cursor_holds:
  logs_result_serializes_camel_case_and_skips_empty_cursor
  by (simp add: logs_result_serializes_camel_case_and_skips_empty_cursor_def en_LogResultBody_def struct_json_def json_defs)

lemma encodes_hello_with_camel_case_fields_holds: "encodes_hello_with_camel_case_fields new_id unix_millis"
  by (simp add: encodes_hello_with_camel_case_fields_def envelope_def en_HelloBody_def struct_json_def json_defs
      CURRENT_PROTOCOL_VERSION_def en_word_def en_int_def)

lemma encodes_status_with_condition_status_pascal_case_holds: encodes_status_with_condition_status_pascal_case
  by (simp add: encodes_status_with_condition_status_pascal_case_def en_ObjectStatus_def en_Condition_def struct_json_def
      json_defs en_word_def)

section \<open>Planning\<close>

definition test_runtime :: "string \<Rightarrow> u64 \<Rightarrow> RuntimeSpec" where
  "test_runtime i generation = \<lparr>rs_api_version = ''statix.node/v1'', rs_kind = ''Runtime'',
     rs_meta = \<lparr>om_id = i, om_project_id = ''p1'', om_node_id = ''n1'', om_generation = generation, om_labels = fmempty\<rparr>,
     rs_spec = \<lparr>rb_runtime_type = Lxc, rb_image = ''ubuntu:24.04'',
       rb_resources = \<lparr>rc_cpu = 2, rc_memory_mb = 4096, rc_disk_gb = 20, rc_gpu = None\<rparr>, rb_power = Power_Running\<rparr>\<rparr>"

definition test_workload :: "string \<Rightarrow> string \<Rightarrow> string list \<Rightarrow> WorkloadSpec" where
  "test_workload i runtime_id services = \<lparr>ws_api_version = ''statix.node/v1'', ws_kind = ''Workload'',
     ws_meta = \<lparr>om_id = i, om_project_id = ''p1'', om_node_id = ''n1'', om_generation = 1, om_labels = fmempty\<rparr>,
     ws_spec = \<lparr>wk_runtime_id = runtime_id, wk_engine = ''docker'', wk_definition_revision = 7,
       wk_networks = fmupd ''default'' \<lparr>nt_internal = False\<rparr> fmempty,
       wk_services = map (\<lambda>name. \<lparr>sv_name = name, sv_image = name @ '':latest'', sv_command = None, sv_entrypoint = None,
         sv_env = fmempty, sv_secrets = [], sv_mounts = [], sv_ports = [], sv_expose = None, sv_networks = [''default''],
         sv_restart = UnlessStopped, sv_healthcheck = None, sv_limits = None, sv_depends_on = []\<rparr>) services,
       wk_rollout = \<lparr>ro_strategy = Recreate, ro_health_timeout_sec = 120, ro_auto_rollback = True\<rparr>\<rparr>\<rparr>"

definition plans_one_status_per_object_all_pending_and_unsupported :: "(nat \<Rightarrow> string) \<Rightarrow> string \<Rightarrow> bool" where
  "plans_one_status_per_object_all_pending_and_unsupported now new_id \<longleftrightarrow>
     (let p = plan now new_id \<lparr>ds_node_id = ''n1'', ds_generation = 3, ds_runtimes = [test_runtime ''r1'' 1],
          ds_workloads = [test_workload ''w1'' ''r1'' [''api'', ''worker'']]\<rparr>
      in length (plan_statuses p) = 2 \<and>
         list_all (\<lambda>s. os_phase s = Pending \<and> length (os_conditions s) = 1 \<and>
           cond_reason (os_conditions s ! 0) = Some ''Unsupported'') (plan_statuses p) \<and>
         ne_generation (plan_event p) = Some 3 \<and>
         contains (ne_message (plan_event p)) ''1 runtime(s), 1 workload(s)'')"

definition block_lists_runtime_and_workload_services :: "(nat \<Rightarrow> string) \<Rightarrow> string \<Rightarrow> bool" where
  "block_lists_runtime_and_workload_services now new_id \<longleftrightarrow>
     (let block = plan_block (plan now new_id \<lparr>ds_node_id = ''n1'', ds_generation = 1, ds_runtimes = [test_runtime ''r1'' 1],
          ds_workloads = [test_workload ''w1'' ''r1'' [''api'']]\<rparr>)
      in contains block ''runtime r1'' \<and> contains block ''workload w1'' \<and> contains block ''api=api:latest'' \<and>
         list_all (\<lambda>line. starts_with line ''  '') (lines block))"

definition empty_desired_state_produces_no_statuses_and_a_placeholder_block :: "(nat \<Rightarrow> string) \<Rightarrow> string \<Rightarrow> bool" where
  "empty_desired_state_produces_no_statuses_and_a_placeholder_block now new_id \<longleftrightarrow>
     (let p = plan now new_id \<lparr>ds_node_id = ''n1'', ds_generation = 0, ds_runtimes = [], ds_workloads = []\<rparr>
      in plan_statuses p = [] \<and> plan_block p = ''  (no runtimes or workloads desired)'')"

lemma show_small: "show_word (1 :: u64) = ''1''" "show_word (3 :: u64) = ''3''" "show_nat (Suc 0) = ''1''"
proof -
  have "digit_char (Suc 0) = CHR ''1''" "digit_char 3 = CHR ''3''" by code_simp+
  then show "show_word (1 :: u64) = ''1''" "show_word (3 :: u64) = ''3''" "show_nat (Suc 0) = ''1''"
    by (simp_all add: show_word_def show_nat.simps)
qed

lemma planned_message:
  "contains (''generation 3: 1 runtime(s), 1 workload(s), none executed (not yet implemented)'')
     ''1 runtime(s), 1 workload(s)''"
  by code_simp

lemma plans_one_status_per_object_all_pending_and_unsupported_holds:
  "plans_one_status_per_object_all_pending_and_unsupported now new_id"
  using planned_message
  by (simp add: plans_one_status_per_object_all_pending_and_unsupported_def plan_def Let_def pending_status_def show_small)

definition planned_block :: string where
  "planned_block = ''  runtime r1 (project p1, generation 1): type=Lxc image=ubuntu:24.04 power=Running'' @ [newline] @
     ''  workload w1 (project p1, runtime r1, generation 1): 1 service(s): api=api:latest''"

lemma planned_block_facts:
  "contains planned_block ''runtime r1''" "contains planned_block ''workload w1''"
  "contains planned_block ''api=api:latest''" "list_all (\<lambda>line. starts_with line ''  '') (lines planned_block)"
  by code_simp+

lemma block_lists_runtime_and_workload_services_holds: "block_lists_runtime_and_workload_services now new_id"
proof -
  have "plan_block (plan now new_id \<lparr>ds_node_id = ''n1'', ds_generation = 1, ds_runtimes = [test_runtime ''r1'' 1],
      ds_workloads = [test_workload ''w1'' ''r1'' [''api'']]\<rparr>) = planned_block"
    by (simp add: plan_def Let_def describe_runtime_def describe_workload_def test_runtime_def test_workload_def
        show_small planned_block_def)
  then show ?thesis
    unfolding block_lists_runtime_and_workload_services_def Let_def using planned_block_facts by simp
qed

lemma empty_desired_state_produces_no_statuses_and_a_placeholder_block_holds:
  "empty_desired_state_produces_no_statuses_and_a_placeholder_block now new_id"
  by (simp add: empty_desired_state_produces_no_statuses_and_a_placeholder_block_def plan_def)

section \<open>Handling\<close>

definition empty_state :: NodeDesiredState where
  "empty_state = \<lparr>ds_node_id = ''n1'', ds_generation = 1, ds_runtimes = [], ds_workloads = []\<rparr>"

definition ping_replies_pong :: "(nat \<Rightarrow> string) \<Rightarrow> string \<Rightarrow> bool" where
  "ping_replies_pong now new_id \<longleftrightarrow>
     (case handle now new_id Ping None of (es, outcome, d) \<Rightarrow> outcome = Continue \<and> es = [Send Out_Pong])"

definition goaway_requests_reconnect_after_server_delay :: "(nat \<Rightarrow> string) \<Rightarrow> string \<Rightarrow> bool" where
  "goaway_requests_reconnect_after_server_delay now new_id \<longleftrightarrow>
     (case handle now new_id (Goaway \<lparr>ga_retry_after_ms = 2500\<rparr>) None of (es, outcome, d) \<Rightarrow>
        outcome = Handle_Reconnect (Some 2500))"

definition desired_state_updates_last_desired_and_queues_status_and_event :: "(nat \<Rightarrow> string) \<Rightarrow> string \<Rightarrow> bool" where
  "desired_state_updates_last_desired_and_queues_status_and_event now new_id \<longleftrightarrow>
     (case handle now new_id (Desired empty_state) None of (es, outcome, d) \<Rightarrow>
        outcome = Continue \<and> d \<noteq> None \<and> (case es of [Send (Out_Event _)] \<Rightarrow> True | _ \<Rightarrow> False))"

text \<open>The query's answer may be an error or not come; then nothing is sent.\<close>

definition log_query_replies_with_a_log_result ::
  "(nat \<Rightarrow> string) \<Rightarrow> string \<Rightarrow> (Record list \<times> string option) result option \<Rightarrow> bool" where
  "log_query_replies_with_a_log_result now new_id answer \<longleftrightarrow>
     (case test_decoded (test_frame ''logs.query'' ''01J'' 1 (Obj [(''requestId'', Str ''r1''), (''limit'', Num (PosInt 1))])) of
        Inl _ \<Rightarrow> False
      | Inr query \<Rightarrow>
          (case handle now new_id query None of
             ([Spawn_Query q], outcome, d) \<Rightarrow> outcome = Continue \<and>
               (case log_query_reply q answer of Out_LogResult body # _ \<Rightarrow> lr_request_id body = ''r1'' | _ \<Rightarrow> True)
           | _ \<Rightarrow> False))"

definition resync_resends_status_without_a_new_event :: "(nat \<Rightarrow> string) \<Rightarrow> string \<Rightarrow> bool" where
  "resync_resends_status_without_a_new_event now new_id \<longleftrightarrow> resync now new_id empty_state = []"

lemma ping_replies_pong_holds: "ping_replies_pong now new_id"
  by (simp add: ping_replies_pong_def)

lemma goaway_requests_reconnect_after_server_delay_holds: "goaway_requests_reconnect_after_server_delay now new_id"
  by (simp add: goaway_requests_reconnect_after_server_delay_def)

lemma desired_state_updates_last_desired_and_queues_status_and_event_holds:
  "desired_state_updates_last_desired_and_queues_status_and_event now new_id"
  by (simp add: desired_state_updates_last_desired_and_queues_status_and_event_def apply_desired_def plan_def empty_state_def)

lemma log_query_replies_with_a_log_result_holds: "log_query_replies_with_a_log_result now new_id answer"
  by (auto simp: log_query_replies_with_a_log_result_def decode_frame de_LogQueryBody_def log_query_reply_def
      split: option.split sum.split)

lemma resync_resends_status_without_a_new_event_holds: "resync_resends_status_without_a_new_event now new_id"
  by (simp add: resync_resends_status_without_a_new_event_def resync_def plan_def empty_state_def)

section \<open>The spool\<close>

definition test_record :: "string \<Rightarrow> u64 \<Rightarrow> string \<Rightarrow> string \<Rightarrow> Record" where
  "test_record i timestamp scope message = \<lparr>rec_id = i, rec_timestamp = timestamp, rec_scope = scope,
     rec_resource_id = None, rec_job_id = None, rec_attempt_id = None, rec_stream = None, rec_level = ''info'',
     rec_message = message\<rparr>"

definition redacts_every_occurrence_of_each_secret_marker :: bool where
  "redacts_every_occurrence_of_each_secret_marker \<longleftrightarrow>
     (let redacted = redact (''NODE_TOKEN=one nodeToken=two NODE_TOKEN=three Authorization: Bearer four '' @
            ''Authorization: Bearer five'')
      in length (filter (\<lambda>s. starts_with s REDACTED) (map (\<lambda>i. drop i redacted) [0..<length redacted])) = 5 \<and>
         list_all (\<lambda>secret. \<not> contains redacted secret) [''one'', ''two'', ''three'', ''four'', ''five''])"

lemma redacts_every_occurrence_of_each_secret_marker_holds: redacts_every_occurrence_of_each_secret_marker
  by code_simp

text \<open>Whatever the order in which the threads take their ids: the updates are atomic.\<close>

definition generated_record_ids_are_unique_across_concurrent_writers :: "u32 \<Rightarrow> nat list \<Rightarrow> u64 \<Rightarrow> bool" where
  "generated_record_ids_are_unique_across_concurrent_writers pid nows prev_id \<longleftrightarrow>
     distinct (record_ids pid nows prev_id)"

lemma generated_record_ids_are_unique_across_concurrent_writers_holds:
  assumes "unat prev_id + length nows \<le> U64_MAX" "\<forall>now \<in> set nows. now + length nows \<le> U64_MAX"
  shows "generated_record_ids_are_unique_across_concurrent_writers pid nows prev_id"
  using strict_sorted_iff[THEN iffD1, OF record_ids_increase[OF assms]]
  by (simp add: generated_record_ids_are_unique_across_concurrent_writers_def)

text \<open>The four appends of the test, one process, no failure, at a standing clock.\<close>

definition test_append :: "(json \<Rightarrow> string) \<Rightarrow> SpoolDir \<Rightarrow> Record \<Rightarrow> SpoolDir" where
  "test_append print dir rec = unwrap_or (fst (snd (append_to print no_faults clock_zero 1 rec (Some dir) 0))) []"

definition paginated :: "Record list" where
  "paginated = [test_record ''same-b'' 20 ''job'' ''second'', test_record ''older'' 10 ''job'' ''oldest'',
     test_record ''same-c'' 20 ''job'' ''first'', test_record ''same-a'' 20 ''job'' ''third'']"

definition pagination_uses_explicit_record_order_without_omissions ::
  "(json \<Rightarrow> string) \<Rightarrow> (string \<Rightarrow> json option) \<Rightarrow> bool" where
  "pagination_uses_explicit_record_order_without_omissions print parse \<longleftrightarrow>
     (let dir = foldl (test_append print) [] paginated
      in case query_in parse None (\<lambda>_. None) (Some dir) (Some ''job'') None None 2 of
           Inl _ \<Rightarrow> False
         | Inr (first, cursor) \<Rightarrow>
             (case query_in parse None (\<lambda>_. None) (Some dir) (Some ''job'') None cursor 2 of
                Inl _ \<Rightarrow> False
              | Inr (second, final_cursor) \<Rightarrow> map rec_id first = [''same-c'', ''same-b''] \<and>
                  map rec_id second = [''same-a'', ''older''] \<and> final_cursor = None))"

definition diagnostic_records_use_the_same_rotation_limit :: "(json \<Rightarrow> string) \<Rightarrow> bool" where
  "diagnostic_records_use_the_same_rotation_limit print \<longleftrightarrow>
     (let first = test_record ''agent-a'' 1 ''agent'' (replicate 300 CHR ''a'');
          second = test_record ''agent-b'' 2 ''agent'' (replicate 300 CHR ''b'');
          single_record_size = of_nat (length (utf8_bytes (print (en_Record first)))) + 1;
          max_bytes = single_record_size + 1;
          (r1, dir, prev_id) = append_to_with_limit print no_faults clock_zero 1 first max_bytes (Some []) 0;
          (r2, dir, prev_id) = append_to_with_limit print no_faults clock_zero 1 second max_bytes dir prev_id
      in r1 = Inr () \<and> r2 = Inr () \<and>
         (case dir of None \<Rightarrow> False | Some files \<Rightarrow> length files = 2 \<and>
            list_all (\<lambda>f. file_len (snd f) \<le> unat max_bytes) files))"

lemma prune_zero: "prune no_faults 0 dir = dir"
  by (auto simp: prune_def aged_out_def saturating_sub_def unwrap_or_def filter_id_conv split: option.splits)

lemma append_plain:
  assumes "\<not> must_rotate dir (path_in 0) (length (utf8_bytes (payload_of print rec))) max_bytes"
  shows "append_to_with_limit print no_faults clock_zero pid rec max_bytes (Some dir) prev_id =
    (Inr (), Some (append_text (path_in 0) 0 (payload_of print rec) dir), prev_id)"
  using assms prune_zero[of dir]
  by (simp add: append_to_with_limit_def Let_def write_payload_def no_faults_def clock_zero_def)

lemma append_rotated:
  assumes "must_rotate dir (path_in 0) (length (utf8_bytes (payload_of print rec))) max_bytes"
  shows "append_to_with_limit print no_faults clock_zero pid rec max_bytes (Some dir) prev_id =
    (Inr (), Some (append_text (path_in 0) 0 (payload_of print rec)
        (rename_file (path_in 0) (overflow_name (fst (next_record_id pid 0 prev_id))) dir)),
     snd (next_record_id pid 0 prev_id))"
  using assms prune_zero
  by (simp add: append_to_with_limit_def Let_def write_payload_def rotate_log_def no_faults_def clock_zero_def split_beta)

lemma diagnostic_records_use_the_same_rotation_limit_holds:
  assumes "length (utf8_bytes (print (en_Record (test_record ''agent-a'' 1 ''agent'' (replicate 300 CHR ''a''))))) = n"
    "length (utf8_bytes (print (en_Record (test_record ''agent-b'' 2 ''agent'' (replicate 300 CHR ''b''))))) = n"
    "0 < n" "n < 2 ^ 32"
  shows "diagnostic_records_use_the_same_rotation_limit print"
proof -
  define a b where "a = test_record ''agent-a'' 1 ''agent'' (replicate 300 CHR ''a'')"
    and "b = test_record ''agent-b'' 2 ''agent'' (replicate 300 CHR ''b'')"
  define m :: u64 where "m = of_nat n + 1 + 1"
  have m: "unat m = n + 2"
    using assms(4) by (simp add: m_def unat_word_ariths unat_of_nat)
  have la: "length (utf8_bytes (payload_of print a)) = n + 1" "length (utf8_bytes (payload_of print b)) = n + 1"
    using assms(1,2) by (simp_all add: payload_of_def utf8_bytes_append a_def b_def) (code_simp)+
  have first: "append_to_with_limit print no_faults clock_zero 1 a m (Some []) 0 =
      (Inr (), Some [(path_in 0, \<lparr>sf_content = payload_of print a, sf_modified = Some 0\<rparr>)], 0)"
    by (subst append_plain) (simp_all add: must_rotate_def current_len_def append_text_def log_content_def)
  have "must_rotate [(path_in 0, \<lparr>sf_content = payload_of print a, sf_modified = Some 0\<rparr>)] (path_in 0)
      (length (utf8_bytes (payload_of print b))) m"
    using assms(3,4) by (simp add: must_rotate_def current_len_def file_len_def la m U64_MAX_def)
  from append_rotated[OF this, of 1 0] obtain i p where
    second: "append_to_with_limit print no_faults clock_zero 1 b m
        (Some [(path_in 0, \<lparr>sf_content = payload_of print a, sf_modified = Some 0\<rparr>)]) 0 =
      (Inr (), Some [(overflow_name i, \<lparr>sf_content = payload_of print a, sf_modified = Some 0\<rparr>),
        (path_in 0, \<lparr>sf_content = payload_of print b, sf_modified = Some 0\<rparr>)], p)"
    using overflow_neq_path overflow_neq_path[symmetric] by (auto simp: rename_file_def append_text_def log_content_def)
  have n: "of_nat (length (utf8_bytes (print (en_Record a)))) + 1 + 1 = m"
    using assms(1) by (simp add: m_def a_def)
  show ?thesis
    unfolding diagnostic_records_use_the_same_rotation_limit_def Let_def a_def[symmetric] b_def[symmetric] n first second prod.case
    by (simp add: file_len_def la m)
qed

text \<open>Appends that fit into the day's file.\<close>

lemma test_append_fits:
  assumes "length (utf8_bytes c) + length (utf8_bytes (payload_of print rec)) \<le> unat MAX_BYTES"
  shows "test_append print [(path_in 0, \<lparr>sf_content = c, sf_modified = Some 0\<rparr>)] rec =
    [(path_in 0, \<lparr>sf_content = c @ payload_of print rec, sf_modified = Some 0\<rparr>)]"
  unfolding test_append_def append_to_def
  using assms by (subst append_plain) (auto simp: must_rotate_def current_len_def file_len_def append_text_def log_content_def)

lemma test_appends_fit:
  assumes "length (utf8_bytes c) + length (utf8_bytes (concat (map (payload_of print) rs))) \<le> unat MAX_BYTES"
  shows "foldl (test_append print) [(path_in 0, \<lparr>sf_content = c, sf_modified = Some 0\<rparr>)] rs =
    [(path_in 0, \<lparr>sf_content = c @ concat (map (payload_of print) rs), sf_modified = Some 0\<rparr>)]"
  using assms by (induction rs arbitrary: c) (simp_all add: test_append_fits utf8_bytes_append)

lemma parse_payloads:
  assumes "list_all (\<lambda>r. json_line print parse (en_Record r)) rs"
  shows "parse_records parse (concat (map (payload_of print) rs)) = rs"
  using assms
proof (induction rs rule: rev_induct)
  case (snoc r rs)
  have "complete_text (concat (map (payload_of print) rs))"
    by (induction rs) (auto intro: complete_text_append complete_payload simp: complete_text_def[of "[]"])
  with snoc parse_records_append[of _ print parse r] show ?case by simp
qed (simp add: parse_records_def lines_def List.map_filter_def)

lemma paginated_sorted:
  "sort_newest_first paginated = [test_record ''same-c'' 20 ''job'' ''first'', test_record ''same-b'' 20 ''job'' ''second'',
     test_record ''same-a'' 20 ''job'' ''third'', test_record ''older'' 10 ''job'' ''oldest'']"
  by (simp add: sort_newest_first_def paginated_def sort_key_def record_key_def test_record_def)

lemma paginated_pages:
  "page_of 2 None paginated = ([test_record ''same-c'' 20 ''job'' ''first'', test_record ''same-b'' 20 ''job'' ''second''],
     Some (encode_cursor (test_record ''same-b'' 20 ''job'' ''second'')))"
  "page_of 2 (Some (encode_cursor (test_record ''same-b'' 20 ''job'' ''second''))) paginated =
     ([test_record ''same-a'' 20 ''job'' ''third'', test_record ''older'' 10 ''job'' ''oldest''], None)"
  by (simp_all add: page_of_def paginated_sorted clamp_limit_def after_cursor_def decode_encode_cursor Let_def)
    (simp_all add: test_record_def)

lemma paginated_stored:
  assumes "list_all (\<lambda>r. json_line print parse (en_Record r)) paginated"
    and "length (utf8_bytes (concat (map (payload_of print) paginated))) \<le> unat MAX_BYTES"
  shows "read_records parse (\<lambda>_. None) (Some ''job'') None (foldl (test_append print) [] paginated) = Inr paginated"
proof -
  obtain r rs where p: "paginated = r # rs" by (auto simp: paginated_def)
  have "test_append print [] r = [(path_in 0, \<lparr>sf_content = payload_of print r, sf_modified = Some 0\<rparr>)]"
    unfolding test_append_def append_to_def
    by (subst append_plain) (simp_all add: must_rotate_def current_len_def append_text_def log_content_def)
  then have dir: "foldl (test_append print) [] paginated =
      [(path_in 0, \<lparr>sf_content = concat (map (payload_of print) paginated), sf_modified = Some 0\<rparr>)]"
    using assms(2) by (simp add: p test_appends_fit utf8_bytes_append)
  have "filter (matches (Some ''job'') None) paginated = paginated"
    by (simp add: paginated_def test_record_def matches_def)
  then show ?thesis
    by (simp add: read_records_def dir jsonl_names parse_payloads[OF assms(1)] and_then_def)
qed

lemma pagination_uses_explicit_record_order_without_omissions_holds:
  assumes "list_all (\<lambda>r. json_line print parse (en_Record r)) paginated"
    and "length (utf8_bytes (concat (map (payload_of print) paginated))) \<le> unat MAX_BYTES"
  shows "pagination_uses_explicit_record_order_without_omissions print parse"
  unfolding pagination_uses_explicit_record_order_without_omissions_def Let_def query_in_def option.case
    paginated_stored[OF assms]
  by (simp add: and_then_def paginated_pages) (simp add: test_record_def)

lemmas wire_tests =
  decodes_logs_query_holds decodes_challenge_and_welcome_and_goaway_holds decodes_ping_and_unhandled_types_holds
  decodes_desired_state_with_a_runtime_and_workload_holds logs_result_serializes_camel_case_and_skips_empty_cursor_holds
  encodes_hello_with_camel_case_fields_holds encodes_status_with_condition_status_pascal_case_holds
  plans_one_status_per_object_all_pending_and_unsupported_holds block_lists_runtime_and_workload_services_holds
  empty_desired_state_produces_no_statuses_and_a_placeholder_block_holds ping_replies_pong_holds
  goaway_requests_reconnect_after_server_delay_holds
  desired_state_updates_last_desired_and_queues_status_and_event_holds log_query_replies_with_a_log_result_holds
  resync_resends_status_without_a_new_event_holds redacts_every_occurrence_of_each_secret_marker_holds

end
