(* ===== verification/Spec2Isabelle.thy ===== *)
theory Spec2Isabelle
  imports Log_Threads Log_Writer Job_Execute Agent_Main Wireguard_File Session_Run Source_Tests Source_Tests_Wire
begin

text \<open>
  Verification library of the Statix agent, the Rust program under \<open>src/\<close>: a daemon on a node that
  keeps a session with a node-controller, reports the node's state, and contains the runners that
  execute a job's command on the host, in an LXC container or in a virtual machine.

  \<^bold>\<open>The program's parts and how they interact.\<close> \<open>main.rs\<close> reads the configuration (\<open>config.rs\<close>, stored
  by the login of \<open>enrollment.rs\<close>), brings the WireGuard interface up (\<open>wireguard.rs\<close>) and runs the
  sessions of \<open>transport/session.rs\<close>. A session decodes frames (\<open>transport/protocol.rs\<close>), handles them
  (\<open>transport/dispatch.rs\<close>) with the plan of \<open>transport/reconcile.rs\<close>, publishes \<open>metrics/\<close> and
  \<open>system_info.rs\<close>, and answers queries to the log spool of \<open>logs.rs\<close>, which also mirrors the agent's own
  log. \<open>jobs/mod.rs\<close> validates a command and gives it to one of the runners in \<open>jobs/runners/\<close>.

  \<^bold>\<open>Layers of the library.\<close>
  \<^item> Shared: \<open>Agent_Prelude\<close> (machine integers, the result type, collections), \<open>Rust_Text\<close>, \<open>Rust_Search\<close>,
    \<open>Rust_Num\<close> (the \<open>char\<close>, \<open>str\<close> and integer operations of Rust's library that the code calls),
    \<open>Json_Value\<close> (JSON values, what serde's derived code does, the locale \<open>json_codec\<close> of a type's encoder
    and decoder), \<open>Agent_Io\<close> (the operating system).
  \<^item> Protocol: \<open>Wire_Model\<close>, \<open>Wire_Codec\<close>, \<open>Wire_Messages\<close> (\<open>protocol.rs\<close>: the types, a codec per type,
    envelope, \<open>encode\<close>, \<open>decode\<close>).
  \<^item> Session: \<open>Reconcile\<close>, \<open>Agent_Dispatch\<close>, \<open>Agent_Session\<close>, \<open>Session_Props\<close> (\<open>reconcile.rs\<close>, \<open>dispatch.rs\<close>,
    \<open>session.rs\<close>), \<open>Session_Spec\<close> (the protocol a session refines), \<open>Session_Run\<close> (the reconnect loop over whole
    connections), fed by \<open>Node_Metrics\<close> (\<open>metrics/\<close>) and \<open>System_Info\<close> (\<open>system_info.rs\<close>).
  \<^item> Log: \<open>Log_Redact\<close>, \<open>Log_Record\<close>, \<open>Log_Spool\<close>, \<open>Log_Append\<close>, \<open>Log_Query\<close>, \<open>Log_Store\<close>, \<open>Log_Writer\<close>
    (\<open>logs.rs\<close>), \<open>Log_Session\<close>, which joins the spool's histories with what a session sends of them, and
    \<open>Log_Threads\<close>, the spool under the interleaved threads of a process.
  \<^item> Configuration: \<open>Config_Urls\<close>, \<open>Agent_Wireguard\<close>, \<open>Wireguard_File\<close>, \<open>Agent_Config\<close> (\<open>config.rs\<close>, \<open>wireguard.rs\<close>),
    \<open>Enrollment\<close>, \<open>Enrollment_Props\<close> (\<open>enrollment.rs\<close>), \<open>Agent_Main\<close> (\<open>main.rs\<close>).
  \<^item> Jobs: \<open>Job_Model\<close> (\<open>jobs/mod.rs\<close>, the locale \<open>runner\<close>), \<open>Host_Runner\<close> (\<open>host.rs\<close>), the container
    runner in \<open>Guest_Network\<close>, \<open>Runtime_Names\<close>, \<open>Shell_Quote\<close>, \<open>Container_Dns\<close>, \<open>Container_Diagnostics\<close>,
    \<open>Lxc_Command\<close>, \<open>Lxc_Container\<close>, \<open>Container_Runner\<close> (\<open>container/\<close>), the virtual machine runners in
    \<open>Microvm_Guest\<close>, \<open>Microvm_Runner\<close> (\<open>microvm.rs\<close>), and \<open>Job_Execute\<close> (\<open>execute\<close>, \<open>execute_spec\<close>).
    \<open>Shell_Run\<close> says what a POSIX shell runs of a command line; \<open>Container_Command\<close>, \<open>Container_Props\<close> and
    \<open>Microvm_Props\<close> hold the runners' properties.
  \<^item> Tests: \<open>Source_Tests\<close>, \<open>Source_Tests_Wire\<close>, the crate's unit tests as definitions of the same names.
  \<^item> This theory joins the protocol with the session: from a frame's text to the messages sent.

  \<^bold>\<open>How state and operations correspond.\<close> A struct is a record and an enum a datatype with the
  source's constructors; an integer is a word of its width; a map of the configuration or of a job is a
  finite map or a list in the map's order; \<open>anyhow::Result\<close> is \<open>anyhow + 'a\<close> where \<open>anyhow\<close> is the
  chain of messages, outermost first. Pure Rust functions are HOL functions of the same name (a prefix
  is added where two modules share one: \<open>microvm_\<close>, \<open>main_\<close>, \<open>runtime_\<close>). The session's variables are the
  record that \<open>session_step\<close> takes and returns, one step per event of the \<open>select!\<close> loop. The spool is a list of
  file names and contents in the directory's order.

  A function that runs programs or touches files is an \<open>eff\<close>: from the history of what was done to a result and
  the longer history. The history is made of events (a program run, a file opened, appended to or
  moved, a child launched or killed, a sleep, a request sent, a log line emitted, a line printed), and
  the parameter \<open>OS\<close> answers each question from the history alone: a program's outcome, a file's
  contents, whether an operation fails, the clock, the child's status. Nothing is assumed of these
  answers where a theorem does not say so; a theorem on \<open>OS\<close> thus covers every fault at every point.
  \<open>tokio::time::timeout\<close> is the time limit a command carries, and its outcome \<open>Timed_Out\<close>.
  \<open>wp\<close> computes what has to hold of a history for an effect to establish a condition, and \<open>only\<close>, \<open>yields\<close> and
  \<open>guarded\<close> are the three shapes of properties of histories that the runners use.

  \<^bold>\<open>What the lemmas show.\<close>
  \<^item> Round trips: each wire type's codec (\<open>Wire_Codec\<close>), whole frames (\<open>decode_contract\<close>), log records, cursors
    (\<open>Log_Query\<close>), the stored configuration (\<open>Agent_Config\<close>, \<open>login_then_load\<close>), quoting (\<open>Shell_Quote\<close>,
    for both copies of the escape function through the locale \<open>shell_quoter\<close>).
  \<^item> The session: an invariant over all reachable states, the one order of frames sent and items taken in a
    handshake, one answer per ping
    and at most one per query, the reconnect delays (\<open>Session_Props\<close>); what the controller observes of a session
    is a run of an abstract protocol (\<open>Session_Spec\<close>, by simulation), on every connection of the agent's life
    (\<open>Session_Run\<close>).
  \<^item> The spool: appending refines adding to a bag of records, from which exactly the files
    older than seven days are pruned (\<open>Log_Store\<close>), bounds of its files (\<open>Log_Append\<close>), complete pagination (\<open>Log_Query\<close>, through the locale \<open>paged\<close>), no secret left
    behind a marker (\<open>Log_Redact\<close>) nor in any record a session sends (\<open>Log_Session\<close>, by induction over the
    histories of the directory), independence from how writes are cut (\<open>Log_Writer\<close>), and that paging returns
    exactly what the threads have written, in whatever order they draw ids and take the lock, as long as no write is
    torn and no file has come to the end of its retention (\<open>Log_Threads\<close>).
  \<^item> Jobs: the contract of a runner (locale \<open>runner\<close>: it only adds to the history, rejects a timeout out of range
    before anything else and bounds what it returns) interpreted by all four runners and then by their choice
    (\<open>job_contract\<close>); what programs a job may run (locales \<open>container_events\<close>, \<open>job_events\<close>, \<open>setup_events\<close>);
    that a started container is destroyed and a launched machine shut down, and where that fails
    (\<open>Container_Props\<close>, \<open>Microvm_Props\<close>); that the guest's shells read the text the agent builds as the command
    that was asked for, and where they do not (\<open>Container_Command\<close>).
  \<^item> Configuration: its loading and errors, addresses, WireGuard's status, the lines of the file written for
    \<open>wg-quick\<close> and what they determine (\<open>Wireguard_File\<close>; the tool's own reading is not modelled), and the login from its start to the configuration that the next start loads.
  \<^item> The crate's unit tests hold of the model, except those of the argument parser (\<open>Source_Tests\<close>,
    \<open>Source_Tests_Wire\<close>; the concurrent one for all schedules in \<open>Log_Threads\<close>).

  \<^bold>\<open>Bounds and fuel.\<close> \<open>eff_loop\<close> runs at most its first argument's number of rounds; a loop that uses them up gives
  the error with no message, which no function of the code makes, so a theorem tells the two apart.
  The two waits for a guest get \<open>wait_fuel T = T + 1\<close> rounds for a timeout of \<open>T\<close> seconds: under \<open>ticking\<close> (a
  sleep advances the clock by what it sleeps, and nothing turns it back) a round takes the two seconds it
  sleeps, so the deadline is seen before the rounds are used up; \<open>guest_wait_any_fuel\<close> shows that more rounds
  change nothing and \<open>guest_wait_returns\<close> that the wait returns. The loop of the login may run forever, as the
  code's does; \<open>run_login\<close> takes the number of polls, its theorems hold for every number, and
  \<open>login_ends_iff_answered\<close> says exactly when some number is enough. The session takes the list of its
  events, the reconnect loop the list of its rounds. Every other recursion is structural or has its
  termination proof.

  \<^bold>\<open>Not modelled, and why.\<close> The text syntax of JSON, SHA-256, hexadecimal digests, ULIDs and the
  calendar are code of other crates: parameters of the definitions. \<open>clap\<close>'s reading of the arguments, the
  registration of tracing layers and the lines traced on standard error have no effect on what the
  library speaks of; the log filter and the spool's writer are modelled. Sockets, channels and timers
  are the order of a session's events; that order is arbitrary. \<open>run_agent\<close> takes the session as an
  argument, since a session is a function of its events and not of the history of system calls. The two output
  streams of a process arrive in the order that \<open>os_order\<close> of the operating system gives, which is arbitrary, and
  \<open>os_partial\<close> is what arrived before a time limit or an error; the reader tasks of an \<open>lxc-attach\<close> that timed out
  are taken to have finished before the error is returned. The clock has one reading at each point of the history. Left
  out as well are permissions of the spool's files, writes that stop halfway other than in \<open>append_record\<close>, and the warning
  that dropping a live container prints. Some failures of single calls are left out too: an error of an entry or its metadata in the
  middle of a pruning, metadata of the log file that cannot be read (the code takes the length for 0), a failing write to the
  standard input of \<open>wg pubkey\<close>, an error of waiting for the host runner's child. Two consecutive questions to the operating
  system with nothing done between them, such as the two checks for the configuration file, get the same answer. Code for systems other than Linux is not
  compiled on the agent's nodes; \<open>runners/integration_tests.rs\<close> and the packaging scripts hold no logic of the agent, and the
  four unit tests of the argument parser are tests of \<open>clap\<close>.
\<close>

section \<open>Frames\<close>

text \<open>The kind and the body of a message in the contract's encoding; a ping's body is arbitrary.\<close>

fun contract_frame :: "json \<Rightarrow> IncomingMessage \<Rightarrow> string \<times> json" where
  "contract_frame x (Challenge b) = (''challenge'', wire_ChallengeBody b)"
| "contract_frame x (Welcome b) = (''welcome'', wire_WelcomeBody b)"
| "contract_frame x (Goaway b) = (''goaway'', wire_GoawayBody b)"
| "contract_frame x Ping = (''ping'', x)"
| "contract_frame x (Desired s) = (''desired'', wire_NodeDesiredState s)"
| "contract_frame x (LogQuery q) = (''logs.query'', wire_LogQueryBody q)"
| "contract_frame x (Unhandled k) = (k, x)"

definition proper_message :: "IncomingMessage \<Rightarrow> bool" where
  "proper_message m =
     (case m of Unhandled k \<Rightarrow> k \<noteq> ''ping'' \<and> k \<notin> typed_kinds | _ \<Rightarrow> True)"

text \<open>
  C3: a frame in the contract's encoding is decoded to exactly the message it encodes: for each
  of the five kinds with a typed body, whatever the body's fields hold (the whole desired state
  included), decoding returns that body; a ping is a ping whatever its body, and a frame of a
  kind the agent does not know is kept as unhandled, never an error.
\<close>

theorem decode_contract:
  assumes "parse raw = Some (envelope i t (fst (contract_frame x m)) (snd (contract_frame x m)))"
    and "json_distinct x" "proper_message m"
  shows "decode parse raw = Inr m"
  using assms
  by (cases m)
    (auto simp: decode_def de_envelope decode_body_def body_result_def proper_message_def typed_kinds_def
      ChallengeBody_codec.laws WelcomeBody_codec.laws GoawayBody_codec.laws
      NodeDesiredState_codec.laws LogQueryBody_codec.laws)

lemma decode_contract_witness:
  "decode (\<lambda>raw. Some (envelope ''1'' 0 ''goaway'' (wire_GoawayBody \<lparr>ga_retry_after_ms = 1500\<rparr>))) ''{}'' =
     Inr (Goaway \<lparr>ga_retry_after_ms = 1500\<rparr>)"
  by (rule decode_contract[where x = Null]) (simp_all add: proper_message_def)

text \<open>A body of one of the typed kinds that the kind's decoder refuses.\<close>

definition malformed_body :: "string \<Rightarrow> json \<Rightarrow> bool" where
  "malformed_body k b \<longleftrightarrow>
     k = ''challenge'' \<and> de_ChallengeBody b = None \<or> k = ''welcome'' \<and> de_WelcomeBody b = None \<or>
     k = ''goaway'' \<and> de_GoawayBody b = None \<or> k = ''desired'' \<and> de_NodeDesiredState b = None \<or>
     k = ''logs.query'' \<and> de_LogQueryBody b = None"

lemma decode_body_malformed:
  "decode_body k b = Inl e \<longleftrightarrow> e = InvalidBody k \<and> malformed_body k b"
proof -
  consider "k = ''challenge''" | "k = ''welcome''" | "k = ''goaway''" | "k = ''desired''" | "k = ''logs.query''"
    | "k \<notin> typed_kinds" by (auto simp: typed_kinds_def)
  then show ?thesis
    by cases (auto simp: decode_body_def body_result_eq malformed_body_def typed_kinds_def)
qed

text \<open>
  C31: decoding fails in exactly two ways: the text is no envelope, which says nothing of its kind; or
  it is the envelope of one of the five typed kinds and that kind's body is malformed, which is
  reported with the kind. Every other frame becomes a message of the frame's kind.
\<close>

theorem decode_errors:
  "(decode parse raw = Inl InvalidEnvelope \<longleftrightarrow> Option.bind (parse raw) de_IncomingEnvelope = None) \<and>
   (decode parse raw = Inl (InvalidBody k) \<longleftrightarrow>
      (\<exists>en. Option.bind (parse raw) de_IncomingEnvelope = Some en \<and> env_kind en = k \<and> malformed_body k (env_body en))) \<and>
   (is_ok (decode parse raw) \<longleftrightarrow>
      (\<exists>en m. Option.bind (parse raw) de_IncomingEnvelope = Some en \<and> \<not> malformed_body (env_kind en) (env_body en) \<and>
         decode parse raw = Inr m \<and> fst (contract_frame Null m) = env_kind en))"
proof (cases "Option.bind (parse raw) de_IncomingEnvelope")
  case None
  then show ?thesis by (simp add: decode_def)
next
  case (Some en)
  then have d: "decode parse raw = decode_body (env_kind en) (env_body en)" by (simp add: decode_def)
  have "fst (contract_frame Null m) = env_kind en" if "decode_body (env_kind en) (env_body en) = Inr m" for m
    using that by (auto simp: decode_body_def body_result_eq split: if_splits)
  then show ?thesis
    using Some decode_body_malformed[of "env_kind en" "env_body en"] unfolding d
    by (cases "decode_body (env_kind en) (env_body en)") auto
qed

section \<open>From a frame to its effects\<close>

text \<open>
  C17: the whole path of a desired state: when its frame arrives, in any state of a session, the
  session goes on, sends one status for each runtime and workload of the state, in order, and
  one event after them, remembers the state, and sends nothing else.
\<close>

theorem desired_frame_reported:
  assumes "parse raw = Some (envelope i t ''desired'' (wire_NodeDesiredState s))"
  shows "\<exists>statuses ev st'. session_step parse config (stop, In_Text raw now new_id) st = (st', None) \<and>
    ses_sent st' = ses_sent st @ map Out_Status statuses @ [Out_Event ev] \<and>
    map status_ref statuses = desired_refs s \<and> list_all unsupported_status statuses \<and>
    ne_generation ev = Some (ds_generation s) \<and>
    ses_last_desired st' = Some s \<and> ses_queries st' = ses_queries st"
proof -
  have "decode parse raw = Inr (Desired s)"
    using assms by (simp add: decode_def de_envelope decode_body_def body_result_def NodeDesiredState_codec.laws)
  then show ?thesis
    by (intro exI[of _ "plan_statuses (plan now new_id s)"] exI[of _ "plan_event (plan now new_id s)"] exI)
      (auto simp: apply_desired_def Let_def plan_statuses_refs plan_generation list_all_iff comp_def
        sends_def queries_def List.map_filter_def plan_statuses_unsupported)
qed

lemma desired_frame_reported_witness:
  "\<forall>st now. \<exists>status ev st'.
     session_step (\<lambda>raw. Some (envelope ''1'' 0 ''desired'' (wire_NodeDesiredState example_state)))
       example_config (False, In_Text ''{}'' now ''e1'') st = (st', None) \<and>
     ses_sent st' = ses_sent st @ [Out_Status status, Out_Event ev] \<and>
     status_ref status = (Runtime_Object, ''r1'', ''n1'', 2)"
proof (intro allI)
  fix st and now :: "nat \<Rightarrow> string"
  obtain statuses ev st' where *:
    "session_step (\<lambda>raw. Some (envelope ''1'' 0 ''desired'' (wire_NodeDesiredState example_state)))
       example_config (False, In_Text ''{}'' now ''e1'') st = (st', None)"
    "ses_sent st' = ses_sent st @ map Out_Status statuses @ [Out_Event ev]"
    "map status_ref statuses = desired_refs example_state"
    using desired_frame_reported[of "\<lambda>raw. Some (envelope ''1'' 0 ''desired'' (wire_NodeDesiredState example_state))"
      "''{}''" "''1''" 0 example_state example_config False now "''e1''" st] by blast
  from *(3) have "map status_ref statuses = [(Runtime_Object, ''r1'', ''n1'', 2)]"
    by (simp add: desired_refs_def object_ref_def example_state_def)
  then obtain status where "statuses = [status]" "status_ref status = (Runtime_Object, ''r1'', ''n1'', 2)"
    by auto
  with * show "\<exists>status ev st'.
     session_step (\<lambda>raw. Some (envelope ''1'' 0 ''desired'' (wire_NodeDesiredState example_state)))
       example_config (False, In_Text ''{}'' now ''e1'') st = (st', None) \<and>
     ses_sent st' = ses_sent st @ [Out_Status status, Out_Event ev] \<and>
     status_ref status = (Runtime_Object, ''r1'', ''n1'', 2)" by auto
qed

end
